(* ===== verification/Prelude.thy ===== *)
theory Prelude
  imports Main "HOL-Library.AList"
begin

text \<open>
  Shared vocabulary of the development.

  \<^item> \<open>gerr\<close> is a Go \<^verbatim>\<open>error\<close>: the format string of the \<^verbatim>\<open>fmt.Errorf\<close> call with its rendered
    arguments, or a wrapped error (the \<^verbatim>\<open>%w\<close> verb).  A Go function returning \<^verbatim>\<open>(T, error)\<close> is a
    HOL function into \<open>gerr + 'a\<close>.
  \<^item> \<open>bindE\<close>, \<open>whenE\<close>, \<open>forE\<close> and \<open>forIdxE\<close> are the sequencing idioms of the sources: a call followed by
    \<^verbatim>\<open>if err != nil { return err }\<close>, a guard with an early return, and a \<^verbatim>\<open>range\<close> loop that returns at
    its first error.
  \<^item> A Go map is an association list.  The order of the list is the order in which a \<^verbatim>\<open>range\<close> loop
    visits it; Go leaves that order open, so every theorem quantifies over it.
  \<^item> Strings are byte strings (\<open>char list\<close>), as in Go.  \<open>toLower\<close> and \<open>trimSpace\<close> cover the ASCII letters and
    white space.
  \<^item> A database table is the list of its rows in insertion order; \<open>sql_update\<close> and \<open>sql_count\<close> are
    \<^verbatim>\<open>UPDATE ... WHERE\<close> and \<^verbatim>\<open>RowsAffected\<close>.
\<close>

named_theorems go_str \<open>rewriting of the string functions\<close>
named_theorems go_err \<open>inversion of error-returning code\<close>

section \<open>Errors\<close>

datatype gerr = Errf string "string list" | Wrapf string "string list" gerr

definition bindE :: "gerr + 'a \<Rightarrow> ('a \<Rightarrow> gerr + 'b) \<Rightarrow> gerr + 'b" where
  "bindE m f = (case m of Inl e \<Rightarrow> Inl e | Inr x \<Rightarrow> f x)"

definition whenE :: "bool \<Rightarrow> gerr \<Rightarrow> gerr + unit" where
  "whenE b e = (if b then Inl e else Inr ())"

definition wrapE :: "string \<Rightarrow> string list \<Rightarrow> gerr + 'a \<Rightarrow> gerr + 'a" where
  "wrapE f args m = (case m of Inl e \<Rightarrow> Inl (Wrapf f args e) | Inr x \<Rightarrow> Inr x)"

fun forE :: "('a \<Rightarrow> gerr + unit) \<Rightarrow> 'a list \<Rightarrow> gerr + unit" where
  "forE f [] = Inr ()"
| "forE f (x # xs) = bindE (f x) (\<lambda>_. forE f xs)"

fun forIdxE :: "(nat \<Rightarrow> 'a \<Rightarrow> gerr + unit) \<Rightarrow> nat \<Rightarrow> 'a list \<Rightarrow> gerr + unit" where
  "forIdxE f i [] = Inr ()"
| "forIdxE f i (x # xs) = bindE (f i x) (\<lambda>_. forIdxE f (Suc i) xs)"

lemma bindE_simps [simp]:
  "bindE (Inl e) f = Inl e"
  "bindE (Inr x) f = f x"
  by (simp_all add: bindE_def)

lemma bindE_Inr_iff [go_err]:
  "bindE m f = Inr y \<longleftrightarrow> (\<exists>x. m = Inr x \<and> f x = Inr y)"
  by (cases m) simp_all

lemma bindE_InrE:
  assumes "bindE m f = Inr y"
  obtains x where "m = Inr x" and "f x = Inr y"
  using assms by (auto simp: bindE_Inr_iff)

definition returns :: "gerr + 'a \<Rightarrow> bool" where
  "returns m \<longleftrightarrow> (case m of Inl _ \<Rightarrow> False | Inr _ \<Rightarrow> True)"

lemma returns_simps [simp]: "returns (Inr x)" "\<not> returns (Inl e)"
  by (simp_all add: returns_def)

lemma returns_iff: "returns m \<longleftrightarrow> (\<exists>x. m = Inr x)"
  by (cases m) simp_all

lemma returns_bindE [simp]: "returns (bindE m f) \<longleftrightarrow> (\<exists>x. m = Inr x \<and> returns (f x))"
  by (cases m) simp_all

lemma bindE_cong [fundef_cong]:
  "m = m' \<Longrightarrow> (\<And>x. m' = Inr x \<Longrightarrow> f x = g x) \<Longrightarrow> bindE m f = bindE m' g"
  by (cases m') simp_all

lemma forE_cong [fundef_cong]:
  "xs = ys \<Longrightarrow> (\<And>x. x \<in> set ys \<Longrightarrow> f x = g x) \<Longrightarrow> forE f xs = forE g ys"
  by (induction xs arbitrary: ys) auto

lemma forIdxE_cong [fundef_cong]:
  "i = j \<Longrightarrow> xs = ys \<Longrightarrow> (\<And>k x. x \<in> set ys \<Longrightarrow> f k x = g k x) \<Longrightarrow> forIdxE f i xs = forIdxE g j ys"
proof (induction ys arbitrary: xs i j)
  case Nil
  then show ?case by simp
next
  case (Cons y ys)
  then have "forIdxE f (Suc j) ys = forIdxE g (Suc j) ys" by (intro Cons.IH) auto
  with Cons.prems show ?case by simp
qed

lemma whenE_Inr_iff [simp]: "whenE b e = Inr u \<longleftrightarrow> \<not> b"
  by (simp add: whenE_def)

lemma whenE_simps [simp]: "whenE True e = Inl e" "whenE False e = Inr ()"
  by (simp_all add: whenE_def)

lemma wrapE_Inr_iff [simp]: "wrapE f args m = Inr x \<longleftrightarrow> m = Inr x"
  by (cases m) (simp_all add: wrapE_def)

lemma wrapE_Inr [simp]: "wrapE f args (Inr x) = Inr x"
  by simp

lemma forE_Inr_iff [simp]: "forE f xs = Inr u \<longleftrightarrow> (\<forall>x \<in> set xs. f x = Inr ())"
  by (induction xs) (auto simp: bindE_Inr_iff)

lemma forIdxE_Inr_iff [simp]:
  "forIdxE f i xs = Inr u \<longleftrightarrow> (\<forall>k < length xs. f (i + k) (xs ! k) = Inr ())"
proof (induction xs arbitrary: i)
  case Nil
  then show ?case by simp
next
  case (Cons x xs)
  have "(\<forall>k < length (x # xs). f (i + k) ((x # xs) ! k) = Inr ()) \<longleftrightarrow>
      f i x = Inr () \<and> (\<forall>k < length xs. f (Suc i + k) (xs ! k) = Inr ())"
    by (auto simp: less_Suc_eq_0_disj)
  with Cons show ?case by (auto simp: bindE_Inr_iff)
qed

lemma forIdxE_all: "forIdxE f i xs = Inr u \<Longrightarrow> x \<in> set xs \<Longrightarrow> \<exists>k. f k x = Inr ()"
  by (fastforce simp: in_set_conv_nth)

section \<open>Strings\<close>

definition is_space :: "char \<Rightarrow> bool" where
  "is_space c \<longleftrightarrow> (let n = of_char c :: nat in n = 32 \<or> 9 \<le> n \<and> n \<le> 13)"

definition trimSpace :: "string \<Rightarrow> string" where
  "trimSpace s = rev (dropWhile is_space (rev (dropWhile is_space s)))"

definition lower_char :: "char \<Rightarrow> char" where
  "lower_char c = (let n = of_char c :: nat in if 65 \<le> n \<and> n \<le> 90 then char_of (n + 32) else c)"

definition toLower :: "string \<Rightarrow> string" where
  "toLower s = map lower_char s"

definition hasPrefix :: "string \<Rightarrow> string \<Rightarrow> bool" where
  "hasPrefix s p \<longleftrightarrow> take (length p) s = p"

definition hasSuffix :: "string \<Rightarrow> string \<Rightarrow> bool" where
  "hasSuffix s p \<longleftrightarrow> hasPrefix (rev s) (rev p)"

fun strContains :: "string \<Rightarrow> string \<Rightarrow> bool" where
  "strContains [] p \<longleftrightarrow> p = []"
| "strContains (c # s) p \<longleftrightarrow> hasPrefix (c # s) p \<or> strContains s p"

fun splitOn :: "char \<Rightarrow> string \<Rightarrow> string list" where
  "splitOn c [] = [[]]"
| "splitOn c (x # xs) =
     (if x = c then [] # splitOn c xs
      else (case splitOn c xs of [] \<Rightarrow> [[x]] | p # ps \<Rightarrow> (x # p) # ps))"

fun joinWith :: "char \<Rightarrow> string list \<Rightarrow> string" where
  "joinWith c [] = []"
| "joinWith c [p] = p"
| "joinWith c (p # q # ps) = p @ c # joinWith c (q # ps)"

text \<open>The decimal digits of a non-negative integer.\<close>

function natDigits :: "int \<Rightarrow> string" where
  "natDigits n =
     (if n < 10 then [char_of (48 + nat n)] else natDigits (n div 10) @ [char_of (48 + nat (n mod 10))])"
  by pat_completeness auto
termination by (relation "measure nat") auto

declare natDigits.simps [simp del]

definition itoa :: "int \<Rightarrow> string" where
  "itoa i = (if i < 0 then CHR ''-'' # natDigits (- i) else natDigits i)"

definition utoa :: "nat \<Rightarrow> string" where
  "utoa n = natDigits (int n)"

abbreviation blank :: "string \<Rightarrow> bool" where
  "blank s \<equiv> trimSpace s = []"

lemma trimSpace_Nil [simp]: "trimSpace [] = []"
  by (simp add: trimSpace_def)

lemma trimSpace_eq_Nil_iff: "trimSpace s = [] \<longleftrightarrow> (\<forall>c \<in> set s. is_space c)"
proof
  assume "trimSpace s = []"
  then have "\<forall>c \<in> set (dropWhile is_space s). is_space c"
    by (simp add: trimSpace_def)
  then show "\<forall>c \<in> set s. is_space c"
    by (metis dropWhile_eq_Nil_conv hd_in_set hd_dropWhile)
next
  assume "\<forall>c \<in> set s. is_space c"
  then have "dropWhile is_space s = []" by simp
  then show "trimSpace s = []" by (simp only: trimSpace_def) simp
qed

lemma lower_char_code:
  "(of_char (lower_char c) :: nat) =
     (if 65 \<le> (of_char c :: nat) \<and> (of_char c :: nat) \<le> 90 then of_char c + 32 else of_char c)"
  by (simp add: lower_char_def Let_def)

lemma lower_char_idem [simp]: "lower_char (lower_char c) = lower_char c"
proof -
  have "(of_char (lower_char (lower_char c)) :: nat) = of_char (lower_char c)"
    by (simp add: lower_char_code)
  then show ?thesis by (simp only: of_char_eq_iff)
qed

lemma is_space_lower [simp]: "is_space (lower_char c) \<longleftrightarrow> is_space c"
  by (auto simp: is_space_def Let_def lower_char_code)

lemma toLower_idem [simp]: "toLower (toLower s) = toLower s"
  by (simp add: toLower_def)

lemma trimSpace_idem [simp]: "trimSpace (trimSpace s) = trimSpace s"
proof -
  let ?t = "dropWhile is_space s"
  let ?u = "rev (dropWhile is_space (rev ?t))"
  have "dropWhile is_space ?u = ?u"
  proof (cases "?u = []")
    case True
    then show ?thesis by (simp only: dropWhile.simps)
  next
    case False
    then obtain c u where Cons: "?u = c # u" by (meson neq_Nil_conv)
    obtain w where "?t = ?u @ w"
      by (metis rev_append rev_rev_ident takeWhile_dropWhile_id)
    then have "hd ?t = c" and "?t \<noteq> []" using Cons by simp_all
    then have "\<not> is_space c" using hd_dropWhile by blast
    then show ?thesis unfolding Cons by simp
  qed
  then show ?thesis by (simp add: trimSpace_def dropWhile_idem)
qed

lemma trimSpace_toLower: "trimSpace (toLower s) = toLower (trimSpace s)"
  by (simp add: trimSpace_def toLower_def dropWhile_map rev_map comp_def)

lemma norm_idem [simp]: "toLower (trimSpace (toLower (trimSpace s))) = toLower (trimSpace s)"
  by (simp add: trimSpace_toLower)

lemma natDigits_value:
  "0 \<le> n \<Longrightarrow> foldl (\<lambda>a c. 10 * a + (int (of_char c) - 48)) 0 (natDigits n) = n"
proof (induction n rule: natDigits.induct)
  case (1 n)
  show ?case
  proof (cases "n < 10")
    case True
    then show ?thesis using 1 by (simp add: natDigits.simps [of n])
  next
    case False
    then have "nat (n mod 10) < 10" by simp
    then have "48 + nat (n mod 10) < 256" by simp
    with 1 False show ?thesis by (simp add: natDigits.simps [of n])
  qed
qed

lemma natDigits_inj: "0 \<le> m \<Longrightarrow> 0 \<le> n \<Longrightarrow> natDigits m = natDigits n \<Longrightarrow> m = n"
  by (metis natDigits_value)

lemma natDigits_digit: "0 \<le> n \<Longrightarrow> c \<in> set (natDigits n) \<Longrightarrow> 48 \<le> (of_char c :: nat)"
proof (induction n rule: natDigits.induct)
  case (1 n)
  have "nat (n mod 10) < 10" by simp
  with 1 show ?case by (cases "n < 10") (auto simp: natDigits.simps [of n])
qed

lemma natDigits_not_minus: "0 \<le> n \<Longrightarrow> natDigits n \<noteq> CHR ''-'' # s"
proof
  assume "0 \<le> n" and "natDigits n = CHR ''-'' # s"
  then have "48 \<le> (of_char (CHR ''-'') :: nat)" using natDigits_digit [of n "CHR ''-''"] by simp
  then show False by simp
qed

lemma itoa_inj:
  assumes "itoa i = itoa j"
  shows "i = j"
proof -
  have "(i < 0) = (j < 0)"
    using assms natDigits_not_minus [of i "natDigits (- j)"] natDigits_not_minus [of j "natDigits (- i)"]
    by (cases "i < 0"; cases "j < 0") (simp_all add: itoa_def)
  then show ?thesis
    using assms natDigits_inj [of i j] natDigits_inj [of "- i" "- j"]
    by (cases "i < 0") (simp_all add: itoa_def)
qed

lemma utoa_inj: "utoa i = utoa j \<Longrightarrow> i = j"
  using natDigits_inj [of "int i" "int j"] by (simp add: utoa_def)

lemma splitOn_nonempty [simp]: "splitOn c s \<noteq> []"
  by (induction s) (auto split: list.splits)

lemma splitOn_parts: "p \<in> set (splitOn c s) \<Longrightarrow> c \<notin> set p"
proof (induction s arbitrary: p)
  case Nil
  then show ?case by simp
next
  case (Cons x s)
  then show ?case by (auto split: if_splits list.splits)
qed

lemma splitOn_no_sep [simp]: "c \<notin> set s \<Longrightarrow> splitOn c s = [s]"
  by (induction s) auto

lemma splitOn_sep: "splitOn c (s @ c # t) = splitOn c s @ splitOn c t"
  by (induction s) (auto split: list.splits)

lemma splitOn_prefix_sep: "c \<notin> set s \<Longrightarrow> splitOn c (s @ c # t) = s # splitOn c t"
  by (simp add: splitOn_sep)

lemma joinWith_Cons: "ps \<noteq> [] \<Longrightarrow> joinWith c (p # ps) = p @ c # joinWith c ps"
  by (cases ps) auto

lemma joinWith_snoc: "ps \<noteq> [] \<Longrightarrow> joinWith c (ps @ [q]) = joinWith c ps @ c # q"
  by (induction c ps rule: joinWith.induct) auto

lemma splitOn_joinWith:
  "ps \<noteq> [] \<Longrightarrow> (\<forall>p \<in> set ps. c \<notin> set p) \<Longrightarrow> splitOn c (joinWith c ps) = ps"
proof (induction ps)
  case Nil
  then show ?case by simp
next
  case (Cons p ps)
  then show ?case by (cases "ps = []") (auto simp: joinWith_Cons splitOn_sep)
qed

lemma joinWith_splitOn: "joinWith c (splitOn c s) = s"
proof (induction s)
  case Nil
  then show ?case by simp
next
  case (Cons x s)
  show ?case
  proof (cases "x = c")
    case True
    then show ?thesis using Cons by (simp add: joinWith_Cons)
  next
    case False
    obtain p ps where "splitOn c s = p # ps" by (meson neq_Nil_conv splitOn_nonempty)
    then show ?thesis using Cons False by (cases ps) auto
  qed
qed

lemma splitOn_inj: "splitOn c s = splitOn c t \<Longrightarrow> s = t"
  by (metis joinWith_splitOn)

section \<open>Tables\<close>

definition sql_update :: "('r \<Rightarrow> bool) \<Rightarrow> ('r \<Rightarrow> 'r) \<Rightarrow> 'r list \<Rightarrow> 'r list" where
  "sql_update P f rows = map (\<lambda>r. if P r then f r else r) rows"

definition sql_count :: "('r \<Rightarrow> bool) \<Rightarrow> 'r list \<Rightarrow> nat" where
  "sql_count P rows = length (filter P rows)"

lemma sql_update_Nil [simp]: "sql_update P f [] = []"
  by (simp add: sql_update_def)

lemma sql_update_Cons [simp]: "sql_update P f (r # rs) = (if P r then f r else r) # sql_update P f rs"
  by (simp add: sql_update_def)

lemma sql_count_simps [simp]:
  "sql_count P [] = 0"
  "sql_count P (r # rs) = (if P r then Suc (sql_count P rs) else sql_count P rs)"
  by (simp_all add: sql_count_def)

lemma length_sql_update [simp]: "length (sql_update P f rows) = length rows"
  by (simp add: sql_update_def)

lemma set_sql_update: "set (sql_update P f rows) = (\<lambda>r. if P r then f r else r) ` set rows"
  by (simp add: sql_update_def)

lemma in_sql_updateE:
  assumes "r' \<in> set (sql_update P f rows)"
  obtains r where "r \<in> set rows" and "P r" and "r' = f r"
    | "r' \<in> set rows" and "\<not> P r'"
  using assms by (auto simp: set_sql_update split: if_splits)

lemma map_sql_update: "(\<And>r. P r \<Longrightarrow> k (f r) = k r) \<Longrightarrow> map k (sql_update P f rows) = map k rows"
  by (induction rows) auto

lemma sql_update_none: "sql_count P rows = 0 \<Longrightarrow> sql_update P f rows = rows"
  by (induction rows) (auto split: if_splits)

lemma sql_count_pos: "0 < sql_count P rows \<longleftrightarrow> (\<exists>r \<in> set rows. P r)"
  by (induction rows) auto

lemma filter_sql_update:
  "(\<And>r. P r \<Longrightarrow> Q (f r) = Q r) \<Longrightarrow> filter Q (sql_update P f rows) = sql_update P f (filter Q rows)"
  by (induction rows) auto

lemma find_filter_unique:
  "distinct (map k rows) \<Longrightarrow> r \<in> set rows \<Longrightarrow> find (\<lambda>x. k x = k r) rows = Some r"
  by (induction rows) (auto simp: image_iff)

lemma find_Some_in: "find P xs = Some x \<Longrightarrow> x \<in> set xs \<and> P x"
  by (induction xs) (auto split: if_splits)

lemma filter_at_most_one:
  assumes "distinct xs" and "\<And>x y. x \<in> set xs \<Longrightarrow> y \<in> set xs \<Longrightarrow> P x \<Longrightarrow> P y \<Longrightarrow> x = y"
  shows "length (filter P xs) \<le> 1"
proof -
  have d: "distinct (filter P xs)" using assms(1) by simp
  have e: "x = y" if "x \<in> set (filter P xs)" "y \<in> set (filter P xs)" for x y
    using that assms(2) by auto
  show ?thesis
  proof (cases "filter P xs")
    case (Cons a as)
    show ?thesis
    proof (cases as)
      case Nil
      then show ?thesis using Cons by simp
    next
      case (Cons b bs)
      then have "a = b" using \<open>filter P xs = a # as\<close> by (intro e) simp_all
      then show ?thesis using d Cons \<open>filter P xs = a # as\<close> by simp
    qed
  qed simp
qed

section \<open>Association lists as Go maps\<close>

lemma map_of_update: "map_of (AList.update k v m) = (map_of m)(k \<mapsto> v)"
  by (rule update_conv')

lemma map_of_delete: "map_of (AList.delete k m) = (map_of m)(k := None)"
  by (simp add: delete_conv')

end
