(* ===== verification/GoValue.thy ===== *)
theory GoValue
  imports Prelude
begin

text \<open>
  Dynamic values: the \<^verbatim>\<open>interface{}\<close> values that yaml.v3 and encoding/json produce, and the functions of
  \<^verbatim>\<open>pkg/types/v2/predicate_eval.go\<close> and \<^verbatim>\<open>predicates.go\<close> that compare and print them.

  \<open>GInt\<close> is a Go \<^verbatim>\<open>int\<close> (what yaml.v3 makes of an integer), \<open>GFloat j\<close> a \<^verbatim>\<open>float64\<close> with the integral
  value \<open>j\<close>, \<open>GFrac t\<close> a finite non-integral \<^verbatim>\<open>float64\<close>, named by its shortest decimal text \<open>t\<close> (that text
  determines the value).  NaN, the infinities and \<^verbatim>\<open>time.Time\<close> are outside the model.
  A \<^verbatim>\<open>map[string]interface{}\<close> is \<open>GMap\<close> of an association list in iteration order.  \<open>GStruct\<close> is a Go struct, its fields by
  JSON name in declaration order: it is opaque to path lookups and an object once it has been stored as JSON.

  \<open>f64_of_int\<close> is the conversion \<^verbatim>\<open>float64(i)\<close>: rounding to 53 significant bits, ties to even.
  It is what makes \<open>valuesEqual\<close> identify distinct large integers.
\<close>

datatype gval =
    GNil
  | GBool bool
  | GInt int
  | GFloat int
  | GFrac string
  | GStr string
  | GList "gval list"
  | GMap "(string \<times> gval) list"
  | GStruct "(string \<times> gval) list"

type_synonym gmap = "(string \<times> gval) list"

text \<open>The measure of the recursions over values.\<close>

fun gsz :: "gval \<Rightarrow> nat" where
  "gsz (GList vs) = Suc (sum_list (map (\<lambda>v. Suc (gsz v)) vs))"
| "gsz (GMap m) = Suc (sum_list (map (\<lambda>(k, v). Suc (gsz v)) m))"
| "gsz (GStruct m) = Suc (sum_list (map (\<lambda>(k, v). Suc (gsz v)) m))"
| "gsz _ = 1"

abbreviation glsz :: "gval list \<Rightarrow> nat" where
  "glsz vs \<equiv> sum_list (map (\<lambda>v. Suc (gsz v)) vs)"

abbreviation gmsz :: "gmap \<Rightarrow> nat" where
  "gmsz m \<equiv> sum_list (map (\<lambda>(k, v). Suc (gsz v)) m)"

section \<open>Numbers\<close>

function bitlen :: "int \<Rightarrow> nat" where
  "bitlen n = (if n \<le> 0 then 0 else Suc (bitlen (n div 2)))"
  by pat_completeness auto
termination by (relation "measure nat") auto

declare bitlen.simps [simp del]

definition round53 :: "int \<Rightarrow> int" where
  "round53 n =
     (let u = 2 ^ (bitlen n - 53); q = n div u; r = n mod u
      in if 2 * r < u then q * u
         else if 2 * r > u then (q + 1) * u
         else if u = 1 then n
         else if even q then q * u else (q + 1) * u)"

definition f64_of_int :: "int \<Rightarrow> int" where
  "f64_of_int i = (if i < 0 then - round53 (- i) else round53 i)"

datatype gnum = NInt int | NFrac string

fun numericValue :: "gval \<Rightarrow> gnum option" where
  "numericValue (GInt i) = Some (NInt (f64_of_int i))"
| "numericValue (GFloat j) = Some (NInt j)"
| "numericValue (GFrac t) = Some (NFrac t)"
| "numericValue _ = None"

text \<open>
  The decimal digits that a shortest-representation printer gives for an integral \<^verbatim>\<open>float64\<close>: the decimal
  with the fewest significant digits that reads back as the same value.  \<open>shortest k j\<close> tries \<open>k\<close>
  trailing zeros, then fewer.
\<close>

fun shortest :: "nat \<Rightarrow> int \<Rightarrow> int" where
  "shortest 0 j = j"
| "shortest (Suc k) j =
     (let u = 10 ^ Suc k; lo = u * (j div u); hi = lo + u;
          okl = (round53 lo = j); okh = (round53 hi = j)
      in if okl \<and> okh then (if j - lo \<le> hi - j then lo else hi)
         else if okl then lo else if okh then hi else shortest k j)"

definition shortest_int :: "int \<Rightarrow> int" where
  "shortest_int j = (if j < 0 then - shortest 20 (- j) else shortest 20 j)"

section \<open>Canonical JSON text\<close>

text \<open>
  \<open>valuesEqual\<close> compares \<^verbatim>\<open>json.Marshal\<close> texts.  \<open>json_norm\<close> is that text up to a one-to-one renaming: object
  keys sorted, integers and integral floats below \<open>10\<^sup>2\<^sup>1\<close> in positional notation.
\<close>

datatype jtext =
    JNull
  | JBool bool
  | JNum int
  | JExp int
  | JFrac string
  | JStr string
  | JArr "jtext list"
  | JObj "(string \<times> jtext) list"

fun str_le :: "string \<Rightarrow> string \<Rightarrow> bool" where
  "str_le [] t \<longleftrightarrow> True"
| "str_le (x # xs) [] \<longleftrightarrow> False"
| "str_le (x # xs) (y # ys) \<longleftrightarrow>
     (of_char x :: nat) < of_char y \<or> (x = y \<and> str_le xs ys)"

definition str_less :: "string \<Rightarrow> string \<Rightarrow> bool" where
  "str_less s t \<longleftrightarrow> str_le s t \<and> s \<noteq> t"

fun insert_key :: "string \<times> 'a \<Rightarrow> (string \<times> 'a) list \<Rightarrow> (string \<times> 'a) list" where
  "insert_key kv [] = [kv]"
| "insert_key kv (x # xs) = (if str_le (fst kv) (fst x) then kv # x # xs else x # insert_key kv xs)"

definition sort_keys :: "(string \<times> 'a) list \<Rightarrow> (string \<times> 'a) list" where
  "sort_keys m = foldr insert_key m []"

lemma set_insert_key [simp]: "set (insert_key kv m) = insert kv (set m)"
  by (induction m) auto

lemma set_sort_keys [simp]: "set (sort_keys m) = set m"
  by (induction m) (auto simp: sort_keys_def)

lemma distinct_insert_key [simp]:
  "distinct (map fst (insert_key kv m)) \<longleftrightarrow> fst kv \<notin> fst ` set m \<and> distinct (map fst m)"
  by (induction m) auto

lemma distinct_sort_keys [simp]: "distinct (map fst (sort_keys m)) \<longleftrightarrow> distinct (map fst m)"
proof (induction m)
  case (Cons kv m)
  have "sort_keys (kv # m) = insert_key kv (sort_keys m)" by (simp add: sort_keys_def)
  with Cons show ?case by simp
qed (simp add: sort_keys_def)

fun json_norm :: "gval \<Rightarrow> jtext" where
  "json_norm GNil = JNull"
| "json_norm (GBool b) = JBool b"
| "json_norm (GInt i) = JNum i"
| "json_norm (GFloat j) = (if \<bar>j\<bar> < 10 ^ 21 then JNum (shortest_int j) else JExp j)"
| "json_norm (GFrac t) = JFrac t"
| "json_norm (GStr s) = JStr s"
| "json_norm (GList vs) = JArr (map json_norm vs)"
| "json_norm (GMap m) = JObj (sort_keys (map (\<lambda>(k, v). (k, json_norm v)) m))"
| "json_norm (GStruct m) = JObj (map (\<lambda>(k, v). (k, json_norm v)) m)"

text \<open>What a value becomes when it is stored as JSON and decoded again (facts, payloads).\<close>

fun json_roundtrip :: "gval \<Rightarrow> gval" where
  "json_roundtrip (GInt i) = GFloat (f64_of_int i)"
| "json_roundtrip (GList vs) = GList (map json_roundtrip vs)"
| "json_roundtrip (GMap m) = GMap (sort_keys (map (\<lambda>(k, v). (k, json_roundtrip v)) m))"
| "json_roundtrip (GStruct m) = GMap (sort_keys (map (\<lambda>(k, v). (k, json_roundtrip v)) m))"
| "json_roundtrip v = v"

section \<open>Equality of dynamic values\<close>

definition valuesEqual :: "gval \<Rightarrow> gval \<Rightarrow> bool" where
  "valuesEqual a b \<longleftrightarrow>
     a = b \<or>
     (case (numericValue a, numericValue b) of
        (Some l, Some r) \<Rightarrow> l = r
      | _ \<Rightarrow> json_norm a = json_norm b)"

section \<open>Printing\<close>

text \<open>
  \<open>go_v\<close> is the \<^verbatim>\<open>%v\<close> verb of package fmt.  An integral float with seven or more digits prints in
  exponent notation there; \<open>stringifyValue\<close> prints a top-level one in full.
\<close>

fun joinSpace :: "string list \<Rightarrow> string" where
  "joinSpace ps = joinWith (CHR '' '') ps"

fun strip_zeros :: "string \<Rightarrow> string" where
  "strip_zeros s = rev (dropWhile (\<lambda>c. c = CHR ''0'') (rev s))"

definition exp_text :: "int \<Rightarrow> string" where
  "exp_text j =
     (let ds = natDigits \<bar>shortest_int j\<bar>; e = length ds - 1; m = strip_zeros ds
      in (if j < 0 then ''-'' else []) @ take 1 m @ (if length m \<le> 1 then [] else CHR ''.'' # drop 1 m) @
         ''e+'' @ (if e < 10 then ''0'' else []) @ natDigits (int e))"

definition float_v :: "int \<Rightarrow> string" where
  "float_v j = (if \<bar>j\<bar> < 1000000 then itoa j else exp_text j)"

fun go_v :: "gval \<Rightarrow> string" where
  "go_v GNil = ''<nil>''"
| "go_v (GBool b) = (if b then ''true'' else ''false'')"
| "go_v (GInt i) = itoa i"
| "go_v (GFloat j) = float_v j"
| "go_v (GFrac t) = t"
| "go_v (GStr s) = s"
| "go_v (GList vs) = ''['' @ joinSpace (map go_v vs) @ '']''"
| "go_v (GMap m) = ''map['' @ joinSpace (map (\<lambda>(k, s). k @ CHR '':'' # s)
                     (sort_keys (map (\<lambda>(k, v). (k, go_v v)) m))) @ '']''"
| "go_v (GStruct m) = [CHR 0x7B] @ joinSpace (map (\<lambda>(k, v). go_v v) m) @ [CHR 0x7D]"

definition stringifyValue :: "gval \<Rightarrow> string" where
  "stringifyValue v =
     (case v of
        GStr s \<Rightarrow> s
      | GBool b \<Rightarrow> (if b then ''true'' else ''false'')
      | GInt i \<Rightarrow> itoa i
      | GFloat j \<Rightarrow> (if - (2 ^ 63) \<le> j \<and> j < 2 ^ 63 then itoa j else go_v v)
      | _ \<Rightarrow> go_v v)"

section \<open>Facts about numbers\<close>

lemma bitlen_bound: "n < (2 :: int) ^ k \<Longrightarrow> bitlen n \<le> k"
proof (induction k arbitrary: n)
  case 0
  then show ?case by (simp add: bitlen.simps)
next
  case (Suc k)
  then have "n div 2 < 2 ^ k" by simp
  then have "bitlen (n div 2) \<le> k" by (rule Suc.IH)
  then show ?case by (simp add: bitlen.simps [of n])
qed

lemma round53_exact: "n < 2 ^ 53 \<Longrightarrow> round53 n = n"
  using bitlen_bound [of n 53] by (simp add: round53_def)

text \<open>The integers a \<^verbatim>\<open>float64\<close> holds exactly by width alone.\<close>

definition exact53 :: "int \<Rightarrow> bool" where
  "exact53 i \<longleftrightarrow> \<bar>i\<bar> < 2 ^ 53"

lemma f64_exact [simp]: "exact53 i \<Longrightarrow> f64_of_int i = i"
  by (auto simp: f64_of_int_def exact53_def round53_exact)

fun plain :: "gval \<Rightarrow> bool" where
  "plain (GInt i) = exact53 i"
| "plain (GFloat j) = exact53 j"
| "plain (GList _) = False"
| "plain (GMap _) = False"
| "plain (GStruct _) = False"
| "plain _ = True"

lemma plain_GFloat_string: "exact53 j \<Longrightarrow> stringifyValue (GFloat j) = itoa j"
  by (auto simp: stringifyValue_def exact53_def)

lemma json_norm_str [simp]: "json_norm v = JStr s \<longleftrightarrow> v = GStr s"
  by (cases v) simp_all

lemma json_norm_bool [simp]: "json_norm v = JBool b \<longleftrightarrow> v = GBool b"
  by (cases v) simp_all

lemma json_norm_nil [simp]: "json_norm v = JNull \<longleftrightarrow> v = GNil"
  by (cases v) simp_all

text \<open>
  A value equal to a plain operand fixes the operand's printed form: this is what lets the static
  analysis compare operands by their text.
\<close>

lemma valuesEqual_plain_num:
  assumes "plain x" and "numericValue x = Some n" and "valuesEqual v x"
  shows "numericValue v = Some n"
  using assms by (cases x; cases v) (auto simp: valuesEqual_def split: if_splits)

lemma valuesEqual_plain_nonnum:
  assumes "plain x" and "numericValue x = None" and "valuesEqual v x"
  shows "v = x"
  using assms by (cases x) (auto simp: valuesEqual_def split: option.splits)

lemma plain_num_string:
  "plain x \<Longrightarrow> numericValue x = Some n \<Longrightarrow>
     stringifyValue x = (case n of NInt i \<Rightarrow> itoa i | NFrac t \<Rightarrow> t)"
  by (cases x) (auto simp: plain_GFloat_string stringifyValue_def [of "GInt _"] stringifyValue_def [of "GFrac _"])

theorem valuesEqual_string_determined:
  assumes "plain x" and "plain y" and "valuesEqual v x" and "valuesEqual v y"
  shows "stringifyValue x = stringifyValue y"
proof (cases "numericValue x")
  case None
  then have v: "v = x" using assms by (simp add: valuesEqual_plain_nonnum)
  show ?thesis
  proof (cases "numericValue y")
    case None
    then show ?thesis using assms v valuesEqual_plain_nonnum by blast
  next
    case (Some n)
    then have "numericValue x = Some n" using valuesEqual_plain_num assms v by blast
    with None show ?thesis by simp
  qed
next
  case (Some n)
  then have v: "numericValue v = Some n" using assms valuesEqual_plain_num by blast
  show ?thesis
  proof (cases "numericValue y")
    case None
    then have "v = y" using assms valuesEqual_plain_nonnum by blast
    with v None show ?thesis by simp
  next
    case (Some m)
    then have "numericValue v = Some m" using assms valuesEqual_plain_num by blast
    with v Some \<open>numericValue x = Some n\<close> show ?thesis
      using assms plain_num_string by simp
  qed
qed

lemma valuesEqual_refl [simp]: "valuesEqual v v"
  by (simp add: valuesEqual_def)

lemma valuesEqual_sym: "valuesEqual a b \<Longrightarrow> valuesEqual b a"
  by (auto simp: valuesEqual_def split: option.splits)

end
