(* ===== verification/PredicateEval.thy ===== *)
theory PredicateEval
  imports GoValue
begin

text \<open>
  The predicate evaluator of workflow guards: \<^verbatim>\<open>pkg/types/v2/predicate_eval.go\<close>.

  A predicate and the facts are \<^verbatim>\<open>map[string]interface{}\<close> values, given as association lists in
  iteration order.  The pair \<^verbatim>\<open>(actual, exists)\<close> of the code is a \<open>gval option\<close>.
\<close>

section \<open>Lookup\<close>

fun walkPath :: "gval \<Rightarrow> string list \<Rightarrow> gval option" where
  "walkPath cur [] = Some cur"
| "walkPath cur (p # ps) =
     (case cur of
        GMap m \<Rightarrow> (case map_of m p of None \<Rightarrow> None | Some v \<Rightarrow> walkPath v ps)
      | _ \<Rightarrow> None)"

definition lookupDottedPath :: "gmap \<Rightarrow> string \<Rightarrow> gval option" where
  "lookupDottedPath facts key = walkPath (GMap facts) (splitOn (CHR ''.'') key)"

definition factLookup :: "gmap \<Rightarrow> string \<Rightarrow> gval option" where
  "factLookup facts key =
     (case map_of facts key of
        Some v \<Rightarrow> Some v
      | None \<Rightarrow> if CHR ''.'' \<in> set key then lookupDottedPath facts key else None)"

section \<open>Operators\<close>

definition isConstraintOperator :: "string \<Rightarrow> bool" where
  "isConstraintOperator k \<longleftrightarrow>
     k = ''equals'' \<or> k = ''not_equals'' \<or> k = ''in'' \<or> k = ''not_in'' \<or> k = ''exists''"

definition actualEquals :: "gval option \<Rightarrow> gval \<Rightarrow> bool" where
  "actualEquals actual v = (case actual of None \<Rightarrow> False | Some a \<Rightarrow> valuesEqual a v)"

text \<open>One operator of a constraint: \<open>Inr False\<close> is the early return \<^verbatim>\<open>false, nil\<close>.\<close>

definition constraintOp :: "string \<Rightarrow> gval \<Rightarrow> gval option \<Rightarrow> gerr + bool" where
  "constraintOp op value actual =
     (if op = ''equals'' then Inr (actualEquals actual value)
      else if op = ''not_equals'' then Inr (\<not> actualEquals actual value)
      else if op = ''in'' \<or> op = ''not_in'' then
        (case value of
           GList items \<Rightarrow>
             (let found = list_ex (actualEquals actual) items
              in Inr (\<not> ((op = ''in'' \<and> \<not> found) \<or> (op = ''not_in'' \<and> found))))
         | _ \<Rightarrow> Inl (Errf ''%s requires a list'' [op]))
      else if op = ''exists'' then
        (case value of
           GBool want \<Rightarrow> Inr ((actual \<noteq> None) = want)
         | _ \<Rightarrow> Inl (Errf ''exists requires a boolean'' []))
      else Inr True)"

fun constraintOps :: "gmap \<Rightarrow> gval option \<Rightarrow> gerr + bool" where
  "constraintOps [] actual = Inr True"
| "constraintOps ((op, value) # rest) actual =
     bindE (constraintOp op value actual) (\<lambda>ok. if ok then constraintOps rest actual else Inr False)"

definition hasOperator :: "gmap \<Rightarrow> bool" where
  "hasOperator c = list_ex (\<lambda>(k, v). isConstraintOperator k) c"

definition unsupportedOps :: "gmap \<Rightarrow> gerr + unit" where
  "unsupportedOps c =
     forE (\<lambda>(k, v). whenE (\<not> isConstraintOperator k) (Errf ''unsupported predicate operator %q'' [k])) c"

section \<open>The evaluator\<close>

function (sequential) matchPredicateMap :: "gmap \<Rightarrow> gmap \<Rightarrow> gerr + bool"
  and matchEntry :: "string \<Rightarrow> gval \<Rightarrow> gmap \<Rightarrow> gerr + bool"
  and matchAll :: "gval list \<Rightarrow> gmap \<Rightarrow> gerr + bool"
  and matchAny :: "gval list \<Rightarrow> gmap \<Rightarrow> bool \<Rightarrow> gerr + bool"
  and matchConstraint :: "gval \<Rightarrow> gval option \<Rightarrow> gerr + bool"
where
  "matchPredicateMap [] facts = Inr True"
| "matchPredicateMap ((key, expected) # rest) facts =
     bindE (matchEntry key expected facts) (\<lambda>ok. if ok then matchPredicateMap rest facts else Inr False)"
| "matchEntry key expected facts =
     (if key = ''all'' then
        (case expected of
           GList items \<Rightarrow> matchAll items facts
         | _ \<Rightarrow> Inl (Errf ''all requires a list'' []))
      else if key = ''any'' then
        (case expected of
           GList items \<Rightarrow> matchAny items facts False
         | _ \<Rightarrow> Inl (Errf ''any requires a list'' []))
      else matchConstraint expected (factLookup facts key))"
| "matchAll [] facts = Inr True"
| "matchAll (item # items) facts =
     (case item of
        GMap child \<Rightarrow>
          bindE (matchPredicateMap child facts) (\<lambda>ok. if ok then matchAll items facts else Inr False)
      | _ \<Rightarrow> Inl (Errf ''all item must be a predicate map'' []))"
| "matchAny [] facts matched = Inr matched"
| "matchAny (item # items) facts matched =
     (case item of
        GMap child \<Rightarrow>
          bindE (matchPredicateMap child facts) (\<lambda>ok. matchAny items facts (matched \<or> ok))
      | _ \<Rightarrow> Inl (Errf ''any item must be a predicate map'' []))"
| "matchConstraint expected actual =
     (case expected of
        GMap constraint \<Rightarrow>
          bindE (constraintOps constraint actual) (\<lambda>ok.
            if \<not> ok then Inr False
            else if hasOperator constraint then bindE (unsupportedOps constraint) (\<lambda>_. Inr True)
            else (case actual of
                    Some (GMap am) \<Rightarrow> matchPredicateMap constraint am
                  | _ \<Rightarrow> Inr False))
      | _ \<Rightarrow> Inr (actualEquals actual expected))"
  by pat_completeness auto
termination
  by (relation "measure (\<lambda>x. case x of
       Inl (Inl (p, _)) \<Rightarrow> 3 * gmsz p
     | Inl (Inr (_, v, _)) \<Rightarrow> 3 * gsz v + 2
     | Inr (Inl (vs, _)) \<Rightarrow> 3 * glsz vs
     | Inr (Inr (Inl (vs, _, _))) \<Rightarrow> 3 * glsz vs
     | Inr (Inr (Inr (v, _))) \<Rightarrow> 3 * gsz v + 1)")
     (auto split: gval.splits)

definition MatchPredicate :: "gmap \<Rightarrow> gmap \<Rightarrow> gerr + bool" where
  "MatchPredicate predicate facts =
     (if predicate = [] then Inr True else matchPredicateMap predicate facts)"

lemmas match_simps = matchPredicateMap.simps matchEntry.simps matchAll.simps matchAny.simps

declare matchEntry.simps [simp del] matchConstraint.simps [simp del]

section \<open>What a match says\<close>

lemma constraintOps_True:
  "constraintOps c actual = Inr True \<longleftrightarrow> (\<forall>(op, v) \<in> set c. constraintOp op v actual = Inr True)"
  by (induction c) (auto simp: bindE_Inr_iff split: if_splits)

lemma matchPredicateMap_True:
  "matchPredicateMap p facts = Inr True \<longleftrightarrow> (\<forall>(k, v) \<in> set p. matchEntry k v facts = Inr True)"
  by (induction p) (auto simp: bindE_Inr_iff split: if_splits)

lemma MatchPredicate_eq [simp]: "MatchPredicate p facts = matchPredicateMap p facts"
  by (simp add: MatchPredicate_def)

lemma matchAll_True:
  "matchAll items facts = Inr True \<longleftrightarrow>
     (\<forall>item \<in> set items. \<exists>child. item = GMap child \<and> matchPredicateMap child facts = Inr True)"
  by (induction items) (auto simp: bindE_Inr_iff split: if_splits gval.splits)

lemma matchAny_Inr:
  "matchAny items facts b = Inr r \<longleftrightarrow>
     (\<forall>item \<in> set items. \<exists>child q. item = GMap child \<and> matchPredicateMap child facts = Inr q) \<and>
     (r \<longleftrightarrow> b \<or> (\<exists>child. GMap child \<in> set items \<and> matchPredicateMap child facts = Inr True))"
proof (induction items arbitrary: b)
  case Nil
  then show ?case by auto
next
  case (Cons item items)
  show ?case
  proof (cases item)
    case (GMap child)
    show ?thesis
    proof (cases "matchPredicateMap child facts")
      case (Inl e)
      then show ?thesis using GMap by auto
    next
      case (Inr q)
      then show ?thesis using GMap Cons.IH [of "b \<or> q"] by (cases q) auto
    qed
  qed auto
qed

lemma matchConstraint_scalar:
  "\<forall>m. v \<noteq> GMap m \<Longrightarrow> matchConstraint v actual = Inr (actualEquals actual v)"
  by (cases v) (simp_all add: matchConstraint.simps)

lemma matchConstraint_ops:
  "matchConstraint (GMap c) actual = Inr True \<Longrightarrow> (op, v) \<in> set c \<Longrightarrow> constraintOp op v actual = Inr True"
  by (auto simp: matchConstraint.simps bindE_Inr_iff constraintOps_True split: if_splits)

lemma matchConstraint_nested:
  assumes "matchConstraint (GMap c) actual = Inr True" and "\<not> hasOperator c"
  obtains am where "actual = Some (GMap am)" and "matchPredicateMap c am = Inr True"
  using assms by (auto simp: matchConstraint.simps bindE_Inr_iff split: if_splits option.splits gval.splits)

end
