(* ===== verification/Predicates.thy ===== *)
theory Predicates
  imports PredicateEval
begin

text \<open>
  The static side of the predicate language: \<^verbatim>\<open>pkg/types/v2/predicates.go\<close>.

  \<open>ValidatePredicateTree\<close> accepts or rejects an authored guard; \<open>ClausesOverlap\<close> decides whether two guards may
  match the same facts.  The code's \<^verbatim>\<open>fieldConstraint\<close> struct with its \<^verbatim>\<open>kind\<close> tag is a datatype; the
  \<^verbatim>\<open>map[string]fieldConstraint\<close> that \<open>flattenPredicates\<close> fills in is threaded through, and \<open>None\<close> is its
  \<^verbatim>\<open>false\<close> (unanalyzable).

  The main result is soundness: two guards the analysis calls disjoint never match the same facts, for
  facts without dots in their keys and operands whose printed forms do not confuse two types.
\<close>

section \<open>Validation of a predicate tree\<close>

definition allowedPredicateOps :: "string list" where
  "allowedPredicateOps = [''equals'', ''not_equals'', ''in'', ''not_in'', ''exists'', ''all'', ''any'']"

definition unsupportedPredicateOps :: "string list" where
  "unsupportedPredicateOps =
     [''regex'', ''matches'', ''match'', ''contains'', ''starts_with'', ''ends_with'',
      ''gt'', ''gte'', ''lt'', ''lte'', ''script'', ''javascript'', ''js'',
      ''shell'', ''expression'', ''expr'']"

abbreviation allowedOp :: "string \<Rightarrow> bool" where
  "allowedOp k \<equiv> k \<in> set allowedPredicateOps"

definition dot :: "string \<Rightarrow> string \<Rightarrow> string" where
  "dot path k = path @ CHR ''.'' # k"

definition idx :: "string \<Rightarrow> nat \<Rightarrow> string" where
  "idx path i = path @ ''['' @ utoa i @ '']''"

definition unsupportedKeys :: "string \<Rightarrow> gmap \<Rightarrow> gerr + unit" where
  "unsupportedKeys path n =
     forE (\<lambda>(k, v). whenE (toLower (trimSpace k) \<in> set unsupportedPredicateOps)
       (Errf ''%s.%s: unsupported predicate operator %q (allowed: equals, not_equals, in, not_in, exists, all, any)''
          [path, k, k])) n"

function (sequential) validatePredicateNode :: "string \<Rightarrow> gval \<Rightarrow> gerr + unit"
  and validateEntries :: "string \<Rightarrow> gmap \<Rightarrow> gerr + unit"
  and validateItems :: "string \<Rightarrow> nat \<Rightarrow> gval list \<Rightarrow> gerr + unit"
  and validateOperator :: "string \<Rightarrow> string \<Rightarrow> gval \<Rightarrow> gerr + unit"
where
  "validatePredicateNode path node =
     (case node of
        GMap n \<Rightarrow>
          bindE (unsupportedKeys path n) (\<lambda>_.
            (case n of
               [(k, v)] \<Rightarrow> if allowedOp k then validateOperator (dot path k) k v
                           else validatePredicateNode (dot path k) v
             | _ \<Rightarrow> validateEntries path n))
      | GList items \<Rightarrow> validateItems path 0 items
      | _ \<Rightarrow> Inr ())"
| "validateEntries path [] = Inr ()"
| "validateEntries path ((k, v) # rest) =
     bindE (if k = ''all'' then validateOperator (dot path ''all'') ''all'' v
            else if k = ''any'' then validateOperator (dot path ''any'') ''any'' v
            else if allowedOp k then
              Inl (Errf ''%s: multiple top-level predicate operators without field context'' [path])
            else validatePredicateNode (dot path k) v)
       (\<lambda>_. validateEntries path rest)"
| "validateItems path i [] = Inr ()"
| "validateItems path i (item # items) =
     bindE (validatePredicateNode (idx path i) item) (\<lambda>_. validateItems path (Suc i) items)"
| "validateOperator path op value =
     (if \<not> allowedOp op then
        Inl (Errf ''%s: unsupported predicate operator %q (allowed: equals, not_equals, in, not_in, exists, all, any)''
               [path, op])
      else if op = ''equals'' \<or> op = ''not_equals'' then Inr ()
      else if op = ''in'' \<or> op = ''not_in'' then
        (case value of
           GList [] \<Rightarrow> Inl (Errf ''%s: %s list cannot be empty'' [path, op])
         | GList _ \<Rightarrow> Inr ()
         | _ \<Rightarrow> Inl (Errf ''%s: %s requires a list'' [path, op]))
      else if op = ''exists'' then
        (case value of
           GBool _ \<Rightarrow> Inr ()
         | GNil \<Rightarrow> Inr ()
         | _ \<Rightarrow> Inl (Errf ''%s: exists requires a boolean'' [path]))
      else
        (case value of
           GList items \<Rightarrow> validateItems path 0 items
         | _ \<Rightarrow> Inl (Errf ''%s: %s requires a list of predicates'' [path, op])))"
  by pat_completeness auto
termination
  by (relation "measure (\<lambda>x. case x of
       Inl (Inl (_, v)) \<Rightarrow> 3 * gsz v + 1
     | Inl (Inr (_, m)) \<Rightarrow> 3 * gmsz m + 2
     | Inr (Inl (_, _, vs)) \<Rightarrow> 3 * glsz vs + 2
     | Inr (Inr (_, _, v)) \<Rightarrow> 3 * gsz v + 1)")
     (auto split: gval.splits)

declare validatePredicateNode.simps [simp del] validateOperator.simps [simp del]

definition ValidatePredicateTree :: "string \<Rightarrow> gmap \<Rightarrow> gerr + unit" where
  "ValidatePredicateTree path tree = validatePredicateNode path (GMap tree)"

section \<open>Field constraints\<close>

datatype fieldConstraint =
    FEquals gval
  | FNotEquals gval
  | FIn "string list"
  | FNotIn "string list"
  | FExists bool
  | FUnknown

record overlapWitness =
  ow_field :: string
  ow_value :: string

type_synonym constraints = "(string \<times> fieldConstraint) list"

definition stringSet :: "gval list \<Rightarrow> string list" where
  "stringSet items = remdups (map stringifyValue items)"

definition parseConstraint :: "string \<Rightarrow> gval \<Rightarrow> fieldConstraint option" where
  "parseConstraint op value =
     (if op = ''equals'' then Some (FEquals value)
      else if op = ''not_equals'' then Some (FNotEquals value)
      else if op = ''in'' then
        (case value of GList items \<Rightarrow> Some (FIn (stringSet items)) | _ \<Rightarrow> None)
      else if op = ''not_in'' then
        (case value of GList items \<Rightarrow> Some (FNotIn (stringSet items)) | _ \<Rightarrow> None)
      else if op = ''exists'' then
        (case value of GBool b \<Rightarrow> Some (FExists b) | _ \<Rightarrow> None)
      else None)"

fun conjoinConstraints :: "fieldConstraint \<Rightarrow> fieldConstraint \<Rightarrow> fieldConstraint option" where
  "conjoinConstraints (FEquals x) (FEquals y) =
     (if stringifyValue x = stringifyValue y then Some (FEquals x) else None)"
| "conjoinConstraints (FEquals x) (FIn s) =
     (if stringifyValue x \<in> set s then Some (FEquals x) else None)"
| "conjoinConstraints (FIn s) (FEquals y) =
     (if stringifyValue y \<in> set s then Some (FEquals y) else None)"
| "conjoinConstraints _ _ = Some FUnknown"

fun conjoinAll :: "fieldConstraint option \<Rightarrow> gmap \<Rightarrow> fieldConstraint option option" where
  "conjoinAll acc [] = Some acc"
| "conjoinAll acc ((k, v) # rest) =
     (case parseConstraint k v of
        None \<Rightarrow> None
      | Some c \<Rightarrow>
          (case acc of
             None \<Rightarrow> conjoinAll (Some c) rest
           | Some a \<Rightarrow>
               (case conjoinConstraints a c of
                  None \<Rightarrow> None
                | Some merged \<Rightarrow> conjoinAll (Some merged) rest)))"

definition fieldPath :: "string \<Rightarrow> string \<Rightarrow> string" where
  "fieldPath prefix k = (if prefix \<noteq> [] then dot prefix k else k)"

function (sequential) flattenPredicates :: "string \<Rightarrow> gval \<Rightarrow> constraints \<Rightarrow> constraints option"
  and flattenItems :: "string \<Rightarrow> gval list \<Rightarrow> constraints \<Rightarrow> constraints option"
  and flattenFields :: "string \<Rightarrow> gmap \<Rightarrow> constraints \<Rightarrow> constraints option"
  and absorbConstraint :: "string \<Rightarrow> gval \<Rightarrow> constraints \<Rightarrow> constraints option"
where
  "flattenPredicates prefix node out =
     (case node of
        GMap m \<Rightarrow>
          (case m of
             [(k, v)] \<Rightarrow>
               if k = ''all'' then
                 (case v of GList items \<Rightarrow> flattenItems prefix items out | _ \<Rightarrow> None)
               else if allowedOp k then None
               else absorbConstraint (fieldPath prefix k) v out
           | _ \<Rightarrow> if ''any'' \<in> fst ` set m then None else flattenFields prefix m out)
      | _ \<Rightarrow> Some out)"
| "flattenItems prefix [] out = Some out"
| "flattenItems prefix (item # items) out =
     (case flattenPredicates prefix item out of
        None \<Rightarrow> None
      | Some out' \<Rightarrow> flattenItems prefix items out')"
| "flattenFields prefix [] out = Some out"
| "flattenFields prefix ((k, v) # rest) out =
     (if allowedOp k then None
      else (case absorbConstraint (fieldPath prefix k) v out of
              None \<Rightarrow> None
            | Some out' \<Rightarrow> flattenFields prefix rest out'))"
| "absorbConstraint field node out =
     (case node of
        GMap m \<Rightarrow>
          (case m of
             [(k, v)] \<Rightarrow>
               if allowedOp k then
                 (case parseConstraint k v of
                    None \<Rightarrow> None
                  | Some c \<Rightarrow>
                      (case map_of out field of
                         Some prev \<Rightarrow>
                           (case conjoinConstraints prev c of
                              None \<Rightarrow> None
                            | Some merged \<Rightarrow> Some (AList.update field merged out))
                       | None \<Rightarrow> Some (AList.update field c out)))
               else flattenPredicates field node out
           | _ \<Rightarrow>
               if list_all (\<lambda>(k, v). allowedOp k) m then
                 (case conjoinAll None m of
                    None \<Rightarrow> None
                  | Some None \<Rightarrow> Some out
                  | Some (Some c) \<Rightarrow> Some (AList.update field c out))
               else flattenPredicates field node out)
      | _ \<Rightarrow> Some (AList.update field (FEquals node) out))"
  by pat_completeness auto
termination
  by (relation "measure (\<lambda>x. case x of
       Inl (Inl (_, v, _)) \<Rightarrow> 3 * gsz v
     | Inl (Inr (_, vs, _)) \<Rightarrow> 3 * glsz vs + 1
     | Inr (Inl (_, m, _)) \<Rightarrow> 3 * gmsz m + 1
     | Inr (Inr (_, v, _)) \<Rightarrow> 3 * gsz v + 1)")
     (auto split: gval.splits)

declare flattenPredicates.simps [simp del] absorbConstraint.simps [simp del]

definition collectFieldConstraints :: "gmap \<Rightarrow> constraints option" where
  "collectFieldConstraints tree = flattenPredicates [] (GMap tree) []"

section \<open>Overlap\<close>

abbreviation wit :: "string \<Rightarrow> string \<Rightarrow> bool \<times> overlapWitness option" where
  "wit field v \<equiv> (True, Some \<lparr>ow_field = field, ow_value = v\<rparr>)"

fun constraintsOverlap :: "string \<Rightarrow> fieldConstraint \<Rightarrow> fieldConstraint \<Rightarrow> bool \<times> overlapWitness option" where
  "constraintsOverlap field FUnknown b = wit field ''<unknown>''"
| "constraintsOverlap field a FUnknown = wit field ''<unknown>''"
| "constraintsOverlap field (FEquals x) (FEquals y) =
     (if stringifyValue x = stringifyValue y then wit field (stringifyValue x) else (False, None))"
| "constraintsOverlap field (FEquals x) (FIn s) =
     (if stringifyValue x \<in> set s then wit field (stringifyValue x) else (False, None))"
| "constraintsOverlap field (FIn s) (FEquals y) =
     (if stringifyValue y \<in> set s then wit field (stringifyValue y) else (False, None))"
| "constraintsOverlap field (FEquals x) (FNotIn s) =
     (if stringifyValue x \<in> set s then (False, None) else wit field (stringifyValue x))"
| "constraintsOverlap field (FNotIn s) (FEquals y) =
     (if stringifyValue y \<in> set s then (False, None) else wit field (stringifyValue y))"
| "constraintsOverlap field (FEquals x) (FNotEquals y) =
     (if stringifyValue x = stringifyValue y then (False, None) else wit field (stringifyValue x))"
| "constraintsOverlap field (FNotEquals x) (FEquals y) =
     (if stringifyValue y = stringifyValue x then (False, None) else wit field (stringifyValue y))"
| "constraintsOverlap field (FIn s) (FIn t) =
     (case find (\<lambda>v. v \<in> set t) s of Some v \<Rightarrow> wit field v | None \<Rightarrow> (False, None))"
| "constraintsOverlap field (FIn s) (FNotIn t) =
     (case find (\<lambda>v. v \<notin> set t) s of Some v \<Rightarrow> wit field v | None \<Rightarrow> (False, None))"
| "constraintsOverlap field (FNotIn s) (FIn t) =
     (case find (\<lambda>v. v \<notin> set s) t of Some v \<Rightarrow> wit field v | None \<Rightarrow> (False, None))"
| "constraintsOverlap field _ _ = wit field ''<possible>''"

definition min_string :: "string list \<Rightarrow> string option" where
  "min_string vs = (case sort_keys (map (\<lambda>v. (v, ())) vs) of [] \<Rightarrow> None | (v, _) # _ \<Rightarrow> Some v)"

fun witnessFromConstraint :: "string \<Rightarrow> fieldConstraint \<Rightarrow> overlapWitness option" where
  "witnessFromConstraint field (FEquals v) = Some \<lparr>ow_field = field, ow_value = stringifyValue v\<rparr>"
| "witnessFromConstraint field (FIn s) =
     map_option (\<lambda>v. \<lparr>ow_field = field, ow_value = v\<rparr>) (min_string s)"
| "witnessFromConstraint field _ = None"

fun firstWitness :: "constraints \<Rightarrow> overlapWitness option" where
  "firstWitness [] = None"
| "firstWitness ((f, c) # rest) =
     (case witnessFromConstraint f c of Some w \<Rightarrow> Some w | None \<Rightarrow> firstWitness rest)"

fun overlapLoop :: "constraints \<Rightarrow> constraints \<Rightarrow> overlapWitness option \<Rightarrow> bool \<times> overlapWitness option" where
  "overlapLoop [] fb witness = (True, witness)"
| "overlapLoop ((field, ca) # rest) fb witness =
     (case map_of fb field of
        None \<Rightarrow> overlapLoop rest fb witness
      | Some cb \<Rightarrow>
          (case constraintsOverlap field ca cb of
             (False, _) \<Rightarrow> (False, None)
           | (True, w) \<Rightarrow> overlapLoop rest fb (if witness = None then w else witness)))"

definition ClausesOverlap :: "gmap \<Rightarrow> gmap \<Rightarrow> bool \<times> overlapWitness option" where
  "ClausesOverlap a b =
     (if a = [] \<and> b = [] then wit ''*'' ''<empty>''
      else case (collectFieldConstraints a, collectFieldConstraints b) of
        (Some fa, Some fb) \<Rightarrow>
          (case overlapLoop fa fb None of
             (False, _) \<Rightarrow> (False, None)
           | (True, Some w) \<Rightarrow> (True, Some w)
           | (True, None) \<Rightarrow>
               (case firstWitness fa of
                  Some w \<Rightarrow> (True, Some w)
                | None \<Rightarrow>
                    (case firstWitness fb of
                       Some w \<Rightarrow> (True, Some w)
                     | None \<Rightarrow> wit ''*'' ''<any>'')))
      | _ \<Rightarrow> wit ''*'' ''<unanalyzable>'')"

definition disjointClauses :: "gmap \<Rightarrow> gmap \<Rightarrow> bool" where
  "disjointClauses a b \<longleftrightarrow> \<not> fst (ClausesOverlap a b)"

lemma overlapLoop_disjoint:
  "fst (overlapLoop fa fb w) = False \<Longrightarrow>
     \<exists>f ca cb. (f, ca) \<in> set fa \<and> map_of fb f = Some cb \<and> \<not> fst (constraintsOverlap f ca cb)"
  by (induction fa fb w rule: overlapLoop.induct)
     (fastforce split: option.splits prod.splits bool.splits)+

lemma disjointClausesE:
  assumes "disjointClauses a b"
  obtains fa fb f ca cb where
    "collectFieldConstraints a = Some fa" and "collectFieldConstraints b = Some fb"
    "(f, ca) \<in> set fa" and "(f, cb) \<in> set fb" and "\<not> fst (constraintsOverlap f ca cb)"
proof -
  from assms obtain fa fb where fa: "collectFieldConstraints a = Some fa"
    and fb: "collectFieldConstraints b = Some fb" and "fst (overlapLoop fa fb None) = False"
    by (auto simp: disjointClauses_def ClausesOverlap_def split: option.splits prod.splits bool.splits if_splits)
  then show ?thesis using that overlapLoop_disjoint map_of_SomeD by metis
qed

end
