(* ===== verification/PredicateTotality.thy ===== *)
theory PredicateTotality
  imports Predicates
begin

text \<open>
  What \<open>ValidatePredicateTree\<close> buys at run time: a validated guard never makes the evaluator return an error,
  provided it is written in the form \<open>strictEntries\<close> describes.  The form excludes the three shapes that
  validation accepts and evaluation rejects: an operator where a field name is expected, a member of an
  \<^verbatim>\<open>all\<close> or \<^verbatim>\<open>any\<close> list that is not a map, and \<^verbatim>\<open>exists: null\<close>.
\<close>

function (sequential) strictEntries :: "gmap \<Rightarrow> bool"
  and strictItems :: "gval list \<Rightarrow> bool"
  and strictConstraint :: "gval \<Rightarrow> bool"
where
  "strictEntries [] = True"
| "strictEntries ((k, v) # rest) =
     ((if k = ''all'' \<or> k = ''any'' then (case v of GList items \<Rightarrow> strictItems items | _ \<Rightarrow> True)
       else \<not> isConstraintOperator k \<and> strictConstraint v) \<and> strictEntries rest)"
| "strictItems [] = True"
| "strictItems (item # items) =
     ((case item of GMap child \<Rightarrow> strictEntries child | _ \<Rightarrow> False) \<and> strictItems items)"
| "strictConstraint v =
     (case v of
        GMap c \<Rightarrow>
          if hasOperator c
          then list_all (\<lambda>(op, x). op = ''exists'' \<longrightarrow> (case x of GBool b \<Rightarrow> True | _ \<Rightarrow> False)) c
          else strictEntries c
      | _ \<Rightarrow> True)"
  by pat_completeness auto
termination
  by (relation "measure (\<lambda>x. case x of
       Inl m \<Rightarrow> 3 * gmsz m
     | Inr (Inl vs) \<Rightarrow> 3 * glsz vs
     | Inr (Inr v) \<Rightarrow> 3 * gsz v)")
     (auto split: gval.splits)

declare strictConstraint.simps [simp del]

definition validNode :: "gval \<Rightarrow> bool" where
  "validNode v \<longleftrightarrow> (\<exists>path. validatePredicateNode path v = Inr ())"

definition validEntry :: "string \<Rightarrow> gval \<Rightarrow> bool" where
  "validEntry k v \<longleftrightarrow>
     (if k = ''all'' \<or> k = ''any'' then \<exists>items. v = GList items \<and> list_all validNode items
      else allowedOp k \<or> validNode v)"

lemma validateItems_nodes: "validateItems path i items = Inr () \<Longrightarrow> list_all validNode items"
  by (induction items arbitrary: i) (auto simp: bindE_Inr_iff validNode_def)

lemma validateOperator_all:
  "validateOperator path op v = Inr () \<Longrightarrow> op = ''all'' \<or> op = ''any'' \<Longrightarrow>
     \<exists>items. v = GList items \<and> list_all validNode items"
  by (auto simp: validateOperator.simps validateItems_nodes split: gval.splits if_splits)

lemma validateOperator_list:
  "validateOperator path op v = Inr () \<Longrightarrow> op = ''in'' \<or> op = ''not_in'' \<Longrightarrow> \<exists>items. v = GList items"
  by (auto simp: validateOperator.simps split: gval.splits if_splits)

lemma validateEntries_entry:
  "validateEntries path m = Inr () \<Longrightarrow> (k, v) \<in> set m \<Longrightarrow> validEntry k v \<and> \<not> isConstraintOperator k"
proof (induction m)
  case Nil
  then show ?case by simp
next
  case (Cons e m)
  obtain k' v' where e: "e = (k', v')" by (cases e)
  show ?case
  proof (cases "(k, v) \<in> set m")
    case True
    then show ?thesis using Cons e by (auto simp: bindE_Inr_iff)
  next
    case False
    then have kv: "k' = k" "v' = v" using Cons.prems(2) e by simp_all
    then show ?thesis
      using Cons.prems(1) e validateOperator_all
      by (auto simp: bindE_Inr_iff validEntry_def validNode_def isConstraintOperator_def
          allowedPredicateOps_def split: if_splits)
  qed
qed

lemma allowed_cases: "allowedOp k \<longleftrightarrow> isConstraintOperator k \<or> k = ''all'' \<or> k = ''any''"
  by (auto simp: isConstraintOperator_def allowedPredicateOps_def)

lemma operator_not_all_any: "isConstraintOperator k \<Longrightarrow> k \<noteq> ''all'' \<and> k \<noteq> ''any''"
  by (auto simp: isConstraintOperator_def)

lemma validNode_entries:
  assumes "validNode (GMap m)" and "(k, v) \<in> set m"
  shows "validEntry k v"
    and "isConstraintOperator k \<Longrightarrow> m = [(k, v)] \<and> (\<exists>path. validateOperator path k v = Inr ())"
proof -
  obtain path where path: "validatePredicateNode path (GMap m) = Inr ()"
    using assms(1) by (auto simp: validNode_def)
  have both: "validEntry k v \<and>
      (isConstraintOperator k \<longrightarrow> m = [(k, v)] \<and> (\<exists>path. validateOperator path k v = Inr ()))"
  proof (cases "m = [(k, v)]")
    case True
    then have step: "if allowedOp k then validateOperator (dot path k) k v = Inr ()
        else validatePredicateNode (dot path k) v = Inr ()"
      using path by (auto simp: validatePredicateNode.simps bindE_Inr_iff)
    show ?thesis
    proof (cases "allowedOp k")
      case True
      then show ?thesis
        using step \<open>m = [(k, v)]\<close> validateOperator_all by (auto simp: validEntry_def)
    next
      case False
      then show ?thesis using step by (auto simp: validEntry_def validNode_def allowed_cases)
    qed
  next
    case False
    then obtain e e' es where "m = e # e' # es" using assms(2) by (cases m; cases "tl m") auto
    then have "validateEntries path m = Inr ()"
      using path by (simp add: validatePredicateNode.simps bindE_Inr_iff)
    then show ?thesis using validateEntries_entry assms(2) by blast
  qed
  then show "validEntry k v" by blast
  show "m = [(k, v)] \<and> (\<exists>path. validateOperator path k v = Inr ())" if "isConstraintOperator k"
    using both that by blast
qed

lemma validNode_all: "validNode (GMap m) \<Longrightarrow> \<forall>k v. (k, v) \<in> set m \<longrightarrow> validEntry k v"
  using validNode_entries(1) by blast

lemma constraintOp_total:
  assumes "validateOperator path op v = Inr ()" and "isConstraintOperator op"
    and "op = ''exists'' \<Longrightarrow> \<exists>b. v = GBool b"
  shows "returns (constraintOp op v actual)"
proof (cases "op = ''in'' \<or> op = ''not_in''")
  case True
  then obtain items where "v = GList items" using validateOperator_list [OF assms(1)] by blast
  then show ?thesis using True by (auto simp: constraintOp_def)
next
  case False
  then consider "op = ''equals''" | "op = ''not_equals''" | "op = ''exists''"
    using assms(2) unfolding isConstraintOperator_def by blast
  then show ?thesis
  proof cases
    case 3
    then obtain b where "v = GBool b" using assms(3) by blast
    then show ?thesis using 3 by (simp add: constraintOp_def)
  qed (simp_all add: constraintOp_def)
qed

lemma strictEntries_member: "strictEntries m \<Longrightarrow> (k, v) \<in> set m \<Longrightarrow> strictEntries [(k, v)]"
  by (induction m) (auto split: if_splits gval.splits)

lemma operator_constraint_total:
  assumes valid: "validNode (GMap c)" and strict: "strictConstraint (GMap c)" and has: "hasOperator c"
  shows "returns (matchConstraint (GMap c) actual)"
proof -
  obtain k v where kv: "(k, v) \<in> set c" "isConstraintOperator k"
    using has by (auto simp: hasOperator_def list_ex_iff)
  then obtain path where c: "c = [(k, v)]" and ok: "validateOperator path k v = Inr ()"
    using validNode_entries(2) [OF valid] by blast
  have "\<exists>b. v = GBool b" if "k = ''exists''"
    using strict has c that by (simp add: strictConstraint.simps split: gval.splits)
  then obtain b where "constraintOp k v actual = Inr b"
    using constraintOp_total [OF ok kv(2)] unfolding returns_iff by blast
  moreover have "unsupportedOps c = Inr ()" using c kv(2) by (simp add: unsupportedOps_def)
  ultimately show ?thesis using c has by (cases b) (simp_all add: matchConstraint.simps)
qed

lemma constraintOps_none:
  assumes "\<not> hasOperator c"
  shows "constraintOps c actual = Inr True"
proof -
  have "constraintOp op v actual = Inr True" if "(op, v) \<in> set c" for op v
  proof -
    have "\<not> isConstraintOperator op" using assms that by (auto simp: hasOperator_def list_ex_iff)
    then show ?thesis by (simp add: constraintOp_def isConstraintOperator_def)
  qed
  then show ?thesis by (auto simp: constraintOps_True)
qed

lemma match_total:
  shows "strictEntries m \<Longrightarrow> \<forall>k v. (k, v) \<in> set m \<longrightarrow> validEntry k v \<Longrightarrow>
      returns (matchPredicateMap m F)"
    and "strictEntries [(k, v)] \<Longrightarrow> validEntry k v \<Longrightarrow> returns (matchEntry k v F')"
    and "strictItems items \<Longrightarrow> list_all validNode items \<Longrightarrow> returns (matchAll items F'')"
    and "strictItems items' \<Longrightarrow> list_all validNode items' \<Longrightarrow> returns (matchAny items' F3 acc)"
    and "strictConstraint w \<Longrightarrow> validNode w \<Longrightarrow> returns (matchConstraint w actual)"
proof (induction m F and k v F' and items F'' and items' F3 acc and w actual
    rule: matchPredicateMap_matchEntry_matchAll_matchAny_matchConstraint.induct)
  case (2 key expected rest facts)
  then have "returns (matchEntry key expected facts)" by simp
  moreover have "returns (matchPredicateMap rest facts)" if "matchEntry key expected facts = Inr True"
    using 2 that by simp
  ultimately show ?case by (auto simp: returns_iff)
next
  case (3 key expected facts)
  show ?case
  proof (cases "key = ''all'' \<or> key = ''any''")
    case True
    then obtain items where "expected = GList items" "list_all validNode items" "strictItems items"
      using 3 by (auto simp: validEntry_def)
    then show ?thesis using 3 True by (auto simp: matchEntry.simps)
  next
    case False
    then have "validNode expected" "strictConstraint expected"
      using 3 by (auto simp: validEntry_def allowed_cases)
    then show ?thesis using 3 False by (simp add: matchEntry.simps)
  qed
next
  case (5 item items facts)
  then obtain child where item: "item = GMap child" "strictEntries child" by (auto split: gval.splits)
  then have "returns (matchPredicateMap child facts)"
    using "5.IH"(1) [OF item(1,2) validNode_all] "5.prems"(2) item(1) by simp
  moreover have "returns (matchAll items facts)" if "matchPredicateMap child facts = Inr True"
    using "5.IH"(2) [OF item(1) that] "5.prems" by simp
  ultimately show ?case using item by (auto simp: returns_iff)
next
  case (7 item items facts matched)
  then obtain child where item: "item = GMap child" "strictEntries child" by (auto split: gval.splits)
  then have "returns (matchPredicateMap child facts)"
    using "7.IH"(1) [OF item(1,2) validNode_all] "7.prems"(2) item(1) by simp
  moreover have "returns (matchAny items facts (matched \<or> b))" if "matchPredicateMap child facts = Inr b" for b
    using "7.IH"(2) [OF item(1) that] "7.prems" by simp
  ultimately show ?case using item by (auto simp: returns_iff)
next
  case (8 expected actual)
  show ?case
  proof (cases "\<exists>c. expected = GMap c")
    case False
    then show ?thesis by (simp add: matchConstraint_scalar)
  next
    case True
    then obtain c where c: "expected = GMap c" by blast
    show ?thesis
    proof (cases "hasOperator c")
      case True
      then show ?thesis using operator_constraint_total 8 c by blast
    next
      case False
      note ops = constraintOps_none [OF False, of actual]
      have "strictEntries c" using "8.prems"(1) c False by (simp add: strictConstraint.simps)
      moreover have "\<forall>k v. (k, v) \<in> set c \<longrightarrow> validEntry k v"
        using "8.prems"(2) c validNode_all by blast
      ultimately have "returns (matchPredicateMap c am)" if "actual = Some (GMap am)" for am
        using "8.IH" c ops False that by simp
      then show ?thesis using c ops False by (simp add: matchConstraint.simps split: option.splits gval.splits)
    qed
  qed
qed simp_all

lemma validated_total:
  assumes "ValidatePredicateTree path p = Inr ()" and "strictEntries p"
  shows "\<exists>b. MatchPredicate p facts = Inr b"
proof -
  have "validNode (GMap p)" using assms(1) by (auto simp: ValidatePredicateTree_def validNode_def)
  then have "returns (matchPredicateMap p facts)"
    using match_total(1) [OF assms(2)] validNode_all by blast
  then show ?thesis by (simp add: returns_iff)
qed

section \<open>Properties\<close>

text \<open>C2: a guard that passes validation and is written in the strict form never makes the evaluator return an error,
  whatever the facts are.\<close>

theorem validated_guard_never_errors:
  assumes "ValidatePredicateTree path p = Inr ()" and "strictEntries p"
  shows "\<exists>b. MatchPredicate p facts = Inr b"
  by (rule validated_total [OF assms])

definition strictGuard :: gmap where
  "strictGuard =
     [(''any'', GList [GMap [(''ci.state'', GMap [(''equals'', GStr ''green'')])],
                      GMap [(''review'', GMap [(''approved'', GBool True), (''by'', GMap [(''exists'', GBool True)])])]]),
      (''work.done'', GMap [(''not_in'', GList [GBool False, GNil])])]"

theorem validated_guard_witness:
  "ValidatePredicateTree ''when'' strictGuard = Inr () \<and>
   (\<exists>b. MatchPredicate strictGuard [(''work'', GStr ''x'')] = Inr b)"
proof -
  have v: "ValidatePredicateTree ''when'' strictGuard = Inr ()" by code_simp
  have s: "strictEntries strictGuard" by code_simp
  show ?thesis using v validated_guard_never_errors [OF v s] by blast
qed

text \<open>Validation accepts \<^verbatim>\<open>exists\<close> with a null operand, a scalar member of an \<^verbatim>\<open>all\<close> list and an
  operator in the place of a field, and evaluation rejects each of them with an error.\<close>

lemma validation_accepts_what_evaluation_rejects:
  "ValidatePredicateTree ''when'' [(''x'', GMap [(''exists'', GNil)])] = Inr () \<and>
   MatchPredicate [(''x'', GMap [(''exists'', GNil)])] [] = Inl (Errf ''exists requires a boolean'' []) \<and>
   ValidatePredicateTree ''when'' [(''all'', GList [GStr ''x''])] = Inr () \<and>
   MatchPredicate [(''all'', GList [GStr ''x''])] [] = Inl (Errf ''all item must be a predicate map'' []) \<and>
   ValidatePredicateTree ''when'' [(''equals'', GMap [(''in'', GInt 1)])] = Inr () \<and>
   MatchPredicate [(''equals'', GMap [(''in'', GInt 1)])] [] = Inl (Errf ''%s requires a list'' [''in''])"
  by code_simp

end
