(* ===== verification/Capabilities.thy ===== *)
theory Capabilities
  imports Prelude
begin

text \<open>
  Connection capabilities and repository permissions: \<^verbatim>\<open>pkg/types/v2/capabilities.go\<close>,
  \<^verbatim>\<open>permissions.go\<close>, the schema-version helpers of \<^verbatim>\<open>schema.go\<close> and the permission type of
  \<^verbatim>\<open>workspace.go\<close>.  A \<^verbatim>\<open>map[ConnectionCapability]bool\<close> is an association list; a missing key reads
  false (\<open>capOn\<close>), as in Go.

  The lemmas give the exact meaning of \<open>ResolveCapabilities\<close> (a provider's grants minus the restrictions), the form
  of permissions that pass validation, and the round trip of the YAML form.
\<close>

section \<open>Schema version\<close>

definition IsV2 :: "string \<Rightarrow> bool" where
  "IsV2 version \<longleftrightarrow> (let v = trimSpace (toLower version) in v = ''2'' \<or> v = ''v2'')"

section \<open>Capabilities\<close>

type_synonym capmap = "(string \<times> bool) list"

definition AllConnectionCapabilities :: "string list" where
  "AllConnectionCapabilities =
     [''observe_runs'', ''observe_checks'', ''trigger_run'', ''retry_run'', ''cancel_run'',
      ''fetch_logs'', ''reconcile'', ''execute_command'', ''dependency_update'']"

definition capOn :: "capmap \<Rightarrow> string \<Rightarrow> bool" where
  "capOn m c \<longleftrightarrow> map_of m c = Some True"

definition isExecutionProvider :: "string \<Rightarrow> bool" where
  "isExecutionProvider provider \<longleftrightarrow>
     list_ex (hasPrefix provider) [''daytona'', ''replicated'', ''exedev'', ''docker'', ''lambda-microvms'']"

definition grant :: "string list \<Rightarrow> capmap" where
  "grant cs = map (\<lambda>c. (c, True)) cs"

definition ProviderCapabilities :: "string \<Rightarrow> capmap" where
  "ProviderCapabilities provider =
     (if provider = ''github_actions'' \<or> provider = ''depot'' \<or> provider = ''jenkins'' then
        grant AllConnectionCapabilities
      else if provider = ''github'' then
        grant [''observe_runs'', ''observe_checks'', ''fetch_logs'', ''reconcile'']
      else if provider = ''linear'' \<or> provider = ''greptile'' then
        grant [''observe_runs'', ''reconcile'']
      else if isExecutionProvider provider then
        grant [''execute_command'', ''dependency_update'']
      else [])"

definition narrow :: "capmap \<Rightarrow> string \<times> bool \<Rightarrow> capmap \<Rightarrow> capmap" where
  "narrow base r resolved =
     (case r of (c, enabled) \<Rightarrow>
        if \<not> enabled then AList.update c False resolved
        else if capOn base c then AList.update c True resolved
        else resolved)"

definition ResolveCapabilities :: "string \<Rightarrow> capmap \<Rightarrow> capmap" where
  "ResolveCapabilities provider restrictions =
     (let base = ProviderCapabilities provider in fold (narrow base) restrictions base)"

definition CapabilityForEffect :: "string \<Rightarrow> string option" where
  "CapabilityForEffect op =
     (if op = ''ci.trigger'' then Some ''trigger_run''
      else if op = ''ci.retry'' then Some ''retry_run''
      else if op = ''ci.cancel'' then Some ''cancel_run''
      else if op = ''exec.run'' then Some ''execute_command''
      else if op = ''dependency.update'' then Some ''dependency_update''
      else None)"

definition isKnownCapability :: "string \<Rightarrow> bool" where
  "isKnownCapability name \<longleftrightarrow> list_ex (\<lambda>c. c = name) AllConnectionCapabilities"

definition validateCapabilityRestrictions :: "string \<Rightarrow> string \<Rightarrow> capmap \<Rightarrow> gerr + unit" where
  "validateCapabilityRestrictions path provider restrictions =
     (if restrictions = [] then Inr ()
      else
        (let providerCaps = ProviderCapabilities provider
         in forE (\<lambda>(capName, enabled).
              bindE (whenE (blank capName)
                (Errf ''%s.capability_restrictions: empty capability name'' [path])) (\<lambda>_.
              bindE (whenE (enabled \<and> \<not> capOn providerCaps capName)
                (Errf ''%s.capability_restrictions.%s: cannot grant capability unsupported by provider %q''
                   [path, capName, provider])) (\<lambda>_.
              whenE (\<not> isKnownCapability capName)
                (Errf ''%s.capability_restrictions.%s: unknown capability'' [path, capName])))) restrictions))"

lemma fold_narrow_other:
  "c \<notin> fst ` set rs \<Longrightarrow> map_of (fold (narrow base) rs m) c = map_of m c"
proof (induction rs arbitrary: m)
  case Nil
  then show ?case by simp
next
  case (Cons r rs)
  then have "map_of (narrow base r m) c = map_of m c"
    by (cases r) (simp add: narrow_def map_of_update)
  with Cons show ?case by simp
qed

lemma capOn_fold_narrow:
  assumes "distinct (map fst rs)" and "capOn m c \<longleftrightarrow> capOn base c"
  shows "capOn (fold (narrow base) rs m) c \<longleftrightarrow> capOn base c \<and> map_of rs c \<noteq> Some False"
  using assms
proof (induction rs arbitrary: m)
  case Nil
  then show ?case by simp
next
  case (Cons r rs)
  obtain k e where r: "r = (k, e)" by (cases r)
  show ?case
  proof (cases "k = c")
    case True
    then have "c \<notin> fst ` set rs" using Cons.prems(1) r by simp
    then have "capOn (fold (narrow base) rs (narrow base r m)) c \<longleftrightarrow> capOn (narrow base r m) c"
      by (simp add: capOn_def fold_narrow_other)
    also have "\<dots> \<longleftrightarrow> capOn base c \<and> e"
      using r True Cons.prems(2) by (auto simp: narrow_def capOn_def map_of_update)
    finally show ?thesis using r True by simp
  next
    case False
    then have "capOn (narrow base r m) c \<longleftrightarrow> capOn base c"
      using r Cons.prems(2) by (auto simp: narrow_def capOn_def map_of_update)
    then show ?thesis using Cons.IH Cons.prems(1) r False by simp
  qed
qed

lemma resolve_iff:
  "distinct (map fst restrictions) \<Longrightarrow>
     capOn (ResolveCapabilities provider restrictions) c \<longleftrightarrow>
       capOn (ProviderCapabilities provider) c \<and> map_of restrictions c \<noteq> Some False"
  by (simp add: ResolveCapabilities_def Let_def capOn_fold_narrow)

lemma restrictions_valid:
  assumes "validateCapabilityRestrictions path provider restrictions = Inr ()"
    and "(c, b) \<in> set restrictions"
  shows "isKnownCapability c" and "b \<Longrightarrow> capOn (ProviderCapabilities provider) c"
  using assms by (auto simp: validateCapabilityRestrictions_def Let_def bindE_Inr_iff split: if_splits)

section \<open>Repository permissions\<close>

record perms =
  perm_level :: string
  perm_granular :: "(string \<times> string) list"

definition gitHubRepositoryPermissions :: "string list" where
  "gitHubRepositoryPermissions =
     [''actions'', ''administration'', ''artifact_metadata'', ''attestations'', ''checks'',
      ''code_quality'', ''codespaces'', ''contents'', ''dependabot_secrets'', ''deployments'',
      ''discussions'', ''environments'', ''issues'', ''merge_queues'', ''metadata'', ''packages'',
      ''pages'', ''pull_requests'', ''repository_advisories'', ''repository_custom_properties'',
      ''repository_hooks'', ''repository_projects'', ''secret_scanning_alerts'', ''secrets'',
      ''security_events'', ''single_file'', ''statuses'', ''vulnerability_alerts'', ''workflows'']"

definition gitHubPermissionAliases :: "(string \<times> string) list" where
  "gitHubPermissionAliases =
     [(''dependabot_alerts'', ''vulnerability_alerts''), (''code_scanning_alerts'', ''security_events'')]"

definition CanonicalGitHubPermissionName :: "string \<Rightarrow> string" where
  "CanonicalGitHubPermissionName name =
     (let n = toLower (trimSpace name)
      in case map_of gitHubPermissionAliases n of Some c \<Rightarrow> c | None \<Rightarrow> n)"

definition CanonicalGitHubPermissionLevel :: "string \<Rightarrow> string" where
  "CanonicalGitHubPermissionLevel level =
     (let l = toLower (trimSpace level) in if l = ''read'' \<or> l = ''write'' then l else [])"

fun permissionsLoop :: "string \<Rightarrow> string list \<Rightarrow> (string \<times> string) list \<Rightarrow> gerr + unit" where
  "permissionsLoop repoName seen [] = Inr ()"
| "permissionsLoop repoName seen ((name, level) # rest) =
     (let canonical = CanonicalGitHubPermissionName name;
          normalized = CanonicalGitHubPermissionLevel level
      in bindE (whenE (canonical \<notin> set gitHubRepositoryPermissions)
           (Errf ''repositories.%s.permissions.%s: unknown GitHub App permission (canonical name: %s)''
              [repoName, name, canonical])) (\<lambda>_.
         bindE (whenE (canonical \<in> set seen)
           (Errf ''repositories.%s.permissions.%s: duplicate declaration of %s'' [repoName, name, canonical])) (\<lambda>_.
         bindE (whenE (normalized = [])
           (Errf ''repositories.%s.permissions.%s: invalid level %q (must be read or write)''
              [repoName, name, level])) (\<lambda>_.
         bindE (whenE (canonical = ''metadata'' \<and> normalized = ''write'')
           (Errf ''repositories.%s.permissions.metadata: metadata is always read and cannot be set to write''
              [repoName])) (\<lambda>_.
         permissionsLoop repoName (canonical # seen) rest)))))"

definition validateRepositoryPermissions :: "string \<Rightarrow> perms \<Rightarrow> gerr + unit" where
  "validateRepositoryPermissions repoName p = permissionsLoop repoName [] (perm_granular p)"

definition perms_Level :: "perms \<Rightarrow> string" where
  "perms_Level p =
     (if toLower (trimSpace (perm_level p)) = ''write'' then ''write''
      else if list_ex (\<lambda>(name, level). CanonicalGitHubPermissionName name = ''contents'' \<and>
                          CanonicalGitHubPermissionLevel level = ''write'') (perm_granular p) then ''write''
      else ''read'')"

text \<open>\<open>perms_Granular\<close> writes into a fresh map; a later entry with the same canonical key replaces an earlier one.\<close>

definition perms_Granular :: "perms \<Rightarrow> (string \<times> string) list" where
  "perms_Granular p =
     fold (\<lambda>(name, level). AList.update (CanonicalGitHubPermissionName name) (toLower (trimSpace level)))
       (perm_granular p) []"

definition PermissionsFromLevel :: "string \<Rightarrow> perms" where
  "PermissionsFromLevel level = \<lparr>perm_level = toLower (trimSpace level), perm_granular = []\<rparr>"

definition PermissionsFromMap :: "(string \<times> string) list \<Rightarrow> perms" where
  "PermissionsFromMap granular = \<lparr>perm_level = [], perm_granular = granular\<rparr>"

text \<open>A YAML node as the decoder sees it: kind, tag and value of a scalar, or the key/value pairs of a mapping.\<close>

datatype ynode = YScalar string string | YMapping "(string \<times> ynode) list" | YOther

fun permissionPairs :: "string list \<Rightarrow> (string \<times> string) list \<Rightarrow> (string \<times> ynode) list \<Rightarrow>
    gerr + (string \<times> string) list" where
  "permissionPairs seen acc [] = Inr acc"
| "permissionPairs seen acc ((key, val) # rest) =
     (case val of
        YScalar tag value \<Rightarrow>
          (let name = toLower (trimSpace key); canonical = CanonicalGitHubPermissionName name
           in bindE (whenE (canonical \<in> set seen)
                (Errf ''permissions.%s: duplicate declaration of %s'' [name, canonical])) (\<lambda>_.
              permissionPairs (canonical # seen) (AList.update name (toLower (trimSpace value)) acc) rest))
      | _ \<Rightarrow> Inl (Errf ''permissions.%s: must be a permission level (read or write)'' [key]))"

definition perms_UnmarshalYAML :: "ynode \<Rightarrow> gerr + perms" where
  "perms_UnmarshalYAML node =
     (case node of
        YScalar tag value \<Rightarrow>
          if tag = ''!!null'' then Inr \<lparr>perm_level = [], perm_granular = []\<rparr>
          else Inr \<lparr>perm_level = toLower (trimSpace value), perm_granular = []\<rparr>
      | YMapping pairs \<Rightarrow>
          bindE (permissionPairs [] [] pairs) (\<lambda>granular.
          bindE (whenE (granular = [])
            (Errf ''permissions: granular form must declare at least one permission'' [])) (\<lambda>_.
          Inr \<lparr>perm_level = [], perm_granular = granular\<rparr>))
      | YOther \<Rightarrow> Inl (Errf ''permissions: must be read, write, or a map of GitHub App permissions'' []))"

definition perms_MarshalYAML :: "perms \<Rightarrow> ynode" where
  "perms_MarshalYAML p =
     (if perm_granular p \<noteq> [] then YMapping (map (\<lambda>(n, l). (n, YScalar ''!!str'' l)) (perm_granular p))
      else if perm_level p = [] then YScalar ''!!null'' ''null''
      else YScalar ''!!str'' (perm_level p))"

lemma canonical_norm [simp]:
  "CanonicalGitHubPermissionName (toLower (trimSpace n)) = CanonicalGitHubPermissionName n"
  by (simp add: CanonicalGitHubPermissionName_def)

lemma permissionsLoop_ok:
  "permissionsLoop repo seen ps = Inr () \<Longrightarrow>
     distinct (map (\<lambda>p. CanonicalGitHubPermissionName (fst p)) ps) \<and>
     (\<forall>n l. (n, l) \<in> set ps \<longrightarrow> CanonicalGitHubPermissionName n \<in> set gitHubRepositoryPermissions \<and>
        CanonicalGitHubPermissionName n \<notin> set seen \<and> CanonicalGitHubPermissionLevel l \<noteq> [] \<and>
        \<not> (CanonicalGitHubPermissionName n = ''metadata'' \<and> CanonicalGitHubPermissionLevel l = ''write''))"
proof (induction repo seen ps rule: permissionsLoop.induct)
  case (1 repo seen)
  then show ?case by simp
next
  case (2 repo seen name level rest)
  let ?c = "CanonicalGitHubPermissionName name"
  have guards: "?c \<in> set gitHubRepositoryPermissions" "?c \<notin> set seen"
    "CanonicalGitHubPermissionLevel level \<noteq> []"
    "\<not> (?c = ''metadata'' \<and> CanonicalGitHubPermissionLevel level = ''write'')"
    and rest: "permissionsLoop repo (?c # seen) rest = Inr ()"
    using "2.prems" by (auto simp: Let_def bindE_Inr_iff)
  from "2.IH" [OF refl refl] guards rest
  have tail: "distinct (map (\<lambda>p. CanonicalGitHubPermissionName (fst p)) rest)"
    "\<forall>n l. (n, l) \<in> set rest \<longrightarrow> CanonicalGitHubPermissionName n \<in> set gitHubRepositoryPermissions \<and>
        CanonicalGitHubPermissionName n \<notin> set (?c # seen) \<and> CanonicalGitHubPermissionLevel l \<noteq> [] \<and>
        \<not> (CanonicalGitHubPermissionName n = ''metadata'' \<and> CanonicalGitHubPermissionLevel l = ''write'')"
    by (auto simp: bindE_Inr_iff)
  have "?c \<noteq> CanonicalGitHubPermissionName (fst q)" if "q \<in> set rest" for q
    using tail(2) that by (metis prod.collapse list.set_intros(1))
  then have "?c \<notin> (\<lambda>p. CanonicalGitHubPermissionName (fst p)) ` set rest" by auto
  then have "distinct (map (\<lambda>p. CanonicalGitHubPermissionName (fst p)) ((name, level) # rest))"
    using tail(1) by simp
  then show ?case using guards tail(2) by auto
qed

lemma update_fresh: "k \<notin> fst ` set m \<Longrightarrow> AList.update k v m = m @ [(k, v)]"
  by (induction m) auto

lemma granular_fold:
  assumes "distinct (map (\<lambda>p. f (fst p)) ps)" and "\<forall>p \<in> set ps. f (fst p) \<notin> fst ` set acc"
  shows "fold (\<lambda>(n, l). AList.update (f n) (g l)) ps acc = acc @ map (\<lambda>(n, l). (f n, g l)) ps"
  using assms
proof (induction ps arbitrary: acc)
  case Nil
  then show ?case by simp
next
  case (Cons p ps)
  obtain n l where p: "p = (n, l)" by (cases p)
  have "\<forall>q \<in> set ps. f (fst q) \<notin> fst ` set (acc @ [(f n, g l)])"
    using Cons.prems p by (force simp: image_iff)
  then show ?case using Cons.IH [of "acc @ [(f n, g l)]"] Cons.prems p by (simp add: update_fresh)
qed

text \<open>Permissions that pass validation keep every declared entry in their canonical form.\<close>

lemma validated_granular:
  assumes "validateRepositoryPermissions repo p = Inr ()"
  shows "perms_Granular p =
    map (\<lambda>(n, l). (CanonicalGitHubPermissionName n, toLower (trimSpace l))) (perm_granular p)"
  using permissionsLoop_ok [OF assms [unfolded validateRepositoryPermissions_def]]
  by (simp add: perms_Granular_def granular_fold)

lemma permissionPairs_ok:
  "permissionPairs seen acc ps = Inr g \<Longrightarrow>
     (\<forall>(n, l) \<in> set acc. toLower (trimSpace n) = n \<and> toLower (trimSpace l) = l \<and>
        CanonicalGitHubPermissionName n \<in> set seen) \<Longrightarrow>
     distinct (map (\<lambda>p. CanonicalGitHubPermissionName (fst p)) acc) \<Longrightarrow>
     (\<forall>(n, l) \<in> set g. toLower (trimSpace n) = n \<and> toLower (trimSpace l) = l) \<and>
     distinct (map (\<lambda>p. CanonicalGitHubPermissionName (fst p)) g)"
proof (induction seen acc ps rule: permissionPairs.induct)
  case (1 seen acc)
  then show ?case by auto
next
  case (2 seen acc key val rest)
  obtain tag vl where val: "val = YScalar tag vl" using "2.prems"(1) by (cases val) auto
  let ?n = "toLower (trimSpace key)" and ?l = "toLower (trimSpace vl)"
  let ?c = "CanonicalGitHubPermissionName ?n"
  have fresh: "?c \<notin> set seen" and run: "permissionPairs (?c # seen) (AList.update ?n ?l acc) rest = Inr g"
    using "2.prems"(1) val by (auto simp: Let_def bindE_Inr_iff)
  have "?c \<noteq> CanonicalGitHubPermissionName n" if "(n, l) \<in> set acc" for n l
    using "2.prems"(2) fresh that by auto
  then have new: "?c \<notin> (\<lambda>p. CanonicalGitHubPermissionName (fst p)) ` set acc"
    by (metis (mono_tags, lifting) imageE prod.collapse)
  then have "?n \<notin> fst ` set acc" by force
  then have upd: "AList.update ?n ?l acc = acc @ [(?n, ?l)]" by (rule update_fresh)
  have dist: "distinct (map (\<lambda>p. CanonicalGitHubPermissionName (fst p)) (acc @ [(?n, ?l)]))"
    using "2.prems"(3) new by simp
  show ?case
    using "2.IH" [OF val refl refl] fresh run "2.prems"(2) dist unfolding upd
    by (fastforce simp: bindE_Inr_iff)
qed

lemma permissionPairs_back:
  assumes "distinct (map (\<lambda>p. CanonicalGitHubPermissionName (fst p)) (acc @ g))"
    and "\<forall>(n, l) \<in> set g. toLower (trimSpace n) = n \<and> toLower (trimSpace l) = l"
    and "set seen = (\<lambda>p. CanonicalGitHubPermissionName (fst p)) ` set acc"
  shows "permissionPairs seen acc (map (\<lambda>(n, l). (n, YScalar ''!!str'' l)) g) = Inr (acc @ g)"
  using assms
proof (induction g arbitrary: acc seen)
  case Nil
  then show ?case by simp
next
  case (Cons p g)
  obtain n l where p: "p = (n, l)" by (cases p)
  have fresh: "CanonicalGitHubPermissionName n \<notin> set seen" using Cons.prems(1,3) p by auto
  then have "n \<notin> fst ` set acc" using Cons.prems(3) by force
  then have "AList.update n l acc = acc @ [(n, l)]" by (rule update_fresh)
  then show ?case
    using Cons.IH [of "acc @ [(n, l)]" "CanonicalGitHubPermissionName n # seen"] Cons.prems fresh p
    by (simp add: Let_def)
qed

lemma unmarshal_marshal:
  assumes "perms_UnmarshalYAML node = Inr p"
  shows "perms_UnmarshalYAML (perms_MarshalYAML p) = Inr p"
proof (cases node)
  case (YMapping pairs)
  then have run: "permissionPairs [] [] pairs = Inr (perm_granular p)" and ne: "perm_granular p \<noteq> []"
    and level: "perm_level p = []"
    using assms by (auto simp: perms_UnmarshalYAML_def bindE_Inr_iff)
  then have "permissionPairs [] [] (map (\<lambda>(n, l). (n, YScalar ''!!str'' l)) (perm_granular p)) = Inr (perm_granular p)"
    using permissionPairs_back [of "[]"] permissionPairs_ok [OF run] by simp
  then show ?thesis using ne level by (simp add: perms_MarshalYAML_def perms_UnmarshalYAML_def)
qed (use assms in \<open>auto simp: perms_MarshalYAML_def perms_UnmarshalYAML_def split: if_splits\<close>)

section \<open>Properties\<close>

text \<open>C3: a resolved capability is on exactly when the provider grants it and the workspace does not switch it off: no
  restriction can add a capability, and switching off always takes effect.\<close>

theorem resolved_capabilities_exact:
  assumes "distinct (map fst restrictions)"
  shows "capOn (ResolveCapabilities provider restrictions) c \<longleftrightarrow>
    capOn (ProviderCapabilities provider) c \<and> map_of restrictions c \<noteq> Some False"
  by (rule resolve_iff [OF assms])

theorem resolved_capabilities_witness:
  "\<not> capOn (ResolveCapabilities ''github'' [(''fetch_logs'', False), (''trigger_run'', True)]) ''trigger_run'' \<and>
   \<not> capOn (ResolveCapabilities ''github'' [(''fetch_logs'', False), (''trigger_run'', True)]) ''fetch_logs'' \<and>
   capOn (ResolveCapabilities ''github'' [(''fetch_logs'', False), (''trigger_run'', True)]) ''reconcile''"
proof -
  have d: "distinct (map fst [(''fetch_logs'', False), (''trigger_run'', True)])" by simp
  show ?thesis unfolding resolved_capabilities_exact [OF d] by code_simp
qed

text \<open>C4: whatever permissions the YAML decoder accepts survive encoding and decoding unchanged.\<close>

theorem permissions_yaml_roundtrip:
  assumes "perms_UnmarshalYAML node = Inr p"
  shows "perms_UnmarshalYAML (perms_MarshalYAML p) = Inr p"
  by (rule unmarshal_marshal [OF assms])

definition permsNode :: ynode where
  "permsNode = YMapping [('' Contents '', YScalar ''!!str'' ''WRITE''),
                         (''dependabot_alerts'', YScalar ''!!str'' ''read'')]"

definition permsValue :: perms where
  "permsValue = \<lparr>perm_level = [], perm_granular = [(''contents'', ''write''), (''dependabot_alerts'', ''read'')]\<rparr>"

theorem permissions_yaml_roundtrip_witness:
  "perms_UnmarshalYAML permsNode = Inr permsValue \<and>
   perms_UnmarshalYAML (perms_MarshalYAML permsValue) = Inr permsValue"
proof -
  have u: "perms_UnmarshalYAML permsNode = Inr permsValue" by code_simp
  show ?thesis using u permissions_yaml_roundtrip [OF u] by blast
qed

end
