(* ===== verification/Workspace.thy ===== *)
theory Workspace
  imports Capabilities GoValue
begin

text \<open>
  Workspace documents: \<^verbatim>\<open>pkg/types/v2/workspace.go\<close> and \<^verbatim>\<open>workspace_validate.go\<close>.

  The Go structs are records, pointers to sub-blocks are options, maps are association lists.  Hashing the
  canonical YAML text (\<^verbatim>\<open>RevisionOf\<close>, a call into yaml.v3 and SHA-256) is the parameter \<open>revisionOf\<close>.

  The lemmas at the end say what a workspace that passed \<open>ValidateWorkspace\<close> looks like: every name it refers to
  is defined in it (\<open>workspace_closed\<close>), and every capability of the resolved view is one its provider grants.
\<close>

section \<open>The document\<close>

record checkout =
  co_Ref :: string
  co_Depth :: string

record repository =
  repo_Provider :: string
  repo_Repository :: string
  repo_SourceControl :: string
  repo_Checkout :: "checkout option"
  repo_Permissions :: perms

record execution =
  exec_Provider :: string
  exec_Nix :: bool
  exec_Docker :: bool
  exec_Tools :: "string list"
  exec_CapabilityRestrictions :: capmap

record connection =
  conn_Provider :: string
  conn_BaseURL :: string
  conn_Credentials :: string
  conn_SourceControl :: string
  conn_CapabilityRestrictions :: capmap

record pipeline =
  pipe_Connection :: string
  pipe_Repository :: string
  pipe_Workflow :: string
  pipe_Project :: string
  pipe_Pipeline :: string
  pipe_Job :: string

record ci_block =
  ci_Connections :: "(string \<times> connection) list"
  ci_Pipelines :: "(string \<times> pipeline) list"

record knowledge_source =
  ks_Type :: string
  ks_Scope :: string
  ks_Required :: bool
  ks_Connection :: string
  ks_Repositories :: "string list"
  ks_Paths :: "string list"
  ks_Query :: string
  ks_Parameters :: gmap

record knowledge_block =
  kb_Connections :: "(string \<times> connection) list"
  kb_Sources :: "(string \<times> knowledge_source) list"

record workspace =
  ws_SchemaVersion :: gval
  ws_Name :: string
  ws_Repositories :: "(string \<times> repository) list"
  ws_Execution :: "execution option"
  ws_Credentials :: "(string \<times> string) list"
  ws_SourceControl :: "(string \<times> connection) list option"
  ws_CI :: "ci_block option"
  ws_IssueTrackers :: "(string \<times> connection) list option"
  ws_ReviewSystems :: "(string \<times> connection) list option"
  ws_Knowledge :: "knowledge_block option"

record resolved_workspace =
  rw_Workspace :: workspace
  rw_Revision :: string
  rw_CICaps :: "(string \<times> capmap) list"
  rw_SourceControl :: "(string \<times> capmap) list"
  rw_IssueTrackers :: "(string \<times> capmap) list"
  rw_ReviewSystems :: "(string \<times> capmap) list"
  rw_ExecCaps :: capmap

definition SchemaVersionString :: "gval \<Rightarrow> string" where
  "SchemaVersionString raw =
     (case raw of
        GNil \<Rightarrow> []
      | GStr s \<Rightarrow> trimSpace s
      | GInt i \<Rightarrow> itoa i
      | GFloat j \<Rightarrow> if - (2 ^ 63) \<le> j \<and> j < 2 ^ 63 then itoa j else trimSpace (go_v raw)
      | _ \<Rightarrow> trimSpace (go_v raw))"

section \<open>Lookups\<close>

abbreviation hasKey :: "(string \<times> 'a) list \<Rightarrow> string \<Rightarrow> bool" where
  "hasKey m k \<equiv> map_of m k \<noteq> None"

definition connectionsOf :: "(string \<times> connection) list option \<Rightarrow> (string \<times> connection) list" where
  "connectionsOf b = (case b of None \<Rightarrow> [] | Some cs \<Rightarrow> cs)"

definition HasCIConnection :: "workspace \<Rightarrow> string \<Rightarrow> bool" where
  "HasCIConnection w name = (case ws_CI w of None \<Rightarrow> False | Some b \<Rightarrow> hasKey (ci_Connections b) name)"

definition HasCIPipeline :: "workspace \<Rightarrow> string \<Rightarrow> bool" where
  "HasCIPipeline w name = (case ws_CI w of None \<Rightarrow> False | Some b \<Rightarrow> hasKey (ci_Pipelines b) name)"

definition HasRepository :: "workspace \<Rightarrow> string \<Rightarrow> bool" where
  "HasRepository w name = hasKey (ws_Repositories w) name"

definition HasCredential :: "workspace \<Rightarrow> string \<Rightarrow> bool" where
  "HasCredential w name = hasKey (ws_Credentials w) name"

definition HasSourceControlConnection :: "workspace \<Rightarrow> string \<Rightarrow> bool" where
  "HasSourceControlConnection w name = hasKey (connectionsOf (ws_SourceControl w)) name"

definition HasIssueTrackerConnection :: "workspace \<Rightarrow> string \<Rightarrow> bool" where
  "HasIssueTrackerConnection w name = hasKey (connectionsOf (ws_IssueTrackers w)) name"

definition HasReviewSystemConnection :: "workspace \<Rightarrow> string \<Rightarrow> bool" where
  "HasReviewSystemConnection w name = hasKey (connectionsOf (ws_ReviewSystems w)) name"

definition HasKnowledgeConnection :: "workspace \<Rightarrow> string \<Rightarrow> bool" where
  "HasKnowledgeConnection w name =
     (case ws_Knowledge w of None \<Rightarrow> False | Some b \<Rightarrow> hasKey (kb_Connections b) name)"

definition CIConnection :: "workspace \<Rightarrow> string \<Rightarrow> connection option" where
  "CIConnection w name = (case ws_CI w of None \<Rightarrow> None | Some b \<Rightarrow> map_of (ci_Connections b) name)"

definition CIPipeline :: "workspace \<Rightarrow> string \<Rightarrow> pipeline option" where
  "CIPipeline w name = (case ws_CI w of None \<Rightarrow> None | Some b \<Rightarrow> map_of (ci_Pipelines b) name)"

section \<open>Names and paths\<close>

definition is_alpha :: "char \<Rightarrow> bool" where
  "is_alpha c = (let n = of_char c :: nat in (65 \<le> n \<and> n \<le> 90) \<or> (97 \<le> n \<and> n \<le> 122))"

definition is_digit :: "char \<Rightarrow> bool" where
  "is_digit c = (let n = of_char c :: nat in 48 \<le> n \<and> n \<le> 57)"

text \<open>\<^verbatim>\<open>^[A-Za-z_][A-Za-z0-9_]*$\<close> and \<^verbatim>\<open>^[A-Za-z0-9][A-Za-z0-9_.-]*$\<close>.\<close>

fun secretNameRegex :: "string \<Rightarrow> bool" where
  "secretNameRegex [] = False"
| "secretNameRegex (c # cs) =
     ((is_alpha c \<or> c = CHR ''_'') \<and> list_all (\<lambda>d. is_alpha d \<or> is_digit d \<or> d = CHR ''_'') cs)"

fun resourceNameRegex :: "string \<Rightarrow> bool" where
  "resourceNameRegex [] = False"
| "resourceNameRegex (c # cs) =
     ((is_alpha c \<or> is_digit c) \<and>
      list_all (\<lambda>d. is_alpha d \<or> is_digit d \<or> d = CHR ''_'' \<or> d = CHR ''.'' \<or> d = CHR ''-'') cs)"

text \<open>\<^verbatim>\<open>path.Clean\<close>: the segments already kept are in reverse order.\<close>

fun cleanSegments :: "bool \<Rightarrow> string list \<Rightarrow> string list \<Rightarrow> string list" where
  "cleanSegments rooted kept [] = rev kept"
| "cleanSegments rooted kept (s # ss) =
     (if s = [] \<or> s = ''.'' then cleanSegments rooted kept ss
      else if s = ''..'' then
        (case kept of
           [] \<Rightarrow> cleanSegments rooted (if rooted then [] else [''..'']) ss
         | k # ks \<Rightarrow> if k = ''..'' then cleanSegments rooted (''..'' # kept) ss
                     else cleanSegments rooted ks ss)
      else cleanSegments rooted (s # kept) ss)"

definition pathClean :: "string \<Rightarrow> string" where
  "pathClean p =
     (let rooted = hasPrefix p ''/'';
          q = joinWith (CHR ''/'') (cleanSegments rooted [] (splitOn (CHR ''/'') p))
      in if rooted then CHR ''/'' # q else if q = [] then ''.'' else q)"

definition hasParentPathSegment :: "string \<Rightarrow> bool" where
  "hasParentPathSegment v \<longleftrightarrow> list_ex (\<lambda>s. s = ''..'') (splitOn (CHR ''/'') v)"

definition validateResourceName :: "string \<Rightarrow> string \<Rightarrow> gerr + unit" where
  "validateResourceName sect name =
     bindE (whenE (blank name) (Errf ''%s: empty resource name'' [sect])) (\<lambda>_.
     whenE (\<not> resourceNameRegex name) (Errf ''%s.%s: invalid resource name'' [sect, name]))"

definition validateConnection :: "string \<Rightarrow> string \<Rightarrow> connection \<Rightarrow> workspace \<Rightarrow> gerr + unit" where
  "validateConnection path name conn ws =
     bindE (validateResourceName path name) (\<lambda>_.
     bindE (whenE (blank (conn_Provider conn)) (Errf ''%s.%s.provider is required'' [path, name])) (\<lambda>_.
     (let cred = trimSpace (conn_Credentials conn)
      in whenE (cred \<noteq> [] \<and> \<not> HasCredential ws cred)
           (Errf ''%s.%s.credentials %q: unknown credential (missing credentials.%s)'' [path, name, cred, cred]))))"

section \<open>Validation\<close>

definition validateCredential :: "string \<Rightarrow> string \<Rightarrow> gerr + unit" where
  "validateCredential name credSecret =
     bindE (validateResourceName ''credentials'' name) (\<lambda>_.
     (let secret = trimSpace credSecret
      in bindE (whenE (secret = []) (Errf ''credentials.%s.secret is required'' [name])) (\<lambda>_.
         bindE (whenE (\<not> secretNameRegex secret)
           (Errf ''credentials.%s.secret %q must be a secret name reference (not a secret value)'' [name, secret])) (\<lambda>_.
         whenE (CHR 0x0A \<in> set secret \<or> strContains secret ''BEGIN '')
           (Errf ''credentials.%s.secret must be a secret name reference, not embedded material'' [name])))))"

definition validateRepository :: "workspace \<Rightarrow> string \<Rightarrow> repository \<Rightarrow> gerr + unit" where
  "validateRepository ws name repo =
     bindE (validateResourceName ''repositories'' name) (\<lambda>_.
     bindE (whenE (blank (repo_Provider repo)) (Errf ''repositories.%s.provider is required'' [name])) (\<lambda>_.
     bindE (whenE (blank (repo_Repository repo)) (Errf ''repositories.%s.repository is required'' [name])) (\<lambda>_.
     bindE (let sc = trimSpace (repo_SourceControl repo)
            in whenE (sc \<noteq> [] \<and> \<not> HasSourceControlConnection ws sc)
                 (Errf ''repositories.%s.source_control %q: unknown source_control connection'' [name, sc])) (\<lambda>_.
     validateRepositoryPermissions name (repo_Permissions repo)))))"

definition checkSourceControlRef :: "string \<Rightarrow> workspace \<Rightarrow> string \<Rightarrow> connection \<Rightarrow> gerr + unit" where
  "checkSourceControlRef path ws name conn =
     (let sc = trimSpace (conn_SourceControl conn)
      in whenE (sc \<noteq> [] \<and> \<not> HasSourceControlConnection ws sc)
           (Errf ''%s.%s.source_control %q: unknown source_control connection'' [path, name, sc]))"

definition restrictionsOf :: "string \<Rightarrow> string \<Rightarrow> connection \<Rightarrow> gerr + unit" where
  "restrictionsOf path name conn =
     validateCapabilityRestrictions (path @ CHR ''.'' # name) (conn_Provider conn) (conn_CapabilityRestrictions conn)"

definition validatePipeline :: "workspace \<Rightarrow> string \<Rightarrow> pipeline \<Rightarrow> gerr + unit" where
  "validatePipeline ws name pipe =
     bindE (validateResourceName ''ci.pipelines'' name) (\<lambda>_.
     bindE (whenE (blank (pipe_Connection pipe)) (Errf ''ci.pipelines.%s.connection is required'' [name])) (\<lambda>_.
     bindE (whenE (\<not> HasCIConnection ws (pipe_Connection pipe))
       (Errf ''ci.pipelines.%s.connection %q: unknown ci connection'' [name, pipe_Connection pipe])) (\<lambda>_.
     bindE (whenE (blank (pipe_Repository pipe)) (Errf ''ci.pipelines.%s.repository is required'' [name])) (\<lambda>_.
     whenE (\<not> HasRepository ws (pipe_Repository pipe))
       (Errf ''ci.pipelines.%s.repository %q: unknown repository'' [name, pipe_Repository pipe])))))"

definition validateKnowledgeSource :: "string \<Rightarrow> knowledge_source \<Rightarrow> workspace \<Rightarrow> gerr + unit" where
  "validateKnowledgeSource name source ws =
     bindE (validateResourceName ''knowledge.sources'' name) (\<lambda>_.
     (let path = ''knowledge.sources.'' @ name;
          kind = trimSpace (ks_Type source);
          scope = trimSpace (ks_Scope source);
          files = (kind = ''workspace_files'' \<or> kind = ''repository_files'')
      in bindE (if files \<or> kind = ''retrieval'' then Inr ()
                else if kind = [] then Inl (Errf ''%s.type is required'' [path])
                else Inl (Errf ''%s.type %q is unsupported'' [path, kind])) (\<lambda>_.
         bindE (whenE (scope \<noteq> ''organization'' \<and> scope \<noteq> ''repository'')
           (Errf ''%s.scope %q must be %q or %q'' [path, scope, ''organization'', ''repository''])) (\<lambda>_.
         bindE (if kind = ''retrieval'' then
                  bindE (whenE (blank (ks_Connection source))
                    (Errf ''%s.connection is required for retrieval'' [path])) (\<lambda>_.
                  whenE (\<not> HasKnowledgeConnection ws (ks_Connection source))
                    (Errf ''%s.connection %q: unknown knowledge connection'' [path, ks_Connection source]))
                else whenE (\<not> blank (ks_Connection source))
                  (Errf ''%s.connection is only valid for retrieval'' [path])) (\<lambda>_.
         bindE (if files then
                  bindE (whenE (ks_Paths source = []) (Errf ''%s.paths is required for %s'' [path, kind])) (\<lambda>_.
                  forIdxE (\<lambda>i raw.
                    (let p = trimSpace raw
                     in whenE (p = [] \<or> hasPrefix p ''/'' \<or> pathClean p \<noteq> p \<or> hasParentPathSegment p)
                          (Errf (''%s.paths[%d] %q must be a non-empty relative path without '' @ CHR 0x27 # ''..'' @ [CHR 0x27])
                             [path, utoa i, p])))
                    0 (ks_Paths source))
                else Inr ()) (\<lambda>_.
         bindE (whenE (kind \<noteq> ''repository_files'' \<and> ks_Repositories source \<noteq> [])
           (Errf ''%s.repositories is only valid for repository_files'' [path])) (\<lambda>_.
         forIdxE (\<lambda>i repo.
           whenE (\<not> HasRepository ws repo)
             (Errf ''%s.repositories[%d] %q: unknown repository'' [path, utoa i, repo]))
           0 (ks_Repositories source))))))))"

definition resolveAll :: "(string \<times> connection) list \<Rightarrow> (string \<times> capmap) list" where
  "resolveAll cs = map (\<lambda>(n, c). (n, ResolveCapabilities (conn_Provider c) (conn_CapabilityRestrictions c))) cs"

definition validateCIBlock :: "workspace \<Rightarrow> ci_block \<Rightarrow> gerr + (string \<times> capmap) list" where
  "validateCIBlock ws b =
     bindE (forE (\<lambda>(n, c).
       bindE (validateConnection ''ci.connections'' n c ws) (\<lambda>_.
       bindE (checkSourceControlRef ''ci.connections'' ws n c) (\<lambda>_.
       restrictionsOf ''ci.connections'' n c))) (ci_Connections b)) (\<lambda>_.
     bindE (forE (\<lambda>(n, p). validatePipeline ws n p) (ci_Pipelines b)) (\<lambda>_.
     Inr (resolveAll (ci_Connections b))))"

definition validateIssueTrackers :: "workspace \<Rightarrow> (string \<times> connection) list \<Rightarrow> gerr + (string \<times> capmap) list" where
  "validateIssueTrackers ws cs =
     bindE (forE (\<lambda>(n, c).
       bindE (validateConnection ''issue_trackers.connections'' n c ws) (\<lambda>_.
       restrictionsOf ''issue_trackers.connections'' n c)) cs) (\<lambda>_. Inr (resolveAll cs))"

definition validateReviewSystems :: "workspace \<Rightarrow> (string \<times> connection) list \<Rightarrow> gerr + (string \<times> capmap) list" where
  "validateReviewSystems ws cs =
     bindE (forE (\<lambda>(n, c).
       bindE (validateConnection ''review_systems.connections'' n c ws) (\<lambda>_.
       bindE (checkSourceControlRef ''review_systems.connections'' ws n c) (\<lambda>_.
       restrictionsOf ''review_systems.connections'' n c))) cs) (\<lambda>_. Inr (resolveAll cs))"

definition validateKnowledge :: "workspace \<Rightarrow> knowledge_block \<Rightarrow> gerr + unit" where
  "validateKnowledge ws b =
     bindE (forE (\<lambda>(n, c). validateConnection ''knowledge.connections'' n c ws) (kb_Connections b)) (\<lambda>_.
     forE (\<lambda>(n, s). validateKnowledgeSource n s ws) (kb_Sources b))"

definition validateExecution :: "execution option \<Rightarrow> gerr + capmap" where
  "validateExecution e =
     (case e of
        None \<Rightarrow> Inr []
      | Some x \<Rightarrow>
          (let provider = trimSpace (exec_Provider x)
           in bindE (whenE (provider = []) (Errf ''execution.provider is required'' [])) (\<lambda>_.
              bindE (validateCapabilityRestrictions ''execution'' provider (exec_CapabilityRestrictions x)) (\<lambda>_.
              Inr (ResolveCapabilities provider (exec_CapabilityRestrictions x))))))"

definition optE :: "'a option \<Rightarrow> 'b \<Rightarrow> ('a \<Rightarrow> gerr + 'b) \<Rightarrow> gerr + 'b" where
  "optE x d f = (case x of None \<Rightarrow> Inr d | Some y \<Rightarrow> f y)"

definition ValidateWorkspace :: "(workspace \<Rightarrow> gerr + string) \<Rightarrow> workspace \<Rightarrow> gerr + resolved_workspace" where
  "ValidateWorkspace revisionOf ws =
     bindE (whenE (\<not> IsV2 (SchemaVersionString (ws_SchemaVersion ws)))
       (Errf ''workspace schema_version %q is not v2'' [SchemaVersionString (ws_SchemaVersion ws)])) (\<lambda>_.
     bindE (whenE (blank (ws_Name ws)) (Errf ''workspace name is required'' [])) (\<lambda>_.
     bindE (forE (\<lambda>(n, c). validateCredential n c) (ws_Credentials ws)) (\<lambda>_.
     bindE (forE (\<lambda>(n, c). validateConnection ''source_control.connections'' n c ws)
       (connectionsOf (ws_SourceControl ws))) (\<lambda>_.
     bindE (forE (\<lambda>(n, r). validateRepository ws n r) (ws_Repositories ws)) (\<lambda>_.
     bindE (optE (ws_CI ws) [] (validateCIBlock ws)) (\<lambda>resolvedCI.
     bindE (optE (ws_IssueTrackers ws) [] (validateIssueTrackers ws)) (\<lambda>resolvedIT.
     bindE (optE (ws_ReviewSystems ws) [] (validateReviewSystems ws)) (\<lambda>resolvedRS.
     bindE (optE (ws_Knowledge ws) () (validateKnowledge ws)) (\<lambda>_.
     bindE (forE (\<lambda>(n, c). restrictionsOf ''source_control.connections'' n c)
       (connectionsOf (ws_SourceControl ws))) (\<lambda>_.
     bindE (validateExecution (ws_Execution ws)) (\<lambda>resolvedExec.
     bindE (revisionOf ws) (\<lambda>rev.
     Inr \<lparr>rw_Workspace = ws, rw_Revision = rev, rw_CICaps = resolvedCI,
          rw_SourceControl = resolveAll (connectionsOf (ws_SourceControl ws)),
          rw_IssueTrackers = resolvedIT, rw_ReviewSystems = resolvedRS, rw_ExecCaps = resolvedExec\<rparr>))))))))))))"

section \<open>What validation establishes\<close>

fun allConnections :: "workspace \<Rightarrow> (string \<times> connection) list" where
  "allConnections ws =
     connectionsOf (ws_SourceControl ws) @
     (case ws_CI ws of None \<Rightarrow> [] | Some b \<Rightarrow> ci_Connections b) @
     connectionsOf (ws_IssueTrackers ws) @ connectionsOf (ws_ReviewSystems ws) @
     (case ws_Knowledge ws of None \<Rightarrow> [] | Some b \<Rightarrow> kb_Connections b)"

definition credentials_closed :: "workspace \<Rightarrow> bool" where
  "credentials_closed ws \<longleftrightarrow>
     (\<forall>(n, c) \<in> set (allConnections ws).
        blank (conn_Credentials c) \<or> HasCredential ws (trimSpace (conn_Credentials c)))"

definition repositories_closed :: "workspace \<Rightarrow> bool" where
  "repositories_closed ws \<longleftrightarrow>
     (\<forall>(n, r) \<in> set (ws_Repositories ws).
        (blank (repo_SourceControl r) \<or> HasSourceControlConnection ws (trimSpace (repo_SourceControl r))) \<and>
        \<not> blank (repo_Provider r) \<and> \<not> blank (repo_Repository r))"

definition pipelines_closed :: "workspace \<Rightarrow> bool" where
  "pipelines_closed ws \<longleftrightarrow>
     (\<forall>b. ws_CI ws = Some b \<longrightarrow>
        (\<forall>(n, p) \<in> set (ci_Pipelines b).
           HasCIConnection ws (pipe_Connection p) \<and> HasRepository ws (pipe_Repository p)))"

definition knowledge_closed :: "workspace \<Rightarrow> bool" where
  "knowledge_closed ws \<longleftrightarrow>
     (\<forall>b. ws_Knowledge ws = Some b \<longrightarrow>
        (\<forall>(n, s) \<in> set (kb_Sources b).
           (trimSpace (ks_Type s) = ''retrieval'' \<longrightarrow> HasKnowledgeConnection ws (ks_Connection s)) \<and>
           (\<forall>r \<in> set (ks_Repositories s). HasRepository ws r)))"

text \<open>The source-control connections that CI and review-system connections name; those of issue trackers and of knowledge
  connections are looked up nowhere in the validation.\<close>

definition source_controls_closed :: "workspace \<Rightarrow> bool" where
  "source_controls_closed ws \<longleftrightarrow>
     (\<forall>(n, c) \<in> set ((case ws_CI ws of None \<Rightarrow> [] | Some b \<Rightarrow> ci_Connections b) @ connectionsOf (ws_ReviewSystems ws)).
        blank (conn_SourceControl c) \<or> HasSourceControlConnection ws (trimSpace (conn_SourceControl c)))"

definition workspace_closed :: "workspace \<Rightarrow> bool" where
  "workspace_closed ws \<longleftrightarrow>
     credentials_closed ws \<and> repositories_closed ws \<and> source_controls_closed ws \<and> pipelines_closed ws \<and>
     knowledge_closed ws"

definition secrets_are_names :: "workspace \<Rightarrow> bool" where
  "secrets_are_names ws \<longleftrightarrow> (\<forall>(n, secret) \<in> set (ws_Credentials ws). secretNameRegex (trimSpace secret))"

lemma optE_Inr_iff [go_err]:
  "optE x d f = Inr r \<longleftrightarrow> (x = None \<and> r = d \<or> (\<exists>y. x = Some y \<and> f y = Inr r))"
  by (auto simp: optE_def split: option.splits)

lemma ValidateWorkspace_steps:
  assumes "ValidateWorkspace revisionOf ws = Inr rw"
  shows "\<forall>(n, c) \<in> set (ws_Credentials ws). validateCredential n c = Inr ()"
    and "\<forall>(n, c) \<in> set (connectionsOf (ws_SourceControl ws)).
           validateConnection ''source_control.connections'' n c ws = Inr ()"
    and "\<forall>(n, r) \<in> set (ws_Repositories ws). validateRepository ws n r = Inr ()"
    and "optE (ws_CI ws) [] (validateCIBlock ws) = Inr (rw_CICaps rw)"
    and "optE (ws_IssueTrackers ws) [] (validateIssueTrackers ws) = Inr (rw_IssueTrackers rw)"
    and "optE (ws_ReviewSystems ws) [] (validateReviewSystems ws) = Inr (rw_ReviewSystems rw)"
    and "optE (ws_Knowledge ws) () (validateKnowledge ws) = Inr ()"
    and "validateExecution (ws_Execution ws) = Inr (rw_ExecCaps rw)"
    and "rw_SourceControl rw = resolveAll (connectionsOf (ws_SourceControl ws))"
    and "rw_Workspace rw = ws" and "revisionOf ws = Inr (rw_Revision rw)"
  using assms unfolding ValidateWorkspace_def by (auto simp: bindE_Inr_iff)

lemma validateConnection_credential:
  "validateConnection path n c ws = Inr () \<Longrightarrow>
     blank (conn_Credentials c) \<or> HasCredential ws (trimSpace (conn_Credentials c))"
  by (auto simp: validateConnection_def bindE_Inr_iff Let_def)

lemma validated_credentials:
  assumes "ValidateWorkspace revisionOf ws = Inr rw"
  shows "credentials_closed ws"
proof -
  note steps = ValidateWorkspace_steps [OF assms]
  have "\<exists>path. validateConnection path n c ws = Inr ()" if "(n, c) \<in> set (allConnections ws)" for n c
    using that steps(2,4-7)
    by (fastforce simp: optE_Inr_iff validateCIBlock_def validateIssueTrackers_def validateReviewSystems_def
        validateKnowledge_def connectionsOf_def bindE_Inr_iff split: option.splits)
  then show ?thesis
    unfolding credentials_closed_def using validateConnection_credential by fast
qed

lemma validated_repositories:
  "ValidateWorkspace revisionOf ws = Inr rw \<Longrightarrow> repositories_closed ws"
  using ValidateWorkspace_steps(3) [of revisionOf ws rw]
  by (fastforce simp: repositories_closed_def validateRepository_def bindE_Inr_iff Let_def)

lemma validated_pipelines:
  "ValidateWorkspace revisionOf ws = Inr rw \<Longrightarrow> pipelines_closed ws"
  using ValidateWorkspace_steps(4) [of revisionOf ws rw]
  by (fastforce simp: pipelines_closed_def optE_Inr_iff validateCIBlock_def validatePipeline_def bindE_Inr_iff)

lemma validated_source_controls:
  "ValidateWorkspace revisionOf ws = Inr rw \<Longrightarrow> source_controls_closed ws"
  using ValidateWorkspace_steps(4,6) [of revisionOf ws rw]
  by (fastforce simp: source_controls_closed_def optE_Inr_iff validateCIBlock_def validateReviewSystems_def
    checkSourceControlRef_def connectionsOf_def bindE_Inr_iff Let_def split: option.splits)

lemma knowledge_source_closed:
  assumes "validateKnowledgeSource n s ws = Inr ()"
  shows "trimSpace (ks_Type s) = ''retrieval'' \<Longrightarrow> HasKnowledgeConnection ws (ks_Connection s)"
    and "\<forall>r \<in> set (ks_Repositories s). HasRepository ws r"
  using assms by (auto simp: validateKnowledgeSource_def bindE_Inr_iff Let_def in_set_conv_nth)

lemma validated_knowledge:
  "ValidateWorkspace revisionOf ws = Inr rw \<Longrightarrow> knowledge_closed ws"
  using ValidateWorkspace_steps(7) [of revisionOf ws rw] knowledge_source_closed
  by (fastforce simp: knowledge_closed_def optE_Inr_iff validateKnowledge_def bindE_Inr_iff)

lemma validated_secrets:
  "ValidateWorkspace revisionOf ws = Inr rw \<Longrightarrow> secrets_are_names ws"
  using ValidateWorkspace_steps(1) [of revisionOf ws rw]
  by (fastforce simp: secrets_are_names_def validateCredential_def bindE_Inr_iff Let_def)

lemma fold_narrow_bounded:
  "(\<forall>c. capOn m c \<longrightarrow> capOn base c) \<Longrightarrow> capOn (fold (narrow base) rs m) c \<Longrightarrow> capOn base c"
proof (induction rs arbitrary: m)
  case Nil
  then show ?case by simp
next
  case (Cons r rs)
  have "\<forall>c. capOn (narrow base r m) c \<longrightarrow> capOn base c"
    using Cons.prems(1) by (auto simp: narrow_def capOn_def map_of_update split: prod.splits if_splits)
  with Cons show ?case by simp
qed

lemma resolve_bounded: "capOn (ResolveCapabilities p rs) c \<Longrightarrow> capOn (ProviderCapabilities p) c"
  by (auto simp: ResolveCapabilities_def Let_def intro: fold_narrow_bounded)

definition caps_bounded :: "(string \<times> connection) list \<Rightarrow> (string \<times> capmap) list \<Rightarrow> bool" where
  "caps_bounded cs rs \<longleftrightarrow>
     (\<forall>n caps k. map_of rs n = Some caps \<and> capOn caps k \<longrightarrow>
        (\<exists>c. map_of cs n = Some c \<and> capOn (ProviderCapabilities (conn_Provider c)) k))"

lemma resolveAll_bounded: "caps_bounded cs (resolveAll cs)"
proof -
  have "map_of (resolveAll cs) n =
      map_option (\<lambda>c. ResolveCapabilities (conn_Provider c) (conn_CapabilityRestrictions c)) (map_of cs n)" for n
    unfolding resolveAll_def by (simp add: map_of_map)
  then show ?thesis by (auto simp: caps_bounded_def intro: resolve_bounded)
qed

lemma validated_caps:
  assumes "ValidateWorkspace revisionOf ws = Inr rw"
  shows "caps_bounded (case ws_CI ws of None \<Rightarrow> [] | Some b \<Rightarrow> ci_Connections b) (rw_CICaps rw)"
    and "caps_bounded (connectionsOf (ws_SourceControl ws)) (rw_SourceControl rw)"
    and "caps_bounded (connectionsOf (ws_IssueTrackers ws)) (rw_IssueTrackers rw)"
    and "caps_bounded (connectionsOf (ws_ReviewSystems ws)) (rw_ReviewSystems rw)"
proof -
  note steps = ValidateWorkspace_steps(4-6,9) [OF assms]
  have nil: "resolveAll [] = []" by (simp add: resolveAll_def)
  have ci: "rw_CICaps rw = resolveAll (case ws_CI ws of None \<Rightarrow> [] | Some b \<Rightarrow> ci_Connections b)"
    using steps(1) nil by (auto simp: optE_Inr_iff validateCIBlock_def bindE_Inr_iff)
  have it: "rw_IssueTrackers rw = resolveAll (connectionsOf (ws_IssueTrackers ws))"
    using steps(2) nil by (auto simp: optE_Inr_iff validateIssueTrackers_def connectionsOf_def bindE_Inr_iff)
  have rs: "rw_ReviewSystems rw = resolveAll (connectionsOf (ws_ReviewSystems ws))"
    using steps(3) nil by (auto simp: optE_Inr_iff validateReviewSystems_def connectionsOf_def bindE_Inr_iff)
  show "caps_bounded (case ws_CI ws of None \<Rightarrow> [] | Some b \<Rightarrow> ci_Connections b) (rw_CICaps rw)"
    and "caps_bounded (connectionsOf (ws_SourceControl ws)) (rw_SourceControl rw)"
    and "caps_bounded (connectionsOf (ws_IssueTrackers ws)) (rw_IssueTrackers rw)"
    and "caps_bounded (connectionsOf (ws_ReviewSystems ws)) (rw_ReviewSystems rw)"
    unfolding ci it rs steps(4) by (rule resolveAll_bounded)+
qed

lemma validated_exec_caps:
  assumes "ValidateWorkspace revisionOf ws = Inr rw" and "capOn (rw_ExecCaps rw) k"
  shows "\<exists>e. ws_Execution ws = Some e \<and> capOn (ProviderCapabilities (trimSpace (exec_Provider e))) k"
proof (cases "ws_Execution ws")
  case None
  then show ?thesis
    using ValidateWorkspace_steps(8) [OF assms(1)] assms(2) by (simp add: validateExecution_def capOn_def)
next
  case (Some e)
  then have "rw_ExecCaps rw = ResolveCapabilities (trimSpace (exec_Provider e)) (exec_CapabilityRestrictions e)"
    using ValidateWorkspace_steps(8) [OF assms(1)] by (auto simp: validateExecution_def bindE_Inr_iff Let_def)
  then show ?thesis using assms(2) resolve_bounded Some by simp
qed

section \<open>Properties\<close>

text \<open>C5: in a workspace that passes validation these references resolve: the credentials of every connection; the source-control
  connections that repositories, CI connections and review-system connections name; the connection and the repository of
  every pipeline; the connection of every retrieval source and the repositories of every knowledge source.  Every credential
  is the name of a secret, not its value.  (The source-control field of issue-tracker and knowledge connections is not
  validated, and not claimed.)\<close>

theorem validated_workspace_closed:
  assumes "ValidateWorkspace revisionOf ws = Inr rw"
  shows "workspace_closed ws \<and> secrets_are_names ws \<and> rw_Workspace rw = ws"
  using validated_credentials [OF assms] validated_repositories [OF assms] validated_pipelines [OF assms]
    validated_source_controls [OF assms] validated_knowledge [OF assms] validated_secrets [OF assms] ValidateWorkspace_steps(10) [OF assms]
  by (simp add: workspace_closed_def)

definition demoConnection :: "string \<Rightarrow> capmap \<Rightarrow> connection" where
  "demoConnection provider restrictions =
     \<lparr>conn_Provider = provider, conn_BaseURL = [], conn_Credentials = ''token'', conn_SourceControl = [],
      conn_CapabilityRestrictions = restrictions\<rparr>"

definition demoWorkspace :: workspace where
  "demoWorkspace =
     \<lparr>ws_SchemaVersion = GInt 2, ws_Name = ''demo'',
      ws_Repositories = [(''app'', \<lparr>repo_Provider = ''github'', repo_Repository = ''acme/app'',
         repo_SourceControl = ''gh'', repo_Checkout = None, repo_Permissions = \<lparr>perm_level = ''write'', perm_granular = []\<rparr>\<rparr>)],
      ws_Execution = Some \<lparr>exec_Provider = ''docker'', exec_Nix = False, exec_Docker = True, exec_Tools = [],
         exec_CapabilityRestrictions = [(''dependency_update'', False)]\<rparr>,
      ws_Credentials = [(''token'', ''GH_TOKEN'')],
      ws_SourceControl = Some [(''gh'', demoConnection ''github'' [])],
      ws_CI = Some \<lparr>ci_Connections = [(''depot'', demoConnection ''depot'' [(''cancel_run'', False)])],
         ci_Pipelines = [(''build'', \<lparr>pipe_Connection = ''depot'', pipe_Repository = ''app'', pipe_Workflow = [],
            pipe_Project = [], pipe_Pipeline = [], pipe_Job = []\<rparr>)]\<rparr>,
      ws_IssueTrackers = None, ws_ReviewSystems = Some [(''bot'', demoConnection ''greptile'' [])],
      ws_Knowledge = Some \<lparr>kb_Connections = [],
         kb_Sources = [(''docs'', \<lparr>ks_Type = ''repository_files'', ks_Scope = ''repository'', ks_Required = True,
            ks_Connection = [], ks_Repositories = [''app''], ks_Paths = [''docs/readme.md''], ks_Query = [], ks_Parameters = []\<rparr>)]\<rparr>\<rparr>"

definition demoResolved :: resolved_workspace where
  "demoResolved = (case ValidateWorkspace (\<lambda>_. Inr ''rev'') demoWorkspace of
     Inr rw \<Rightarrow> rw
   | Inl e \<Rightarrow> \<lparr>rw_Workspace = demoWorkspace, rw_Revision = [], rw_CICaps = [], rw_SourceControl = [],
       rw_IssueTrackers = [], rw_ReviewSystems = [], rw_ExecCaps = []\<rparr>)"

lemma demoWorkspace_valid: "returns (ValidateWorkspace (\<lambda>_. Inr ''rev'') demoWorkspace)"
  by code_simp

lemma demoResolved_eq: "ValidateWorkspace (\<lambda>_. Inr ''rev'') demoWorkspace = Inr demoResolved"
  using demoWorkspace_valid unfolding returns_iff demoResolved_def by (auto split: sum.splits)

theorem validated_workspace_closed_witness:
  "workspace_closed demoWorkspace \<and> secrets_are_names demoWorkspace \<and> rw_Workspace demoResolved = demoWorkspace"
  by (rule validated_workspace_closed [OF demoResolved_eq])

text \<open>C6: the resolved view never gives a connection, or the execution block, a capability its provider lacks.\<close>

theorem resolved_workspace_bounded:
  assumes "ValidateWorkspace revisionOf ws = Inr rw"
  shows "caps_bounded (case ws_CI ws of None \<Rightarrow> [] | Some b \<Rightarrow> ci_Connections b) (rw_CICaps rw) \<and>
    caps_bounded (connectionsOf (ws_SourceControl ws)) (rw_SourceControl rw) \<and>
    caps_bounded (connectionsOf (ws_IssueTrackers ws)) (rw_IssueTrackers rw) \<and>
    caps_bounded (connectionsOf (ws_ReviewSystems ws)) (rw_ReviewSystems rw) \<and>
    (\<forall>k. capOn (rw_ExecCaps rw) k \<longrightarrow>
       (\<exists>e. ws_Execution ws = Some e \<and> capOn (ProviderCapabilities (trimSpace (exec_Provider e))) k))"
  using validated_caps [OF assms] validated_exec_caps [OF assms] by blast

theorem resolved_workspace_bounded_witness:
  "caps_bounded (case ws_CI demoWorkspace of None \<Rightarrow> [] | Some b \<Rightarrow> ci_Connections b) (rw_CICaps demoResolved)"
  using resolved_workspace_bounded [OF demoResolved_eq] by blast

end
