(* ===== verification/PredicateSoundness.thy ===== *)
theory PredicateSoundness
  imports Predicates
begin

text \<open>
  Soundness of the overlap analysis: \<open>disjointClauses a b\<close> excludes facts that match both guards.

  The statement needs two hypotheses, and the file \<open>Workflow\<close> shows why: the keys of the facts are
  non-empty and free of dots (\<open>cleanV\<close>), so that a dotted predicate key names one path; and the operands of
  the two guards are scalars that a \<^verbatim>\<open>float64\<close> represents exactly, no two of them printing alike with
  different types (\<open>operands_ok\<close>).
\<close>

section \<open>Clean facts\<close>

fun cleanV :: "gval \<Rightarrow> bool" where
  "cleanV (GMap m) = list_all (\<lambda>(k, v). k \<noteq> [] \<and> CHR ''.'' \<notin> set k \<and> cleanV v) m"
| "cleanV _ = True"

definition res :: "gmap \<Rightarrow> string \<Rightarrow> gval option" where
  "res F f = walkPath (GMap F) (splitOn (CHR ''.'') f)"

lemma walkPath_append:
  "walkPath v (p @ q) = (case walkPath v p of None \<Rightarrow> None | Some u \<Rightarrow> walkPath u q)"
  by (induction v p rule: walkPath.induct) (auto split: gval.splits option.splits)

lemma cleanV_lookup:
  assumes "cleanV (GMap m)" and "map_of m k = Some v"
  shows "k \<noteq> []" and "CHR ''.'' \<notin> set k" and "cleanV v"
proof -
  have "\<forall>x \<in> set m. case x of (k, v) \<Rightarrow> k \<noteq> [] \<and> CHR ''.'' \<notin> set k \<and> cleanV v"
    using assms(1) by (simp add: list_all_iff)
  then have "k \<noteq> [] \<and> CHR ''.'' \<notin> set k \<and> cleanV v"
    using map_of_SomeD [OF assms(2)] by fastforce
  then show "k \<noteq> []" and "CHR ''.'' \<notin> set k" and "cleanV v" by simp_all
qed

lemma walkPath_clean:
  "cleanV cur \<Longrightarrow> walkPath cur ps = Some v \<Longrightarrow>
     cleanV v \<and> (\<forall>p \<in> set ps. p \<noteq> [] \<and> CHR ''.'' \<notin> set p)"
proof (induction cur ps rule: walkPath.induct)
  case (1 cur)
  then show ?case by simp
next
  case (2 cur p ps)
  then obtain m u where "cur = GMap m" and "map_of m p = Some u" and "walkPath u ps = Some v"
    by (auto split: gval.splits option.splits)
  moreover from this have "p \<noteq> []" and "CHR ''.'' \<notin> set p" and "cleanV u"
    using cleanV_lookup [of m p u] "2.prems"(1) by simp_all
  ultimately show ?case using "2.IH" by simp
qed

lemma factLookup_clean:
  assumes "cleanV (GMap sub)"
  shows "factLookup sub k = walkPath (GMap sub) (splitOn (CHR ''.'') k)"
proof (cases "CHR ''.'' \<in> set k")
  case True
  then have "map_of sub k = None"
    using cleanV_lookup(2) [OF assms] by (cases "map_of sub k") auto
  with True show ?thesis by (simp add: factLookup_def lookupDottedPath_def)
next
  case False
  then show ?thesis by (auto simp: factLookup_def split: option.splits)
qed

lemma factLookup_fieldPath:
  assumes clean: "cleanV (GMap F)" and walk: "walkPath (GMap F) p = Some (GMap sub)"
    and prefix: "prefix = joinWith (CHR ''.'') p"
  shows "factLookup sub k = res F (fieldPath prefix k)"
proof -
  have sub: "factLookup sub k = walkPath (GMap sub) (splitOn (CHR ''.'') k)"
    using walkPath_clean [OF clean walk] by (simp add: factLookup_clean)
  show ?thesis
  proof (cases "p = []")
    case True
    then show ?thesis using walk prefix sub by (simp add: res_def fieldPath_def)
  next
    case False
    have parts: "\<forall>q \<in> set p. q \<noteq> [] \<and> CHR ''.'' \<notin> set q"
      using walkPath_clean [OF clean walk] by simp
    then have split: "splitOn (CHR ''.'') prefix = p"
      using False prefix by (simp add: splitOn_joinWith)
    have "prefix \<noteq> []"
      using False parts prefix by (cases p) (auto simp: joinWith_Cons split: list.splits elim: joinWith.elims)
    then have "splitOn (CHR ''.'') (fieldPath prefix k) = p @ splitOn (CHR ''.'') k"
      using split by (simp add: fieldPath_def dot_def splitOn_sep)
    then show ?thesis using walk sub by (simp add: res_def walkPath_append)
  qed
qed

section \<open>Operands\<close>

fun gkind :: "gval \<Rightarrow> nat" where
  "gkind (GStr _) = 0"
| "gkind (GBool _) = 1"
| "gkind (GInt _) = 2"
| "gkind (GFloat _) = 2"
| "gkind (GFrac _) = 3"
| "gkind GNil = 4"
| "gkind _ = 5"

definition kinds_agree :: "gval \<Rightarrow> gval \<Rightarrow> bool" where
  "kinds_agree x y \<longleftrightarrow> stringifyValue x = stringifyValue y \<longrightarrow> gkind x = gkind y"

definition operands_ok :: "gval list \<Rightarrow> bool" where
  "operands_ok A \<longleftrightarrow> list_all plain A \<and> list_all (\<lambda>x. list_all (kinds_agree x) A) A"

fun opOperands :: "string \<Rightarrow> gval \<Rightarrow> gval list" where
  "opOperands op v =
     (if op = ''equals'' \<or> op = ''not_equals'' then [v]
      else if op = ''in'' \<or> op = ''not_in'' then (case v of GList vs \<Rightarrow> vs | _ \<Rightarrow> [])
      else [])"

function (sequential) entryOperands :: "gmap \<Rightarrow> gval list"
  and itemOperands :: "gval list \<Rightarrow> gval list"
  and constraintOperands :: "gval \<Rightarrow> gval list"
where
  "entryOperands [] = []"
| "entryOperands ((k, v) # rest) =
     (if k = ''all'' \<or> k = ''any'' then (case v of GList items \<Rightarrow> itemOperands items | _ \<Rightarrow> [])
      else constraintOperands v) @ entryOperands rest"
| "itemOperands [] = []"
| "itemOperands (item # items) =
     (case item of GMap child \<Rightarrow> entryOperands child | _ \<Rightarrow> []) @ itemOperands items"
| "constraintOperands v =
     (case v of
        GMap c \<Rightarrow> if hasOperator c then concat (map (\<lambda>(op, x). opOperands op x) c) else entryOperands c
      | _ \<Rightarrow> [v])"
  by pat_completeness auto
termination
  by (relation "measure (\<lambda>x. case x of
       Inl m \<Rightarrow> 3 * gmsz m
     | Inr (Inl vs) \<Rightarrow> 3 * glsz vs
     | Inr (Inr v) \<Rightarrow> 3 * gsz v)")
     (auto split: gval.splits)

declare constraintOperands.simps [simp del]

lemma operands_ok_plain: "operands_ok A \<Longrightarrow> x \<in> set A \<Longrightarrow> plain x"
  by (simp add: operands_ok_def list_all_iff)

lemma operands_ok_kind:
  assumes "operands_ok A" and "x \<in> set A" and "y \<in> set A"
    and "stringifyValue x = stringifyValue y"
  shows "gkind x = gkind y"
proof -
  have "kinds_agree x y" using assms(1-3) by (simp add: operands_ok_def list_all_iff)
  then show ?thesis using assms(4) by (simp only: kinds_agree_def)
qed

lemma stringify_simps:
  "stringifyValue GNil = ''<nil>''"
  "stringifyValue (GStr s) = s"
  "stringifyValue (GInt i) = itoa i"
  "stringifyValue (GFrac t) = t"
  "stringifyValue (GBool b) = (if b then ''true'' else ''false'')"
  by (simp_all add: stringifyValue_def)

lemma num_string_inj:
  assumes "plain x" and "plain y" and "gkind x = 2" and "gkind y = 2"
    and "stringifyValue x = stringifyValue y"
  shows "numericValue x = numericValue y"
proof -
  have "\<exists>i. numericValue z = Some (NInt i) \<and> stringifyValue z = itoa i"
    if "plain z" "gkind z = 2" for z
    using that by (cases z) (simp_all add: stringify_simps plain_GFloat_string)
  with assms show ?thesis by (metis itoa_inj)
qed

lemma kind_string_inj:
  assumes "plain x" and "plain y" and "gkind x = gkind y" and "gkind x \<noteq> 2"
    and "stringifyValue x = stringifyValue y"
  shows "x = y"
proof (cases x)
  case (GBool b)
  with assms obtain c where "y = GBool c" by (cases y) simp_all
  with GBool assms show ?thesis by (cases b; cases c) (simp_all add: stringify_simps)
qed (use assms in \<open>cases y; simp add: stringify_simps\<close>)+

lemma interchange:
  assumes "operands_ok A" and "x \<in> set A" and "y \<in> set A"
    and "stringifyValue x = stringifyValue y" and "valuesEqual v x"
  shows "valuesEqual v y"
proof -
  note k = operands_ok_kind [OF assms(1-4)] operands_ok_plain [OF assms(1,2)] operands_ok_plain [OF assms(1,3)]
  show ?thesis
  proof (cases "gkind x = 2")
    case True
    then have n: "numericValue x = numericValue y" using num_string_inj [OF k(2,3)] k(1) assms(4) by simp
    obtain m where m: "numericValue x = Some m" using True by (cases x) simp_all
    then have "numericValue v = Some m" using valuesEqual_plain_num [OF k(2)] assms(5) by blast
    moreover have "numericValue y = Some m" using n m by simp
    ultimately show ?thesis by (simp add: valuesEqual_def)
  next
    case False
    then have "x = y" using kind_string_inj [OF k(2,3,1)] assms(4) by blast
    then show ?thesis using assms(5) by simp
  qed
qed

section \<open>What a constraint says of the value at its field\<close>

fun sat :: "gval list \<Rightarrow> fieldConstraint \<Rightarrow> gval option \<Rightarrow> bool" where
  "sat A (FEquals x) actual \<longleftrightarrow> x \<in> set A \<and> actualEquals actual x"
| "sat A (FNotEquals x) actual \<longleftrightarrow> x \<in> set A \<and> \<not> actualEquals actual x"
| "sat A (FIn s) actual \<longleftrightarrow> (\<exists>x \<in> set A. stringifyValue x \<in> set s \<and> actualEquals actual x)"
| "sat A (FNotIn s) actual \<longleftrightarrow> (\<forall>x \<in> set A. stringifyValue x \<in> set s \<longrightarrow> \<not> actualEquals actual x)"
| "sat A (FExists b) actual \<longleftrightarrow> (actual \<noteq> None) = b"
| "sat A FUnknown actual \<longleftrightarrow> True"

lemma actualEquals_Some: "actualEquals actual x \<longleftrightarrow> (\<exists>v. actual = Some v \<and> valuesEqual v x)"
  by (auto simp: actualEquals_def split: option.splits)

lemma actualEquals_string:
  assumes "operands_ok A" and "x \<in> set A" and "y \<in> set A"
    and "actualEquals actual x" and "actualEquals actual y"
  shows "stringifyValue x = stringifyValue y"
proof -
  have "plain x" "plain y" using assms(1-3) operands_ok_plain by blast+
  moreover obtain v where "actual = Some v" "valuesEqual v x" "valuesEqual v y"
    using assms(4,5) by (auto simp: actualEquals_Some)
  ultimately show ?thesis using valuesEqual_string_determined by blast
qed

lemma actualEquals_interchange:
  "operands_ok A \<Longrightarrow> x \<in> set A \<Longrightarrow> y \<in> set A \<Longrightarrow> stringifyValue x = stringifyValue y \<Longrightarrow>
     actualEquals actual x \<Longrightarrow> actualEquals actual y"
  unfolding actualEquals_Some using interchange by blast

lemma constraintsOverlap_disjoint:
  assumes "operands_ok A" and "\<not> fst (constraintsOverlap f a b)" and "sat A a v" and "sat A b v"
  shows False
proof -
  have S: "stringifyValue x = stringifyValue y"
    if "actualEquals v x" "actualEquals v y" "x \<in> set A" "y \<in> set A" for x y
    using that actualEquals_string [OF assms(1)] by blast
  have I: "actualEquals v y"
    if "stringifyValue x = stringifyValue y" "actualEquals v x" "x \<in> set A" "y \<in> set A" for x y
    using that actualEquals_interchange [OF assms(1)] by blast
  show ?thesis
    using assms(2-4)
    by (cases a; cases b; simp add: find_None_iff split: if_splits option.splits; metis S I)
qed

lemma conjoin_sat:
  "conjoinConstraints a b = Some c \<Longrightarrow> sat A a v \<Longrightarrow> sat A b v \<Longrightarrow> sat A c v"
  by (induction a b rule: conjoinConstraints.induct) (auto split: if_splits)

lemma stringSet_mem: "s \<in> set (stringSet items) \<longleftrightarrow> (\<exists>x \<in> set items. s = stringifyValue x)"
  by (auto simp: stringSet_def)

lemma parse_sat:
  assumes ok: "operands_ok A" and parse: "parseConstraint op v = Some c"
    and run: "constraintOp op v actual = Inr True" and sub: "set (opOperands op v) \<subseteq> set A"
  shows "sat A c actual"
proof -
  consider "op = ''equals''" | "op = ''not_equals''" | "op = ''in''" | "op = ''not_in''" | "op = ''exists''"
    using parse by (auto simp: parseConstraint_def split: if_splits)
  then show ?thesis
  proof cases
    case 3
    then obtain items where "v = GList items" and "c = FIn (stringSet items)"
      using parse by (auto simp: parseConstraint_def split: gval.splits)
    then show ?thesis using 3 run sub
      by (auto simp: constraintOp_def list_ex_iff stringSet_mem split: if_splits)
  next
    case 4
    then obtain items where v: "v = GList items" "c = FNotIn (stringSet items)"
      using parse by (auto simp: parseConstraint_def split: gval.splits)
    then have none: "\<forall>y \<in> set items. \<not> actualEquals actual y"
      using 4 run by (auto simp: constraintOp_def list_ex_iff)
    have "set items \<subseteq> set A" using 4 sub v by simp
    then have "\<not> actualEquals actual x" if "x \<in> set A" "stringifyValue x \<in> set (stringSet items)" for x
      using that none actualEquals_interchange [OF ok, of x] unfolding stringSet_mem by blast
    then show ?thesis using v by simp
  qed (use parse run sub in \<open>auto simp: parseConstraint_def constraintOp_def split: gval.splits\<close>)
qed

lemma conjoinAll_sat:
  assumes "operands_ok A" and "conjoinAll acc m = Some r"
    and "\<forall>(k, v) \<in> set m. constraintOp k v actual = Inr True \<and> set (opOperands k v) \<subseteq> set A"
    and "\<forall>a. acc = Some a \<longrightarrow> sat A a actual"
  shows "\<forall>c. r = Some c \<longrightarrow> sat A c actual"
  using assms(2-)
proof (induction acc m rule: conjoinAll.induct)
  case (1 acc)
  then show ?case by simp
next
  case (2 acc k v rest)
  obtain c where c: "parseConstraint k v = Some c"
    using "2.prems"(1) by (auto split: option.splits)
  have sat: "sat A c actual" using parse_sat [OF assms(1) c] "2.prems"(2) by simp
  show ?case
  proof (cases acc)
    case None
    then show ?thesis using "2.IH"(1) [OF c] "2.prems" c sat by simp
  next
    case (Some a)
    then obtain merged where merged: "conjoinConstraints a c = Some merged"
      using "2.prems"(1) c by (auto split: option.splits)
    then have "sat A merged actual" using conjoin_sat sat Some "2.prems"(3) by blast
    then show ?thesis using "2.IH"(2) [OF c Some merged] "2.prems" c Some merged by simp
  qed
qed

section \<open>Soundness of the flattening\<close>

definition holds :: "gval list \<Rightarrow> gmap \<Rightarrow> constraints \<Rightarrow> bool" where
  "holds A F out \<longleftrightarrow> (\<forall>f c. (f, c) \<in> set out \<longrightarrow> sat A c (res F f))"

lemma set_update_subset: "set (AList.update k v m) \<subseteq> insert (k, v) (set m)"
  by (induction m) auto

lemma holds_update: "holds A F out \<Longrightarrow> sat A c (res F f) \<Longrightarrow> holds A F (AList.update f c out)"
  using set_update_subset unfolding holds_def by fastforce

lemma holds_lookup: "holds A F out \<Longrightarrow> map_of out f = Some c \<Longrightarrow> sat A c (res F f)"
  using map_of_SomeD unfolding holds_def by fast

lemma parse_operator: "parseConstraint k v = Some c \<Longrightarrow> isConstraintOperator k"
  by (auto simp: parseConstraint_def isConstraintOperator_def split: if_splits)

lemma operator_allowed: "isConstraintOperator k \<Longrightarrow> allowedOp k"
  by (auto simp: isConstraintOperator_def allowedPredicateOps_def)

lemma all_any_allowed: "\<not> allowedOp k \<Longrightarrow> k \<noteq> ''all'' \<and> k \<noteq> ''any''"
  by (auto simp: allowedPredicateOps_def)

lemma constraintOperands_ops:
  "hasOperator c \<Longrightarrow> (k, v) \<in> set c \<Longrightarrow> set (opOperands k v) \<subseteq> set (constraintOperands (GMap c))"
  unfolding constraintOperands.simps by (auto simp del: opOperands.simps)

lemma constraintOperands_nested: "\<not> hasOperator c \<Longrightarrow> constraintOperands (GMap c) = entryOperands c"
  by (simp add: constraintOperands.simps)

lemma matchConstraint_field:
  assumes match: "matchConstraint (GMap c) actual = Inr True" and "\<not> list_all (\<lambda>(k, v). allowedOp k) c"
  obtains am where "actual = Some (GMap am)" and "matchPredicateMap c am = Inr True" and "\<not> hasOperator c"
proof -
  have "\<not> hasOperator c"
  proof
    assume "hasOperator c"
    then have "unsupportedOps c = Inr ()"
      using match by (auto simp: matchConstraint.simps bindE_Inr_iff split: if_splits)
    then have "list_all (\<lambda>(k, v). allowedOp k) c"
      using operator_allowed by (fastforce simp: unsupportedOps_def list_all_iff)
    with assms(2) show False by simp
  qed
  then show ?thesis using match that by (blast elim: matchConstraint_nested)
qed

definition predicateOperands :: "gmap \<Rightarrow> gval list" where
  "predicateOperands m = entryOperands m"

lemma conjoinAll_hasOperator: "conjoinAll acc m = Some r \<Longrightarrow> m \<noteq> [] \<Longrightarrow> hasOperator m"
  using parse_operator by (cases m) (auto simp: hasOperator_def split: option.splits)

text \<open>The operator arm of \<open>absorbConstraint\<close>: one operator is conjoined, several replace the entry.\<close>

lemma absorb_operators:
  assumes ok: "operands_ok A"
    and absorb: "absorbConstraint field (GMap m) out = Some out'" and ops: "list_all (\<lambda>(k, v). allowedOp k) m"
    and match: "matchConstraint (GMap m) (res F field) = Inr True"
    and sub: "set (constraintOperands (GMap m)) \<subseteq> set A" and out: "holds A F out"
  shows "holds A F out'"
proof (cases "\<exists>k v. m = [(k, v)]")
  case True
  then obtain k v where m: "m = [(k, v)]" by blast
  then obtain c where c: "parseConstraint k v = Some c"
    using absorb ops by (auto simp: absorbConstraint.simps split: option.splits)
  have has: "hasOperator m" and mem: "(k, v) \<in> set m"
    using m parse_operator [OF c] by (simp_all add: hasOperator_def)
  have "set (opOperands k v) \<subseteq> set A" using constraintOperands_ops [OF has mem] sub by (rule subset_trans)
  then have "sat A c (res F field)"
    by (rule parse_sat [OF ok c matchConstraint_ops [OF match mem]])
  then show ?thesis
    using absorb ops m c out conjoin_sat holds_lookup [OF out, of field]
    by (auto simp: absorbConstraint.simps split: option.splits intro!: holds_update)
next
  case False
  then obtain r where r: "conjoinAll None m = Some r"
    and out': "out' = (case r of None \<Rightarrow> out | Some c \<Rightarrow> AList.update field c out)"
    using absorb ops by (auto simp: absorbConstraint.simps split: list.splits option.splits)
  have "\<forall>(k, v) \<in> set m. constraintOp k v (res F field) = Inr True \<and> set (opOperands k v) \<subseteq> set A"
  proof (cases m)
    case (Cons e es)
    then have "hasOperator m" using conjoinAll_hasOperator [OF r] by simp
    then show ?thesis using matchConstraint_ops [OF match] constraintOperands_ops sub by blast
  qed simp
  then have "\<forall>c. r = Some c \<longrightarrow> sat A c (res F field)"
    using conjoinAll_sat [OF ok r] by simp
  then show ?thesis using out out' holds_update by (auto split: option.splits)
qed

lemma res_walk:
  assumes clean: "cleanV (GMap F)" and r: "res F f = Some (GMap am)"
  shows "walkPath (GMap F) (splitOn (CHR ''.'') f) = Some (GMap am)"
    and "f = joinWith (CHR ''.'') (splitOn (CHR ''.'') f)"
  using r by (simp_all add: res_def joinWith_splitOn)

lemma flatten_holds:
  assumes ok: "operands_ok A" and clean: "cleanV (GMap F)"
  shows "flattenPredicates prefix node out = Some out' \<Longrightarrow> node = GMap m \<Longrightarrow>
      walkPath (GMap F) p = Some (GMap sub) \<Longrightarrow> prefix = joinWith (CHR ''.'') p \<Longrightarrow>
      matchPredicateMap m sub = Inr True \<Longrightarrow> set (entryOperands m) \<subseteq> set A \<Longrightarrow>
      holds A F out \<Longrightarrow> holds A F out'"
    and "flattenItems prefix items out = Some out' \<Longrightarrow>
      walkPath (GMap F) p = Some (GMap sub) \<Longrightarrow> prefix = joinWith (CHR ''.'') p \<Longrightarrow>
      matchAll items sub = Inr True \<Longrightarrow> set (itemOperands items) \<subseteq> set A \<Longrightarrow>
      holds A F out \<Longrightarrow> holds A F out'"
    and "flattenFields prefix m' out = Some out' \<Longrightarrow>
      walkPath (GMap F) p = Some (GMap sub) \<Longrightarrow> prefix = joinWith (CHR ''.'') p \<Longrightarrow>
      matchPredicateMap m' sub = Inr True \<Longrightarrow> set (entryOperands m') \<subseteq> set A \<Longrightarrow>
      holds A F out \<Longrightarrow> holds A F out'"
    and "absorbConstraint field node out = Some out' \<Longrightarrow>
      matchConstraint node (res F field) = Inr True \<Longrightarrow> set (constraintOperands node) \<subseteq> set A \<Longrightarrow>
      holds A F out \<Longrightarrow> holds A F out'"
proof (induction prefix node out and prefix items out and prefix m' out and field node out
    arbitrary: m p sub out' and p sub out' and p sub out' and out'
    rule: flattenPredicates_flattenItems_flattenFields_absorbConstraint.induct)
  case (1 prefix node out)
  note IH = "1.IH" and prems = "1.prems"
  have entry: "matchConstraint v (res F (fieldPath prefix k)) = Inr True"
    if "(k, v) \<in> set m" "\<not> allowedOp k" for k v
  proof -
    have "matchEntry k v sub = Inr True" using prems(5) that by (auto simp: matchPredicateMap_True)
    then show ?thesis
      using all_any_allowed [OF that(2)] factLookup_fieldPath [OF clean prems(3,4)]
      by (simp add: matchEntry.simps)
  qed
  show ?case
  proof (cases "\<exists>k v. m = [(k, v)]")
    case True
    then obtain k v where m: "m = [(k, v)]" by blast
    show ?thesis
    proof (cases "k = ''all''")
      case True
      with prems m obtain items where v: "v = GList items" "flattenItems prefix items out = Some out'"
        by (auto simp: flattenPredicates.simps split: gval.splits)
      show ?thesis
        using IH(2) [OF prems(2) m refl refl True v(1) v(2) prems(3,4)] True m v prems(5-7)
        by (simp add: matchEntry.simps bindE_Inr_iff split: if_splits)
    next
      case False
      then have k: "\<not> allowedOp k" "absorbConstraint (fieldPath prefix k) v out = Some out'"
        using prems m by (auto simp: flattenPredicates.simps split: if_splits)
      show ?thesis
        using IH(3) [OF prems(2) m refl refl False k(1) k(2)] entry k prems(6,7) m all_any_allowed by simp
    qed
  next
    case False
    then have fields: "''any'' \<notin> fst ` set m" "flattenFields prefix m out = Some out'"
      using prems(1,2) by (auto simp: flattenPredicates.simps split: list.splits if_splits)
    show ?thesis
    proof (cases m)
      case Nil
      show ?thesis using IH(1) [OF prems(2) Nil fields prems(3-7)] .
    next
      case (Cons e es)
      then obtain e' es' where es: "es = e' # es'"
        using False by (cases e; cases es) auto
      obtain k v where e: "(k, v) = e" by (cases e) simp
      show ?thesis using IH(4) [OF prems(2) Cons e es fields prems(3-7)] .
    qed
  qed
next
  case (2 prefix out)
  then show ?case by simp
next
  case (3 prefix item items out)
  obtain child where item: "item = GMap child" and match: "matchPredicateMap child sub = Inr True"
    "matchAll items sub = Inr True"
    using "3.prems"(4) by (auto simp: bindE_Inr_iff split: gval.splits if_splits)
  obtain o1 where o1: "flattenPredicates prefix item out = Some o1"
    using "3.prems"(1) by (auto split: option.splits)
  have "holds A F o1"
    using "3.IH"(1) [OF o1 item "3.prems"(2,3) match(1)] "3.prems"(5,6) item by simp
  then show ?case
    using "3.IH"(2) [OF o1 _ "3.prems"(2,3) match(2)] "3.prems"(1,5) o1 by simp
next
  case (4 prefix out)
  then show ?case by simp
next
  case (5 prefix k v rest out)
  have k: "\<not> allowedOp k" using "5.prems"(1) by (auto split: if_splits)
  obtain o1 where o1: "absorbConstraint (fieldPath prefix k) v out = Some o1"
    using "5.prems"(1) by (auto split: option.splits if_splits)
  have match: "matchEntry k v sub = Inr True" "matchPredicateMap rest sub = Inr True"
    using "5.prems"(4) by (auto simp: bindE_Inr_iff split: if_splits)
  then have "matchConstraint v (res F (fieldPath prefix k)) = Inr True"
    using all_any_allowed [OF k] factLookup_fieldPath [OF clean "5.prems"(2,3)]
    by (simp add: matchEntry.simps)
  then have "holds A F o1"
    using "5.IH"(1) [OF k o1] "5.prems"(5,6) all_any_allowed [OF k] by simp
  then show ?case
    using "5.IH"(2) [OF k o1 _ "5.prems"(2,3) match(2)] "5.prems"(1,5) o1 k by simp
next
  case (6 field node out)
  note IH = "6.IH" and prems = "6.prems"
  show ?case
  proof (cases "\<exists>m. node = GMap m")
    case False
    then have scalar: "out' = AList.update field (FEquals node) out" "constraintOperands node = [node]"
      using prems(1) by (auto simp: absorbConstraint.simps constraintOperands.simps split: gval.splits)
    moreover have "actualEquals (res F field) node"
      using False prems(2) by (simp add: matchConstraint_scalar)
    ultimately show ?thesis using prems(3,4) holds_update by simp
  next
    case True
    then obtain m where node: "node = GMap m" by blast
    show ?thesis
    proof (cases "list_all (\<lambda>(k, v). allowedOp k) m")
      case True
      then show ?thesis using absorb_operators [OF ok] prems node by blast
    next
      case False
      then have flat: "flattenPredicates field node out = Some out'"
        using prems(1) node by (auto simp: absorbConstraint.simps split: list.splits)
      obtain am where am: "res F field = Some (GMap am)" "matchPredicateMap m am = Inr True" "\<not> hasOperator m"
        using matchConstraint_field [OF _ False] prems(2) node by metis
      have sub: "set (entryOperands m) \<subseteq> set A"
        using prems(3) am(3) node by (simp add: constraintOperands_nested)
      note flat_IH = flat node res_walk [OF clean am(1)] am(2) sub prems(4)
      show ?thesis
      proof (cases m)
        case Nil
        then show ?thesis using False by simp
      next
        case (Cons e es)
        obtain k v where e: "(k, v) = e" by (cases e) simp
        show ?thesis
        proof (cases es)
          case Nil
          then have k: "\<not> allowedOp k" using False Cons e by auto
          show ?thesis using IH(2) [OF node Cons e Nil k flat_IH] .
        next
          case (Cons e' es')
          show ?thesis using IH(3) [OF node \<open>m = e # es\<close> e Cons False flat_IH] .
        qed
      qed
    qed
  qed
qed

text \<open>
  The analysis of one guard: every constraint it collects holds of any clean facts that match the guard.
\<close>

lemma collect_sound:
  assumes "operands_ok A" and "cleanV (GMap F)" and "collectFieldConstraints a = Some fa"
    and "matchPredicateMap a F = Inr True" and "set (predicateOperands a) \<subseteq> set A"
  shows "holds A F fa"
  using flatten_holds(1) [OF assms(1,2), of "[]" "GMap a" "[]" fa a "[]" F] assms(3-)
  by (simp add: collectFieldConstraints_def predicateOperands_def holds_def)

text \<open>Two guards found disjoint never match the same facts.\<close>

lemma disjoint_sound:
  assumes "disjointClauses a b" and "cleanV (GMap F)"
    and ok: "operands_ok (predicateOperands a @ predicateOperands b)"
    and "MatchPredicate a F = Inr True" and "MatchPredicate b F = Inr True"
  shows False
proof -
  let ?A = "predicateOperands a @ predicateOperands b"
  obtain fa fb f ca cb where "collectFieldConstraints a = Some fa" "collectFieldConstraints b = Some fb"
    and inn: "(f, ca) \<in> set fa" "(f, cb) \<in> set fb" and disj: "\<not> fst (constraintsOverlap f ca cb)"
    by (rule disjointClausesE [OF assms(1)])
  then have "holds ?A F fa" "holds ?A F fb"
    using collect_sound [OF ok assms(2)] assms(4,5) by simp_all
  then have "sat ?A ca (res F f)" "sat ?A cb (res F f)"
    using inn unfolding holds_def by blast+
  then show False by (rule constraintsOverlap_disjoint [OF ok disj])
qed

lemma operands_ok_subset: "operands_ok B \<Longrightarrow> set A \<subseteq> set B \<Longrightarrow> operands_ok A"
  unfolding operands_ok_def list_all_iff by blast

section \<open>Properties\<close>

text \<open>C1: two guards that \<open>ClausesOverlap\<close> declares disjoint never match the same facts, under two conditions: the facts
  have no empty or dotted keys at any depth, and the operands of the two guards are plain scalars (numbers exact in
  \<^verbatim>\<open>float64\<close>) no two of which print alike but have different types.  Without the second the
  statement is false, as \<open>overlap_analysis_confuses_types\<close> below shows.\<close>

theorem disjoint_guards_never_both_match:
  assumes "disjointClauses a b" and "cleanV (GMap facts)"
    and "operands_ok (predicateOperands a @ predicateOperands b)"
  shows "\<not> (MatchPredicate a facts = Inr True \<and> MatchPredicate b facts = Inr True)"
  using disjoint_sound [OF assms] by blast

definition guardA :: gmap where
  "guardA = [(''pull_request.state'', GMap [(''in'', GList [GStr ''open'', GStr ''draft''])]),
             (''work'', GMap [(''attempts'', GMap [(''equals'', GInt 1)])])]"

definition guardB :: gmap where
  "guardB = [(''pull_request.state'', GStr ''open''), (''work.attempts'', GMap [(''not_in'', GList [GInt 1, GInt 2])])]"

definition guardFacts :: gmap where
  "guardFacts = [(''pull_request'', GMap [(''state'', GStr ''open'')]), (''work'', GMap [(''attempts'', GFloat 1)])]"

theorem disjoint_guards_witness:
  "disjointClauses guardA guardB \<and> MatchPredicate guardA guardFacts = Inr True \<and>
   MatchPredicate guardB guardFacts \<noteq> Inr True"
proof -
  have d: "disjointClauses guardA guardB" by code_simp
  have c: "cleanV (GMap guardFacts)" by code_simp
  have o: "operands_ok (predicateOperands guardA @ predicateOperands guardB)" by code_simp
  have m: "MatchPredicate guardA guardFacts = Inr True" by code_simp
  show ?thesis using d m disjoint_guards_never_both_match [OF d c o] by blast
qed

text \<open>Why the operands need a condition: the analysis compares operands by their printed text, so it declares \<^verbatim>\<open>equals: "1"\<close> and
  \<^verbatim>\<open>not_equals: 1\<close> disjoint although the string \<^verbatim>\<open>"1"\<close> matches both; and two integers beyond the
  exact range of a \<^verbatim>\<open>float64\<close> are declared disjoint although the evaluator identifies them.\<close>

lemma overlap_analysis_confuses_types:
  "disjointClauses [(''x'', GMap [(''equals'', GStr ''1'')])] [(''x'', GMap [(''not_equals'', GInt 1)])] \<and>
   MatchPredicate [(''x'', GMap [(''equals'', GStr ''1'')])] [(''x'', GStr ''1'')] = Inr True \<and>
   MatchPredicate [(''x'', GMap [(''not_equals'', GInt 1)])] [(''x'', GStr ''1'')] = Inr True \<and>
   disjointClauses [(''x'', GInt 9007199254740992)] [(''x'', GInt 9007199254740993)] \<and>
   MatchPredicate [(''x'', GInt 9007199254740992)] [(''x'', GFloat 9007199254740992)] = Inr True \<and>
   MatchPredicate [(''x'', GInt 9007199254740993)] [(''x'', GFloat 9007199254740992)] = Inr True"
  by code_simp

end
