(* ===== verification/Workflow.thy ===== *)
theory Workflow
  imports Workspace PredicateSoundness
begin

text \<open>
  Workflow documents: \<^verbatim>\<open>pkg/types/v2/workflow.go\<close> and \<^verbatim>\<open>workflow_validate.go\<close>.

  Structs are records, a nil pointer is \<open>None\<close>, a nil map or slice is the empty list (the code never tells the
  two apart here).  The cron parser, the time-zone database, \<^verbatim>\<open>time.ParseDuration\<close> and the content
  digest are the fields of the parameter \<open>doc_env\<close>: the first is a third-party package, the second reads
  host data.

  Validation of each part is its own definition and \<open>ValidateWorkflow\<close> composes them in the order of the code.
  The error prefix \<^verbatim>\<open>workflow %q: %w\<close> is \<open>wrapE\<close>.
\<close>

section \<open>The document\<close>

record state_actions =
  sa_Assert :: gmap
  sa_Effects :: "gmap list"
  sa_Set :: gmap

record wf_state =
  st_Phase :: string
  st_Terminal :: bool
  st_Invariant :: gmap
  st_OnEnter :: "state_actions option"

record wf_transition =
  tr_From :: gval
  tr_On :: string
  tr_When :: gmap
  tr_To :: string
  tr_Assert :: gmap
  tr_Set :: gmap
  tr_Effects :: "gmap list"

record wf_command =
  cmd_From :: gval
  cmd_To :: string
  cmd_RequireReason :: bool

record pr_delivery =
  pd_Required :: bool
  pd_Minimum :: int
  pd_CIPolicy :: string
  pd_ReviewPolicy :: string
  pd_Completion :: string

record event_clause =
  ec_From :: gval
  ec_When :: gmap
  ec_Assert :: gmap
  ec_Set :: gmap
  ec_Effects :: "gmap list"
  ec_Ignore :: bool

record cron_trigger =
  ct_Schedule :: string
  ct_Timezone :: string
  ct_OverlapPolicy :: string
  ct_Timeout :: string

record workflow_trigger =
  wt_Cron :: "cron_trigger option"

record workflow_delivery =
  wd_PullRequests :: "pr_delivery option"

record workflow =
  wf_SchemaVersion :: gval
  wf_Name :: string
  wf_Enabled :: bool
  wf_ManualTrigger :: bool
  wf_InitialState :: string
  wf_States :: "(string \<times> wf_state) list"
  wf_Transitions :: "(string \<times> wf_transition) list"
  wf_Commands :: "(string \<times> wf_command) list"
  wf_CI :: "(string \<times> gmap) list option"
  wf_Review :: "(string \<times> gmap) list option"
  wf_Delivery :: "workflow_delivery option"
  wf_Events :: "(string \<times> event_clause list) list"
  wf_Trigger :: "workflow_trigger option"

record resolved_workflow =
  rwf_Workflow :: workflow
  rwf_Revision :: string

record doc_env =
  parseCronSchedule :: "string \<Rightarrow> gerr + unit"
  loadLocation :: "string \<Rightarrow> gerr + unit"
  parseDuration :: "string \<Rightarrow> gerr + int"
  revisionOfWorkflow :: "workflow \<Rightarrow> gerr + string"
  revisionOfWorkspace :: "workspace \<Rightarrow> gerr + string"

definition IsDisplayPhase :: "string \<Rightarrow> bool" where
  "IsDisplayPhase phase \<longleftrightarrow>
     phase \<in> set [''setup'', ''context'', ''plan'', ''build'', ''test'', ''pr'', ''review'', ''done'']"

fun fromItems :: "nat \<Rightarrow> gval list \<Rightarrow> gerr + string list" where
  "fromItems i [] = Inr []"
| "fromItems i (item # items) =
     (case item of
        GStr s \<Rightarrow>
          if blank s then Inl (Errf ''from[%d] must be a non-empty string'' [utoa i])
          else bindE (fromItems (Suc i) items) (\<lambda>out. Inr (s # out))
      | _ \<Rightarrow> Inl (Errf ''from[%d] must be a non-empty string'' [utoa i]))"

definition FromStates :: "gval \<Rightarrow> gerr + string list" where
  "FromStates from =
     (case from of
        GNil \<Rightarrow> Inl (Errf ''from is required'' [])
      | GStr v \<Rightarrow> if blank v then Inl (Errf ''from cannot be empty'' []) else Inr [v]
      | GList items \<Rightarrow>
          bindE (fromItems 0 items) (\<lambda>out.
          if out = [] then Inl (Errf ''from cannot be empty'' []) else Inr out)
      | _ \<Rightarrow> Inl (Errf ''from must be a string or list of strings'' []))"

section \<open>Fact keys and transcript guards\<close>

definition protectedNamespaces :: "string list" where
  "protectedNamespaces =
     [''ci.'', ''pull_request.'', ''review.'', ''effects.'', ''workflow.'', ''operator.'', ''exec.'']"

definition writableNamespaces :: "string list" where
  "writableNamespaces = [''work.'', ''custom.'']"

definition inNamespace :: "string \<Rightarrow> string \<Rightarrow> bool" where
  "inNamespace key p \<longleftrightarrow> key = (if hasSuffix p ''.'' then butlast p else p) \<or> hasPrefix key p"

definition checkFactKeyWritable :: "string \<Rightarrow> string \<Rightarrow> gerr + unit" where
  "checkFactKeyWritable path raw =
     (let key = trimSpace raw
      in bindE (whenE (key = []) (Errf ''%s: empty fact key'' [path])) (\<lambda>_.
         bindE (whenE (list_ex (inNamespace key) protectedNamespaces)
           (Errf ''%s: cannot write protected namespace %q (workflow may only write work.* or custom.*)'' [path, key])) (\<lambda>_.
         whenE (\<not> list_ex (inNamespace key) writableNamespaces)
           (Errf ''%s: fact key %q must be under work.* or custom.*'' [path, key]))))"

definition validateFactWrites :: "string \<Rightarrow> gmap \<Rightarrow> gmap \<Rightarrow> gerr + unit" where
  "validateFactWrites path asserts sets =
     forE (\<lambda>facts. forE (\<lambda>(key, v). checkFactKeyWritable path key) facts) [asserts, sets]"

definition validateEffectsShape :: "string \<Rightarrow> gmap list \<Rightarrow> gerr + unit" where
  "validateEffectsShape path effects =
     forIdxE (\<lambda>i eff.
       bindE (whenE (eff = []) (Errf ''%s[%d]: empty effect'' [path, utoa i])) (\<lambda>_.
       whenE (length eff \<noteq> 1) (Errf ''%s[%d]: effect must have exactly one operation key'' [path, utoa i])))
       0 effects"

definition isTranscriptEvent :: "string \<Rightarrow> bool" where
  "isTranscriptEvent ev \<longleftrightarrow>
     list_ex (hasPrefix (toLower (trimSpace ev)))
       [''message.'', ''conversation.'', ''transcript.'', ''chat.'', ''agent.message'', ''claw.message'']"

definition isTranscriptFact :: "string \<Rightarrow> bool" where
  "isTranscriptFact key \<longleftrightarrow>
     (let f = toLower (trimSpace key)
      in list_ex (\<lambda>p. f = p \<or> hasPrefix f (p @ ''.''))
           [''message'', ''conversation'', ''transcript'', ''chat'', ''agent.message'', ''claw.message''])"

function (sequential) walkNoTranscriptFacts :: "string \<Rightarrow> string \<Rightarrow> gval \<Rightarrow> gerr + unit"
  and walkNoTranscriptEntries :: "string \<Rightarrow> string \<Rightarrow> gmap \<Rightarrow> gerr + unit"
  and walkNoTranscriptItems :: "string \<Rightarrow> string \<Rightarrow> gval list \<Rightarrow> gerr + unit"
where
  "walkNoTranscriptFacts path prefix node =
     (case node of
        GMap m \<Rightarrow> walkNoTranscriptEntries path prefix m
      | GList items \<Rightarrow> walkNoTranscriptItems path prefix items
      | _ \<Rightarrow> Inr ())"
| "walkNoTranscriptEntries path prefix [] = Inr ()"
| "walkNoTranscriptEntries path prefix ((key, child) # rest) =
     (let fk = (if prefix \<noteq> [] then dot prefix key else key)
      in bindE (whenE (isTranscriptFact key \<or> isTranscriptFact fk)
           (Errf ''%s: conversation/transcript fact %q cannot control workflow v2'' [path, fk])) (\<lambda>_.
         bindE (walkNoTranscriptFacts path fk child) (\<lambda>_.
         walkNoTranscriptEntries path prefix rest)))"
| "walkNoTranscriptItems path prefix [] = Inr ()"
| "walkNoTranscriptItems path prefix (child # rest) =
     bindE (walkNoTranscriptFacts path prefix child) (\<lambda>_. walkNoTranscriptItems path prefix rest)"
  by pat_completeness auto
termination
  by (relation "measure (\<lambda>x. case x of
       Inl (_, _, v) \<Rightarrow> 3 * gsz v
     | Inr (Inl (_, _, m)) \<Rightarrow> 3 * gmsz m + 1
     | Inr (Inr (_, _, vs)) \<Rightarrow> 3 * glsz vs + 1)")
     (auto split: gval.splits)

declare walkNoTranscriptFacts.simps [simp del]

definition validateNoTranscriptFacts :: "string \<Rightarrow> gmap \<Rightarrow> gerr + unit" where
  "validateNoTranscriptFacts path node = walkNoTranscriptFacts path [] (GMap node)"

section \<open>Overlapping guards\<close>

definition FormatOverlapError :: "string \<Rightarrow> string \<Rightarrow> string list \<Rightarrow> overlapWitness option \<Rightarrow> string" where
  "FormatOverlapError ctxt state clausePaths witness =
     ctxt @ (if state \<noteq> [] then '' has overlapping clauses for state '' @ [CHR 0x22] @ state @ [CHR 0x22] @ [CHR 0x0A]
             else '' has overlapping clauses'' @ [CHR 0x0A]) @
     concat (map (\<lambda>(i, p). CHR 0x0A # ''clause '' @ utoa (i + 1) @ '' path: '' @ p)
       (enumerate 0 clausePaths)) @
     (case witness of
        None \<Rightarrow> []
      | Some w \<Rightarrow> [CHR 0x0A, CHR 0x0A] @ ''both clauses may match '' @ ow_field w @ '' = '' @ ow_value w)"

text \<open>The nested loops over \<^verbatim>\<open>i < j\<close>.\<close>

fun pairsE :: "('a \<Rightarrow> 'a \<Rightarrow> gerr + unit) \<Rightarrow> 'a list \<Rightarrow> gerr + unit" where
  "pairsE f [] = Inr ()"
| "pairsE f (x # xs) = bindE (forE (f x) xs) (\<lambda>_. pairsE f xs)"

text \<open>\<^verbatim>\<open>groups[k] = append(groups[k], x)\<close>\<close>

definition addTo :: "'k \<Rightarrow> 'v \<Rightarrow> ('k \<times> 'v list) list \<Rightarrow> ('k \<times> 'v list) list" where
  "addTo k x m = (case map_of m k of None \<Rightarrow> AList.update k [x] m | Some xs \<Rightarrow> AList.update k (xs @ [x]) m)"

type_synonym overlap_groups = "((string \<times> string) \<times> (string \<times> gmap) list) list"

fun groupTransitions :: "(string \<times> wf_transition) list \<Rightarrow> overlap_groups \<Rightarrow> gerr + overlap_groups" where
  "groupTransitions [] groups = Inr groups"
| "groupTransitions ((name, tr) # rest) groups =
     bindE (FromStates (tr_From tr)) (\<lambda>fromStates.
     groupTransitions rest
       (fold (\<lambda>fs. addTo (fs, trimSpace (tr_On tr)) (name, tr_When tr)) fromStates groups))"

definition overlapCheck :: "(string \<Rightarrow> string \<Rightarrow> overlapWitness option \<Rightarrow> gerr) \<Rightarrow>
    string \<times> gmap \<Rightarrow> string \<times> gmap \<Rightarrow> gerr + unit" where
  "overlapCheck err a b =
     (let (overlap, witness) = ClausesOverlap (snd a) (snd b)
      in whenE overlap (err (fst a) (fst b) witness))"

definition transitionOverlapError :: "string \<times> string \<Rightarrow> string \<Rightarrow> string \<Rightarrow> overlapWitness option \<Rightarrow> gerr" where
  "transitionOverlapError k n1 n2 witness =
     Errf ''%s'' [FormatOverlapError
       (if snd k = [] then ''transitions from state '' @ [CHR 0x22] @ fst k @ [CHR 0x22]
        else ''transitions from state '' @ [CHR 0x22] @ fst k @ [CHR 0x22] @ '' on '' @ [CHR 0x22] @ snd k @ [CHR 0x22])
       (fst k) [''transitions.'' @ n1, ''transitions.'' @ n2] witness]"

definition validateTransitionOverlaps :: "workflow \<Rightarrow> gerr + unit" where
  "validateTransitionOverlaps w =
     bindE (groupTransitions (wf_Transitions w) []) (\<lambda>groups.
     forE (\<lambda>(k, items).
       if length items < 2 then Inr () else pairsE (overlapCheck (transitionOverlapError k)) items) groups)"

fun groupClauses :: "nat \<Rightarrow> event_clause list \<Rightarrow> (string \<times> (string \<times> gmap) list) list \<Rightarrow>
    gerr + (string \<times> (string \<times> gmap) list) list" where
  "groupClauses i [] byState = Inr byState"
| "groupClauses i (clause # rest) byState =
     bindE (FromStates (ec_From clause)) (\<lambda>fromStates.
     groupClauses (Suc i) rest (fold (\<lambda>fs. addTo fs (utoa i, ec_When clause)) fromStates byState))"

definition clauseOverlapError :: "string \<Rightarrow> string \<Rightarrow> string \<Rightarrow> string \<Rightarrow> string \<Rightarrow> overlapWitness option \<Rightarrow> gerr" where
  "clauseOverlapError workflowName eventName state i j witness =
     Errf ''workflow %q: %s'' [workflowName, FormatOverlapError (''event '' @ [CHR 0x22] @ eventName @ [CHR 0x22]) state
       [''events.'' @ eventName @ ''.clauses['' @ i @ '']'', ''events.'' @ eventName @ ''.clauses['' @ j @ '']'']
       witness]"

definition validateEventClauseOverlaps :: "string \<Rightarrow> string \<Rightarrow> event_clause list \<Rightarrow> gerr + unit" where
  "validateEventClauseOverlaps workflowName eventName clauses =
     bindE (groupClauses 0 clauses []) (\<lambda>byState.
     forE (\<lambda>(state, items).
       if length items < 2 then Inr ()
       else pairsE (overlapCheck (clauseOverlapError workflowName eventName state)) items) byState)"

section \<open>Evidence policies\<close>

definition evidencePolicyMap :: "gval \<Rightarrow> gmap option" where
  "evidencePolicyMap v = (case v of GMap m \<Rightarrow> Some m | _ \<Rightarrow> None)"

text \<open>The pair of the code; an integer from \<open>2\<^sup>6\<^sup>3\<close> on is a \<^verbatim>\<open>uint64\<close> and wraps in the conversion to \<^verbatim>\<open>int\<close>.\<close>

definition policyNonNegativeInteger :: "gval \<Rightarrow> int \<times> bool" where
  "policyNonNegativeInteger v =
     (case v of
        GInt i \<Rightarrow> if 2 ^ 63 \<le> i then (i - 2 ^ 64, True) else (i, 0 \<le> i)
      | GFloat j \<Rightarrow> if - (2 ^ 63) \<le> j \<and> j < 2 ^ 63 then (j, 0 \<le> j) else (- (2 ^ 63), False)
      | _ \<Rightarrow> (0, False))"

definition strField :: "gmap \<Rightarrow> string \<Rightarrow> string" where
  "strField m k = (case map_of m k of Some (GStr s) \<Rightarrow> s | _ \<Rightarrow> [])"

definition policyOperator :: "string \<Rightarrow> gmap \<Rightarrow> gerr + string" where
  "policyOperator path m =
     (case filter (hasKey m) [''all'', ''any'', ''not''] of
        [] \<Rightarrow> Inr []
      | [op] \<Rightarrow> Inr op
      | op # cand # _ \<Rightarrow> Inl (Errf ''%s cannot combine policy operators %q and %q'' [path, op, cand]))"

definition policyMetadata :: "string \<Rightarrow> bool \<Rightarrow> string list" where
  "policyMetadata mode root =
     (if root \<and> mode = ''ci'' then [''satisfied_for''] else []) @
     (if root \<and> mode = ''review'' then [''invalidate_on_new_head''] else [])"

definition checkMetadata :: "string \<Rightarrow> gmap \<Rightarrow> string \<Rightarrow> gerr + unit" where
  "checkMetadata path m mode =
     bindE (case map_of m ''satisfied_for'' of
              None \<Rightarrow> Inr ()
            | Some raw \<Rightarrow> whenE (mode \<noteq> ''ci'' \<or> raw \<noteq> GStr ''current_pr_head'')
                (Errf ''%s.satisfied_for must be %q'' [path, ''current_pr_head''])) (\<lambda>_.
     (case map_of m ''invalidate_on_new_head'' of
        None \<Rightarrow> Inr ()
      | Some raw \<Rightarrow> whenE (mode \<noteq> ''review'' \<or> raw \<noteq> GBool True)
          (Errf ''%s.invalidate_on_new_head must be true'' [path])))"

definition onlyKeys :: "gmap \<Rightarrow> string list \<Rightarrow> (string \<Rightarrow> gerr) \<Rightarrow> gerr + unit" where
  "onlyKeys m allowed err = forE (\<lambda>(k, v). whenE (k \<notin> set allowed) (err k)) m"

definition validateCILeaf :: "string \<Rightarrow> gmap \<Rightarrow> string list \<Rightarrow> gerr + unit" where
  "validateCILeaf path m metadata =
     bindE (onlyKeys m (''pipeline'' # ''checks'' # metadata)
       (\<lambda>k. Errf ''%s: unsupported CI policy field %q'' [path, k])) (\<lambda>_.
     bindE (whenE (blank (strField m ''pipeline'')) (Errf ''%s.pipeline is required'' [path])) (\<lambda>_.
     (case map_of m ''checks'' of
        Some (GList checks) \<Rightarrow>
          bindE (whenE (checks = []) (Errf ''%s.checks must be a non-empty list'' [path])) (\<lambda>_.
          forIdxE (\<lambda>i check.
            whenE (case check of GStr s \<Rightarrow> blank s | _ \<Rightarrow> True)
              (Errf ''%s.checks[%d] must be a non-empty string'' [path, utoa i])) 0 checks)
      | _ \<Rightarrow> Inl (Errf ''%s.checks must be a non-empty list'' [path]))))"

definition validateReviewLeaf :: "string \<Rightarrow> gmap \<Rightarrow> string list \<Rightarrow> gerr + unit" where
  "validateReviewLeaf path m metadata =
     bindE (onlyKeys m (''connection'' # ''approvals'' # metadata)
       (\<lambda>k. Errf ''%s: unsupported review policy field %q'' [path, k])) (\<lambda>_.
     bindE (whenE (blank (strField m ''connection'')) (Errf ''%s.connection is required'' [path])) (\<lambda>_.
     (case map_of m ''approvals'' of
        Some (GMap approvals) \<Rightarrow>
          bindE (onlyKeys approvals [''minimum'']
            (\<lambda>k. Errf ''%s.approvals: unsupported field %q'' [path, k])) (\<lambda>_.
          (let (minimum, ok) = policyNonNegativeInteger
                 (case map_of approvals ''minimum'' of None \<Rightarrow> GNil | Some v \<Rightarrow> v)
           in whenE (\<not> ok \<or> minimum < 0)
                (Errf ''%s.approvals.minimum must be a non-negative integer'' [path])))
      | _ \<Rightarrow> Inl (Errf ''%s.approvals is required'' [path]))))"

lemma map_of_gmsz: "map_of m k = Some v \<Longrightarrow> gsz v < gmsz m"
  by (induction m) (auto split: if_splits)

function (sequential) validateEvidencePolicyNode :: "string \<Rightarrow> gval \<Rightarrow> string \<Rightarrow> bool \<Rightarrow> gerr + unit"
  and validatePolicyItems :: "string \<Rightarrow> nat \<Rightarrow> gval list \<Rightarrow> string \<Rightarrow> gerr + unit"
where
  "validateEvidencePolicyNode path node mode root =
     (case node of
        GMap m \<Rightarrow>
          if m = [] then Inl (Errf ''%s must be a non-empty policy object'' [path])
          else
            bindE (policyOperator path m) (\<lambda>operator.
            bindE (checkMetadata path m mode) (\<lambda>_.
            if operator \<noteq> [] then
              bindE (onlyKeys m (operator # policyMetadata mode root)
                (\<lambda>k. Errf ''%s: unsupported field %q beside %s'' [path, k, operator])) (\<lambda>_.
              (case map_of m operator of
                 None \<Rightarrow> Inr ()
               | Some operand \<Rightarrow>
                   if operator = ''not'' then
                     validateEvidencePolicyNode (path @ ''.not'') operand mode False
                   else
                     (case operand of
                        GList items \<Rightarrow>
                          bindE (whenE (items = []) (Errf ''%s.%s must be a non-empty list'' [path, operator])) (\<lambda>_.
                          validatePolicyItems (dot path operator) 0 items mode)
                      | _ \<Rightarrow> Inl (Errf ''%s.%s must be a non-empty list'' [path, operator]))))
            else if mode = ''ci'' then validateCILeaf path m (policyMetadata mode root)
            else validateReviewLeaf path m (policyMetadata mode root)))
      | _ \<Rightarrow> Inl (Errf ''%s must be a non-empty policy object'' [path]))"
| "validatePolicyItems path i [] mode = Inr ()"
| "validatePolicyItems path i (item # items) mode =
     bindE (validateEvidencePolicyNode (idx path i) item mode False) (\<lambda>_.
     validatePolicyItems path (Suc i) items mode)"
  by pat_completeness auto
termination
  by (relation "measure (\<lambda>x. case x of
       Inl (_, v, _, _) \<Rightarrow> 2 * gsz v
     | Inr (_, _, vs, _) \<Rightarrow> 2 * glsz vs + 1)")
     (auto dest: map_of_gmsz split: gval.splits)

declare validateEvidencePolicyNode.simps [simp del]

definition validateEvidencePolicy :: "string \<Rightarrow> gmap \<Rightarrow> string \<Rightarrow> gerr + unit" where
  "validateEvidencePolicy path policy mode = validateEvidencePolicyNode path (GMap policy) mode True"

section \<open>Validation of a workflow\<close>

definition wfE :: "workflow \<Rightarrow> gerr + 'a \<Rightarrow> gerr + 'a" where
  "wfE w m = wrapE ''workflow %q: %w'' [wf_Name w] m"

definition validateState :: "workflow \<Rightarrow> string \<Rightarrow> wf_state \<Rightarrow> gerr + unit" where
  "validateState w name st =
     bindE (wfE w (validateResourceName ''states'' name)) (\<lambda>_.
     bindE (case st_OnEnter st of
              None \<Rightarrow> Inr ()
            | Some a \<Rightarrow>
                bindE (wfE w (validateFactWrites (''states.'' @ name @ ''.on_enter'') (sa_Assert a) (sa_Set a))) (\<lambda>_.
                bindE (wfE w (validateEffectsShape (''states.'' @ name @ ''.on_enter.effects'') (sa_Effects a))) (\<lambda>_.
                whenE (st_Terminal st \<and> sa_Effects a \<noteq> [])
                  (Errf ''workflow %q: states.%s.on_enter: terminal states cannot have effects'' [wf_Name w, name])))) (\<lambda>_.
     bindE (whenE (st_Phase st \<noteq> [] \<and> \<not> IsDisplayPhase (st_Phase st))
       (Errf ''workflow %q: states.%s.phase %q is unsupported'' [wf_Name w, name, st_Phase st])) (\<lambda>_.
     bindE (whenE (wf_Enabled w \<and> st_Phase st = [])
       (Errf ''workflow %q: states.%s.phase is required when the workflow is enabled'' [wf_Name w, name])) (\<lambda>_.
     wfE w (validateNoTranscriptFacts (''states.'' @ name @ ''.invariant'') (st_Invariant st))))))"

text \<open>The checks a transition and a command share: every source exists and is not terminal, the target exists.\<close>

definition checkSource :: "workflow \<Rightarrow> string \<Rightarrow> string \<Rightarrow> gerr + unit" where
  "checkSource w path fs =
     (case map_of (wf_States w) fs of
        None \<Rightarrow> Inl (Errf ''workflow %q: %s.from %q: unknown state'' [wf_Name w, path, fs])
      | Some st \<Rightarrow> whenE (st_Terminal st)
          (Errf ''workflow %q: %s.from %q: terminal states cannot have outgoing transitions'' [wf_Name w, path, fs]))"

definition checkTarget :: "workflow \<Rightarrow> string \<Rightarrow> string \<Rightarrow> gerr + wf_state" where
  "checkTarget w path target =
     bindE (whenE (blank target) (Errf ''workflow %q: %s.to is required'' [wf_Name w, path])) (\<lambda>_.
     (case map_of (wf_States w) target of
        None \<Rightarrow> Inl (Errf ''workflow %q: %s.to %q: unknown state'' [wf_Name w, path, target])
      | Some st \<Rightarrow> Inr st))"

definition validateTransition :: "workflow \<Rightarrow> string \<Rightarrow> wf_transition \<Rightarrow> gerr + unit" where
  "validateTransition w name tr =
     (let path = ''transitions.'' @ name
      in bindE (wfE w (validateResourceName ''transitions'' name)) (\<lambda>_.
         bindE (wrapE ''workflow %q: %s.from: %w'' [wf_Name w, path] (FromStates (tr_From tr))) (\<lambda>fromStates.
         bindE (forE (checkSource w path) fromStates) (\<lambda>_.
         bindE (checkTarget w path (tr_To tr)) (\<lambda>target.
         bindE (whenE (st_Terminal target \<and> tr_Effects tr \<noteq> [])
           (Errf ''workflow %q: %s: transitions to terminal state %q cannot have effects'' [wf_Name w, path, tr_To tr])) (\<lambda>_.
         bindE (whenE (isTranscriptEvent (tr_On tr))
           (Errf ''workflow %q: %s.on %q: conversation/transcript events cannot control workflow v2''
              [wf_Name w, path, tr_On tr])) (\<lambda>_.
         bindE (wfE w (validateNoTranscriptFacts (path @ ''.when'') (tr_When tr))) (\<lambda>_.
         bindE (wfE w (ValidatePredicateTree (path @ ''.when'') (tr_When tr))) (\<lambda>_.
         bindE (wfE w (validateFactWrites path (tr_Assert tr) (tr_Set tr))) (\<lambda>_.
         wfE w (validateEffectsShape (path @ ''.effects'') (tr_Effects tr))))))))))))"

definition validateCommand :: "workflow \<Rightarrow> string \<Rightarrow> wf_command \<Rightarrow> gerr + unit" where
  "validateCommand w name cmd =
     (let path = ''commands.'' @ name
      in bindE (wfE w (validateResourceName ''commands'' name)) (\<lambda>_.
         bindE (wrapE ''workflow %q: %s.from: %w'' [wf_Name w, path] (FromStates (cmd_From cmd))) (\<lambda>fromStates.
         bindE (forE (checkSource w path) fromStates) (\<lambda>_.
         bindE (checkTarget w path (cmd_To cmd)) (\<lambda>_. Inr ())))))"

definition validateClause :: "workflow \<Rightarrow> string \<Rightarrow> nat \<Rightarrow> event_clause \<Rightarrow> gerr + unit" where
  "validateClause w eventName i clause =
     (let path = ''events.'' @ eventName @ ''.clauses['' @ utoa i @ '']''
      in bindE (wrapE ''workflow %q: %s.from: %w (from is required)'' [wf_Name w, path] (FromStates (ec_From clause))) (\<lambda>fromStates.
         bindE (forE (\<lambda>fs. whenE (\<not> hasKey (wf_States w) fs)
           (Errf ''workflow %q: %s.from %q: unknown state'' [wf_Name w, path, fs])) fromStates) (\<lambda>_.
         bindE (wfE w (ValidatePredicateTree (path @ ''.when'') (ec_When clause))) (\<lambda>_.
         bindE (wfE w (validateNoTranscriptFacts (path @ ''.when'') (ec_When clause))) (\<lambda>_.
         bindE (wfE w (validateFactWrites path (ec_Assert clause) (ec_Set clause))) (\<lambda>_.
         wfE w (validateEffectsShape (path @ ''.effects'') (ec_Effects clause))))))))"

definition validateEvent :: "workflow \<Rightarrow> string \<Rightarrow> event_clause list \<Rightarrow> gerr + unit" where
  "validateEvent w eventName clauses =
     bindE (whenE (isTranscriptEvent eventName)
       (Errf ''workflow %q: event %q: conversation/transcript events cannot control workflow v2''
          [wf_Name w, eventName])) (\<lambda>_.
     bindE (forIdxE (validateClause w eventName) 0 clauses) (\<lambda>_.
     validateEventClauseOverlaps (wf_Name w) eventName clauses))"

definition validatePolicies :: "workflow \<Rightarrow> string \<Rightarrow> string \<Rightarrow> (string \<times> gmap) list option \<Rightarrow> gerr + unit" where
  "validatePolicies w sect mode block =
     optE block () (forE (\<lambda>(name, policy).
       bindE (wfE w (validateResourceName sect name)) (\<lambda>_.
       wfE w (validateEvidencePolicy (sect @ CHR ''.'' # name) policy mode))))"

definition validateTrigger :: "doc_env \<Rightarrow> workflow \<Rightarrow> gerr + unit" where
  "validateTrigger env w =
     (case wf_Trigger w of
        None \<Rightarrow> Inr ()
      | Some t \<Rightarrow>
          (case wt_Cron t of
             None \<Rightarrow> Inl (Errf ''trigger: only cron is supported'' [])
           | Some ct \<Rightarrow>
               bindE (whenE (blank (ct_Schedule ct)) (Errf ''trigger.cron.schedule is required'' [])) (\<lambda>_.
               bindE (wrapE ''trigger.cron.schedule %q is invalid: %w'' [ct_Schedule ct]
                 (parseCronSchedule env (ct_Schedule ct))) (\<lambda>_.
               bindE (whenE (ct_OverlapPolicy ct \<notin> set [[], ''skip'', ''parallel''])
                 (Errf ''trigger.cron.overlap_policy %q is invalid (must be skip or parallel)'' [ct_OverlapPolicy ct])) (\<lambda>_.
               bindE (if ct_Timezone ct = [] then Inr ()
                      else wrapE ''trigger.cron.timezone %q is invalid: %w'' [ct_Timezone ct]
                        (loadLocation env (ct_Timezone ct))) (\<lambda>_.
               if ct_Timeout ct = [] then Inr ()
               else bindE (wrapE ''trigger.cron.timeout %q is invalid: %w'' [ct_Timeout ct]
                      (parseDuration env (ct_Timeout ct))) (\<lambda>_. Inr ())))))))"

definition checkPolicyRef :: "string \<Rightarrow> string \<Rightarrow> (string \<times> gmap) list option \<Rightarrow> string \<Rightarrow> gerr + unit" where
  "checkPolicyRef field mode block name =
     (if name = [] then Inr ()
      else case block of
          None \<Rightarrow> Inl (Errf ''delivery.pull_requests.%s %q: workflow has no %s policies'' [field, name, mode])
        | Some ps \<Rightarrow> whenE (\<not> hasKey ps name)
            (Errf ''delivery.pull_requests.%s %q: unknown %s policy'' [field, name, mode]))"

definition validateDelivery :: "workflow \<Rightarrow> gerr + unit" where
  "validateDelivery w =
     (case wf_Delivery w of
        None \<Rightarrow> Inr ()
      | Some d \<Rightarrow>
          (case wd_PullRequests d of
             None \<Rightarrow> Inr ()
           | Some pr \<Rightarrow>
               bindE (whenE (pd_Minimum pr < 0) (Errf ''delivery.pull_requests.minimum cannot be negative'' [])) (\<lambda>_.
               bindE (whenE (pd_Required pr \<and> pd_Minimum pr = 0)
                 (Errf ''delivery.pull_requests.minimum must be at least 1 when required'' [])) (\<lambda>_.
               bindE (whenE (pd_Completion pr \<noteq> [] \<and> pd_Completion pr \<noteq> ''all_merged'')
                 (Errf ''delivery.pull_requests.completion %q is unsupported'' [pd_Completion pr])) (\<lambda>_.
               bindE (checkPolicyRef ''ci_policy'' ''ci'' (wf_CI w) (pd_CIPolicy pr)) (\<lambda>_.
               checkPolicyRef ''review_policy'' ''review'' (wf_Review w) (pd_ReviewPolicy pr)))))))"

definition ValidateWorkflow :: "doc_env \<Rightarrow> workflow \<Rightarrow> gerr + resolved_workflow" where
  "ValidateWorkflow env w =
     bindE (whenE (\<not> IsV2 (SchemaVersionString (wf_SchemaVersion w)))
       (Errf ''workflow schema_version %q is not v2'' [SchemaVersionString (wf_SchemaVersion w)])) (\<lambda>_.
     bindE (whenE (blank (wf_Name w)) (Errf ''workflow name is required'' [])) (\<lambda>_.
     bindE (whenE (blank (wf_InitialState w)) (Errf ''workflow %q: initial_state is required'' [wf_Name w])) (\<lambda>_.
     bindE (whenE (wf_States w = []) (Errf ''workflow %q: states is required'' [wf_Name w])) (\<lambda>_.
     bindE (whenE (\<not> hasKey (wf_States w) (wf_InitialState w))
       (Errf ''workflow %q: initial_state %q is not defined in states'' [wf_Name w, wf_InitialState w])) (\<lambda>_.
     bindE (forE (\<lambda>(name, st). validateState w name st) (wf_States w)) (\<lambda>_.
     bindE (forE (\<lambda>(name, tr). validateTransition w name tr) (wf_Transitions w)) (\<lambda>_.
     bindE (wfE w (validateTransitionOverlaps w)) (\<lambda>_.
     bindE (forE (\<lambda>(name, cmd). validateCommand w name cmd) (wf_Commands w)) (\<lambda>_.
     bindE (forE (\<lambda>(name, clauses). validateEvent w name clauses) (wf_Events w)) (\<lambda>_.
     bindE (validatePolicies w ''ci.policies'' ''ci'' (wf_CI w)) (\<lambda>_.
     bindE (validatePolicies w ''review.policies'' ''review'' (wf_Review w)) (\<lambda>_.
     bindE (wfE w (validateTrigger env w)) (\<lambda>_.
     bindE (wfE w (validateDelivery w)) (\<lambda>_.
     bindE (revisionOfWorkflow env w) (\<lambda>rev.
     Inr \<lparr>rwf_Workflow = w, rwf_Revision = rev\<rparr>)))))))))))))))"

end
