(* ===== verification/WorkflowPair.thy ===== *)
theory WorkflowPair
  imports Workflow
begin

text \<open>
  A workflow checked against the workspace it will run in, and the parse entry points: the second half of
  \<^verbatim>\<open>pkg/types/v2/workflow_validate.go\<close>, with \<^verbatim>\<open>ParseWorkspace\<close> of \<^verbatim>\<open>workspace_validate.go\<close>.

  yaml.v3 is the parameter \<open>yaml_env\<close>: the schema-version probe, the untyped decode and the two strict typed
  decodes of a document.
\<close>

section \<open>Effects\<close>

definition cfgOf :: "gval \<Rightarrow> gmap" where
  "cfgOf raw = (case raw of GMap m \<Rightarrow> m | _ \<Rightarrow> [])"

fun includeFactsLoop :: "string \<Rightarrow> nat \<Rightarrow> string list \<Rightarrow> gval list \<Rightarrow> gerr + unit" where
  "includeFactsLoop epath i seen [] = Inr ()"
| "includeFactsLoop epath i seen (raw # rest) =
     (let bad = Inl (Errf ''%s.include_facts[%d] must be a unique non-empty fact key'' [epath, utoa i])
      in case raw of
           GStr s \<Rightarrow>
             (let f = trimSpace s
              in if f = [] \<or> f \<in> set seen then bad
                 else if isTranscriptFact f then
                   Inl (Errf ''%s.include_facts[%d]: conversation/transcript fact %q cannot control workflow v2''
                          [epath, utoa i, f])
                 else includeFactsLoop epath (Suc i) (f # seen) rest)
         | _ \<Rightarrow> bad)"

definition validateIncludeFacts :: "string \<Rightarrow> gmap \<Rightarrow> gerr + unit" where
  "validateIncludeFacts epath cfg =
     (case map_of cfg ''include_facts'' of
        None \<Rightarrow> Inr ()
      | Some (GList facts) \<Rightarrow>
          bindE (whenE (facts = [] \<or> 20 < length facts)
            (Errf ''%s.include_facts must be a list of 1 to 20 fact keys'' [epath])) (\<lambda>_.
          includeFactsLoop epath 0 [] facts)
      | Some _ \<Rightarrow> Inl (Errf ''%s.include_facts must be a list of 1 to 20 fact keys'' [epath]))"

definition capsFor :: "(string \<times> capmap) list \<Rightarrow> string \<Rightarrow> capmap" where
  "capsFor m k = (case map_of m k of None \<Rightarrow> [] | Some c \<Rightarrow> c)"

definition requireExecCap :: "string \<Rightarrow> string \<Rightarrow> resolved_workspace \<Rightarrow> gerr + unit" where
  "requireExecCap epath op rws =
     (case ws_Execution (rw_Workspace rws) of
        None \<Rightarrow> Inl (Errf ''%s: workspace has no execution block'' [epath])
      | Some e \<Rightarrow>
          (case CapabilityForEffect op of
             None \<Rightarrow> Inr ()
           | Some need \<Rightarrow> whenE (\<not> capOn (rw_ExecCaps rws) need)
               (Errf ''%s: effect %q is unsupported by execution provider %q (lacks capability %s)''
                  [epath, op, exec_Provider e, need])))"

definition validateCIEffect :: "string \<Rightarrow> string \<Rightarrow> gmap \<Rightarrow> resolved_workspace \<Rightarrow> gerr + unit" where
  "validateCIEffect epath op cfg rws =
     (let pipelineName = strField cfg ''pipeline''
      in bindE (whenE (blank pipelineName) (Errf ''%s: pipeline is required'' [epath])) (\<lambda>_.
         (case CIPipeline (rw_Workspace rws) pipelineName of
            None \<Rightarrow> Inl (Errf ''%s: unknown pipeline %q'' [epath, pipelineName])
          | Some pipe \<Rightarrow>
              (case CapabilityForEffect op of
                 None \<Rightarrow> Inr ()
               | Some need \<Rightarrow> whenE (\<not> capOn (capsFor (rw_CICaps rws) (pipe_Connection pipe)) need)
                   (Errf ''%s: effect %q is unsupported by pipeline %q (connection %q lacks capability %s)''
                      [epath, op, pipelineName, pipe_Connection pipe, need])))))"

definition validateEffect :: "string \<Rightarrow> string \<Rightarrow> gval \<Rightarrow> resolved_workspace \<Rightarrow> gerr + unit" where
  "validateEffect epath op raw rws =
     (let cfg = cfgOf raw
      in if op = ''ci.trigger'' \<or> op = ''ci.retry'' \<or> op = ''ci.cancel'' then validateCIEffect epath op cfg rws
         else if op = ''issue.comment'' then
           (let conn = strField cfg ''connection''
            in bindE (whenE (blank conn) (Errf ''%s: connection is required'' [epath])) (\<lambda>_.
               whenE (\<not> HasIssueTrackerConnection (rw_Workspace rws) conn)
                 (Errf ''%s: unknown issue_tracker connection %q'' [epath, conn])))
         else if op = ''agent.task'' then
           bindE (whenE (blank (strField cfg ''prompt'') \<and> blank (strField cfg ''instructions''))
             (Errf ''%s: prompt or instructions is required'' [epath])) (\<lambda>_.
           validateIncludeFacts epath cfg)
         else if op = ''exec.run'' then
           bindE (whenE (blank (strField cfg ''command'')) (Errf ''%s: command is required'' [epath])) (\<lambda>_.
           requireExecCap epath op rws)
         else if op = ''dependency.update'' then
           bindE (case map_of cfg ''ecosystems'' of
                    Some (GList (x # xs)) \<Rightarrow> Inr ()
                  | _ \<Rightarrow> Inl (Errf ''%s: ecosystems must be a non-empty list'' [epath])) (\<lambda>_.
           requireExecCap epath op rws)
         else Inl (Errf ''%s: unsupported effect operation %q'' [epath, op]))"

definition validateEffectsAgainstWorkspace :: "string \<Rightarrow> gmap list \<Rightarrow> resolved_workspace \<Rightarrow> gerr + unit" where
  "validateEffectsAgainstWorkspace path effects rws =
     forIdxE (\<lambda>i eff.
       forE (\<lambda>(op, raw). validateEffect (path @ ''['' @ utoa i @ ''].'' @ op) op raw rws) eff) 0 effects"

section \<open>Policies\<close>

function (sequential) walkPolicyRefs :: "string \<Rightarrow> gval \<Rightarrow> workspace \<Rightarrow> string \<Rightarrow> gerr + unit"
  and walkPolicyEntries :: "string \<Rightarrow> gmap \<Rightarrow> workspace \<Rightarrow> string \<Rightarrow> gerr + unit"
  and walkPolicyItems :: "string \<Rightarrow> nat \<Rightarrow> gval list \<Rightarrow> workspace \<Rightarrow> string \<Rightarrow> gerr + unit"
where
  "walkPolicyRefs path node ws mode =
     (case node of
        GMap n \<Rightarrow>
          bindE (case map_of n ''pipeline'' of
                   Some (GStr pipe) \<Rightarrow> whenE (mode = ''pipeline'' \<and> \<not> HasCIPipeline ws pipe)
                     (Errf ''%s: unknown pipeline %q'' [path, pipe])
                 | _ \<Rightarrow> Inr ()) (\<lambda>_.
          bindE (case map_of n ''connection'' of
                   Some (GStr conn) \<Rightarrow>
                     whenE (mode = ''connection'' \<and> \<not> HasReviewSystemConnection ws conn \<and>
                            \<not> HasSourceControlConnection ws conn)
                       (Errf ''%s: unknown review/source_control connection %q'' [path, conn])
                 | _ \<Rightarrow> Inr ()) (\<lambda>_.
          walkPolicyEntries path n ws mode))
      | GList items \<Rightarrow> walkPolicyItems path 0 items ws mode
      | _ \<Rightarrow> Inr ())"
| "walkPolicyEntries path [] ws mode = Inr ()"
| "walkPolicyEntries path ((k, v) # rest) ws mode =
     bindE (walkPolicyRefs (dot path k) v ws mode) (\<lambda>_. walkPolicyEntries path rest ws mode)"
| "walkPolicyItems path i [] ws mode = Inr ()"
| "walkPolicyItems path i (item # items) ws mode =
     bindE (walkPolicyRefs (idx path i) item ws mode) (\<lambda>_. walkPolicyItems path (Suc i) items ws mode)"
  by pat_completeness auto
termination
  by (relation "measure (\<lambda>x. case x of
       Inl (_, v, _, _) \<Rightarrow> 3 * gsz v
     | Inr (Inl (_, m, _, _)) \<Rightarrow> 3 * gmsz m + 1
     | Inr (Inr (_, _, vs, _, _)) \<Rightarrow> 3 * glsz vs + 1)")
     (auto split: gval.splits)

declare walkPolicyRefs.simps [simp del]

definition validatePolicyRefs :: "workflow \<Rightarrow> string \<Rightarrow> string \<Rightarrow> workspace \<Rightarrow> (string \<times> gmap) list option \<Rightarrow> gerr + unit" where
  "validatePolicyRefs w sect mode ws block =
     optE block () (forE (\<lambda>(name, policy).
       wfE w (walkPolicyRefs (sect @ CHR ''.'' # name) (GMap policy) ws mode)))"

section \<open>The pair\<close>

definition ValidateWorkflowAgainstWorkspace :: "doc_env \<Rightarrow> workflow \<Rightarrow> resolved_workspace \<Rightarrow> gerr + resolved_workflow" where
  "ValidateWorkflowAgainstWorkspace env w rws =
     bindE (ValidateWorkflow env w) (\<lambda>resolved.
     bindE (validatePolicyRefs w ''ci.policies'' ''pipeline'' (rw_Workspace rws) (wf_CI w)) (\<lambda>_.
     bindE (validatePolicyRefs w ''review.policies'' ''connection'' (rw_Workspace rws) (wf_Review w)) (\<lambda>_.
     bindE (forE (\<lambda>(name, tr).
       wfE w (validateEffectsAgainstWorkspace (''transitions.'' @ name @ ''.effects'') (tr_Effects tr) rws))
       (wf_Transitions w)) (\<lambda>_.
     bindE (forE (\<lambda>(name, st).
       optE (st_OnEnter st) () (\<lambda>a.
         wfE w (validateEffectsAgainstWorkspace (''states.'' @ name @ ''.on_enter.effects'') (sa_Effects a) rws)))
       (wf_States w)) (\<lambda>_.
     bindE (forE (\<lambda>(name, clauses).
       forIdxE (\<lambda>i clause.
         wfE w (validateEffectsAgainstWorkspace
           (''events.'' @ name @ ''.clauses['' @ utoa i @ ''].effects'') (ec_Effects clause) rws)) 0 clauses)
       (wf_Events w)) (\<lambda>_.
     Inr resolved))))))"

section \<open>Parsing\<close>

record yaml_env =
  DetectSchemaVersion :: "string \<Rightarrow> gerr + string"
  decodeUntyped :: "string \<Rightarrow> gerr + gmap"
  decodeWorkflow :: "string \<Rightarrow> gerr + workflow"
  decodeWorkspace :: "string \<Rightarrow> gerr + workspace"

definition knownWorkflowKeys :: "string list" where
  "knownWorkflowKeys =
     [''schema_version'', ''name'', ''enabled'', ''manual_trigger'', ''initial_state'', ''states'',
      ''transitions'', ''commands'', ''ci'', ''review'', ''delivery'', ''events'', ''trigger'']"

definition knownWorkspaceKeys :: "string list" where
  "knownWorkspaceKeys =
     [''schema_version'', ''name'', ''repositories'', ''execution'', ''credentials'', ''source_control'',
      ''ci'', ''issue_trackers'', ''review_systems'', ''knowledge'']"

definition ParseWorkflow :: "yaml_env \<Rightarrow> string \<Rightarrow> gerr + workflow" where
  "ParseWorkflow yaml doc =
     bindE (DetectSchemaVersion yaml doc) (\<lambda>version.
     bindE (whenE (\<not> IsV2 version) (Errf ''workflow schema_version %q is not v2 (want 2 or v2)'' [version])) (\<lambda>_.
     bindE (wrapE ''parse workflow yaml: %w'' [] (decodeUntyped yaml doc)) (\<lambda>raw.
     bindE (forE (\<lambda>(key, v). whenE (key \<notin> set knownWorkflowKeys) (Errf ''workflow: unknown field %q'' [key])) raw) (\<lambda>_.
     wrapE ''parse workflow: %w'' [] (decodeWorkflow yaml doc)))))"

definition ParseWorkspace :: "yaml_env \<Rightarrow> string \<Rightarrow> gerr + workspace" where
  "ParseWorkspace yaml doc =
     bindE (DetectSchemaVersion yaml doc) (\<lambda>version.
     bindE (whenE (\<not> IsV2 version) (Errf ''workspace schema_version %q is not v2 (want 2 or v2)'' [version])) (\<lambda>_.
     bindE (wrapE ''parse workspace yaml: %w'' [] (decodeUntyped yaml doc)) (\<lambda>raw.
     bindE (forE (\<lambda>(key, v). whenE (key \<notin> set knownWorkspaceKeys) (Errf ''workspace: unknown field %q'' [key])) raw) (\<lambda>_.
     wrapE ''parse workspace: %w'' [] (decodeWorkspace yaml doc)))))"

definition ParseAndValidateWorkspace :: "doc_env \<Rightarrow> yaml_env \<Rightarrow> string \<Rightarrow> gerr + resolved_workspace" where
  "ParseAndValidateWorkspace env yaml doc =
     bindE (ParseWorkspace yaml doc) (ValidateWorkspace (revisionOfWorkspace env))"

definition ParseAndValidateWorkflow :: "doc_env \<Rightarrow> yaml_env \<Rightarrow> string \<Rightarrow> gerr + resolved_workflow" where
  "ParseAndValidateWorkflow env yaml doc = bindE (ParseWorkflow yaml doc) (ValidateWorkflow env)"

definition ParseAndValidateWorkflowPair ::
    "doc_env \<Rightarrow> yaml_env \<Rightarrow> string \<Rightarrow> string \<Rightarrow> gerr + (resolved_workflow \<times> resolved_workspace)" where
  "ParseAndValidateWorkflowPair env yaml workflowDoc workspaceDoc =
     bindE (wrapE ''workspace: %w'' [] (ParseAndValidateWorkspace env yaml workspaceDoc)) (\<lambda>rws.
     bindE (ParseWorkflow yaml workflowDoc) (\<lambda>w.
     bindE (ValidateWorkflowAgainstWorkspace env w rws) (\<lambda>rwf.
     Inr (rwf, rws))))"

end
