(* ===== verification/WorkflowSound.thy ===== *)
theory WorkflowSound
  imports WorkflowPair PredicateTotality
begin

text \<open>
  What a workflow that passed \<open>ValidateWorkflow\<close> guarantees, and the run-time dispatch that relies on it:
  \<^verbatim>\<open>matchingTransition\<close> and \<^verbatim>\<open>matchingEventClause\<close> of \<^verbatim>\<open>pkg/hub/workflowv2/runtime.go\<close>.

  \<open>graph_ok\<close> is the shape of the state graph, \<open>writes_ok\<close> the namespaces its assertions may write,
  \<open>guards_separated\<close> the pairwise disjointness the overlap check leaves.  With \<open>disjoint_sound\<close> the
  last one gives that the dispatch never finds two transitions for one event.
\<close>

section \<open>The graph\<close>

definition sourceOk :: "workflow \<Rightarrow> gval \<Rightarrow> bool" where
  "sourceOk w from =
     (case FromStates from of
        Inl e \<Rightarrow> False
      | Inr ss \<Rightarrow> ss \<noteq> [] \<and>
          list_all (\<lambda>s. case map_of (wf_States w) s of None \<Rightarrow> False | Some st \<Rightarrow> \<not> st_Terminal st) ss)"

definition graph_ok :: "workflow \<Rightarrow> bool" where
  "graph_ok w \<longleftrightarrow>
     hasKey (wf_States w) (wf_InitialState w) \<and>
     list_all (\<lambda>(n, tr). sourceOk w (tr_From tr) \<and>
       (case map_of (wf_States w) (tr_To tr) of
          None \<Rightarrow> False
        | Some st \<Rightarrow> st_Terminal st \<longrightarrow> tr_Effects tr = [])) (wf_Transitions w) \<and>
     list_all (\<lambda>(n, c). sourceOk w (cmd_From c) \<and> hasKey (wf_States w) (cmd_To c)) (wf_Commands w)"

definition terminal_quiet :: "workflow \<Rightarrow> bool" where
  "terminal_quiet w \<longleftrightarrow>
     list_all (\<lambda>(n, st). case st_OnEnter st of None \<Rightarrow> True | Some a \<Rightarrow> st_Terminal st \<longrightarrow> sa_Effects a = [])
       (wf_States w)"

lemma fromItems_nonempty: "fromItems i items = Inr out \<Longrightarrow> length out = length items"
  by (induction i items arbitrary: out rule: fromItems.induct)
     (auto simp: bindE_Inr_iff split: gval.splits if_splits)

lemma FromStates_nonempty: "FromStates from = Inr ss \<Longrightarrow> ss \<noteq> []"
  by (auto simp: FromStates_def bindE_Inr_iff split: gval.splits if_splits)

lemma wfE_Inr_iff [simp]: "wfE w m = Inr x \<longleftrightarrow> m = Inr x"
  by (simp add: wfE_def)

lemma ValidateWorkflow_steps:
  assumes "ValidateWorkflow env w = Inr rwf"
  shows "hasKey (wf_States w) (wf_InitialState w)"
    and "\<And>n st. (n, st) \<in> set (wf_States w) \<Longrightarrow> validateState w n st = Inr ()"
    and "\<And>n tr. (n, tr) \<in> set (wf_Transitions w) \<Longrightarrow> validateTransition w n tr = Inr ()"
    and "validateTransitionOverlaps w = Inr ()"
    and "\<And>n c. (n, c) \<in> set (wf_Commands w) \<Longrightarrow> validateCommand w n c = Inr ()"
    and "\<And>n cs. (n, cs) \<in> set (wf_Events w) \<Longrightarrow> validateEvent w n cs = Inr ()"
    and "validatePolicies w ''ci.policies'' ''ci'' (wf_CI w) = Inr ()"
    and "validatePolicies w ''review.policies'' ''review'' (wf_Review w) = Inr ()"
    and "validateDelivery w = Inr ()"
    and "rwf_Workflow rwf = w"
  using assms unfolding ValidateWorkflow_def by (auto simp: bindE_Inr_iff)

lemma checkSource_ok: "checkSource w path fs = Inr () \<Longrightarrow>
    (case map_of (wf_States w) fs of None \<Rightarrow> False | Some st \<Rightarrow> \<not> st_Terminal st)"
  by (auto simp: checkSource_def split: option.splits)

lemma checkTarget_ok: "checkTarget w path t = Inr st \<Longrightarrow> map_of (wf_States w) t = Some st"
  by (auto simp: checkTarget_def bindE_Inr_iff split: option.splits)

lemma sourceOkI:
  assumes "FromStates from = Inr ss" and "forE (checkSource w path) ss = Inr ()"
  shows "sourceOk w from"
  using assms FromStates_nonempty [OF assms(1)] checkSource_ok
  by (auto simp: sourceOk_def list_all_iff)

lemma validateTransition_ok:
  assumes "validateTransition w n tr = Inr ()"
  shows "sourceOk w (tr_From tr)"
    and "\<exists>st. map_of (wf_States w) (tr_To tr) = Some st \<and> (st_Terminal st \<longrightarrow> tr_Effects tr = [])"
    and "\<not> isTranscriptEvent (tr_On tr)"
    and "\<exists>path. ValidatePredicateTree path (tr_When tr) = Inr ()"
    and "\<exists>path. validateFactWrites path (tr_Assert tr) (tr_Set tr) = Inr ()"
    and "\<exists>path. validateEffectsShape path (tr_Effects tr) = Inr ()"
  using assms checkTarget_ok
  by (auto simp: validateTransition_def Let_def bindE_Inr_iff intro: sourceOkI)

lemma validateCommand_ok:
  assumes "validateCommand w n c = Inr ()"
  shows "sourceOk w (cmd_From c)" and "hasKey (wf_States w) (cmd_To c)"
  using assms checkTarget_ok
  by (auto simp: validateCommand_def Let_def bindE_Inr_iff intro: sourceOkI)

lemma validated_graph:
  assumes "ValidateWorkflow env w = Inr rwf"
  shows "graph_ok w"
  unfolding graph_ok_def list_all_iff
  using ValidateWorkflow_steps(1,3,5) [OF assms] validateTransition_ok(1,2) validateCommand_ok
  by (auto split: option.splits) fastforce+

lemma validated_terminal_quiet:
  assumes "ValidateWorkflow env w = Inr rwf"
  shows "terminal_quiet w"
proof -
  have "case st_OnEnter st of None \<Rightarrow> True | Some a \<Rightarrow> st_Terminal st \<longrightarrow> sa_Effects a = []"
    if "(n, st) \<in> set (wf_States w)" for n st
    using ValidateWorkflow_steps(2) [OF assms that]
    by (auto simp: validateState_def bindE_Inr_iff split: option.splits)
  then show ?thesis by (auto simp: terminal_quiet_def list_all_iff)
qed

section \<open>Fact writes\<close>

definition authoredKey :: "string \<Rightarrow> bool" where
  "authoredKey raw \<longleftrightarrow>
     list_ex (inNamespace (trimSpace raw)) writableNamespaces \<and>
     \<not> list_ex (inNamespace (trimSpace raw)) protectedNamespaces"

definition writes_ok :: "workflow \<Rightarrow> bool" where
  "writes_ok w \<longleftrightarrow>
     list_all (\<lambda>(n, tr). list_all (\<lambda>(k, v). authoredKey k) (tr_Assert tr @ tr_Set tr)) (wf_Transitions w) \<and>
     list_all (\<lambda>(n, st). case st_OnEnter st of
         None \<Rightarrow> True
       | Some a \<Rightarrow> list_all (\<lambda>(k, v). authoredKey k) (sa_Assert a @ sa_Set a)) (wf_States w) \<and>
     list_all (\<lambda>(n, cs). list_all (\<lambda>c. list_all (\<lambda>(k, v). authoredKey k) (ec_Assert c @ ec_Set c)) cs)
       (wf_Events w)"

lemma validateFactWrites_ok:
  "validateFactWrites path a s = Inr () \<Longrightarrow> list_all (\<lambda>(k, v). authoredKey k) (a @ s)"
  by (auto simp: validateFactWrites_def checkFactKeyWritable_def authoredKey_def list_all_iff Let_def bindE_Inr_iff)

lemma validateEvent_clause:
  assumes "validateEvent w n cs = Inr ()" and "c \<in> set cs"
  obtains i where "validateClause w n i c = Inr ()"
  using assms by (auto simp: validateEvent_def bindE_Inr_iff in_set_conv_nth)

lemma validated_writes:
  assumes "ValidateWorkflow env w = Inr rwf"
  shows "writes_ok w"
proof -
  note steps = ValidateWorkflow_steps [OF assms]
  have tr: "list_all (\<lambda>(k, v). authoredKey k) (tr_Assert tr @ tr_Set tr)" if "(n, tr) \<in> set (wf_Transitions w)" for n tr
    using validateTransition_ok(5) [OF steps(3) [OF that]] validateFactWrites_ok by blast
  have st: "list_all (\<lambda>(k, v). authoredKey k) (sa_Assert a @ sa_Set a)"
    if "(n, st) \<in> set (wf_States w)" "st_OnEnter st = Some a" for n st a
    using steps(2) [OF that(1)] that(2)
    by (intro validateFactWrites_ok) (auto simp: validateState_def bindE_Inr_iff)
  have ev: "list_all (\<lambda>(k, v). authoredKey k) (ec_Assert c @ ec_Set c)"
    if "(n, cs) \<in> set (wf_Events w)" "c \<in> set cs" for n cs c
    by (rule validateEvent_clause [OF steps(6) [OF that(1)] that(2)], rule validateFactWrites_ok)
       (auto simp: validateClause_def Let_def bindE_Inr_iff)
  have "\<forall>p \<in> set (wf_Transitions w). case p of (n, tr) \<Rightarrow> list_all (\<lambda>(k, v). authoredKey k) (tr_Assert tr @ tr_Set tr)"
    using tr by blast
  moreover have "\<forall>p \<in> set (wf_States w). case p of (n, st) \<Rightarrow> (case st_OnEnter st of
         None \<Rightarrow> True | Some a \<Rightarrow> list_all (\<lambda>(k, v). authoredKey k) (sa_Assert a @ sa_Set a))"
    using st by (auto split: option.splits)
  moreover have "\<forall>p \<in> set (wf_Events w). case p of (n, cs) \<Rightarrow>
      list_all (\<lambda>c. list_all (\<lambda>(k, v). authoredKey k) (ec_Assert c @ ec_Set c)) cs"
    using ev by (fastforce simp: list_all_iff [of _ "_ :: event_clause list"])
  ultimately show ?thesis
    unfolding writes_ok_def list_all_iff [of _ "wf_Transitions w"] list_all_iff [of _ "wf_States w"]
      list_all_iff [of _ "wf_Events w"] by blast
qed

section \<open>Separated guards\<close>

definition separated :: "gmap \<Rightarrow> gmap \<Rightarrow> bool" where
  "separated a b \<longleftrightarrow> disjointClauses a b \<or> disjointClauses b a"

definition inGroup :: "('k \<times> 'v list) list \<Rightarrow> 'k \<Rightarrow> 'v \<Rightarrow> bool" where
  "inGroup m k x \<longleftrightarrow> (\<exists>xs. map_of m k = Some xs \<and> x \<in> set xs)"

lemma inGroup_addTo: "inGroup (addTo k x m) k' y \<longleftrightarrow> (k' = k \<and> y = x) \<or> inGroup m k' y"
  by (auto simp: inGroup_def addTo_def map_of_update split: option.splits if_splits)

lemma inGroup_fold: "inGroup (fold (\<lambda>s. addTo (g s) x) ss m) k y \<longleftrightarrow> (k \<in> g ` set ss \<and> y = x) \<or> inGroup m k y"
  by (induction ss arbitrary: m) (auto simp: inGroup_addTo)

lemma inGroup_fold_id: "inGroup (fold (\<lambda>s. addTo s x) ss m) k y \<longleftrightarrow> (k \<in> set ss \<and> y = x) \<or> inGroup m k y"
  using inGroup_fold [of "\<lambda>s. s"] by simp

lemma groupTransitions_mono:
  "groupTransitions trs groups = Inr out \<Longrightarrow> inGroup groups k y \<Longrightarrow> inGroup out k y"
  by (induction trs groups arbitrary: out rule: groupTransitions.induct)
     (auto simp: bindE_Inr_iff inGroup_fold)

lemma groupTransitions_in:
  "groupTransitions trs groups = Inr out \<Longrightarrow> (n, tr) \<in> set trs \<Longrightarrow> FromStates (tr_From tr) = Inr ss \<Longrightarrow>
     s \<in> set ss \<Longrightarrow> inGroup out (s, trimSpace (tr_On tr)) (n, tr_When tr)"
proof (induction trs groups arbitrary: out rule: groupTransitions.induct)
  case (1 groups)
  then show ?case by simp
next
  case (2 name tr' rest groups)
  then obtain fs where fs: "FromStates (tr_From tr') = Inr fs"
    and rest: "groupTransitions rest
       (fold (\<lambda>s. addTo (s, trimSpace (tr_On tr')) (name, tr_When tr')) fs groups) = Inr out"
    by (auto simp: bindE_Inr_iff)
  show ?case
  proof (cases "(n, tr) = (name, tr')")
    case True
    then show ?thesis using "2.prems"(3,4) fs groupTransitions_mono [OF rest] by (simp add: inGroup_fold)
  next
    case False
    then have "(n, tr) \<in> set rest" using "2.prems"(2) by auto
    then show ?thesis using "2.IH" [OF fs rest] "2.prems"(3,4) by blast
  qed
qed

lemma groupClauses_mono:
  "groupClauses i cs groups = Inr out \<Longrightarrow> inGroup groups k y \<Longrightarrow> inGroup out k y"
  by (induction i cs groups arbitrary: out rule: groupClauses.induct) (auto simp: bindE_Inr_iff inGroup_fold_id)

lemma groupClauses_in:
  "groupClauses i cs groups = Inr out \<Longrightarrow> j < length cs \<Longrightarrow> FromStates (ec_From (cs ! j)) = Inr ss \<Longrightarrow>
     s \<in> set ss \<Longrightarrow> inGroup out s (utoa (i + j), ec_When (cs ! j))"
proof (induction i cs groups arbitrary: out j rule: groupClauses.induct)
  case (1 i groups)
  then show ?case by simp
next
  case (2 i c rest groups)
  then obtain fs where fs: "FromStates (ec_From c) = Inr fs"
    and rest: "groupClauses (Suc i) rest (fold (\<lambda>s. addTo s (utoa i, ec_When c)) fs groups) = Inr out"
    by (auto simp: bindE_Inr_iff)
  show ?case
  proof (cases j)
    case 0
    then show ?thesis
      using "2.prems"(3,4) fs groupClauses_mono [OF rest] by (simp add: inGroup_fold_id)
  next
    case (Suc j')
    then show ?thesis using "2.IH" [OF fs rest, of j'] "2.prems" by simp
  qed
qed

lemma pairsE_two:
  "pairsE f xs = Inr () \<Longrightarrow> x \<in> set xs \<Longrightarrow> y \<in> set xs \<Longrightarrow> x \<noteq> y \<Longrightarrow> f x y = Inr () \<or> f y x = Inr ()"
  by (induction xs) (auto simp: bindE_Inr_iff)

lemma overlapCheck_ok: "overlapCheck err a b = Inr () \<Longrightarrow> disjointClauses (snd a) (snd b)"
  by (auto simp: overlapCheck_def disjointClauses_def split: prod.splits)

lemma group_separated:
  assumes "forE (\<lambda>(k, items). if length items < 2 then Inr () else pairsE (overlapCheck (err k)) items) groups = Inr ()"
    and "inGroup groups k x" and "inGroup groups k y" and "x \<noteq> y"
  shows "separated (snd x) (snd y)"
proof -
  obtain xs where xs: "map_of groups k = Some xs" "x \<in> set xs" "y \<in> set xs"
    using assms(2,3) by (auto simp: inGroup_def)
  then have len: "\<not> length xs < 2" using assms(4) by (cases xs; cases "tl xs") auto
  have "(k, xs) \<in> set groups" using xs(1) by (rule map_of_SomeD)
  then have "pairsE (overlapCheck (err k)) xs = Inr ()" using assms(1) len by fastforce
  from pairsE_two [OF this xs(2,3) assms(4)] show ?thesis
    unfolding separated_def using overlapCheck_ok by blast
qed

text \<open>Two differently named transitions that listen to the same event in the same state have disjoint guards.\<close>

lemma transitions_separated:
  assumes ok: "ValidateWorkflow env w = Inr rwf"
    and tr1: "(n1, t1) \<in> set (wf_Transitions w)" "FromStates (tr_From t1) = Inr s1" "s \<in> set s1"
    and tr2: "(n2, t2) \<in> set (wf_Transitions w)" "FromStates (tr_From t2) = Inr s2" "s \<in> set s2"
    and on: "trimSpace (tr_On t1) = trimSpace (tr_On t2)" and neq: "n1 \<noteq> n2"
  shows "separated (tr_When t1) (tr_When t2)"
proof -
  obtain groups where g: "groupTransitions (wf_Transitions w) [] = Inr groups"
    and pairs: "forE (\<lambda>(k, items). if length items < 2 then Inr ()
        else pairsE (overlapCheck (transitionOverlapError k)) items) groups = Inr ()"
    using ValidateWorkflow_steps(4) [OF ok] by (auto simp: validateTransitionOverlaps_def bindE_Inr_iff)
  show ?thesis
    using group_separated [OF pairs groupTransitions_in [OF g tr1]
        groupTransitions_in [OF g tr2, folded on]] neq by simp
qed

lemma clauses_separated:
  assumes ok: "ValidateWorkflow env w = Inr rwf" and ev: "(ev, cs) \<in> set (wf_Events w)"
    and c1: "i < length cs" "FromStates (ec_From (cs ! i)) = Inr s1" "s \<in> set s1"
    and c2: "j < length cs" "FromStates (ec_From (cs ! j)) = Inr s2" "s \<in> set s2"
    and neq: "i \<noteq> j"
  shows "separated (ec_When (cs ! i)) (ec_When (cs ! j))"
proof -
  have "validateEventClauseOverlaps (wf_Name w) ev cs = Inr ()"
    using ValidateWorkflow_steps(6) [OF ok ev] by (auto simp: validateEvent_def bindE_Inr_iff)
  then obtain groups where g: "groupClauses 0 cs [] = Inr groups"
    and pairs: "forE (\<lambda>(k, items). if length items < 2 then Inr ()
        else pairsE (overlapCheck (clauseOverlapError (wf_Name w) ev k)) items) groups = Inr ()"
    by (auto simp: validateEventClauseOverlaps_def bindE_Inr_iff)
  show ?thesis
    using group_separated [OF pairs groupClauses_in [OF g c1] groupClauses_in [OF g c2]] neq utoa_inj
    by auto
qed

section \<open>Dispatch\<close>

type_synonym dispatch = "string \<times> wf_transition option \<times> nat \<times> nat"

fun transitionLoop :: "string \<Rightarrow> string \<Rightarrow> gmap \<Rightarrow> (string \<times> wf_transition) list \<Rightarrow> dispatch \<Rightarrow> gerr + dispatch" where
  "transitionLoop kind state facts [] acc = Inr acc"
| "transitionLoop kind state facts ((name, tr) # rest) (mname, matched, count, listeners) =
     bindE (FromStates (tr_From tr)) (\<lambda>from.
     if state \<notin> set from \<or> tr_On tr \<noteq> kind then transitionLoop kind state facts rest (mname, matched, count, listeners)
     else
       bindE (wrapE ''evaluate transition %s: %w'' [name] (MatchPredicate (tr_When tr) facts)) (\<lambda>ok.
       transitionLoop kind state facts rest
         (if ok then (name, Some tr, count + 1, listeners + 1) else (mname, matched, count, listeners + 1))))"

definition matchingTransition :: "workflow \<Rightarrow> string \<Rightarrow> string \<Rightarrow> gmap \<Rightarrow> gerr + dispatch" where
  "matchingTransition w kind state facts =
     transitionLoop kind state facts (sort_keys (wf_Transitions w)) ([], None, 0, 0)"

type_synonym clause_dispatch = "string \<times> event_clause option \<times> nat"

fun clauseLoop :: "string \<Rightarrow> gmap \<Rightarrow> nat \<Rightarrow> event_clause list \<Rightarrow> clause_dispatch \<Rightarrow> gerr + clause_dispatch" where
  "clauseLoop state facts i [] acc = Inr acc"
| "clauseLoop state facts i (clause # rest) (mi, matched, count) =
     bindE (FromStates (ec_From clause)) (\<lambda>from.
     if state \<notin> set from then clauseLoop state facts (Suc i) rest (mi, matched, count)
     else
       bindE (wrapE ''evaluate event clause %d: %w'' [utoa i] (MatchPredicate (ec_When clause) facts)) (\<lambda>ok.
       clauseLoop state facts (Suc i) rest (if ok then (utoa i, Some clause, count + 1) else (mi, matched, count))))"

definition matchingEventClause :: "workflow \<Rightarrow> string \<Rightarrow> string \<Rightarrow> gmap \<Rightarrow> gerr + clause_dispatch" where
  "matchingEventClause w kind state facts =
     (case map_of (wf_Events w) kind of
        None \<Rightarrow> Inr ([], None, 0)
      | Some clauses \<Rightarrow> clauseLoop state facts 0 clauses ([], None, 0))"

definition fires :: "string \<Rightarrow> string \<Rightarrow> gmap \<Rightarrow> string \<times> wf_transition \<Rightarrow> bool" where
  "fires kind state facts p \<longleftrightarrow>
     (case FromStates (tr_From (snd p)) of Inl e \<Rightarrow> False | Inr from \<Rightarrow> state \<in> set from) \<and>
     tr_On (snd p) = kind \<and> MatchPredicate (tr_When (snd p)) facts = Inr True"

definition clauseFires :: "string \<Rightarrow> gmap \<Rightarrow> event_clause \<Rightarrow> bool" where
  "clauseFires state facts c \<longleftrightarrow>
     (case FromStates (ec_From c) of Inl e \<Rightarrow> False | Inr from \<Rightarrow> state \<in> set from) \<and>
     MatchPredicate (ec_When c) facts = Inr True"

lemma transitionLoop_count:
  "transitionLoop kind state facts trs (m0, t0, c0, l0) = Inr (m, t, c, l) \<Longrightarrow>
     c = c0 + length (filter (fires kind state facts) trs) \<and>
     (c = c0 \<and> m = m0 \<and> t = t0 \<or>
      (\<exists>tr. (m, tr) \<in> set trs \<and> t = Some tr \<and> fires kind state facts (m, tr))) \<and> l0 \<le> l"
proof (induction trs arbitrary: m0 t0 c0 l0)
  case Nil
  then show ?case by simp
next
  case (Cons p trs)
  obtain name tr where p: "p = (name, tr)" by (cases p)
  obtain fr where fr: "FromStates (tr_From tr) = Inr fr"
    using Cons.prems p by (auto simp: bindE_Inr_iff)
  show ?case
  proof (cases "state \<notin> set fr \<or> tr_On tr \<noteq> kind")
    case True
    then have "\<not> fires kind state facts p" using p fr by (auto simp: fires_def)
    then show ?thesis using Cons.IH [of m0 t0 c0 l0] Cons.prems p fr True by auto
  next
    case False
    then obtain ok where ok: "MatchPredicate (tr_When tr) facts = Inr ok"
      using Cons.prems p fr by (auto simp: bindE_Inr_iff)
    have f: "fires kind state facts p \<longleftrightarrow> ok" using False p fr ok by (auto simp: fires_def)
    show ?thesis
      using Cons.IH [of name "Some tr" "c0 + 1" "l0 + 1"] Cons.IH [of m0 t0 c0 "l0 + 1"] Cons.prems p fr False ok f
      by (cases ok) auto
  qed
qed

lemma clauseLoop_count:
  "clauseLoop state facts i cs (m0, t0, c0) = Inr (m, t, c) \<Longrightarrow>
     c = c0 + length (filter (clauseFires state facts) cs) \<and>
     (c = c0 \<and> t = t0 \<or> (\<exists>cl \<in> set cs. t = Some cl \<and> clauseFires state facts cl))"
proof (induction cs arbitrary: i m0 t0 c0)
  case Nil
  then show ?case by simp
next
  case (Cons cl cs)
  obtain fr where fr: "FromStates (ec_From cl) = Inr fr"
    using Cons.prems by (auto simp: bindE_Inr_iff)
  show ?case
  proof (cases "state \<notin> set fr")
    case True
    then have "\<not> clauseFires state facts cl" using fr by (auto simp: clauseFires_def)
    then show ?thesis using Cons.IH [of "Suc i" m0 t0 c0] Cons.prems fr True by auto
  next
    case False
    then obtain ok where ok: "MatchPredicate (ec_When cl) facts = Inr ok"
      using Cons.prems fr by (auto simp: bindE_Inr_iff)
    have f: "clauseFires state facts cl \<longleftrightarrow> ok" using False fr ok by (auto simp: clauseFires_def)
    show ?thesis
      using Cons.IH [of "Suc i" "utoa i" "Some cl" "c0 + 1"] Cons.IH [of "Suc i" m0 t0 c0] Cons.prems fr False ok f
      by (cases ok) auto
  qed
qed

lemma transitionLoop_returns:
  assumes "\<And>n tr. (n, tr) \<in> set trs \<Longrightarrow> returns (FromStates (tr_From tr)) \<and> returns (MatchPredicate (tr_When tr) facts)"
  shows "returns (transitionLoop kind state facts trs acc)"
  using assms
proof (induction trs arbitrary: acc)
  case Nil
  then show ?case by (cases acc) simp
next
  case (Cons p trs)
  obtain name tr where p: "p = (name, tr)" by (cases p)
  obtain m0 t0 c0 l0 where acc: "acc = (m0, t0, c0, l0)" by (cases acc)
  obtain fr ok where "FromStates (tr_From tr) = Inr fr" "MatchPredicate (tr_When tr) facts = Inr ok"
    using Cons.prems [of name tr] p unfolding returns_iff by auto
  moreover have "returns (transitionLoop kind state facts trs acc')" for acc'
    by (rule Cons.IH, rule Cons.prems, rule list.set_intros(2))
  ultimately show ?case using p acc by simp
qed

lemma clauseLoop_returns:
  assumes "\<And>c. c \<in> set cs \<Longrightarrow> returns (FromStates (ec_From c)) \<and> returns (MatchPredicate (ec_When c) facts)"
  shows "returns (clauseLoop state facts i cs acc)"
  using assms
proof (induction cs arbitrary: acc i)
  case Nil
  then show ?case by (cases acc) simp
next
  case (Cons c cs)
  obtain m0 t0 c0 where acc: "acc = (m0, t0, c0)" by (cases acc)
  obtain fr ok where "FromStates (ec_From c) = Inr fr" "MatchPredicate (ec_When c) facts = Inr ok"
    using Cons.prems [of c] unfolding returns_iff by auto
  moreover have "returns (clauseLoop state facts i' cs acc')" for i' acc'
    by (rule Cons.IH, rule Cons.prems, rule list.set_intros(2))
  ultimately show ?case using acc by simp
qed

section \<open>Dispatch of a validated workflow is unambiguous and total\<close>

definition guardOperands :: "workflow \<Rightarrow> gval list" where
  "guardOperands w =
     concat (map (\<lambda>(n, tr). predicateOperands (tr_When tr)) (wf_Transitions w)) @
     concat (map (\<lambda>(n, cs). concat (map (\<lambda>c. predicateOperands (ec_When c)) cs)) (wf_Events w))"

definition strictGuards :: "workflow \<Rightarrow> bool" where
  "strictGuards w \<longleftrightarrow>
     list_all (\<lambda>(n, tr). strictEntries (tr_When tr)) (wf_Transitions w) \<and>
     list_all (\<lambda>(n, cs). list_all (\<lambda>c. strictEntries (ec_When c)) cs) (wf_Events w)"

lemma separated_sound:
  assumes "separated a b" and "cleanV (GMap F)" and "operands_ok A"
    and "set (predicateOperands a) \<subseteq> set A" and "set (predicateOperands b) \<subseteq> set A"
    and "MatchPredicate a F = Inr True" and "MatchPredicate b F = Inr True"
  shows False
proof -
  have "operands_ok (predicateOperands a @ predicateOperands b)"
    and "operands_ok (predicateOperands b @ predicateOperands a)"
    using operands_ok_subset [OF assms(3)] assms(4,5) by simp_all
  then show False using assms(1,2,6,7) disjoint_sound unfolding separated_def by blast
qed

lemma transition_operands:
  "(n, tr) \<in> set (wf_Transitions w) \<Longrightarrow> set (predicateOperands (tr_When tr)) \<subseteq> set (guardOperands w)"
  by (force simp: guardOperands_def)

lemma clause_operands:
  "(n, cs) \<in> set (wf_Events w) \<Longrightarrow> c \<in> set cs \<Longrightarrow> set (predicateOperands (ec_When c)) \<subseteq> set (guardOperands w)"
  by (force simp: guardOperands_def)

lemma fires_unique:
  assumes ok: "ValidateWorkflow env w = Inr rwf" and dist: "distinct (map fst (wf_Transitions w))"
    and clean: "cleanV (GMap facts)" and ops: "operands_ok (guardOperands w)"
    and p: "p \<in> set (wf_Transitions w)" "fires kind state facts p"
    and q: "q \<in> set (wf_Transitions w)" "fires kind state facts q"
  shows "p = q"
proof (rule ccontr)
  assume "p \<noteq> q"
  obtain n1 t1 n2 t2 where pq: "p = (n1, t1)" "q = (n2, t2)" by (cases p; cases q)
  then have neq: "n1 \<noteq> n2" using p(1) q(1) dist \<open>p \<noteq> q\<close> eq_key_imp_eq_value by metis
  obtain s1 s2 where "FromStates (tr_From t1) = Inr s1" "state \<in> set s1"
    "FromStates (tr_From t2) = Inr s2" "state \<in> set s2"
    using p(2) q(2) pq by (auto simp: fires_def split: sum.splits)
  moreover have "trimSpace (tr_On t1) = trimSpace (tr_On t2)" using p(2) q(2) pq by (simp add: fires_def)
  ultimately have "separated (tr_When t1) (tr_When t2)"
    using transitions_separated [OF ok] p(1) q(1) pq neq by metis
  then show False
    by (rule separated_sound [OF _ clean ops])
       (use p q pq in \<open>simp_all add: transition_operands [of n1] transition_operands [of n2] fires_def\<close>)
qed

lemma clauses_unique:
  assumes ok: "ValidateWorkflow env w = Inr rwf" and ev: "(ev, cs) \<in> set (wf_Events w)"
    and clean: "cleanV (GMap facts)" and ops: "operands_ok (guardOperands w)"
    and i: "i < length cs" "clauseFires state facts (cs ! i)"
    and j: "j < length cs" "clauseFires state facts (cs ! j)"
  shows "i = j"
proof (rule ccontr)
  assume neq: "i \<noteq> j"
  obtain s1 s2 where "FromStates (ec_From (cs ! i)) = Inr s1" "state \<in> set s1"
    "FromStates (ec_From (cs ! j)) = Inr s2" "state \<in> set s2"
    using i(2) j(2) by (auto simp: clauseFires_def split: sum.splits)
  then have "separated (ec_When (cs ! i)) (ec_When (cs ! j))"
    using clauses_separated [OF ok ev] i(1) j(1) neq by metis
  then show False
    by (rule separated_sound [OF _ clean ops])
       (use i j in \<open>simp_all add: clause_operands [OF ev] clauseFires_def\<close>)
qed

lemma filter_index_unique:
  assumes "\<And>i j. i < length xs \<Longrightarrow> j < length xs \<Longrightarrow> P (xs ! i) \<Longrightarrow> P (xs ! j) \<Longrightarrow> i = j"
  shows "length (filter P xs) \<le> 1"
proof -
  have "card {i. i < length xs \<and> P (xs ! i)} \<le> Suc 0"
    unfolding card_le_Suc0_iff_eq [OF finite_Collect_conjI [OF disjI1 [OF finite_Collect_less_nat]]]
    using assms by blast
  then show ?thesis by (simp add: length_filter_conv_card)
qed

lemma matchingTransition_unique:
  assumes "ValidateWorkflow env w = Inr rwf" and "distinct (map fst (wf_Transitions w))"
    and "cleanV (GMap facts)" and "operands_ok (guardOperands w)"
    and run: "matchingTransition w kind state facts = Inr (m, t, c, l)"
  shows "c \<le> 1" and "c = 1 \<longleftrightarrow> (\<exists>p \<in> set (wf_Transitions w). fires kind state facts p)"
    and "c = 1 \<Longrightarrow> \<exists>tr. t = Some tr \<and> (m, tr) \<in> set (wf_Transitions w) \<and> fires kind state facts (m, tr)"
proof -
  let ?trs = "sort_keys (wf_Transitions w)"
  note count = transitionLoop_count [OF run [unfolded matchingTransition_def]]
  have "distinct (map fst ?trs)" using assms(2) by simp
  then have "distinct ?trs" by (rule distinct_map [THEN iffD1, THEN conjunct1])
  then show c: "c \<le> 1"
    using count filter_at_most_one [of ?trs "fires kind state facts"] fires_unique [OF assms(1-4)] by auto
  have "c = 1 \<longleftrightarrow> filter (fires kind state facts) ?trs \<noteq> []"
    using c count by (cases "filter (fires kind state facts) ?trs") auto
  then show "c = 1 \<longleftrightarrow> (\<exists>p \<in> set (wf_Transitions w). fires kind state facts p)"
    by (auto simp: filter_empty_conv)
  show "\<exists>tr. t = Some tr \<and> (m, tr) \<in> set (wf_Transitions w) \<and> fires kind state facts (m, tr)" if "c = 1"
    using count that by auto
qed

lemma matchingTransition_returns:
  assumes ok: "ValidateWorkflow env w = Inr rwf" and strict: "strictGuards w"
  shows "returns (matchingTransition w kind state facts)"
  unfolding matchingTransition_def
proof (rule transitionLoop_returns)
  fix n tr
  assume "(n, tr) \<in> set (sort_keys (wf_Transitions w))"
  then have tr: "(n, tr) \<in> set (wf_Transitions w)" by simp
  note valid = validateTransition_ok [OF ValidateWorkflow_steps(3) [OF ok tr]]
  have "strictEntries (tr_When tr)" using strict tr by (auto simp: strictGuards_def list_all_iff)
  then have "returns (MatchPredicate (tr_When tr) facts)"
    using valid(4) validated_total unfolding returns_iff by blast
  moreover have "returns (FromStates (tr_From tr))"
    using valid(1) by (auto simp: sourceOk_def returns_iff split: sum.splits)
  ultimately show "returns (FromStates (tr_From tr)) \<and> returns (MatchPredicate (tr_When tr) facts)" by simp
qed

lemma matchingEventClause_unique:
  assumes ok: "ValidateWorkflow env w = Inr rwf"
    and "cleanV (GMap facts)" and "operands_ok (guardOperands w)"
    and run: "matchingEventClause w kind state facts = Inr (m, t, c)"
  shows "c \<le> 1"
proof (cases "map_of (wf_Events w) kind")
  case None
  then show ?thesis using run by (simp add: matchingEventClause_def)
next
  case (Some cs)
  then have "c = length (filter (clauseFires state facts) cs)"
    using run clauseLoop_count [of state facts 0 cs "[]" None 0 m t c] by (simp add: matchingEventClause_def)
  then show ?thesis
    using filter_index_unique clauses_unique [OF ok map_of_SomeD [OF Some] assms(2,3)] by metis
qed

lemma matchingEventClause_returns:
  assumes ok: "ValidateWorkflow env w = Inr rwf" and strict: "strictGuards w"
  shows "returns (matchingEventClause w kind state facts)"
proof (cases "map_of (wf_Events w) kind")
  case None
  then show ?thesis by (simp add: matchingEventClause_def)
next
  case (Some cs)
  then have ev: "(kind, cs) \<in> set (wf_Events w)" by (rule map_of_SomeD)
  have "returns (FromStates (ec_From c)) \<and> returns (MatchPredicate (ec_When c) facts)" if c: "c \<in> set cs" for c
  proof -
    obtain i where i: "validateClause w kind i c = Inr ()"
      by (rule validateEvent_clause [OF ValidateWorkflow_steps(6) [OF ok ev] c])
    then obtain path where "ValidatePredicateTree path (ec_When c) = Inr ()"
      and "returns (FromStates (ec_From c))"
      by (auto simp: validateClause_def Let_def bindE_Inr_iff)
    moreover have "strictEntries (ec_When c)" using strict ev c by (fastforce simp: strictGuards_def list_all_iff)
    ultimately show ?thesis using validated_total unfolding returns_iff by blast
  qed
  then show ?thesis using Some clauseLoop_returns by (simp add: matchingEventClause_def)
qed

section \<open>Authority of effects\<close>

definition effectAuthorised :: "resolved_workspace \<Rightarrow> string \<times> gval \<Rightarrow> bool" where
  "effectAuthorised rws e =
     (case e of (op, raw) \<Rightarrow>
        (case CapabilityForEffect op of
           None \<Rightarrow> op = ''issue.comment'' \<or> op = ''agent.task''
         | Some need \<Rightarrow>
             if op = ''exec.run'' \<or> op = ''dependency.update'' then capOn (rw_ExecCaps rws) need
             else (case CIPipeline (rw_Workspace rws) (strField (cfgOf raw) ''pipeline'') of
                     None \<Rightarrow> False
                   | Some pipe \<Rightarrow> capOn (capsFor (rw_CICaps rws) (pipe_Connection pipe)) need)))"

definition effectsAuthorised :: "resolved_workspace \<Rightarrow> gmap list \<Rightarrow> bool" where
  "effectsAuthorised rws effects \<longleftrightarrow> list_all (list_all (effectAuthorised rws)) effects"

lemma validateEffect_authorised:
  assumes "validateEffect epath op raw rws = Inr ()"
  shows "effectAuthorised rws (op, raw)"
proof -
  consider "op = ''ci.trigger''" | "op = ''ci.retry''" | "op = ''ci.cancel''" | "op = ''issue.comment''"
    | "op = ''agent.task''" | "op = ''exec.run''" | "op = ''dependency.update''"
    using assms by (auto simp: validateEffect_def Let_def split: if_splits)
  then show ?thesis
    using assms
    by cases (simp_all add: validateEffect_def validateCIEffect_def requireExecCap_def effectAuthorised_def
        CapabilityForEffect_def Let_def bindE_Inr_iff split: option.splits)
qed

lemma validateEffects_authorised:
  assumes "validateEffectsAgainstWorkspace path effects rws = Inr ()"
  shows "effectsAuthorised rws effects"
proof -
  have "effectAuthorised rws e" if eff: "eff \<in> set effects" and e: "e \<in> set eff" for eff e
  proof -
    obtain i where "forE (\<lambda>(op, raw). validateEffect (path @ ''['' @ utoa i @ ''].'' @ op) op raw rws) eff = Inr ()"
      using forIdxE_all [OF assms [unfolded validateEffectsAgainstWorkspace_def] eff] by blast
    then show ?thesis using e validateEffect_authorised by (cases e) fastforce
  qed
  then show ?thesis by (simp add: effectsAuthorised_def list_all_iff)
qed

definition workflowAuthorised :: "workflow \<Rightarrow> resolved_workspace \<Rightarrow> bool" where
  "workflowAuthorised w rws \<longleftrightarrow>
     list_all (\<lambda>(n, tr). effectsAuthorised rws (tr_Effects tr)) (wf_Transitions w) \<and>
     list_all (\<lambda>(n, st). case st_OnEnter st of None \<Rightarrow> True | Some a \<Rightarrow> effectsAuthorised rws (sa_Effects a))
       (wf_States w) \<and>
     list_all (\<lambda>(n, cs). list_all (\<lambda>c. effectsAuthorised rws (ec_Effects c)) cs) (wf_Events w)"

lemma pair_authorised:
  assumes "ValidateWorkflowAgainstWorkspace env w rws = Inr rwf"
  shows "workflowAuthorised w rws"
proof -
  have tr: "effectsAuthorised rws (tr_Effects tr)" if "(n, tr) \<in> set (wf_Transitions w)" for n tr
    using assms that
    by (auto simp: ValidateWorkflowAgainstWorkspace_def bindE_Inr_iff intro!: validateEffects_authorised)
  have st: "effectsAuthorised rws (sa_Effects a)" if "(n, st) \<in> set (wf_States w)" "st_OnEnter st = Some a" for n st a
    using assms that
    by (fastforce simp: ValidateWorkflowAgainstWorkspace_def bindE_Inr_iff optE_Inr_iff intro!: validateEffects_authorised)
  have ev: "effectsAuthorised rws (ec_Effects c)" if "(n, cs) \<in> set (wf_Events w)" "c \<in> set cs" for n cs c
  proof -
    have "forIdxE (\<lambda>i clause. wfE w (validateEffectsAgainstWorkspace
           (''events.'' @ n @ ''.clauses['' @ utoa i @ ''].effects'') (ec_Effects clause) rws)) 0 cs = Inr ()"
      using assms that(1) by (fastforce simp: ValidateWorkflowAgainstWorkspace_def bindE_Inr_iff)
    from forIdxE_all [OF this that(2)] show ?thesis using validateEffects_authorised by auto
  qed
  show ?thesis
    unfolding workflowAuthorised_def using tr st ev by (auto simp: list_all_iff split: option.splits)
qed

section \<open>Properties\<close>

text \<open>A small workflow for the demo workspace; the witnesses run on it.\<close>

definition demoState :: "string \<Rightarrow> bool \<Rightarrow> gmap list \<Rightarrow> wf_state" where
  "demoState phase terminal effects =
     \<lparr>st_Phase = phase, st_Terminal = terminal, st_Invariant = [],
      st_OnEnter = Some \<lparr>sa_Assert = [], sa_Effects = effects, sa_Set = [(''work.visited'', GBool True)]\<rparr>\<rparr>"

definition demoTransition :: "gval \<Rightarrow> string \<Rightarrow> gmap \<Rightarrow> string \<Rightarrow> gmap list \<Rightarrow> wf_transition" where
  "demoTransition from on guard target effects =
     \<lparr>tr_From = from, tr_On = on, tr_When = guard, tr_To = target, tr_Assert = [],
      tr_Set = [(''work.last'', GStr target)], tr_Effects = effects\<rparr>"

definition demoWorkflow :: workflow where
  "demoWorkflow =
     \<lparr>wf_SchemaVersion = GStr ''v2'', wf_Name = ''demo'', wf_Enabled = True, wf_ManualTrigger = True,
      wf_InitialState = ''start'',
      wf_States = [(''start'', demoState ''build'' False []),
                   (''check'', demoState ''test'' False [[(''agent.task'', GMap [(''prompt'', GStr ''fix it'')])]]),
                   (''done'', demoState ''done'' True [])],
      wf_Transitions =
        [(''begin'', demoTransition (GStr ''start'') ''run.started'' [] ''check''
            [[(''ci.trigger'', GMap [(''pipeline'', GStr ''build'')])]]),
         (''green'', demoTransition (GStr ''check'') ''ci.completed''
            [(''ci.state'', GMap [(''equals'', GStr ''green'')])] ''done'' []),
         (''red'', demoTransition (GList [GStr ''check'', GStr ''start'']) ''ci.completed''
            [(''ci'', GMap [(''state'', GMap [(''in'', GList [GStr ''red'', GStr ''flaky''])])])] ''start'' [])],
      wf_Commands = [(''restart'', \<lparr>cmd_From = GStr ''check'', cmd_To = ''start'', cmd_RequireReason = True\<rparr>)],
      wf_CI = Some [(''checks'', [(''pipeline'', GStr ''build''), (''checks'', GList [GStr ''unit'']),
                                 (''satisfied_for'', GStr ''current_pr_head'')])],
      wf_Review = Some [(''approved'', [(''connection'', GStr ''bot''), (''approvals'', GMap [(''minimum'', GInt 1)])])],
      wf_Delivery = Some \<lparr>wd_PullRequests = Some \<lparr>pd_Required = True, pd_Minimum = 1,
         pd_CIPolicy = ''checks'', pd_ReviewPolicy = ''approved'', pd_Completion = ''all_merged''\<rparr>\<rparr>,
      wf_Events = [(''custom.note'',
        [\<lparr>ec_From = GStr ''check'', ec_When = [], ec_Assert = [], ec_Set = [(''custom.noted'', GBool True)],
          ec_Effects = [], ec_Ignore = False\<rparr>])],
      wf_Trigger = None\<rparr>"

definition demoEnv :: doc_env where
  "demoEnv = \<lparr>parseCronSchedule = (\<lambda>_. Inr ()), loadLocation = (\<lambda>_. Inr ()), parseDuration = (\<lambda>_. Inr 0),
     revisionOfWorkflow = (\<lambda>_. Inr ''wfrev''), revisionOfWorkspace = (\<lambda>_. Inr ''rev'')\<rparr>"

definition demoResolvedWorkflow :: resolved_workflow where
  "demoResolvedWorkflow = \<lparr>rwf_Workflow = demoWorkflow, rwf_Revision = ''wfrev''\<rparr>"

lemma demoWorkflow_returns: "returns (ValidateWorkflow demoEnv demoWorkflow)"
  by code_simp

lemma demoWorkflow_valid: "ValidateWorkflow demoEnv demoWorkflow = Inr demoResolvedWorkflow"
proof -
  obtain rwf where r: "ValidateWorkflow demoEnv demoWorkflow = Inr rwf"
    using demoWorkflow_returns unfolding returns_iff by blast
  then have "rwf = demoResolvedWorkflow"
    unfolding ValidateWorkflow_def demoResolvedWorkflow_def by (auto simp: bindE_Inr_iff demoEnv_def)
  with r show ?thesis by simp
qed

text \<open>C7: a validated workflow is a closed state graph: the initial state, every source and every target exist, no
  transition or command leaves a terminal state, and nothing that leads into a terminal state has effects.\<close>

theorem validated_workflow_graph:
  assumes "ValidateWorkflow env w = Inr rwf"
  shows "graph_ok w \<and> terminal_quiet w"
  using validated_graph [OF assms] validated_terminal_quiet [OF assms] by blast

theorem validated_workflow_graph_witness: "graph_ok demoWorkflow \<and> terminal_quiet demoWorkflow"
  by (rule validated_workflow_graph [OF demoWorkflow_valid])

text \<open>C8: the facts a validated workflow asserts or sets lie under \<^verbatim>\<open>work\<close> or \<^verbatim>\<open>custom\<close>, never in a namespace owned
  by the hub, the CI, reviews, pull requests or operators.\<close>

theorem validated_workflow_writes:
  assumes "ValidateWorkflow env w = Inr rwf"
  shows "writes_ok w"
  by (rule validated_writes [OF assms])

theorem validated_workflow_writes_witness: "writes_ok demoWorkflow"
  by (rule validated_workflow_writes [OF demoWorkflow_valid])

text \<open>C9: the run-time dispatch of a validated workflow always returns, selects at most one transition, and selects one
  exactly when the guard of some listening transition matches, under these conditions: the guards are in strict form
  (validation also accepts forms on which evaluation fails, see \<open>validation_accepts_what_evaluation_rejects\<close>), the
  operands of all guards are plain scalars no two of which print alike but have different types, and the facts have no
  empty or dotted keys.  Transition names are the keys of a map, so they are distinct.\<close>

theorem validated_dispatch_unambiguous:
  assumes "ValidateWorkflow env w = Inr rwf" and "distinct (map fst (wf_Transitions w))"
    and "strictGuards w" and "cleanV (GMap facts)" and "operands_ok (guardOperands w)"
  shows "\<exists>m t c l. matchingTransition w kind state facts = Inr (m, t, c, l) \<and> c \<le> 1 \<and>
    (c = 1 \<longleftrightarrow> (\<exists>p \<in> set (wf_Transitions w). fires kind state facts p)) \<and>
    (c = 1 \<longrightarrow> (\<exists>tr. t = Some tr \<and> (m, tr) \<in> set (wf_Transitions w) \<and> fires kind state facts (m, tr)))"
proof -
  obtain m t c l where run: "matchingTransition w kind state facts = Inr (m, t, c, l)"
    using matchingTransition_returns [OF assms(1,3)] unfolding returns_iff by (metis prod_cases4)
  from matchingTransition_unique [OF assms(1,2,4,5) run] run show ?thesis by blast
qed

definition demoFacts :: gmap where
  "demoFacts = [(''ci'', GMap [(''state'', GStr ''red'')]), (''work'', GMap [(''visited'', GBool True)])]"

theorem validated_dispatch_witness:
  "\<exists>m t c l. matchingTransition demoWorkflow ''ci.completed'' ''check'' demoFacts = Inr (m, t, c, l) \<and> c \<le> 1"
proof -
  have d: "distinct (map fst (wf_Transitions demoWorkflow))" by code_simp
  have s: "strictGuards demoWorkflow" by code_simp
  have c: "cleanV (GMap demoFacts)" by code_simp
  have o: "operands_ok (guardOperands demoWorkflow)" by code_simp
  show ?thesis using validated_dispatch_unambiguous [OF demoWorkflow_valid d s c o] by blast
qed

text \<open>The same for the custom event clauses.\<close>

lemma validated_clauses_unambiguous:
  assumes "ValidateWorkflow env w = Inr rwf" and "strictGuards w" and "cleanV (GMap facts)"
    and "operands_ok (guardOperands w)"
  shows "\<exists>i t c. matchingEventClause w kind state facts = Inr (i, t, c) \<and> c \<le> 1"
proof -
  obtain i t c where run: "matchingEventClause w kind state facts = Inr (i, t, c)"
    using matchingEventClause_returns [OF assms(1,2)] unfolding returns_iff by (metis prod_cases3)
  then show ?thesis using matchingEventClause_unique [OF assms(1,3,4) run] by blast
qed

text \<open>C10: every effect of a workflow validated against a workspace is one the resolved workspace authorises: a CI effect
  names a pipeline whose connection has the capability, an execution effect needs the execution block's.\<close>

theorem paired_effects_authorised:
  assumes "ValidateWorkflowAgainstWorkspace env w rws = Inr rwf"
  shows "workflowAuthorised w rws"
  by (rule pair_authorised [OF assms])

theorem paired_effects_witness: "workflowAuthorised demoWorkflow demoResolved"
proof -
  have "returns (ValidateWorkflowAgainstWorkspace demoEnv demoWorkflow demoResolved)" by code_simp
  then show ?thesis unfolding returns_iff using paired_effects_authorised by blast
qed

end
