(* ===== verification/Control.thy ===== *)
theory Control
  imports Capabilities GoValue
begin

text \<open>
  The typed control protocol between the hub and a claw: \<^verbatim>\<open>pkg/types/v2/control.go\<close>.

  Instants are nanoseconds since the epoch (\<open>int\<close>), a state version is a \<open>nat\<close> (a \<^verbatim>\<open>uint64\<close> that only counts up from 1), an optional
  pointer is an \<open>option\<close>, raw JSON is the value it encodes.  The tables of message kinds are lists, as the Go
  maps only ever answer membership.
\<close>

datatype disposition = DispAccepted | DispDuplicate | DispStaleState | DispRejected | DispUnauthorized

datatype agent_task_status =
  TaskAssigned | TaskRunning | TaskCompleted | TaskFailed | TaskCancelled | TaskTimedOut

record provenance =
  pv_Producer :: string
  pv_Connection :: string
  pv_Principal :: string
  pv_ObservedAt :: int
  pv_ExternalID :: string
  pv_Reconciled :: bool

record envelope =
  en_ProtocolVersion :: int
  en_MessageID :: string
  en_Kind :: string
  en_RunID :: string
  en_AttemptID :: string
  en_TaskID :: string
  en_ExpectedStateVersion :: "nat option"
  en_CausationID :: string
  en_SentAt :: int
  en_Payload :: "gval option"

record control_receipt =
  cr_MessageID :: string
  cr_Disposition :: disposition
  cr_StateVersion :: nat
  cr_Reason :: string

record bridge_registration =
  br_BridgeVersion :: string
  br_Protocols :: "string list"
  br_Capabilities :: "string list"

record control_registration =
  cg_Token :: string
  cg_ClawID :: string
  cg_RunID :: string
  cg_AttemptID :: string
  cg_Bridge :: bridge_registration

definition hubToClawKinds :: "string list" where
  "hubToClawKinds =
     [''workflow.sync'', ''agent.task.assign'', ''agent.task.cancel'', ''artifact.request'',
      ''checkpoint.request'', ''run.suspend'', ''run.resume'', ''run.terminate'', ''exec.run.assign'',
      ''dependency.update.assign'']"

definition clawToHubKinds :: "string list" where
  "clawToHubKinds =
     [''agent.task.started'', ''agent.task.heartbeat'', ''agent.task.completed'', ''agent.task.failed'',
      ''plan.submitted'', ''delivery.submitted'', ''pull_request.claimed'', ''help.requested'',
      ''exec.run.started'', ''exec.run.heartbeat'', ''exec.run.completed'', ''exec.run.failed'',
      ''dependency.update.started'', ''dependency.update.heartbeat'', ''dependency.update.completed'',
      ''dependency.update.failed'']"

definition stateChangingKinds :: "string list" where
  "stateChangingKinds =
     [''run.suspend'', ''run.resume'', ''run.terminate'', ''agent.task.started'', ''agent.task.completed'',
      ''agent.task.failed'', ''plan.submitted'', ''delivery.submitted'', ''pull_request.claimed'',
      ''exec.run.completed'', ''exec.run.failed'', ''dependency.update.completed'', ''dependency.update.failed'']"

definition taskKinds :: "string list" where
  "taskKinds =
     [''agent.task.assign'', ''agent.task.cancel'', ''agent.task.started'', ''agent.task.heartbeat'',
      ''agent.task.completed'', ''agent.task.failed'', ''exec.run.assign'', ''exec.run.started'',
      ''exec.run.heartbeat'', ''exec.run.completed'', ''exec.run.failed'', ''dependency.update.assign'',
      ''dependency.update.started'', ''dependency.update.heartbeat'', ''dependency.update.completed'',
      ''dependency.update.failed'']"

definition ValidateControlEnvelope :: "envelope \<Rightarrow> string \<Rightarrow> gerr + unit" where
  "ValidateControlEnvelope en direction =
     bindE (whenE (en_ProtocolVersion en \<noteq> 2)
       (Errf ''unsupported control protocol version %d'' [itoa (en_ProtocolVersion en)])) (\<lambda>_.
     bindE (whenE (blank (en_MessageID en)) (Errf ''message_id is required'' [])) (\<lambda>_.
     bindE (whenE (blank (en_RunID en)) (Errf ''run_id is required'' [])) (\<lambda>_.
     bindE (if direction = ''hub_to_claw'' then Inr (en_Kind en \<in> set hubToClawKinds)
            else if direction = ''claw_to_hub'' then Inr (en_Kind en \<in> set clawToHubKinds)
            else Inl (Errf ''unsupported control direction %q'' [direction])) (\<lambda>allowed.
     bindE (whenE (\<not> allowed)
       (Errf ''message kind %q is not allowed for direction %s'' [en_Kind en, direction])) (\<lambda>_.
     bindE (whenE (direction = ''claw_to_hub'' \<and> blank (en_AttemptID en))
       (Errf ''attempt_id is required for claw-to-hub messages'' [])) (\<lambda>_.
     bindE (whenE (en_Kind en \<in> set taskKinds \<and> blank (en_TaskID en))
       (Errf ''task_id is required for message kind %q'' [en_Kind en])) (\<lambda>_.
     whenE (en_Kind en \<in> set stateChangingKinds \<and> en_ExpectedStateVersion en = None)
       (Errf ''expected_state_version is required for state-changing message kind %q'' [en_Kind en]))))))))"

definition SupportsProtocol :: "bridge_registration \<Rightarrow> string \<Rightarrow> bool" where
  "SupportsProtocol r protocol \<longleftrightarrow> list_ex (\<lambda>c. c = protocol) (br_Protocols r)"

definition ValidateBridgeForWorkflow :: "string \<Rightarrow> bridge_registration \<Rightarrow> gerr + unit" where
  "ValidateBridgeForWorkflow schemaVersion r =
     (if \<not> IsV2 schemaVersion then Inr ()
      else whenE (\<not> SupportsProtocol r ''control.v2'')
        (Errf ''workflow schema v2 requires bridge protocol %s'' [''control.v2'']))"

definition ValidateControlRegistration :: "control_registration \<Rightarrow> gerr + unit" where
  "ValidateControlRegistration g =
     bindE (whenE (blank (cg_Token g)) (Errf ''token is required'' [])) (\<lambda>_.
     bindE (whenE (blank (cg_ClawID g)) (Errf ''claw_id is required'' [])) (\<lambda>_.
     bindE (whenE (blank (cg_RunID g)) (Errf ''run_id is required'' [])) (\<lambda>_.
     bindE (whenE (blank (cg_AttemptID g)) (Errf ''attempt_id is required'' [])) (\<lambda>_.
     bindE (whenE (blank (br_BridgeVersion (cg_Bridge g))) (Errf ''bridge_version is required'' [])) (\<lambda>_.
     whenE (\<not> SupportsProtocol (cg_Bridge g) ''control.v2'')
       (Errf ''control registration requires bridge protocol %s'' [''control.v2'']))))))"

fun TaskTerminal :: "agent_task_status \<Rightarrow> bool" where
  "TaskTerminal TaskCompleted = True"
| "TaskTerminal TaskFailed = True"
| "TaskTerminal TaskCancelled = True"
| "TaskTerminal TaskTimedOut = True"
| "TaskTerminal _ = False"

lemma directions_disjoint: "k \<in> set hubToClawKinds \<Longrightarrow> k \<notin> set clawToHubKinds"
  by (auto simp: hubToClawKinds_def clawToHubKinds_def)

lemma ValidateControlEnvelope_ok:
  assumes "ValidateControlEnvelope en direction = Inr ()"
  shows "en_ProtocolVersion en = 2" and "\<not> blank (en_MessageID en)" and "\<not> blank (en_RunID en)"
    and "direction = ''hub_to_claw'' \<and> en_Kind en \<in> set hubToClawKinds \<or>
      direction = ''claw_to_hub'' \<and> en_Kind en \<in> set clawToHubKinds \<and> \<not> blank (en_AttemptID en)"
    and "en_Kind en \<in> set taskKinds \<Longrightarrow> \<not> blank (en_TaskID en)"
    and "en_Kind en \<in> set stateChangingKinds \<Longrightarrow> en_ExpectedStateVersion en \<noteq> None"
  using assms unfolding ValidateControlEnvelope_def by (auto simp: bindE_Inr_iff split: if_splits)

lemma exclusive: "d = a \<and> h \<or> d = b \<and> c \<and> x \<Longrightarrow> d' = a \<and> h \<or> d' = b \<and> c \<and> y \<Longrightarrow> \<not> (h \<and> c) \<Longrightarrow> d' = d"
  by blast

definition demoEnvelope :: envelope where
  "demoEnvelope =
     \<lparr>en_ProtocolVersion = 2, en_MessageID = ''m'', en_Kind = ''agent.task.completed'', en_RunID = ''run'',
      en_AttemptID = ''a'', en_TaskID = ''t'', en_ExpectedStateVersion = Some 2, en_CausationID = [], en_SentAt = 0,
      en_Payload = None\<rparr>"

text \<open>C11: the protocol directions are disjoint: an envelope that validates in one direction validates in no other, so a message
  cannot be reflected; a valid envelope from a claw names its attempt, a task message its task, and a state-changing
  message the state version it expects.\<close>

theorem envelope_single_direction:
  assumes "ValidateControlEnvelope en d = Inr ()"
  shows "(\<forall>d'. ValidateControlEnvelope en d' = Inr () \<longrightarrow> d' = d) \<and>
    (d = ''claw_to_hub'' \<longrightarrow> \<not> blank (en_AttemptID en)) \<and> (en_Kind en \<in> set taskKinds \<longrightarrow> \<not> blank (en_TaskID en)) \<and>
    (en_Kind en \<in> set stateChangingKinds \<longrightarrow> en_ExpectedStateVersion en \<noteq> None)"
proof (intro conjI allI impI)
  note ok = ValidateControlEnvelope_ok [OF assms]
  show "d' = d" if "ValidateControlEnvelope en d' = Inr ()" for d'
  proof -
    have n: "\<not> (en_Kind en \<in> set hubToClawKinds \<and> en_Kind en \<in> set clawToHubKinds)"
      using directions_disjoint [of "en_Kind en"] by simp
    show ?thesis using ok(4) ValidateControlEnvelope_ok(4) [OF that] n by (rule exclusive)
  qed
  show "\<not> blank (en_AttemptID en)" if "d = ''claw_to_hub''"
    using ok(4) that by simp
qed (erule ValidateControlEnvelope_ok(5,6) [OF assms])+

theorem envelope_single_direction_witness:
  "ValidateControlEnvelope demoEnvelope ''claw_to_hub'' = Inr () \<and>
   ValidateControlEnvelope demoEnvelope ''hub_to_claw'' \<noteq> Inr ()"
proof (intro conjI notI)
  show v: "ValidateControlEnvelope demoEnvelope ''claw_to_hub'' = Inr ()" by code_simp
  assume "ValidateControlEnvelope demoEnvelope ''hub_to_claw'' = Inr ()"
  from envelope_single_direction [OF v, THEN conjunct1, rule_format, OF this] show False by simp
qed

end
