(* ===== verification/Store.thy ===== *)
theory Store
  imports WorkflowSound Control
begin

text \<open>
  The durable state of the workflow runtime (\<^verbatim>\<open>pkg/hub/workflowv2/schema.go\<close>) and the transactions on it.

  A table is the list of its rows in insertion order, a row is a record with the columns of the schema (Go's \<^verbatim>\<open>Run\<close>,
  \<^verbatim>\<open>Effect\<close> and \<^verbatim>\<open>Attempt\<close> structs are projections of the rows; the model hands out the row).  A CHECK on an
  enumeration is the datatype of the column; PRIMARY KEY and UNIQUE constraints are errors of the inserting functions.  A
  \<^verbatim>\<open>*_json\<close> column holds the value it encodes, so what is read back is \<open>json_roundtrip\<close> of what was written.

  An operation is a function \<open>store \<Rightarrow> gerr + 'a \<times> store\<close>: \<open>Inl\<close> is an error with the transaction rolled back, so the caller
  keeps its old store.  The store is serializable (\<^verbatim>\<open>sql.LevelSerializable\<close>), so operations run one after the other.  The
  clock reading of an operation is its argument \<open>now\<close>, nanoseconds since the epoch; columns hold \<open>unixMilli now\<close>.  Fresh
  UUIDs come from the parameter \<open>newUUID\<close>, indexed by the number of UUIDs drawn before.
\<close>

section \<open>Columns\<close>

datatype run_status = RunActive | RunSuspended | RunCompleted | RunCancelled

datatype attempt_status =
  AttProvisioning | AttActive | AttSucceeded | AttFailed | AttLost | AttCancelled

datatype producer =
    ProducerHub | ProducerEngine | ProducerAgent | ProducerCI | ProducerSourceControl | ProducerReview
  | ProducerOperator | ProducerEffect | ProducerContext | ProducerCustom | ProducerOther string

datatype effect_status =
    EffectPlanned | EffectRunning | EffectSucceeded | EffectRetryableFailed | EffectPermanentFailed
  | EffectUnknown | EffectCancelled

datatype outbox_status = OutPending | OutSent | OutAcknowledged | OutCancelled

datatype effect_origin = OriginInitial | OriginTransition | OriginEventClause | OriginCommand

fun producerName :: "producer \<Rightarrow> string" where
  "producerName ProducerHub = ''hub''"
| "producerName ProducerEngine = ''engine''"
| "producerName ProducerAgent = ''agent''"
| "producerName ProducerCI = ''ci''"
| "producerName ProducerSourceControl = ''source_control''"
| "producerName ProducerReview = ''review''"
| "producerName ProducerOperator = ''operator''"
| "producerName ProducerEffect = ''effect''"
| "producerName ProducerContext = ''context''"
| "producerName ProducerCustom = ''custom''"
| "producerName (ProducerOther s) = s"

fun runStatusName :: "run_status \<Rightarrow> string" where
  "runStatusName RunActive = ''active''"
| "runStatusName RunSuspended = ''suspended''"
| "runStatusName RunCompleted = ''completed''"
| "runStatusName RunCancelled = ''cancelled''"

fun dispositionName :: "disposition \<Rightarrow> string" where
  "dispositionName DispAccepted = ''accepted''"
| "dispositionName DispDuplicate = ''duplicate''"
| "dispositionName DispStaleState = ''stale_state''"
| "dispositionName DispRejected = ''rejected''"
| "dispositionName DispUnauthorized = ''unauthorized''"

section \<open>Rows\<close>

record run_row =
  run_ID :: string
  run_TenantID :: string
  run_WorkspaceName :: string
  run_WorkflowName :: string
  run_WorkspaceRevision :: string
  run_WorkflowRevision :: string
  run_WorkspaceYAML :: string
  run_WorkflowYAML :: string
  run_State :: string
  run_DisplayPhase :: string
  run_StateVersion :: nat
  run_Status :: run_status
  run_WaitingReason :: string
  run_CurrentAttemptID :: string
  run_CurrentTaskID :: string
  run_ContextBundleID :: string
  run_TriggerType :: string
  run_TaskRunID :: string
  run_TimeoutAt :: int
  run_CreatedAt :: int
  run_UpdatedAt :: int
  run_FinishedAt :: int

record attempt_row =
  at_ID :: string
  at_RunID :: string
  at_ClawID :: string
  at_Number :: nat
  at_Status :: attempt_status
  at_StartedAt :: int
  at_HeartbeatAt :: int
  at_FinishedAt :: int
  at_Reason :: string

record event_row =
  ev_ID :: string
  ev_RunID :: string
  ev_MessageID :: string
  ev_Kind :: string
  ev_AttemptID :: string
  ev_Expected :: "nat option"
  ev_Observed :: nat
  ev_Disposition :: disposition
  ev_Reason :: string
  ev_Producer :: producer
  ev_Provenance :: provenance
  ev_Payload :: gmap
  ev_Facts :: gmap
  ev_ReceivedAt :: int

record receipt_row =
  rc_ID :: string
  rc_RunID :: string
  rc_EventID :: string
  rc_MessageID :: string
  rc_Disposition :: disposition
  rc_Observed :: nat
  rc_Reason :: string
  rc_ReceivedAt :: int

record fact_row =
  fc_RunID :: string
  fc_Key :: string
  fc_Value :: gval
  fc_Producer :: producer
  fc_Provenance :: provenance
  fc_EventID :: string
  fc_UpdatedAt :: int

record transition_row =
  tn_ID :: string
  tn_RunID :: string
  tn_EventID :: string
  tn_Name :: string
  tn_FromState :: string
  tn_ToState :: string
  tn_FromVersion :: nat
  tn_ToVersion :: nat
  tn_WorkspaceRevision :: string
  tn_WorkflowRevision :: string
  tn_FactDelta :: gmap
  tn_CreatedAt :: int

record effect_row =
  ef_ID :: string
  ef_RunID :: string
  ef_OriginType :: effect_origin
  ef_OriginID :: string
  ef_DefinitionPath :: string
  ef_EffectKey :: string
  ef_Kind :: string
  ef_Payload :: gval
  ef_Status :: effect_status
  ef_AttemptCount :: nat
  ef_LeaseOwner :: string
  ef_LeaseExpiresAt :: int
  ef_NextAttemptAt :: int
  ef_Receipt :: gmap
  ef_LastError :: string
  ef_CreatedAt :: int
  ef_UpdatedAt :: int

record effect_attempt_row =
  ea_ID :: string
  ea_EffectID :: string
  ea_Number :: nat
  ea_AttemptID :: string
  ea_Status :: effect_status
  ea_Request :: gval
  ea_Receipt :: gmap
  ea_Error :: string
  ea_StartedAt :: int
  ea_FinishedAt :: int

record task_row =
  tk_ID :: string
  tk_RunID :: string
  tk_EffectID :: string
  tk_AttemptID :: string
  tk_State :: string
  tk_StateVersion :: nat
  tk_Status :: agent_task_status
  tk_Instructions :: string
  tk_AllowedActions :: "string list"
  tk_RequiredArtifacts :: "string list"
  tk_HeartbeatDeadline :: int
  tk_Deadline :: int
  tk_LastHeartbeatAt :: int
  tk_TerminalReason :: string
  tk_CreatedAt :: int
  tk_UpdatedAt :: int
  tk_FinishedAt :: int

record outbox_row =
  ob_MessageID :: string
  ob_RunID :: string
  ob_AttemptID :: string
  ob_TaskID :: string
  ob_Kind :: string
  ob_Envelope :: envelope
  ob_Status :: outbox_status
  ob_AttemptCount :: nat
  ob_NextAttemptAt :: int
  ob_LastError :: string
  ob_CreatedAt :: int
  ob_UpdatedAt :: int
  ob_AcknowledgedAt :: int

record pr_row =
  pr_ID :: string
  pr_RunID :: string
  pr_URL :: string
  pr_RepositoryName :: string
  pr_Repository :: string
  pr_Number :: int
  pr_SourceBranch :: string
  pr_BaseBranch :: string
  pr_HeadSHA :: string
  pr_State :: string
  pr_Active :: bool
  pr_Supersedes :: string
  pr_Provenance :: provenance
  pr_VerifiedAt :: int
  pr_UpdatedAt :: int
  pr_RegisteredOnly :: bool

record head_row =
  hd_ID :: string
  hd_PRID :: string
  hd_SHA :: string
  hd_Generation :: nat
  hd_ObservedAt :: int

record evidence_row =
  ed_ID :: string
  ed_RunID :: string
  ed_PRID :: string
  ed_HeadSHA :: string
  ed_Generation :: nat
  ed_Domain :: string
  ed_Connection :: string
  ed_ExternalID :: string
  ed_Kind :: string
  ed_Status :: string
  ed_Payload :: gmap
  ed_Provenance :: provenance
  ed_ObservedAt :: int
  ed_SupersededAt :: int

record store =
  db_runs :: "run_row list"
  db_attempts :: "attempt_row list"
  db_events :: "event_row list"
  db_receipts :: "receipt_row list"
  db_facts :: "fact_row list"
  db_transitions :: "transition_row list"
  db_effects :: "effect_row list"
  db_effect_attempts :: "effect_attempt_row list"
  db_tasks :: "task_row list"
  db_outbox :: "outbox_row list"
  db_prs :: "pr_row list"
  db_heads :: "head_row list"
  db_evidence :: "evidence_row list"
  db_uuids :: nat

definition emptyStore :: store where
  "emptyStore = \<lparr>db_runs = [], db_attempts = [], db_events = [], db_receipts = [], db_facts = [],
     db_transitions = [], db_effects = [], db_effect_attempts = [], db_tasks = [], db_outbox = [],
     db_prs = [], db_heads = [], db_evidence = [], db_uuids = 0\<rparr>"

text \<open>What the runtime calls outside the repository: document parsing, UUIDs and the SHA-256 digest in hexadecimal.\<close>

record rt_env =
  rt_doc :: doc_env
  rt_yaml :: yaml_env
  newUUID :: "nat \<Rightarrow> string"
  sha256Hex :: "string \<Rightarrow> string"

definition unixMilli :: "int \<Rightarrow> int" where
  "unixMilli t = t div 1000000"

section \<open>Transactions\<close>

type_synonym 'a tx = "store \<Rightarrow> gerr + 'a \<times> store"

definition returnT :: "'a \<Rightarrow> 'a tx" where
  "returnT x = (\<lambda>s. Inr (x, s))"

definition failT :: "gerr \<Rightarrow> 'a tx" where
  "failT e = (\<lambda>s. Inl e)"

definition bindT :: "'a tx \<Rightarrow> ('a \<Rightarrow> 'b tx) \<Rightarrow> 'b tx" where
  "bindT m f = (\<lambda>s. case m s of Inl e \<Rightarrow> Inl e | Inr (x, s') \<Rightarrow> f x s')"

definition thenT :: "'a tx \<Rightarrow> 'b tx \<Rightarrow> 'b tx" where
  "thenT m k = bindT m (\<lambda>_. k)"

definition liftT :: "gerr + 'a \<Rightarrow> 'a tx" where
  "liftT m = (\<lambda>s. case m of Inl e \<Rightarrow> Inl e | Inr x \<Rightarrow> Inr (x, s))"

definition getsT :: "(store \<Rightarrow> 'a) \<Rightarrow> 'a tx" where
  "getsT f = (\<lambda>s. Inr (f s, s))"

definition modifyT :: "(store \<Rightarrow> store) \<Rightarrow> unit tx" where
  "modifyT f = (\<lambda>s. Inr ((), f s))"

definition whenT :: "bool \<Rightarrow> gerr \<Rightarrow> unit tx" where
  "whenT b e = (if b then failT e else returnT ())"

text \<open>\<^verbatim>\<open>row.Scan\<close> on a query without rows is the error \<^verbatim>\<open>sql.ErrNoRows\<close>.\<close>

definition scanT :: "gerr \<Rightarrow> (store \<Rightarrow> 'a option) \<Rightarrow> 'a tx" where
  "scanT e f = (\<lambda>s. case f s of None \<Rightarrow> Inl e | Some x \<Rightarrow> Inr (x, s))"

definition errNoRows :: gerr where
  "errNoRows = Errf ''sql: no rows in result set'' []"

definition freshUUID :: "rt_env \<Rightarrow> string tx" where
  "freshUUID env = (\<lambda>s. Inr (newUUID env (db_uuids s), s\<lparr>db_uuids := Suc (db_uuids s)\<rparr>))"

text \<open>\<^verbatim>\<open>UPDATE t SET ... WHERE ...\<close> with its \<^verbatim>\<open>RowsAffected\<close>; a table is given by its selector and its update.\<close>

definition updateT ::
    "(store \<Rightarrow> 'r list) \<Rightarrow> (('r list \<Rightarrow> 'r list) \<Rightarrow> store \<Rightarrow> store) \<Rightarrow> ('r \<Rightarrow> bool) \<Rightarrow> ('r \<Rightarrow> 'r) \<Rightarrow> nat tx" where
  "updateT sel upd P f = (\<lambda>s. Inr (sql_count P (sel s), upd (sql_update P f) s))"

fun forT :: "('a \<Rightarrow> unit tx) \<Rightarrow> 'a list \<Rightarrow> unit tx" where
  "forT f [] = returnT ()"
| "forT f (x # xs) = thenT (f x) (forT f xs)"

text \<open>An operation that returns without an error but before \<^verbatim>\<open>tx.Commit\<close>: the deferred rollback restores the store.\<close>

datatype 'a outcome = Commit 'a | Rollback 'a

definition transact :: "'a outcome tx \<Rightarrow> 'a tx" where
  "transact m = (\<lambda>s. case m s of
       Inl e \<Rightarrow> Inl e
     | Inr (Commit x, s') \<Rightarrow> Inr (x, s')
     | Inr (Rollback x, s') \<Rightarrow> Inr (x, s))"

section \<open>Reasoning about transactions\<close>

text \<open>
  \<open>hoare P m Q\<close>: from a store satisfying \<open>P\<close>, if \<open>m\<close> commits then \<open>Q\<close> holds of the result and the new store.
  \<open>moves R m\<close>: every commit of \<open>m\<close> takes a store to one it is \<open>R\<close>-related to.
\<close>

definition hoare :: "(store \<Rightarrow> bool) \<Rightarrow> 'a tx \<Rightarrow> ('a \<Rightarrow> store \<Rightarrow> bool) \<Rightarrow> bool" where
  "hoare P m Q \<longleftrightarrow> (\<forall>s x s'. P s \<longrightarrow> m s = Inr (x, s') \<longrightarrow> Q x s')"

definition moves :: "(store \<Rightarrow> store \<Rightarrow> bool) \<Rightarrow> 'a tx \<Rightarrow> bool" where
  "moves R m \<longleftrightarrow> (\<forall>s x s'. m s = Inr (x, s') \<longrightarrow> R s s')"

named_theorems tx_ok \<open>when a transaction commits\<close>

lemma tx_iffs [tx_ok]:
  "returnT a s = Inr (x, s') \<longleftrightarrow> x = a \<and> s' = s"
  "failT e s = Inr (x, s') \<longleftrightarrow> False"
  "bindT m f s = Inr (y, s') \<longleftrightarrow> (\<exists>x t. m s = Inr (x, t) \<and> f x t = Inr (y, s'))"
  "thenT n k s = Inr (y, s') \<longleftrightarrow> (\<exists>x t. n s = Inr (x, t) \<and> k t = Inr (y, s'))"
  "liftT r s = Inr (x, s') \<longleftrightarrow> r = Inr x \<and> s' = s"
  "getsT g s = Inr (x, s') \<longleftrightarrow> x = g s \<and> s' = s"
  "modifyT h s = Inr (u, s') \<longleftrightarrow> s' = h s"
  "whenT b e s = Inr (u, s') \<longleftrightarrow> \<not> b \<and> s' = s"
  "scanT e q s = Inr (x, s') \<longleftrightarrow> q s = Some x \<and> s' = s"
  "updateT sel upd P st s = Inr (cnt, s') \<longleftrightarrow> cnt = sql_count P (sel s) \<and> s' = upd (sql_update P st) s"
  "freshUUID env s = Inr (i, s') \<longleftrightarrow> i = newUUID env (db_uuids s) \<and> s' = s\<lparr>db_uuids := Suc (db_uuids s)\<rparr>"
  by (auto simp: returnT_def failT_def bindT_def thenT_def liftT_def getsT_def modifyT_def whenT_def scanT_def
    freshUUID_def updateT_def split: sum.splits option.splits)

lemma transact_iff [tx_ok]:
  "transact m s = Inr (x, s') \<longleftrightarrow> m s = Inr (Commit x, s') \<or> s' = s \<and> (\<exists>t. m s = Inr (Rollback x, t))"
  by (auto simp: transact_def split: sum.splits outcome.splits)

lemma movesD: "moves R m \<Longrightarrow> m s = Inr (x, s') \<Longrightarrow> R s s'"
  unfolding moves_def by blast

lemma hoareD: "hoare P m Q \<Longrightarrow> P s \<Longrightarrow> m s = Inr (x, s') \<Longrightarrow> Q x s'"
  unfolding hoare_def by blast

text \<open>
  What an operation may do to the store is a reflexive and transitive relation: a table only grows, a column never changes,
  a status only moves forward.  Everything a transaction is built from inherits it.
\<close>

locale step_order =
  fixes R :: "store \<Rightarrow> store \<Rightarrow> bool"
  assumes R_refl: "R s s"
    and R_trans: "R s t \<Longrightarrow> R t u \<Longrightarrow> R s u"
begin

lemma moves_pure:
  "moves R (returnT x)" "moves R (failT e)" "moves R (liftT r)" "moves R (getsT g)" "moves R (whenT b e)"
  "moves R (scanT e q)"
  unfolding moves_def by (auto simp: tx_ok R_refl)

lemma moves_modify: "(\<And>s. R s (h s)) \<Longrightarrow> moves R (modifyT h)"
  unfolding moves_def by (auto simp: tx_ok)

lemma moves_update: "(\<And>s. R s (upd (sql_update P f) s)) \<Longrightarrow> moves R (updateT sel upd P f)"
  unfolding moves_def by (auto simp: tx_ok)

lemma moves_fresh: "(\<And>s n. R s (s\<lparr>db_uuids := n\<rparr>)) \<Longrightarrow> moves R (freshUUID env)"
  unfolding moves_def by (auto simp: tx_ok)

lemma moves_bind: "moves R m \<Longrightarrow> (\<And>x. moves R (f x)) \<Longrightarrow> moves R (bindT m f)"
  unfolding moves_def tx_ok using R_trans by blast

lemma moves_bind_lift: "(\<And>x. r = Inr x \<Longrightarrow> moves R (f x)) \<Longrightarrow> moves R (bindT (liftT r) f)"
  unfolding moves_def tx_ok by blast

lemma moves_bind_scan: "(\<And>x s. q s = Some x \<Longrightarrow> moves R (f x)) \<Longrightarrow> moves R (bindT (scanT e q) f)"
  unfolding moves_def tx_ok by blast

lemma moves_then: "moves R m \<Longrightarrow> moves R k \<Longrightarrow> moves R (thenT m k)"
  unfolding moves_def tx_ok using R_trans by blast

lemma moves_transact: "moves R m \<Longrightarrow> moves R (transact m)"
  unfolding moves_def by (auto simp: tx_ok R_refl)

lemma moves_wrap: "moves R m \<Longrightarrow> moves R (\<lambda>s. wrapE f args (m s))"
  unfolding moves_def by simp

lemma moves_cases:
  "(b \<Longrightarrow> moves R m) \<Longrightarrow> (\<not> b \<Longrightarrow> moves R k) \<Longrightarrow> moves R (if b then m else k)"
  "(v = None \<Longrightarrow> moves R m) \<Longrightarrow> (\<And>x. v = Some x \<Longrightarrow> moves R (g x)) \<Longrightarrow> moves R (case v of None \<Rightarrow> m | Some x \<Rightarrow> g x)"
  "(\<And>a c. p = (a, c) \<Longrightarrow> moves R (h a c)) \<Longrightarrow> moves R (case p of (a, c) \<Rightarrow> h a c)"
  by (auto split: option.split prod.split)

lemma moves_for: "(\<And>x. x \<in> set xs \<Longrightarrow> moves R (f x)) \<Longrightarrow> moves R (forT f xs)"
  by (induction xs) (auto intro: moves_pure moves_then)

end

lemma hoare_weaken: "hoare P m Q \<Longrightarrow> (\<And>s. P' s \<Longrightarrow> P s) \<Longrightarrow> (\<And>x s. Q x s \<Longrightarrow> Q' x s) \<Longrightarrow> hoare P' m Q'"
  unfolding hoare_def by blast

lemma hoare_bind: "hoare P m Q \<Longrightarrow> (\<And>x. hoare (Q x) (f x) Q') \<Longrightarrow> hoare P (bindT m f) Q'"
  unfolding hoare_def tx_ok by blast

end
