(* ===== verification/Facts.thy ===== *)
theory Facts
  imports Store "HOL-Library.Sublist"
begin

text \<open>
  Facts and who may supply them: the map helpers (\<^verbatim>\<open>setDotted\<close>, \<^verbatim>\<open>deleteDotted\<close>, \<^verbatim>\<open>applyWritesToMap\<close>,
  \<^verbatim>\<open>mergeWrites\<close>, \<^verbatim>\<open>deepMerge\<close>) and the producer tables of \<^verbatim>\<open>pkg/hub/workflowv2/runtime.go\<close>.

  Maps are values, so \<^verbatim>\<open>cloneMap\<close> is the identity.  Go updates nested maps in place; the two agree as long as no two
  written keys overlap (one a dotted prefix of the other), because then a map stored by one write is never
  modified by the next.

  The locale \<open>path_map\<close> states what a tree of maps promises about reading, writing and deleting at a path; the dotted
  facts are its interpretation.
\<close>

section \<open>Dotted keys\<close>

definition subMap :: "gval option \<Rightarrow> gmap" where
  "subMap v = (case v of Some (GMap n) \<Rightarrow> n | _ \<Rightarrow> [])"

fun setPath :: "gmap \<Rightarrow> string list \<Rightarrow> gval \<Rightarrow> gmap" where
  "setPath m [] v = m"
| "setPath m [p] v = AList.update p v m"
| "setPath m (p # q # ps) v = AList.update p (GMap (setPath (subMap (map_of m p)) (q # ps) v)) m"

definition setDotted :: "gmap \<Rightarrow> string \<Rightarrow> gval \<Rightarrow> gmap" where
  "setDotted target key v = setPath target (splitOn (CHR ''.'') key) v"

fun deletePath :: "gmap \<Rightarrow> string list \<Rightarrow> gmap" where
  "deletePath m [] = m"
| "deletePath m [p] = AList.delete p m"
| "deletePath m (p # q # ps) =
     (case map_of m p of
        Some (GMap n) \<Rightarrow> AList.update p (GMap (deletePath n (q # ps))) m
      | _ \<Rightarrow> m)"

definition deleteDotted :: "gmap \<Rightarrow> string \<Rightarrow> gmap" where
  "deleteDotted target key = deletePath target (splitOn (CHR ''.'') key)"

definition applyWrite :: "gmap \<Rightarrow> string \<times> gval \<Rightarrow> gmap" where
  "applyWrite facts kv = (if snd kv = GNil then deleteDotted facts (fst kv) else setDotted facts (fst kv) (snd kv))"

definition applyWritesToMap :: "gmap \<Rightarrow> gmap \<Rightarrow> gmap" where
  "applyWritesToMap facts writes = foldl applyWrite facts writes"

definition mergeWrites :: "gmap list \<Rightarrow> gmap" where
  "mergeWrites maps = foldl (\<lambda>result values. foldl (\<lambda>r (k, v). AList.update k v r) result values) [] maps"

function (sequential) deepMerge :: "gmap \<Rightarrow> gmap \<Rightarrow> gmap"
  and mergeValue :: "gval option \<Rightarrow> gval \<Rightarrow> gval" where
  "deepMerge target [] = target"
| "deepMerge target ((k, v) # rest) = deepMerge (AList.update k (mergeValue (map_of target k) v) target) rest"
| "mergeValue old (GMap nested) = GMap (deepMerge (subMap old) nested)"
| "mergeValue old v = v"
  by pat_completeness auto
termination
  by (relation "measure (\<lambda>x. case x of Inl (t, overlay) \<Rightarrow> gmsz overlay | Inr (old, v) \<Rightarrow> gsz v)") auto

section \<open>Producers\<close>

definition namespaceOf :: "string \<Rightarrow> string" where
  "namespaceOf key = hd (splitOn (CHR ''.'') (trimSpace key))"

fun payloadNamespaces :: "producer \<Rightarrow> string list" where
  "payloadNamespaces ProducerAgent =
     [''agent'', ''task'', ''plan'', ''delivery'', ''help'', ''artifact'', ''checkpoint'']"
| "payloadNamespaces ProducerCI = [''ci'']"
| "payloadNamespaces ProducerSourceControl = [''pull_request'', ''delivery'']"
| "payloadNamespaces ProducerReview = [''review'']"
| "payloadNamespaces ProducerOperator = [''operator'', ''command'']"
| "payloadNamespaces ProducerEffect = [''effect'', ''effects'']"
| "payloadNamespaces ProducerContext = [''context'']"
| "payloadNamespaces ProducerCustom = [''custom'']"
| "payloadNamespaces ProducerHub = [''workflow'', ''run'', ''setup'', ''task'', ''exec'']"
| "payloadNamespaces ProducerEngine = [''workflow'', ''run'', ''setup'', ''task'', ''exec'']"
| "payloadNamespaces (ProducerOther s) = []"

definition producerMaySupplyPayload :: "producer \<Rightarrow> string \<Rightarrow> bool" where
  "producerMaySupplyPayload p namespace \<longleftrightarrow> namespaceOf namespace \<in> set (payloadNamespaces p)"

fun emitPrefixes :: "producer \<Rightarrow> string list" where
  "emitPrefixes ProducerAgent = [''agent'', ''plan'', ''delivery'', ''help'', ''artifact'', ''checkpoint'']"
| "emitPrefixes ProducerCI = [''ci'']"
| "emitPrefixes ProducerSourceControl = [''pull_request'', ''delivery'']"
| "emitPrefixes ProducerReview = [''review'']"
| "emitPrefixes ProducerOperator = [''operator'', ''command'']"
| "emitPrefixes ProducerEffect = [''effect'', ''effects'']"
| "emitPrefixes ProducerContext = [''context'']"
| "emitPrefixes ProducerCustom = [''custom'']"
| "emitPrefixes ProducerHub = [''workflow'', ''run'', ''setup'', ''task'', ''exec'', ''dependency'']"
| "emitPrefixes ProducerEngine = [''workflow'', ''run'', ''setup'', ''task'', ''exec'', ''dependency'']"
| "emitPrefixes (ProducerOther s) = []"

definition producerMayEmit :: "producer \<Rightarrow> string \<Rightarrow> bool" where
  "producerMayEmit p kind \<longleftrightarrow> namespaceOf kind \<in> set (emitPrefixes p)"

definition factOwners :: "string \<Rightarrow> producer list" where
  "factOwners namespace =
     (if namespace = ''ci'' then [ProducerCI]
      else if namespace = ''pull_request'' then [ProducerSourceControl]
      else if namespace = ''delivery'' then [ProducerSourceControl, ProducerEngine]
      else if namespace = ''review'' then [ProducerReview]
      else if namespace = ''operator'' then [ProducerOperator]
      else if namespace = ''effects'' then [ProducerEffect]
      else if namespace = ''workflow'' then [ProducerEngine]
      else if namespace = ''context'' then [ProducerContext]
      else if namespace = ''exec'' then [ProducerEngine, ProducerHub]
      else if namespace = ''work'' \<or> namespace = ''custom'' then [ProducerEngine, ProducerCustom]
      else [])"

definition producerOwnsFact :: "producer \<Rightarrow> string \<Rightarrow> bool" where
  "producerOwnsFact p key \<longleftrightarrow> p \<in> set (factOwners (namespaceOf key))"

section \<open>Maps addressed by paths\<close>

locale path_map =
  fixes get :: "'m \<Rightarrow> 'k list \<Rightarrow> 'v option"
    and put :: "'m \<Rightarrow> 'k list \<Rightarrow> 'v \<Rightarrow> 'm"
    and del :: "'m \<Rightarrow> 'k list \<Rightarrow> 'm"
  assumes get_put: "p \<noteq> [] \<Longrightarrow> get (put m p v) p = Some v"
    and get_put_other: "p \<noteq> [] \<Longrightarrow> q \<noteq> [] \<Longrightarrow> p \<parallel> q \<Longrightarrow> get (put m p v) q = get m q"
    and get_del: "p \<noteq> [] \<Longrightarrow> get (del m p) p = None"
    and get_del_other: "p \<noteq> [] \<Longrightarrow> q \<noteq> [] \<Longrightarrow> p \<parallel> q \<Longrightarrow> get (del m p) q = get m q"
begin

definition writeAt :: "'m \<Rightarrow> 'k list \<times> 'v option \<Rightarrow> 'm" where
  "writeAt m pv = (case snd pv of None \<Rightarrow> del m (fst pv) | Some v \<Rightarrow> put m (fst pv) v)"

lemma get_write: "p \<noteq> [] \<Longrightarrow> get (writeAt m (p, v)) p = v"
  by (cases v) (simp_all add: writeAt_def get_put get_del)

lemma get_write_other: "p \<noteq> [] \<Longrightarrow> q \<noteq> [] \<Longrightarrow> p \<parallel> q \<Longrightarrow> get (writeAt m (p, v)) q = get m q"
  by (cases v) (simp_all add: writeAt_def get_put_other get_del_other)

lemma get_writes_other:
  "\<forall>(p, v) \<in> set ws. p \<noteq> [] \<and> p \<parallel> q \<Longrightarrow> q \<noteq> [] \<Longrightarrow> get (foldl writeAt m ws) q = get m q"
proof (induction ws arbitrary: m)
  case (Cons w ws)
  obtain p v where w: "w = (p, v)" by (cases w)
  have "get (foldl writeAt (writeAt m w) ws) q = get (writeAt m w) q" using Cons by auto
  then show ?case using Cons.prems by (auto simp: w get_write_other)
qed simp

lemma get_writes:
  "pairwise (\<lambda>p q. p \<parallel> q) (fst ` set ws) \<Longrightarrow> distinct (map fst ws) \<Longrightarrow> [] \<notin> fst ` set ws \<Longrightarrow> (p, v) \<in> set ws \<Longrightarrow>
   get (foldl writeAt m ws) p = v"
proof (induction ws arbitrary: m)
  case (Cons w ws)
  show ?case
  proof (cases "(p, v) = w")
    case True
    have "\<forall>(q, u) \<in> set ws. q \<noteq> [] \<and> q \<parallel> p"
      using Cons.prems(1-3) True unfolding pairwise_def by force
    then have "get (foldl writeAt (writeAt m w) ws) p = get (writeAt m w) p"
      using Cons.prems(3) True by (intro get_writes_other) auto
    then show ?thesis using True Cons.prems(3) by (auto simp: get_write)
  next
    case False
    then show ?thesis using Cons by (auto simp: pairwise_insert)
  qed
qed simp

text \<open>Writes at unrelated paths commute: the order in which they are applied cannot be observed at the written paths or at
  any path unrelated to them.\<close>

lemma writes_commute:
  assumes "pairwise (\<lambda>p q. p \<parallel> q) (fst ` set ws)" and "distinct (map fst ws)" and "[] \<notin> fst ` set ws"
    and "set ws' = set ws" and "distinct (map fst ws')"
    and "q \<noteq> []" and "q \<in> fst ` set ws \<or> (\<forall>p \<in> fst ` set ws. p \<parallel> q)"
  shows "get (foldl writeAt m ws') q = get (foldl writeAt m ws) q"
proof (cases "q \<in> fst ` set ws")
  case True
  then obtain v where v: "(q, v) \<in> set ws" by auto
  then show ?thesis using get_writes [OF assms(1-3) v] get_writes [of ws' q v] assms by simp
next
  case False
  then have "\<forall>(p, v) \<in> set ws. p \<noteq> [] \<and> p \<parallel> q" using assms(3,7) by force
  then show ?thesis using assms(4,6) by (simp add: get_writes_other)
qed

end

lemma walkPath_setPath: "p \<noteq> [] \<Longrightarrow> walkPath (GMap (setPath m p v)) p = Some v"
  by (induction m p v rule: setPath.induct) (auto simp: map_of_update)

lemma walkPath_subMap: "q \<noteq> [] \<Longrightarrow> walkPath (GMap (subMap v)) q = (case v of None \<Rightarrow> None | Some u \<Rightarrow> walkPath u q)"
  by (cases q; cases v) (auto simp: subMap_def split: gval.splits)

lemma parallel_same_head: "c # xs \<parallel> c # ys \<Longrightarrow> xs \<parallel> ys"
  by (auto elim!: parallelE intro!: parallelI)

lemma walkPath_setPath_other:
  "p \<noteq> [] \<Longrightarrow> q \<noteq> [] \<Longrightarrow> p \<parallel> q \<Longrightarrow> walkPath (GMap (setPath m p v)) q = walkPath (GMap m) q"
proof (induction m p v arbitrary: q rule: setPath.induct)
  case (2 m a v)
  then show ?case by (cases q) (auto simp: map_of_update)
next
  case (3 m a b p v)
  then obtain c q' where q: "q = c # q'" by (cases q) auto
  show ?case
  proof (cases "a = c")
    case True
    then have "b # p \<parallel> q'" using 3 q by (auto dest: parallel_same_head)
    then have "q' \<noteq> []" by auto
    with 3 q True \<open>b # p \<parallel> q'\<close> show ?thesis
      by (simp add: map_of_update walkPath_subMap split: option.splits)
  next
    case False
    then show ?thesis using q by (simp add: map_of_update)
  qed
qed simp

lemma walkPath_deletePath: "p \<noteq> [] \<Longrightarrow> walkPath (GMap (deletePath m p)) p = None"
  by (induction m p rule: deletePath.induct)
    (auto simp: map_of_update map_of_delete split: option.splits gval.splits)

lemma walkPath_deletePath_other:
  "p \<noteq> [] \<Longrightarrow> q \<noteq> [] \<Longrightarrow> p \<parallel> q \<Longrightarrow> walkPath (GMap (deletePath m p)) q = walkPath (GMap m) q"
proof (induction m p arbitrary: q rule: deletePath.induct)
  case (2 m a)
  then show ?case by (cases q) (auto simp: map_of_delete)
next
  case (3 m a b p)
  then obtain c q' where q: "q = c # q'" by (cases q) auto
  show ?case
  proof (cases "a = c")
    case True
    then have par: "b # p \<parallel> q'" using 3 q by (auto dest: parallel_same_head)
    then have "q' \<noteq> []" by auto
    then show ?thesis using 3 q True par
      by (auto simp: map_of_update split: option.splits gval.splits)
  next
    case False
    then show ?thesis using q by (auto simp: map_of_update split: option.splits gval.splits)
  qed
qed simp

interpretation facts: path_map "\<lambda>m. walkPath (GMap m)" setPath deletePath
  by unfold_locales (simp_all add: walkPath_setPath walkPath_setPath_other walkPath_deletePath walkPath_deletePath_other)

section \<open>Reading written facts\<close>

text \<open>Two keys overlap when one names a place inside the other.\<close>

definition overlapping :: "string \<Rightarrow> string \<Rightarrow> bool" where
  "overlapping k l \<longleftrightarrow> \<not> splitOn (CHR ''.'') k \<parallel> splitOn (CHR ''.'') l"

definition separateKeys :: "gmap \<Rightarrow> bool" where
  "separateKeys ws \<longleftrightarrow> distinct (map fst ws) \<and>
     (\<forall>k \<in> fst ` set ws. \<forall>l \<in> fst ` set ws. k \<noteq> l \<longrightarrow> \<not> overlapping k l)"

definition asPathWrite :: "string \<times> gval \<Rightarrow> string list \<times> gval option" where
  "asPathWrite kv = (splitOn (CHR ''.'') (fst kv), if snd kv = GNil then None else Some (snd kv))"

lemma applyWrites_paths: "applyWritesToMap m ws = foldl facts.writeAt m (map asPathWrite ws)"
  by (induction ws arbitrary: m)
    (auto simp: applyWritesToMap_def applyWrite_def asPathWrite_def facts.writeAt_def setDotted_def deleteDotted_def)

lemma keys_asPathWrite: "fst ` set (map asPathWrite ws) = splitOn (CHR ''.'') ` fst ` set ws"
  by (force simp: asPathWrite_def)

lemma separateKeys_paths:
  assumes "separateKeys ws"
  shows "pairwise (\<lambda>p q. p \<parallel> q) (fst ` set (map asPathWrite ws))"
    and "distinct (map fst (map asPathWrite ws))" and "[] \<notin> fst ` set (map asPathWrite ws)"
proof -
  show "pairwise (\<lambda>p q. p \<parallel> q) (fst ` set (map asPathWrite ws))"
  proof (rule pairwiseI)
    fix p q
    assume p: "p \<in> fst ` set (map asPathWrite ws)" and q: "q \<in> fst ` set (map asPathWrite ws)" and ne: "p \<noteq> q"
    obtain k where k: "p = splitOn (CHR ''.'') k" "k \<in> fst ` set ws" using p [unfolded keys_asPathWrite] by (rule imageE)
    obtain l where l: "q = splitOn (CHR ''.'') l" "l \<in> fst ` set ws" using q [unfolded keys_asPathWrite] by (rule imageE)
    have "k \<noteq> l" using ne unfolding k(1) l(1) by metis
    then have "\<not> overlapping k l" using assms k(2) l(2) by (simp only: separateKeys_def ball_simps) blast
    then show "p \<parallel> q" using k l by (simp add: overlapping_def)
  qed
  have "inj_on (splitOn (CHR ''.'')) (set (map fst ws))" by (intro inj_onI splitOn_inj)
  moreover have "distinct (map fst ws)" using assms by (simp only: separateKeys_def)
  ultimately have d: "distinct (map (splitOn (CHR ''.'')) (map fst ws))" by (simp only: distinct_map)
  have "map fst (map asPathWrite ws) = map (splitOn (CHR ''.'')) (map fst ws)"
    by (simp add: asPathWrite_def)
  with d show "distinct (map fst (map asPathWrite ws))" by (simp only:)
  show "[] \<notin> fst ` set (map asPathWrite ws)" by (auto simp: asPathWrite_def dest: sym)
qed

lemma lookup_after_writes:
  assumes "separateKeys ws" and "(k, v) \<in> set ws"
  shows "lookupDottedPath (applyWritesToMap m ws) k = (if v = GNil then None else Some v)"
proof -
  have "(splitOn (CHR ''.'') k, if v = GNil then None else Some v) \<in> set (map asPathWrite ws)"
    using assms(2) by (force simp: asPathWrite_def)
  from facts.get_writes [OF separateKeys_paths [OF assms(1)] this]
  show ?thesis by (simp add: lookupDottedPath_def applyWrites_paths)
qed

lemma lookup_unwritten:
  assumes "\<And>l v. (l, v) \<in> set ws \<Longrightarrow> \<not> overlapping l k"
  shows "lookupDottedPath (applyWritesToMap m ws) k = lookupDottedPath m k"
  unfolding lookupDottedPath_def applyWrites_paths
  by (rule facts.get_writes_other) (use assms in \<open>auto simp: asPathWrite_def overlapping_def\<close>)

text \<open>C12: a set of fact writes with pairwise unrelated keys has one meaning, whatever order the map is ranged in: afterwards every
  written key reads as the written value, or as absent when it was written as null, and every unrelated key reads as before.\<close>

theorem fact_writes_deterministic:
  assumes "separateKeys ws" and "separateKeys ws'" and "set ws' = set ws"
  shows "(\<forall>(k, v) \<in> set ws. lookupDottedPath (applyWritesToMap m ws') k = (if v = GNil then None else Some v)) \<and>
    (\<forall>k. (\<forall>(l, v) \<in> set ws. \<not> overlapping l k) \<longrightarrow>
       lookupDottedPath (applyWritesToMap m ws') k = lookupDottedPath m k)"
proof -
  have "lookupDottedPath (applyWritesToMap m ws') k = (if v = GNil then None else Some v)" if "(k, v) \<in> set ws" for k v
    using lookup_after_writes [OF assms(2), of k v m] that assms(3) by simp
  moreover have "lookupDottedPath (applyWritesToMap m ws') k = lookupDottedPath m k"
    if "\<forall>(l, v) \<in> set ws. \<not> overlapping l k" for k
    using that assms(3) by (intro lookup_unwritten) auto
  ultimately show ?thesis by blast
qed

definition demoWrites :: gmap where
  "demoWrites = [(''work.a.b'', GInt 1), (''custom'', GNil), (''work.c'', GMap [(''d'', GBool True)])]"

theorem fact_writes_deterministic_witness:
  "lookupDottedPath (applyWritesToMap [(''custom'', GStr ''x'')] (rev demoWrites)) ''custom'' = None"
proof -
  have s: "separateKeys demoWrites" and r: "separateKeys (rev demoWrites)"
    by (auto simp: separateKeys_def demoWrites_def overlapping_def parallel_def)
  have "(''custom'', GNil) \<in> set demoWrites" by (simp add: demoWrites_def)
  with fact_writes_deterministic [OF s r set_rev, of "[(''custom'', GStr ''x'')]"] show ?thesis by fastforce
qed

section \<open>Payloads during matching\<close>

lemma map_of_deepMerge_other: "k \<notin> fst ` set overlay \<Longrightarrow> map_of (deepMerge target overlay) k = map_of target k"
proof (induction overlay arbitrary: target)
  case (Cons kv overlay)
  obtain l v where "kv = (l, v)" by (cases kv)
  then show ?case using Cons by (simp add: map_of_update)
qed simp

lemma walkPath_root: "map_of m p = map_of n p \<Longrightarrow> walkPath (GMap m) (p # ps) = walkPath (GMap n) (p # ps)"
  by simp

definition payloadAuthorized :: "producer \<Rightarrow> gmap \<Rightarrow> bool" where
  "payloadAuthorized p payload \<longleftrightarrow> list_all (\<lambda>(k, v). producerMaySupplyPayload p k) payload"

text \<open>C13: a payload cannot forge the facts of a namespace its producer may not supply: a guard that reads such a key sees the
  stored fact, whatever the payload holds.\<close>

theorem payload_noninterference:
  assumes "payloadAuthorized p payload" and "\<not> producerMaySupplyPayload p key"
    and "\<not> producerMaySupplyPayload p (hd (splitOn (CHR ''.'') key))"
  shows "factLookup (deepMerge facts payload) key = factLookup facts key"
proof -
  have k: "l \<notin> fst ` set payload" if "\<not> producerMaySupplyPayload p l" for l
    using assms(1) that by (force simp: payloadAuthorized_def list_all_iff)
  obtain r ps where s: "splitOn (CHR ''.'') key = r # ps" by (meson neq_Nil_conv splitOn_nonempty)
  have "map_of (deepMerge facts payload) key = map_of facts key"
    by (rule map_of_deepMerge_other [OF k [OF assms(2)]])
  moreover have "map_of (deepMerge facts payload) r = map_of facts r"
    by (rule map_of_deepMerge_other [OF k]) (use assms(3) s in simp)
  then have "lookupDottedPath (deepMerge facts payload) key = lookupDottedPath facts key"
    unfolding lookupDottedPath_def s by (rule walkPath_root)
  ultimately show ?thesis by (simp add: factLookup_def split: option.split)
qed

theorem payload_noninterference_witness:
  "factLookup (deepMerge [(''ci'', GMap [(''state'', GStr ''red'')])] [(''task'', GMap [(''ci.state'', GStr ''green'')])])
     ''ci.state'' = Some (GStr ''red'')"
proof -
  have a: "payloadAuthorized ProducerAgent [(''task'', GMap [(''ci.state'', GStr ''green'')])]"
    and b: "\<not> producerMaySupplyPayload ProducerAgent ''ci.state''"
    and c: "\<not> producerMaySupplyPayload ProducerAgent (hd (splitOn (CHR ''.'') ''ci.state''))"
    by code_simp+
  show ?thesis using payload_noninterference [OF a b c] by (simp add: factLookup_def lookupDottedPath_def)
qed

text \<open>The exception: an agent may supply a \<^verbatim>\<open>delivery\<close> payload although it owns no \<^verbatim>\<open>delivery\<close> fact, so on an agent's event
  a guard reads the agent's claim in place of the fact that source control recorded.\<close>

lemma agent_payload_shadows_delivery_facts:
  "payloadAuthorized ProducerAgent [(''delivery'', GMap [(''verified'', GBool True)])] \<and>
   \<not> producerOwnsFact ProducerAgent ''delivery.verified'' \<and>
   MatchPredicate [(''delivery.verified'', GBool True)] [(''delivery'', GMap [(''verified'', GBool False)])] = Inr False \<and>
   MatchPredicate [(''delivery.verified'', GBool True)]
     (deepMerge [(''delivery'', GMap [(''verified'', GBool False)])] [(''delivery'', GMap [(''verified'', GBool True)])]) = Inr True"
  by (intro conjI) code_simp+

end
