(* ===== verification/Journal.thy ===== *)
theory Journal
  imports Facts
begin

text \<open>
  The row-level functions of \<^verbatim>\<open>pkg/hub/workflowv2/runtime.go\<close>: recording events and receipts, reading and writing facts,
  scheduling effects, authorising an event.  The first part is the \<^verbatim>\<open>INSERT\<close> statements with their constraints.

  The lemmas give, for every function, the tables it leaves alone and what it adds.
\<close>

record event_input =
  in_ID :: string
  in_MessageID :: string
  in_Kind :: string
  in_AttemptID :: string
  in_TaskID :: string
  in_Expected :: "nat option"
  in_Producer :: producer
  in_Provenance :: provenance
  in_Payload :: gmap
  in_Facts :: gmap

record event_result =
  er_EventID :: string
  er_Disposition :: disposition
  er_Reason :: string
  er_Run :: run_row
  er_Transition :: "transition_row option"

text \<open>An object stored in a JSON column and read back.\<close>

definition jsonObject :: "gmap \<Rightarrow> gmap" where
  "jsonObject m = subMap (Some (json_roundtrip (GMap m)))"

definition uniqueError :: "string \<Rightarrow> gerr" where
  "uniqueError c = Errf ''UNIQUE constraint failed: %s'' [c]"

definition wrapT :: "string \<Rightarrow> string list \<Rightarrow> 'a tx \<Rightarrow> 'a tx" where
  "wrapT f args m = (\<lambda>s. wrapE f args (m s))"

lemma wrapT_iff [tx_ok]: "wrapT f args m s = Inr (x, s') \<longleftrightarrow> m s = Inr (x, s')"
  by (simp add: wrapT_def)

section \<open>Runs and events\<close>

definition getRunForUpdate :: "string \<Rightarrow> run_row tx" where
  "getRunForUpdate runID = scanT errNoRows (\<lambda>s. find (\<lambda>r. run_ID r = runID) (db_runs s))"

definition insertRunRow :: "run_row \<Rightarrow> unit tx" where
  "insertRunRow r =
     bindT (getsT (\<lambda>s. run_ID r \<in> run_ID ` set (db_runs s))) (\<lambda>dup.
     thenT (whenT dup (uniqueError ''workflow_v2_runs.id''))
     (modifyT (\<lambda>s. s\<lparr>db_runs := db_runs s @ [r]\<rparr>)))"

definition insertEventRow :: "event_row \<Rightarrow> unit tx" where
  "insertEventRow e =
     bindT (getsT (\<lambda>s. ev_ID e \<in> ev_ID ` set (db_events s) \<or>
       (ev_MessageID e \<noteq> [] \<and> (ev_RunID e, ev_MessageID e) \<in> (\<lambda>x. (ev_RunID x, ev_MessageID x)) ` set (db_events s)))) (\<lambda>dup.
     thenT (whenT dup (uniqueError ''workflow_v2_events''))
     (modifyT (\<lambda>s. s\<lparr>db_events := db_events s @ [e]\<rparr>)))"

definition insertEvent :: "string \<Rightarrow> event_input \<Rightarrow> nat \<Rightarrow> disposition \<Rightarrow> string \<Rightarrow> int \<Rightarrow> unit tx" where
  "insertEvent runID i observed d reason now =
     wrapT ''record event: %w'' [] (insertEventRow
       \<lparr>ev_ID = in_ID i, ev_RunID = runID, ev_MessageID = in_MessageID i, ev_Kind = in_Kind i,
        ev_AttemptID = in_AttemptID i, ev_Expected = in_Expected i, ev_Observed = observed, ev_Disposition = d,
        ev_Reason = reason, ev_Producer = in_Producer i, ev_Provenance = in_Provenance i,
        ev_Payload = jsonObject (in_Payload i), ev_Facts = jsonObject (in_Facts i), ev_ReceivedAt = unixMilli now\<rparr>)"

definition insertEventReceipt ::
    "rt_env \<Rightarrow> string \<Rightarrow> string \<Rightarrow> string \<Rightarrow> disposition \<Rightarrow> nat \<Rightarrow> string \<Rightarrow> int \<Rightarrow> unit tx" where
  "insertEventReceipt env runID eventID messageID d version reason now =
     bindT (freshUUID env) (\<lambda>i.
     bindT (getsT (\<lambda>s. i \<in> rc_ID ` set (db_receipts s))) (\<lambda>dup.
     thenT (whenT dup (uniqueError ''workflow_v2_event_receipts.id''))
     (modifyT (\<lambda>s. s\<lparr>db_receipts := db_receipts s @
       [\<lparr>rc_ID = i, rc_RunID = runID, rc_EventID = eventID, rc_MessageID = messageID, rc_Disposition = d,
         rc_Observed = version, rc_Reason = reason, rc_ReceivedAt = unixMilli now\<rparr>]\<rparr>))))"

definition findDuplicateEvent :: "string \<Rightarrow> string \<Rightarrow> string \<Rightarrow> store \<Rightarrow> string option" where
  "findDuplicateEvent runID eventID messageID s =
     map_option ev_ID (find (\<lambda>e. ev_RunID e = runID \<and>
       (ev_ID e = eventID \<or> (messageID \<noteq> [] \<and> ev_MessageID e = messageID))) (db_events s))"

definition insertTransitionRow :: "transition_row \<Rightarrow> unit tx" where
  "insertTransitionRow t =
     bindT (getsT (\<lambda>s. tn_ID t \<in> tn_ID ` set (db_transitions s) \<or> tn_EventID t \<in> tn_EventID ` set (db_transitions s) \<or>
       (tn_RunID t, tn_ToVersion t) \<in> (\<lambda>x. (tn_RunID x, tn_ToVersion x)) ` set (db_transitions s))) (\<lambda>dup.
     thenT (whenT dup (uniqueError ''workflow_v2_transitions''))
     (modifyT (\<lambda>s. s\<lparr>db_transitions := db_transitions s @ [t]\<rparr>)))"

section \<open>Facts\<close>

definition upsertFact :: "fact_row \<Rightarrow> fact_row list \<Rightarrow> fact_row list" where
  "upsertFact f facts =
     (let same = \<lambda>g. fc_RunID g = fc_RunID f \<and> fc_Key g = fc_Key f
      in if list_ex same facts then sql_update same (\<lambda>_. f) facts else facts @ [f])"

definition deleteFact :: "string \<Rightarrow> string \<Rightarrow> fact_row list \<Rightarrow> fact_row list" where
  "deleteFact runID key facts = filter (\<lambda>g. \<not> (fc_RunID g = runID \<and> fc_Key g = key)) facts"

definition writeFact ::
    "string \<Rightarrow> string \<Rightarrow> producer \<Rightarrow> provenance \<Rightarrow> int \<Rightarrow> string \<times> gval \<Rightarrow> fact_row list \<Rightarrow> fact_row list" where
  "writeFact runID eventID p provenance now kv facts =
     (if snd kv = GNil then deleteFact runID (fst kv) facts
      else upsertFact
        \<lparr>fc_RunID = runID, fc_Key = fst kv, fc_Value = json_roundtrip (snd kv), fc_Producer = p,
         fc_Provenance = provenance, fc_EventID = eventID, fc_UpdatedAt = unixMilli now\<rparr> facts)"

definition writeFacts :: "string \<Rightarrow> string \<Rightarrow> producer \<Rightarrow> provenance \<Rightarrow> gmap \<Rightarrow> int \<Rightarrow> unit tx" where
  "writeFacts runID eventID p provenance writes now =
     modifyT (\<lambda>s. s\<lparr>db_facts := fold (writeFact runID eventID p provenance now) (sort_keys writes) (db_facts s)\<rparr>)"

text \<open>For evaluation: the new facts are computed once the store is known.\<close>

definition withFacts :: "string \<Rightarrow> string \<Rightarrow> producer \<Rightarrow> provenance \<Rightarrow> gmap \<Rightarrow> int \<Rightarrow> store \<Rightarrow> store" where
  "withFacts runID eventID p provenance writes now s =
     s\<lparr>db_facts := fold (writeFact runID eventID p provenance now) (sort_keys writes) (db_facts s)\<rparr>"

lemma writeFacts_code [code]:
  "writeFacts runID eventID p provenance writes now = modifyT (withFacts runID eventID p provenance writes now)"
  by (simp add: writeFacts_def withFacts_def [abs_def])

definition runFacts :: "string \<Rightarrow> fact_row list \<Rightarrow> gmap" where
  "runFacts runID facts = map (\<lambda>f. (fc_Key f, fc_Value f)) (filter (\<lambda>f. fc_RunID f = runID) facts)"

definition loadFacts :: "string \<Rightarrow> gmap tx" where
  "loadFacts runID = getsT (\<lambda>s. foldl (\<lambda>m (k, v). setDotted m k v) [] (sort_keys (runFacts runID (db_facts s))))"

section \<open>Effects\<close>

definition effectKey :: "rt_env \<Rightarrow> string \<Rightarrow> string \<Rightarrow> string \<Rightarrow> string" where
  "effectKey env runID originID path =
     ''sha256:'' @ sha256Hex env (runID @ [CHR 0x00] @ originID @ [CHR 0x00] @ path)"

definition insertEffectRow :: "effect_row \<Rightarrow> unit tx" where
  "insertEffectRow e =
     bindT (getsT (\<lambda>s. (ef_EffectKey e \<in> ef_EffectKey ` set (db_effects s), ef_ID e \<in> ef_ID ` set (db_effects s)))) (\<lambda>(known, dup).
     if known then returnT ()
     else thenT (whenT dup (uniqueError ''workflow_v2_effects.id''))
       (modifyT (\<lambda>s. s\<lparr>db_effects := db_effects s @ [e]\<rparr>)))"

definition scheduleEffect ::
    "rt_env \<Rightarrow> string \<Rightarrow> effect_origin \<Rightarrow> string \<Rightarrow> string \<Rightarrow> int \<Rightarrow> string \<times> gval \<Rightarrow> unit tx" where
  "scheduleEffect env runID origin originID path now kv =
     bindT (freshUUID env) (\<lambda>i.
     wrapT ''schedule effect %s: %w'' [path] (insertEffectRow
       \<lparr>ef_ID = i, ef_RunID = runID, ef_OriginType = origin, ef_OriginID = originID, ef_DefinitionPath = path,
        ef_EffectKey = effectKey env runID originID path, ef_Kind = fst kv, ef_Payload = json_roundtrip (snd kv),
        ef_Status = EffectPlanned, ef_AttemptCount = 0, ef_LeaseOwner = [], ef_LeaseExpiresAt = 0,
        ef_NextAttemptAt = 0, ef_Receipt = [], ef_LastError = [], ef_CreatedAt = unixMilli now,
        ef_UpdatedAt = unixMilli now\<rparr>))"

definition scheduleEffects ::
    "rt_env \<Rightarrow> string \<Rightarrow> effect_origin \<Rightarrow> string \<Rightarrow> string \<Rightarrow> gmap list \<Rightarrow> int \<Rightarrow> unit tx" where
  "scheduleEffects env runID origin originID basePath effects now =
     forT (\<lambda>(index, eff).
       forT (scheduleEffect env runID origin originID (basePath @ ''['' @ utoa index @ '']'') now) eff)
       (enumerate 0 effects)"

section \<open>Authorising an event\<close>

definition authorizeEvent :: "event_input \<Rightarrow> (disposition \<times> string) option" where
  "authorizeEvent i =
     (if \<not> producerMayEmit (in_Producer i) (in_Kind i)
      then Some (DispUnauthorized, ''producer '' @ producerName (in_Producer i) @ '' cannot emit event '' @ in_Kind i)
      else case find (\<lambda>(k, v). \<not> producerMaySupplyPayload (in_Producer i) k) (in_Payload i) of
        Some kv \<Rightarrow> Some (DispUnauthorized,
          ''producer '' @ producerName (in_Producer i) @ '' cannot supply payload namespace '' @ fst kv)
      | None \<Rightarrow>
        (case find (\<lambda>(k, v). \<not> producerOwnsFact (in_Producer i) k) (in_Facts i) of
           Some kv \<Rightarrow> Some (DispUnauthorized,
             ''producer '' @ producerName (in_Producer i) @ '' cannot write fact '' @ fst kv)
         | None \<Rightarrow> None))"

lemma case_find_None:
  "(case find P xs of None \<Rightarrow> r | Some x \<Rightarrow> Some (g x)) = None \<longleftrightarrow> (\<forall>x \<in> set xs. \<not> P x) \<and> r = None"
proof (cases "find P xs")
  case None
  then have "\<forall>x \<in> set xs. \<not> P x" by (simp add: find_None_iff)
  with None show ?thesis by simp
next
  case (Some x)
  then show ?thesis using find_Some_in [OF Some] by auto
qed

lemma authorizeEvent_None_iff:
  "authorizeEvent i = None \<longleftrightarrow> producerMayEmit (in_Producer i) (in_Kind i) \<and>
     payloadAuthorized (in_Producer i) (in_Payload i) \<and> (\<forall>(k, v) \<in> set (in_Facts i). producerOwnsFact (in_Producer i) k)"
  unfolding authorizeEvent_def payloadAuthorized_def by (auto simp: case_find_None list_all_iff)

definition terminalRunStatus :: "string \<Rightarrow> run_status" where
  "terminalRunStatus state = (if strContains (toLower state) ''cancel'' then RunCancelled else RunCompleted)"

end
