(* ===== verification/Bindings.thy ===== *)
theory Bindings
  imports Journal
begin

text \<open>
  The binding of a control message to the attempt and the task it speaks for: \<^verbatim>\<open>authorizeBoundAttempt\<close>,
  \<^verbatim>\<open>authorizeBoundTask\<close>, \<^verbatim>\<open>updateBoundTask\<close> and \<^verbatim>\<open>agentTaskFailureReason\<close> of \<^verbatim>\<open>pkg/hub/workflowv2/control.go\<close>.
\<close>

definition twoMinutes :: int where
  "twoMinutes = 120000000000"

definition taskOpen :: "task_row \<Rightarrow> bool" where
  "taskOpen t \<longleftrightarrow> tk_Status t = TaskAssigned \<or> tk_Status t = TaskRunning"

definition attemptActive :: "string \<Rightarrow> string \<Rightarrow> attempt_row \<Rightarrow> bool" where
  "attemptActive attemptID runID a \<longleftrightarrow> at_ID a = attemptID \<and> at_RunID a = runID \<and> at_Status a = AttActive"

definition authorizeBoundAttempt :: "run_row \<Rightarrow> event_input \<Rightarrow> unit tx" where
  "authorizeBoundAttempt run i =
     (if in_AttemptID i = [] then returnT ()
      else thenT (whenT (run_CurrentAttemptID run \<noteq> in_AttemptID i)
             (Errf ''control envelope attempt is no longer active'' []))
           (bindT (getsT (\<lambda>s. list_ex (attemptActive (in_AttemptID i) (run_ID run)) (db_attempts s))) (\<lambda>found.
            whenT (\<not> found) (Errf ''control envelope attempt is no longer active'' []))))"

definition authorizeBoundTask :: "run_row \<Rightarrow> event_input \<Rightarrow> unit tx" where
  "authorizeBoundTask run i =
     (if in_TaskID i = [] then returnT ()
      else thenT (whenT (in_Producer i \<noteq> ProducerAgent \<or> run_CurrentTaskID run \<noteq> in_TaskID i)
             (Errf ''control envelope does not name the current task'' []))
           (bindT (scanT (Errf ''control envelope does not name the current task'' [])
              (\<lambda>s. find (\<lambda>t. tk_ID t = in_TaskID i \<and> tk_RunID t = run_ID run \<and> tk_AttemptID t = in_AttemptID i) (db_tasks s)))
            (\<lambda>t. thenT (whenT (in_Expected i \<noteq> None \<and> in_Expected i \<noteq> Some (tk_StateVersion t))
                (Errf ''control envelope state version does not match assigned task'' []))
              (whenT (\<not> taskOpen t) (Errf ''task status %q does not accept control messages'' [])))))"

definition agentTaskFailureReason :: "gmap \<Rightarrow> string" where
  "agentTaskFailureReason payload =
     (case map_of payload ''task'' of
        Some (GMap task) \<Rightarrow> (case map_of task ''error'' of Some (GStr reason) \<Rightarrow> trimSpace reason | _ \<Rightarrow> [])
      | _ \<Rightarrow> [])"

definition openTaskOf :: "string \<Rightarrow> event_input \<Rightarrow> task_row \<Rightarrow> bool" where
  "openTaskOf runID i t \<longleftrightarrow>
     tk_ID t = in_TaskID i \<and> tk_RunID t = runID \<and> tk_AttemptID t = in_AttemptID i \<and> taskOpen t"

definition heartbeatTask :: "string \<Rightarrow> event_input \<Rightarrow> int \<Rightarrow> unit tx" where
  "heartbeatTask runID i now =
     bindT (updateT db_tasks db_tasks_update (openTaskOf runID i)
       (\<lambda>t. t\<lparr>tk_LastHeartbeatAt := unixMilli now, tk_HeartbeatDeadline := unixMilli (now + twoMinutes),
              tk_UpdatedAt := unixMilli now\<rparr>)) (\<lambda>changed.
     thenT (whenT (changed \<noteq> 1) (Errf ''active task not found'' []))
     (bindT (updateT db_attempts db_attempts_update (attemptActive (in_AttemptID i) runID)
       (\<lambda>a. a\<lparr>at_HeartbeatAt := unixMilli now\<rparr>)) (\<lambda>_. returnT ())))"

definition moveTask ::
    "string \<Rightarrow> event_input \<Rightarrow> int \<Rightarrow> agent_task_status \<Rightarrow> int \<Rightarrow> string \<Rightarrow> unit tx" where
  "moveTask runID i now status finished terminalReason =
     bindT (updateT db_tasks db_tasks_update (openTaskOf runID i)
       (\<lambda>t. t\<lparr>tk_Status := status, tk_LastHeartbeatAt := unixMilli now, tk_UpdatedAt := unixMilli now,
              tk_FinishedAt := finished, tk_TerminalReason := terminalReason\<rparr>)) (\<lambda>changed.
     whenT (changed \<noteq> 1) (Errf ''active task not found'' []))"

definition clearCurrentTask :: "string \<Rightarrow> event_input \<Rightarrow> int \<Rightarrow> unit tx" where
  "clearCurrentTask runID i now =
     bindT (updateT db_runs db_runs_update
       (\<lambda>r. run_ID r = runID \<and> run_CurrentTaskID r = in_TaskID i \<and> run_CurrentAttemptID r = in_AttemptID i)
       (\<lambda>r. r\<lparr>run_CurrentTaskID := [], run_UpdatedAt := unixMilli now\<rparr>)) (\<lambda>_. returnT ())"

definition updateBoundTask :: "string \<Rightarrow> event_input \<Rightarrow> int \<Rightarrow> unit tx" where
  "updateBoundTask runID i now =
     (if in_TaskID i = [] then returnT ()
      else if in_Kind i = ''agent.task.started'' then moveTask runID i now TaskRunning 0 []
      else if in_Kind i = ''agent.task.heartbeat'' then heartbeatTask runID i now
      else if in_Kind i = ''agent.task.completed'' then
        thenT (moveTask runID i now TaskCompleted (unixMilli now) []) (clearCurrentTask runID i now)
      else if in_Kind i = ''agent.task.failed'' then
        thenT (moveTask runID i now TaskFailed (unixMilli now) (agentTaskFailureReason (in_Payload i)))
          (clearCurrentTask runID i now)
      else returnT ())"

end
