(* ===== verification/Runtime.thy ===== *)
theory Runtime
  imports Bindings
begin

text \<open>
  The workflow runtime: the operations of \<^verbatim>\<open>Store\<close> in \<^verbatim>\<open>pkg/hub/workflowv2/runtime.go\<close>.

  The nil-store guards are left out (a store is a value here).  A \<^verbatim>\<open>mutation\<close> callback of \<^verbatim>\<open>ApplyEvent\<close> is an optional
  argument: a transaction from the input to the input it leaves behind.
\<close>

record create_request =
  cq_ID :: string
  cq_TenantID :: string
  cq_WorkspaceYAML :: string
  cq_WorkflowYAML :: string
  cq_TriggerType :: string
  cq_InitialClawID :: string
  cq_ActivationPending :: bool
  cq_TaskRunID :: string
  cq_Timeout :: int

record command_input =
  ci_ID :: string
  ci_MessageID :: string
  ci_Reason :: string
  ci_Expected :: "nat option"
  ci_Provenance :: provenance

type_synonym event_mutation = "event_input \<Rightarrow> event_input tx"

definition activationPendingReason :: string where
  "activationPendingReason = ''workflow activation pending organization context''"

definition GetRun :: "string \<Rightarrow> run_row tx" where
  "GetRun runID = scanT errNoRows (\<lambda>s. find (\<lambda>r. run_ID r = runID) (db_runs s))"

text \<open>The zero value that a lookup of a missing state yields.\<close>

definition stateOf :: "workflow \<Rightarrow> string \<Rightarrow> wf_state" where
  "stateOf w name =
     (case map_of (wf_States w) name of
        Some st \<Rightarrow> st
      | None \<Rightarrow> \<lparr>st_Phase = [], st_Terminal = False, st_Invariant = [], st_OnEnter = None\<rparr>)"

section \<open>Creating a run\<close>

definition insertAttemptRow :: "attempt_row \<Rightarrow> unit tx" where
  "insertAttemptRow a =
     bindT (getsT (\<lambda>s. at_ID a \<in> at_ID ` set (db_attempts s) \<or>
       (at_RunID a, at_Number a) \<in> (\<lambda>x. (at_RunID x, at_Number x)) ` set (db_attempts s))) (\<lambda>dup.
     thenT (whenT dup (uniqueError ''workflow_v2_attempts''))
     (modifyT (\<lambda>s. s\<lparr>db_attempts := db_attempts s @ [a]\<rparr>)))"

definition engineInput :: "string \<Rightarrow> int \<Rightarrow> event_input" where
  "engineInput eventID now =
     \<lparr>in_ID = eventID, in_MessageID = [], in_Kind = ''workflow.run.created'', in_AttemptID = [], in_TaskID = [],
      in_Expected = None, in_Producer = ProducerEngine,
      in_Provenance = \<lparr>pv_Producer = ''engine'', pv_Connection = [], pv_Principal = [], pv_ObservedAt = now,
        pv_ExternalID = [], pv_Reconciled = False\<rparr>,
      in_Payload = [], in_Facts = []\<rparr>"

definition onEnterWrites :: "wf_state \<Rightarrow> gmap" where
  "onEnterWrites st = (case st_OnEnter st of None \<Rightarrow> [] | Some a \<Rightarrow> mergeWrites [sa_Assert a, sa_Set a])"

definition newRunRow ::
    "create_request \<Rightarrow> resolved_workflow \<Rightarrow> resolved_workspace \<Rightarrow> string \<Rightarrow> string \<Rightarrow> int \<Rightarrow> run_row" where
  "newRunRow req rwf rws runID attemptID now =
     (let w = rwf_Workflow rwf; initial = stateOf w (wf_InitialState w);
          trigger = trimSpace (cq_TriggerType req)
      in \<lparr>run_ID = runID, run_TenantID = cq_TenantID req, run_WorkspaceName = ws_Name (rw_Workspace rws),
          run_WorkflowName = wf_Name w, run_WorkspaceRevision = rw_Revision rws, run_WorkflowRevision = rwf_Revision rwf,
          run_WorkspaceYAML = cq_WorkspaceYAML req, run_WorkflowYAML = cq_WorkflowYAML req,
          run_State = wf_InitialState w, run_DisplayPhase = st_Phase initial, run_StateVersion = 1,
          run_Status = (if st_Terminal initial then terminalRunStatus (wf_InitialState w)
                        else if cq_ActivationPending req then RunSuspended else RunActive),
          run_WaitingReason = (if \<not> st_Terminal initial \<and> cq_ActivationPending req then activationPendingReason else []),
          run_CurrentAttemptID = attemptID, run_CurrentTaskID = [], run_ContextBundleID = [],
          run_TriggerType = (if trigger = [] then ''manual'' else trigger),
          run_TaskRunID = trimSpace (cq_TaskRunID req),
          run_TimeoutAt = (if 0 < cq_Timeout req then unixMilli (now + cq_Timeout req) else 0),
          run_CreatedAt = unixMilli now, run_UpdatedAt = unixMilli now,
          run_FinishedAt = (if st_Terminal initial then unixMilli now else 0)\<rparr>)"

definition newAttemptRow :: "string \<Rightarrow> string \<Rightarrow> string \<Rightarrow> nat \<Rightarrow> int \<Rightarrow> attempt_row" where
  "newAttemptRow attemptID runID clawID number now =
     \<lparr>at_ID = attemptID, at_RunID = runID, at_ClawID = clawID, at_Number = number, at_Status = AttActive,
      at_StartedAt = unixMilli now, at_HeartbeatAt = unixMilli now, at_FinishedAt = 0, at_Reason = []\<rparr>"

definition initialTransition :: "run_row \<Rightarrow> string \<Rightarrow> string \<Rightarrow> int \<Rightarrow> transition_row" where
  "initialTransition r transitionID eventID now =
     \<lparr>tn_ID = transitionID, tn_RunID = run_ID r, tn_EventID = eventID, tn_Name = ''initial'', tn_FromState = [],
      tn_ToState = run_State r, tn_FromVersion = 0, tn_ToVersion = 1, tn_WorkspaceRevision = run_WorkspaceRevision r,
      tn_WorkflowRevision = run_WorkflowRevision r, tn_FactDelta = [], tn_CreatedAt = unixMilli now\<rparr>"

text \<open>The rows of a new run: the run, its first attempt, the creating event and the initial transition.\<close>

definition openRun :: "rt_env \<Rightarrow> int \<Rightarrow> run_row \<Rightarrow> string \<Rightarrow> (string \<times> string) tx" where
  "openRun env now r claw =
     thenT (wrapT ''create workflow v2 run: %w'' [] (insertRunRow r))
     (thenT (if run_CurrentAttemptID r = [] then returnT ()
        else wrapT ''create initial workflow v2 attempt: %w'' []
          (insertAttemptRow (newAttemptRow (run_CurrentAttemptID r) (run_ID r) claw 1 now)))
     (bindT (freshUUID env) (\<lambda>eventID.
      thenT (insertEvent (run_ID r) (engineInput eventID now) 0 DispAccepted [] now)
      (bindT (freshUUID env) (\<lambda>transitionID.
       thenT (wrapT ''record initial transition: %w'' [] (insertTransitionRow (initialTransition r transitionID eventID now)))
       (returnT (eventID, transitionID)))))))"

definition enterInitialState :: "rt_env \<Rightarrow> int \<Rightarrow> string \<Rightarrow> string \<Rightarrow> wf_state \<Rightarrow> string \<Rightarrow> string \<Rightarrow> unit tx" where
  "enterInitialState env now runID stateName initial eventID transitionID =
     thenT (case st_OnEnter initial of
         None \<Rightarrow> returnT ()
       | Some a \<Rightarrow>
           thenT (writeFacts runID eventID ProducerEngine (in_Provenance (engineInput eventID now)) (onEnterWrites initial) now)
             (scheduleEffects env runID OriginInitial transitionID
               (''states.'' @ stateName @ ''.on_enter.effects'') (sa_Effects a) now))
     (insertEventReceipt env runID eventID [] DispAccepted 1 [] now)"

definition CreateRun :: "rt_env \<Rightarrow> int \<Rightarrow> create_request \<Rightarrow> run_row tx" where
  "CreateRun env now req =
     thenT (whenT (blank (cq_TenantID req)) (Errf ''tenant_id is required'' []))
     (bindT (liftT (ParseAndValidateWorkflowPair (rt_doc env) (rt_yaml env) (cq_WorkflowYAML req) (cq_WorkspaceYAML req)))
     (\<lambda>(rwf, rws).
       let w = rwf_Workflow rwf; initial = stateOf w (wf_InitialState w); claw = trimSpace (cq_InitialClawID req) in
       thenT (whenT (\<not> wf_Enabled w) (Errf ''workflow %q is disabled'' [wf_Name w]))
       (thenT (whenT (st_Phase initial = [])
          (Errf ''workflow %q initial state %q has no display phase'' [wf_Name w, wf_InitialState w]))
       (bindT (if trimSpace (cq_ID req) = [] then freshUUID env else returnT (trimSpace (cq_ID req))) (\<lambda>runID.
        bindT (if claw = [] then returnT []
               else thenT (whenT (st_Terminal initial) (Errf ''terminal workflow cannot start an execution attempt'' []))
                 (freshUUID env)) (\<lambda>attemptID.
        bindT (openRun env now (newRunRow req rwf rws runID attemptID now) claw) (\<lambda>(eventID, transitionID).
        thenT (enterInitialState env now runID (wf_InitialState w) initial eventID transitionID)
        (GetRun runID))))))))"

section \<open>Activation\<close>

definition CompleteActivation :: "int \<Rightarrow> string \<Rightarrow> unit tx" where
  "CompleteActivation now runID =
     bindT (updateT db_runs db_runs_update
       (\<lambda>r. run_ID r = runID \<and> run_Status r = RunSuspended \<and> run_WaitingReason r = activationPendingReason \<and>
            run_ContextBundleID r \<noteq> [])
       (\<lambda>r. r\<lparr>run_Status := RunActive, run_WaitingReason := [], run_UpdatedAt := unixMilli now\<rparr>)) (\<lambda>changed.
     if changed = 1 then returnT ()
     else bindT (getRunForUpdate runID) (\<lambda>r.
       thenT (whenT (run_ContextBundleID r = []) (Errf ''workflow v2 run has no organization context bundle'' []))
       (whenT (\<not> (run_Status r = RunActive \<or>
            (run_Status r = RunSuspended \<and> run_WaitingReason r \<noteq> activationPendingReason)))
          (Errf ''workflow v2 run cannot complete activation from status %q'' [runStatusName (run_Status r)]))))"

definition effectsOfRun :: "string \<Rightarrow> store \<Rightarrow> string set" where
  "effectsOfRun runID s = ef_ID ` {e \<in> set (db_effects s). ef_RunID e = runID}"

definition cancelEffects :: "string \<Rightarrow> string \<Rightarrow> int \<Rightarrow> unit tx" where
  "cancelEffects runID reason now =
     bindT (getsT (effectsOfRun runID)) (\<lambda>ids.
     bindT (updateT db_effect_attempts db_effect_attempts_update
       (\<lambda>a. ea_Status a = EffectRunning \<and> ea_EffectID a \<in> ids)
       (\<lambda>a. a\<lparr>ea_Status := EffectCancelled, ea_Error := reason, ea_FinishedAt := unixMilli now\<rparr>)) (\<lambda>_.
     bindT (updateT db_effects db_effects_update
       (\<lambda>e. ef_RunID e = runID \<and> ef_Status e \<in> {EffectPlanned, EffectRunning, EffectRetryableFailed, EffectUnknown})
       (\<lambda>e. e\<lparr>ef_Status := EffectCancelled, ef_LeaseOwner := [], ef_LeaseExpiresAt := 0, ef_LastError := reason,
              ef_UpdatedAt := unixMilli now\<rparr>)) (\<lambda>_. returnT ())))"

definition cancelOutbox :: "string \<Rightarrow> (outbox_row \<Rightarrow> outbox_row) \<Rightarrow> int \<Rightarrow> unit tx" where
  "cancelOutbox runID mark now =
     bindT (updateT db_outbox db_outbox_update
       (\<lambda>m. ob_RunID m = runID \<and> ob_Status m \<in> {OutPending, OutSent})
       (\<lambda>m. (mark m)\<lparr>ob_Status := OutCancelled, ob_UpdatedAt := unixMilli now\<rparr>)) (\<lambda>_. returnT ())"

definition closeRun :: "int \<Rightarrow> string \<Rightarrow> string \<Rightarrow> unit tx" where
  "closeRun now runID reason =
     thenT (cancelOutbox runID (\<lambda>m. m\<lparr>ob_LastError := reason\<rparr>) now)
     (bindT (updateT db_tasks db_tasks_update (\<lambda>t. tk_RunID t = runID \<and> taskOpen t)
        (\<lambda>t. t\<lparr>tk_Status := TaskCancelled, tk_TerminalReason := reason, tk_UpdatedAt := unixMilli now,
               tk_FinishedAt := unixMilli now\<rparr>)) (\<lambda>_.
      bindT (updateT db_attempts db_attempts_update
        (\<lambda>a. at_RunID a = runID \<and> at_Status a \<in> {AttProvisioning, AttActive})
        (\<lambda>a. a\<lparr>at_Status := AttCancelled, at_Reason := reason, at_FinishedAt := unixMilli now\<rparr>)) (\<lambda>_.
      bindT (updateT db_runs db_runs_update
        (\<lambda>r. run_ID r = runID \<and> run_Status r \<in> {RunActive, RunSuspended})
        (\<lambda>r. r\<lparr>run_Status := RunCancelled, run_WaitingReason := reason, run_CurrentTaskID := [],
               run_UpdatedAt := unixMilli now, run_FinishedAt := unixMilli now\<rparr>)) (\<lambda>changed.
      whenT (changed \<noteq> 1) (Errf ''workflow v2 run is not cancellable during activation'' [])))))"

definition CancelActivation :: "int \<Rightarrow> string \<Rightarrow> string \<Rightarrow> unit tx" where
  "CancelActivation now runID why =
     (let reason = (if blank why then ''workflow activation failed'' else trimSpace why)
      in thenT (cancelEffects runID reason now) (closeRun now runID reason))"

section \<open>Outcomes of an event\<close>

text \<open>Recording an event that does not take effect, with its receipt.\<close>

definition recordOnly ::
    "rt_env \<Rightarrow> run_row \<Rightarrow> event_input \<Rightarrow> disposition \<Rightarrow> string \<Rightarrow> int \<Rightarrow> event_result tx" where
  "recordOnly env stored i d reason now =
     thenT (insertEvent (run_ID stored) i (run_StateVersion stored) d reason now)
     (thenT (insertEventReceipt env (run_ID stored) (in_ID i) (in_MessageID i) d (run_StateVersion stored) reason now)
     (returnT \<lparr>er_EventID = in_ID i, er_Disposition = d, er_Reason = reason, er_Run = stored, er_Transition = None\<rparr>))"

definition rejectAndSuspend :: "rt_env \<Rightarrow> run_row \<Rightarrow> event_input \<Rightarrow> string \<Rightarrow> int \<Rightarrow> event_result tx" where
  "rejectAndSuspend env run i reason now =
     bindT (updateT db_events db_events_update (\<lambda>e. ev_ID e = in_ID i)
       (\<lambda>e. e\<lparr>ev_Disposition := DispRejected, ev_Reason := reason\<rparr>)) (\<lambda>_.
     bindT (updateT db_runs db_runs_update (\<lambda>r. run_ID r = run_ID run \<and> run_StateVersion r = run_StateVersion run)
       (\<lambda>r. r\<lparr>run_Status := RunSuspended, run_WaitingReason := reason, run_UpdatedAt := unixMilli now\<rparr>)) (\<lambda>_.
     thenT (insertEventReceipt env (run_ID run) (in_ID i) (in_MessageID i) DispRejected (run_StateVersion run) reason now)
     (bindT (GetRun (run_ID run)) (\<lambda>updated.
      returnT \<lparr>er_EventID = in_ID i, er_Disposition = DispRejected, er_Reason = reason, er_Run = updated,
        er_Transition = None\<rparr>))))"

definition clauseActive :: "event_clause option \<Rightarrow> bool" where
  "clauseActive clause \<longleftrightarrow> (case clause of None \<Rightarrow> False | Some c \<Rightarrow> \<not> ec_Ignore c)"

definition scheduleClauseEffects ::
    "rt_env \<Rightarrow> run_row \<Rightarrow> event_input \<Rightarrow> event_clause option \<Rightarrow> string \<Rightarrow> int \<Rightarrow> unit tx" where
  "scheduleClauseEffects env stored i clause clauseName now =
     (case clause of
        None \<Rightarrow> returnT ()
      | Some c \<Rightarrow>
          if ec_Ignore c then returnT ()
          else scheduleEffects env (run_ID stored) OriginEventClause (in_ID i)
            (''events.'' @ in_Kind i @ ''.clauses['' @ clauseName @ ''].effects'') (ec_Effects c) now)"

definition transitionEffects ::
    "rt_env \<Rightarrow> run_row \<Rightarrow> event_input \<Rightarrow> string \<Rightarrow> wf_transition \<Rightarrow> wf_state \<Rightarrow> string \<Rightarrow> event_clause option \<Rightarrow> string \<Rightarrow>
     int \<Rightarrow> unit tx" where
  "transitionEffects env stored i name tr destination transitionID clause clauseName now =
     (if st_Terminal destination then returnT ()
      else thenT (scheduleClauseEffects env stored i clause clauseName now)
        (thenT (scheduleEffects env (run_ID stored) OriginTransition transitionID
            (''transitions.'' @ name @ ''.effects'') (tr_Effects tr) now)
          (case st_OnEnter destination of
             None \<Rightarrow> returnT ()
           | Some a \<Rightarrow> scheduleEffects env (run_ID stored) OriginTransition transitionID
               (''states.'' @ tr_To tr @ ''.on_enter.effects'') (sa_Effects a) now)))"

definition advanceRun :: "run_row \<Rightarrow> string \<Rightarrow> wf_state \<Rightarrow> int \<Rightarrow> run_row \<Rightarrow> run_row" where
  "advanceRun stored target destination now r =
     r\<lparr>run_State := target, run_DisplayPhase := st_Phase destination, run_StateVersion := run_StateVersion stored + 1,
       run_Status := (if st_Terminal destination then terminalRunStatus target else RunActive), run_WaitingReason := [],
       run_UpdatedAt := unixMilli now, run_FinishedAt := (if st_Terminal destination then unixMilli now else 0)\<rparr>"

definition casMatches :: "run_row \<Rightarrow> run_row \<Rightarrow> bool" where
  "casMatches stored r \<longleftrightarrow> run_ID r = run_ID stored \<and> run_State r = run_State stored \<and>
     run_StateVersion r = run_StateVersion stored \<and> run_WorkspaceRevision r = run_WorkspaceRevision stored \<and>
     run_WorkflowRevision r = run_WorkflowRevision stored"

definition transitionWrites :: "wf_transition \<Rightarrow> wf_state \<Rightarrow> gmap \<Rightarrow> gmap" where
  "transitionWrites tr destination clauseWrites =
     (let writes = mergeWrites [clauseWrites, tr_Assert tr, tr_Set tr]
      in case st_OnEnter destination of
           None \<Rightarrow> writes
         | Some a \<Rightarrow> mergeWrites [writes, mergeWrites [sa_Assert a, sa_Set a]])"

text \<open>The compare-and-swap of the run's row, and the transition it justifies.\<close>

definition newTransition :: "run_row \<Rightarrow> event_input \<Rightarrow> string \<Rightarrow> string \<Rightarrow> gmap \<Rightarrow> string \<Rightarrow> int \<Rightarrow> transition_row" where
  "newTransition stored i name target writes transitionID now =
     \<lparr>tn_ID = transitionID, tn_RunID = run_ID stored, tn_EventID = in_ID i, tn_Name = name,
      tn_FromState = run_State stored, tn_ToState = target, tn_FromVersion = run_StateVersion stored,
      tn_ToVersion = run_StateVersion stored + 1, tn_WorkspaceRevision = run_WorkspaceRevision stored,
      tn_WorkflowRevision = run_WorkflowRevision stored, tn_FactDelta = jsonObject writes,
      tn_CreatedAt = unixMilli now\<rparr>"

definition recordTransition :: "run_row \<Rightarrow> wf_state \<Rightarrow> transition_row \<Rightarrow> int \<Rightarrow> unit tx" where
  "recordTransition stored destination t now =
     bindT (updateT db_runs db_runs_update (casMatches stored) (advanceRun stored (tn_ToState t) destination now)) (\<lambda>changed.
     thenT (whenT (changed \<noteq> 1)
       (Errf ''state compare-and-swap failed for run %s version %d'' [run_ID stored, utoa (run_StateVersion stored)]))
     (wrapT ''record transition: %w'' [] (insertTransitionRow t)))"

definition finishTransition ::
    "rt_env \<Rightarrow> int \<Rightarrow> run_row \<Rightarrow> event_input \<Rightarrow> string \<Rightarrow> wf_transition \<Rightarrow> wf_state \<Rightarrow> gmap \<Rightarrow> event_clause option \<Rightarrow> string \<Rightarrow>
     transition_row \<Rightarrow> event_result tx" where
  "finishTransition env now stored i name tr destination writes clause clauseName t =
     thenT (writeFacts (run_ID stored) (in_ID i) ProducerEngine (in_Provenance i) writes now)
     (thenT (transitionEffects env stored i name tr destination (tn_ID t) clause clauseName now)
     (thenT (updateBoundTask (run_ID stored) i now)
     (thenT (insertEventReceipt env (run_ID stored) (in_ID i) (in_MessageID i) DispAccepted (run_StateVersion stored + 1) [] now)
     (bindT (GetRun (run_ID stored)) (\<lambda>updated.
      returnT \<lparr>er_EventID = in_ID i, er_Disposition = DispAccepted, er_Reason = [], er_Run = updated,
        er_Transition = Some t\<rparr>)))))"

definition applyTransition ::
    "rt_env \<Rightarrow> int \<Rightarrow> run_row \<Rightarrow> workflow \<Rightarrow> event_input \<Rightarrow> string \<Rightarrow> wf_transition \<Rightarrow> event_clause option \<Rightarrow> string \<Rightarrow>
     gmap \<Rightarrow> gmap \<Rightarrow> event_result tx" where
  "applyTransition env now stored w i name tr clause clauseName clauseWrites facts =
     (let destination = stateOf w (tr_To tr);
          writes = transitionWrites tr destination clauseWrites;
          prospectiveFacts = applyWritesToMap facts writes in
      bindT (liftT (MatchPredicate (st_Invariant destination) prospectiveFacts)) (\<lambda>valid.
      if \<not> valid then
        rejectAndSuspend env stored i (''destination invariant does not hold for state '' @ tr_To tr) now
      else
        bindT (freshUUID env) (\<lambda>transitionID.
        let t = newTransition stored i name (tr_To tr) writes transitionID now in
        thenT (recordTransition stored destination t now)
          (finishTransition env now stored i name tr destination writes clause clauseName t))))"

section \<open>Applying an event\<close>

definition loadPinnedWorkflow :: "rt_env \<Rightarrow> run_row \<Rightarrow> gerr + workflow" where
  "loadPinnedWorkflow env stored =
     bindE (wrapE ''load pinned workflow: %w'' []
       (ParseAndValidateWorkflow (rt_doc env) (rt_yaml env) (run_WorkflowYAML stored))) (\<lambda>rwf.
     bindE (whenE (rwf_Revision rwf \<noteq> run_WorkflowRevision stored)
       (Errf ''pinned workflow revision mismatch: stored %s decoded %s'' [run_WorkflowRevision stored, rwf_Revision rwf])) (\<lambda>_.
     Inr (rwf_Workflow rwf)))"

definition staleReason :: "nat option \<Rightarrow> run_row \<Rightarrow> string option" where
  "staleReason expected stored =
     (case expected of
        None \<Rightarrow> None
      | Some v \<Rightarrow> if v = run_StateVersion stored then None
          else Some (''expected state version '' @ utoa v @ '', current version is '' @ utoa (run_StateVersion stored)))"

text \<open>The event is accepted, but no transition fires.\<close>

definition settleWithoutTransition ::
    "rt_env \<Rightarrow> int \<Rightarrow> run_row \<Rightarrow> workflow \<Rightarrow> event_input \<Rightarrow> event_clause option \<Rightarrow> string \<Rightarrow> gmap \<Rightarrow> gmap \<Rightarrow> nat \<Rightarrow>
     event_result tx" where
  "settleWithoutTransition env now stored w i clause clauseName clauseWrites facts listeners =
     bindT (liftT (MatchPredicate (st_Invariant (stateOf w (run_State stored))) facts)) (\<lambda>valid.
     if \<not> valid then
       rejectAndSuspend env stored i
         (''state invariant no longer holds for '' @ run_State stored @ '' and no transition matched '' @ in_Kind i) now
     else
       let reason = (if 0 < listeners then ''accepted without transition: '' @ utoa listeners @ '' transition(s) for '' @
             in_Kind i @ '' in state '' @ run_State stored @ '' listened but evaluated false'' else []) in
       thenT (writeFacts (run_ID stored) (in_ID i) ProducerEngine (in_Provenance i) clauseWrites now)
       (thenT (scheduleClauseEffects env stored i clause clauseName now)
       (thenT (updateBoundTask (run_ID stored) i now)
       (thenT (insertEventReceipt env (run_ID stored) (in_ID i) (in_MessageID i) DispAccepted
          (run_StateVersion stored) reason now)
       (bindT (GetRun (run_ID stored)) (\<lambda>updated.
        returnT \<lparr>er_EventID = in_ID i, er_Disposition = DispAccepted, er_Reason = reason, er_Run = updated,
          er_Transition = None\<rparr>))))))"

definition clauseWritesOf :: "event_clause option \<Rightarrow> gmap" where
  "clauseWritesOf clause =
     (case clause of None \<Rightarrow> [] | Some c \<Rightarrow> if ec_Ignore c then [] else mergeWrites [ec_Assert c, ec_Set c])"

definition dispatchTransition ::
    "rt_env \<Rightarrow> int \<Rightarrow> run_row \<Rightarrow> workflow \<Rightarrow> event_input \<Rightarrow> event_clause option \<Rightarrow> string \<Rightarrow> gmap \<Rightarrow> event_result tx" where
  "dispatchTransition env now stored w i clause clauseName facts0 =
     (let clauseWrites = clauseWritesOf clause;
          facts = (if clauseActive clause then applyWritesToMap facts0 clauseWrites else facts0) in
      bindT (liftT (matchingTransition w (in_Kind i) (run_State stored) (deepMerge facts (in_Payload i))))
      (\<lambda>(name, tr, matches, listeners).
      if 1 < matches then
        rejectAndSuspend env stored i (''runtime ambiguity: '' @ utoa matches @ '' transitions matched '' @ in_Kind i @
          '' in state '' @ run_State stored) now
      else case tr of
        None \<Rightarrow> settleWithoutTransition env now stored w i clause clauseName clauseWrites facts listeners
      | Some t \<Rightarrow> applyTransition env now stored w i name t clause clauseName clauseWrites facts))"

definition dispatchEvent :: "rt_env \<Rightarrow> int \<Rightarrow> run_row \<Rightarrow> workflow \<Rightarrow> event_input \<Rightarrow> event_result tx" where
  "dispatchEvent env now stored w i =
     bindT (loadFacts (run_ID stored)) (\<lambda>facts0.
     bindT (liftT (matchingEventClause w (in_Kind i) (run_State stored) (deepMerge facts0 (in_Payload i))))
     (\<lambda>(clauseName, clause, clauseCount).
     if 1 < clauseCount then
       rejectAndSuspend env stored i (''runtime ambiguity: '' @ utoa clauseCount @ '' event clauses matched '' @ in_Kind i @
         '' in state '' @ run_State stored) now
     else dispatchTransition env now stored w i clause clauseName facts0))"

definition acceptEvent :: "rt_env \<Rightarrow> int \<Rightarrow> run_row \<Rightarrow> workflow \<Rightarrow> event_input \<Rightarrow> event_result tx" where
  "acceptEvent env now stored w i =
     thenT (insertEvent (run_ID stored) i (run_StateVersion stored) DispAccepted [] now)
     (thenT (writeFacts (run_ID stored) (in_ID i) (in_Producer i) (in_Provenance i) (in_Facts i) now)
     (dispatchEvent env now stored w i))"

definition recordDuplicate :: "rt_env \<Rightarrow> run_row \<Rightarrow> event_input \<Rightarrow> string \<Rightarrow> int \<Rightarrow> event_result tx" where
  "recordDuplicate env stored i existing now =
     thenT (insertEventReceipt env (run_ID stored) existing (in_MessageID i) DispDuplicate (run_StateVersion stored)
       ''event already received'' now)
     (returnT \<lparr>er_EventID = existing, er_Disposition = DispDuplicate, er_Reason = ''event already received'',
       er_Run = stored, er_Transition = None\<rparr>)"

definition processEvent :: "rt_env \<Rightarrow> int \<Rightarrow> event_mutation option \<Rightarrow> run_row \<Rightarrow> event_input \<Rightarrow> event_result tx" where
  "processEvent env now mutation stored i =
     bindT (case mutation of None \<Rightarrow> returnT i | Some f \<Rightarrow> f i) (\<lambda>i.
     bindT (liftT (loadPinnedWorkflow env stored)) (\<lambda>w.
     case authorizeEvent i of
       Some dr \<Rightarrow> recordOnly env stored i (fst dr) (snd dr) now
     | None \<Rightarrow> acceptEvent env now stored w i))"

definition admitEvent :: "rt_env \<Rightarrow> int \<Rightarrow> event_mutation option \<Rightarrow> run_row \<Rightarrow> event_input \<Rightarrow> event_result tx" where
  "admitEvent env now mutation stored i =
     thenT (authorizeBoundTask stored i)
     (case authorizeEvent i of
        Some dr \<Rightarrow> recordOnly env stored i (fst dr) (snd dr) now
      | None \<Rightarrow>
          (case staleReason (in_Expected i) stored of
             Some reason \<Rightarrow> recordOnly env stored i DispStaleState reason now
           | None \<Rightarrow> processEvent env now mutation stored i))"

definition ApplyEvent :: "rt_env \<Rightarrow> int \<Rightarrow> event_mutation option \<Rightarrow> string \<Rightarrow> event_input \<Rightarrow> event_result tx" where
  "ApplyEvent env now mutation runID i =
     thenT (whenT (blank (in_ID i)) (Errf ''event id is required'' []))
     (thenT (whenT (blank (in_Kind i)) (Errf ''event kind is required'' []))
     (bindT (getRunForUpdate runID) (\<lambda>stored.
      thenT (authorizeBoundAttempt stored i)
      (bindT (getsT (findDuplicateEvent runID (in_ID i) (in_MessageID i))) (\<lambda>existing.
       case existing of
         Some e \<Rightarrow> recordDuplicate env stored i e now
       | None \<Rightarrow> admitEvent env now mutation stored i)))))"

section \<open>Commands\<close>

definition commandEvent :: "string \<Rightarrow> command_input \<Rightarrow> event_input" where
  "commandEvent commandName c =
     \<lparr>in_ID = ci_ID c, in_MessageID = ci_MessageID c, in_Kind = ''operator.command.'' @ commandName, in_AttemptID = [],
      in_TaskID = [], in_Expected = ci_Expected c, in_Producer = ProducerOperator, in_Provenance = ci_Provenance c,
      in_Payload = [], in_Facts = []\<rparr>"

definition ApplyCommand :: "rt_env \<Rightarrow> int \<Rightarrow> string \<Rightarrow> string \<Rightarrow> command_input \<Rightarrow> event_result tx" where
  "ApplyCommand env now runID commandName c =
     thenT (whenT (blank runID) (Errf ''run id is required'' []))
     (thenT (whenT (blank commandName) (Errf ''command name is required'' []))
     (thenT (whenT (blank (ci_ID c)) (Errf ''command event id is required'' []))
     (bindT (getRunForUpdate runID) (\<lambda>stored.
      bindT (liftT (loadPinnedWorkflow env stored)) (\<lambda>w.
      bindT (scanT (Errf ''command %q not defined in workflow'' [commandName])
        (\<lambda>_. map_of (wf_Commands w) commandName)) (\<lambda>cmd.
      bindT (liftT (wrapE ''command %q: %w'' [commandName] (FromStates (cmd_From cmd)))) (\<lambda>fromStates.
      thenT (whenT (run_State stored \<notin> set fromStates)
        (Errf ''command %q cannot be applied from state %q'' [commandName, run_State stored]))
      (thenT (whenT (cmd_RequireReason cmd \<and> blank (ci_Reason c)) (Errf ''command %q requires a reason'' [commandName]))
      (let i = commandEvent commandName c in
       case staleReason (ci_Expected c) stored of
         Some reason \<Rightarrow> recordOnly env stored i DispStaleState reason now
       | None \<Rightarrow>
           thenT (insertEvent (run_ID stored) i (run_StateVersion stored) DispAccepted [] now)
           (bindT (loadFacts (run_ID stored)) (\<lambda>facts.
            applyTransition env now stored w i commandName
              \<lparr>tr_From = cmd_From cmd, tr_On = [], tr_When = [], tr_To = cmd_To cmd, tr_Assert = [], tr_Set = [],
               tr_Effects = []\<rparr> None [] [] facts)))))))))))"

end
