(* ===== verification/RuntimeFrame.thy ===== *)
theory RuntimeFrame
  imports Runtime
begin

text \<open>
  What the runtime operations may do to the store, proved once for every relation that is closed under their table
  updates: the locale \<open>frame\<close> covers everything but advancing a run, \<open>run_frame\<close> adds that.  The invariants and the
  history theorems are interpretations of the two.
\<close>

section \<open>Owned writes\<close>

definition ownedWrites :: "producer \<Rightarrow> gmap \<Rightarrow> bool" where
  "ownedWrites p ws \<longleftrightarrow> (\<forall>k \<in> fst ` set ws. producerOwnsFact p k)"

lemma ownedWrites_Nil [simp]: "ownedWrites p []"
  by (simp add: ownedWrites_def)

lemma ownedWrites_append [simp]: "ownedWrites p (a @ b) \<longleftrightarrow> ownedWrites p a \<and> ownedWrites p b"
  by (auto simp: ownedWrites_def)

lemma keys_fold_update: "fst ` set (foldl (\<lambda>r (k, v). AList.update k v r) m ws) = fst ` set m \<union> fst ` set ws"
proof (induction ws arbitrary: m)
  case (Cons kv ws)
  have "fst ` set (AList.update (fst kv) (snd kv) m) = insert (fst kv) (fst ` set m)"
    by (simp add: dom_update)
  then show ?case using Cons by (auto simp: case_prod_beta)
qed simp

lemma keys_mergeWrites: "fst ` set (mergeWrites maps) = (\<Union>m \<in> set maps. fst ` set m)"
proof -
  have "fst ` set (foldl (\<lambda>result values. foldl (\<lambda>r (k, v). AList.update k v r) result values) acc maps) =
      fst ` set acc \<union> (\<Union>m \<in> set maps. fst ` set m)" for acc
    by (induction maps arbitrary: acc) (auto simp: keys_fold_update)
  then show ?thesis by (simp add: mergeWrites_def)
qed

lemma ownedWrites_merge: "ownedWrites p (mergeWrites maps) \<longleftrightarrow> (\<forall>m \<in> set maps. ownedWrites p m)"
  by (auto simp: ownedWrites_def keys_mergeWrites)

lemma namespaceOf_authored: "authoredKey k \<Longrightarrow> namespaceOf k \<in> {''work'', ''custom''}"
proof -
  have sp: "hd (splitOn (CHR ''.'') t) = ns"
    if "hasPrefix t (ns @ ''.'')" "CHR ''.'' \<notin> set ns" for t ns
  proof -
    from that(1) have "t = ns @ CHR ''.'' # drop (length ns + 1) t"
      unfolding hasPrefix_def by (metis append.assoc append_Cons append_Nil append_take_drop_id length_append_singleton Suc_eq_plus1)
    then show ?thesis using splitOn_prefix_sep [OF that(2)] by (metis list.sel(1))
  qed
  assume "authoredKey k"
  then have "inNamespace (trimSpace k) ''work.'' \<or> inNamespace (trimSpace k) ''custom.''"
    by (simp add: authoredKey_def writableNamespaces_def)
  then show ?thesis
    using sp [of "trimSpace k" "''work''"] sp [of "trimSpace k" "''custom''"]
    by (auto simp: inNamespace_def hasSuffix_def hasPrefix_def namespaceOf_def)
qed

lemma engine_owns_authored: "list_all (\<lambda>(k, v). authoredKey k) ws \<Longrightarrow> ownedWrites ProducerEngine ws"
  using namespaceOf_authored by (fastforce simp: ownedWrites_def list_all_iff producerOwnsFact_def factOwners_def)

definition workflowWritesOwned :: "workflow \<Rightarrow> bool" where
  "workflowWritesOwned w \<longleftrightarrow>
     (\<forall>(n, tr) \<in> set (wf_Transitions w). ownedWrites ProducerEngine (tr_Assert tr) \<and> ownedWrites ProducerEngine (tr_Set tr)) \<and>
     (\<forall>(n, st) \<in> set (wf_States w). ownedWrites ProducerEngine (onEnterWrites st)) \<and>
     (\<forall>(n, cs) \<in> set (wf_Events w). \<forall>c \<in> set cs.
        ownedWrites ProducerEngine (ec_Assert c) \<and> ownedWrites ProducerEngine (ec_Set c))"

lemma writes_ok_owned:
  assumes "writes_ok w"
  shows "workflowWritesOwned w"
proof -
  have tr: "ownedWrites ProducerEngine (tr_Assert tr @ tr_Set tr)" if "(n, tr) \<in> set (wf_Transitions w)" for n tr
    using assms that unfolding writes_ok_def list_all_iff [of _ "wf_Transitions w"]
    by (intro engine_owns_authored) fast
  have st: "ownedWrites ProducerEngine (sa_Assert a @ sa_Set a)"
    if "(n, st) \<in> set (wf_States w)" "st_OnEnter st = Some a" for n st a
    using assms that unfolding writes_ok_def list_all_iff [of _ "wf_States w"]
    by (intro engine_owns_authored) fastforce
  have ev: "ownedWrites ProducerEngine (ec_Assert c @ ec_Set c)"
    if "(n, cs) \<in> set (wf_Events w)" "c \<in> set cs" for n cs c
    using assms that unfolding writes_ok_def list_all_iff [of _ "wf_Events w"] list_all_iff [of _ "_ :: event_clause list"]
    by (intro engine_owns_authored) fast
  have "ownedWrites ProducerEngine (onEnterWrites st)" if "(n, st) \<in> set (wf_States w)" for n st
    using st [OF that] by (cases "st_OnEnter st") (auto simp: onEnterWrites_def ownedWrites_merge)
  moreover have "ownedWrites ProducerEngine (tr_Assert tr) \<and> ownedWrites ProducerEngine (tr_Set tr)"
    if "(n, tr) \<in> set (wf_Transitions w)" for n tr using tr [OF that] by simp
  moreover have "ownedWrites ProducerEngine (ec_Assert c) \<and> ownedWrites ProducerEngine (ec_Set c)"
    if "(n, cs) \<in> set (wf_Events w)" "c \<in> set cs" for n cs c using ev [OF that] by simp
  ultimately show ?thesis unfolding workflowWritesOwned_def by blast
qed

lemma validated_writes_owned: "ValidateWorkflow env w = Inr rwf \<Longrightarrow> workflowWritesOwned w"
  by (rule writes_ok_owned [OF validated_writes])

lemma loadPinned_owned:
  assumes "loadPinnedWorkflow env stored = Inr w"
  shows "workflowWritesOwned w"
proof -
  from assms obtain rwf u where "ValidateWorkflow (rt_doc env) u = Inr rwf" and "w = rwf_Workflow rwf"
    by (auto simp: loadPinnedWorkflow_def ParseAndValidateWorkflow_def bindE_Inr_iff)
  then show ?thesis using ValidateWorkflow_steps(10) validated_writes_owned by metis
qed

lemma stateOf_owned:
  assumes "workflowWritesOwned w"
  shows "ownedWrites ProducerEngine (onEnterWrites (stateOf w n))"
proof (cases "map_of (wf_States w) n")
  case None
  then show ?thesis by (simp add: stateOf_def onEnterWrites_def)
next
  case (Some st)
  then show ?thesis using assms map_of_SomeD [OF Some] by (auto simp: stateOf_def workflowWritesOwned_def)
qed

section \<open>Frames\<close>

text \<open>The columns of a run, an attempt and a task that an event never changes by itself.\<close>

definition runKey :: "run_row \<Rightarrow> (string \<times> string \<times> string \<times> string) \<times> (string \<times> string \<times> string \<times> string) \<times> string \<times> nat \<times> string" where
  "runKey r = ((run_ID r, run_TenantID r, run_WorkspaceName r, run_WorkflowName r),
     (run_WorkspaceRevision r, run_WorkflowRevision r, run_WorkspaceYAML r, run_WorkflowYAML r),
     run_State r, run_StateVersion r, run_CurrentAttemptID r)"

definition attemptKey :: "attempt_row \<Rightarrow> string \<times> string \<times> string \<times> nat \<times> attempt_status" where
  "attemptKey a = (at_ID a, at_RunID a, at_ClawID a, at_Number a, at_Status a)"

definition taskKey :: "task_row \<Rightarrow> string \<times> string \<times> string \<times> string \<times> nat" where
  "taskKey t = (tk_ID t, tk_RunID t, tk_AttemptID t, tk_State t, tk_StateVersion t)"

definition eventKey :: "event_row \<Rightarrow> string \<times> string \<times> string \<times> string \<times> producer" where
  "eventKey e = (ev_ID e, ev_RunID e, ev_MessageID e, ev_Kind e, ev_Producer e)"

locale frame = step_order +
  assumes uuids: "R s (s\<lparr>db_uuids := n\<rparr>)"
    and receipts: "R s (s\<lparr>db_receipts := db_receipts s @ [x]\<rparr>)"
    and events: "ev_ID e \<notin> ev_ID ` set (db_events s) \<Longrightarrow> R s (s\<lparr>db_events := db_events s @ [e]\<rparr>)"
    and facts: "ownedWrites p ws \<Longrightarrow>
      R s (s\<lparr>db_facts := fold (writeFact runID eventID p provenance now) (sort_keys ws) (db_facts s)\<rparr>)"
    and effects: "ef_EffectKey ef \<notin> ef_EffectKey ` set (db_effects s) \<Longrightarrow> ef_ID ef \<notin> ef_ID ` set (db_effects s) \<Longrightarrow>
      ef_Status ef = EffectPlanned \<Longrightarrow> R s (s\<lparr>db_effects := db_effects s @ [ef]\<rparr>)"
    and tasks: "(\<And>t. taskKey (tf t) = taskKey t) \<Longrightarrow> (\<And>t. tp t \<Longrightarrow> taskOpen t) \<Longrightarrow> R s (db_tasks_update (sql_update tp tf) s)"
    and attempts: "(\<And>a. attemptKey (af a) = attemptKey a) \<Longrightarrow> (\<And>a. ap a \<Longrightarrow> at_Status a = AttActive) \<Longrightarrow>
      R s (db_attempts_update (sql_update ap af) s)"
    and runs: "(\<And>r. runKey (rf r) = runKey r) \<Longrightarrow> R s (db_runs_update (sql_update rp rf) s)"
begin

lemmas pure = moves_pure moves_cases

lemma moves_wrapT: "moves R m \<Longrightarrow> moves R (wrapT f args m)"
  unfolding wrapT_def by (rule moves_wrap)

lemma moves_freshUUID: "moves R (freshUUID env)"
  by (rule moves_fresh [OF uuids])

lemma moves_insertEvent: "moves R (insertEvent runID i observed d reason now)"
  unfolding insertEvent_def by (rule moves_wrapT) (auto simp: moves_def insertEventRow_def tx_ok intro!: events)

lemma moves_receipt: "moves R (insertEventReceipt env runID eventID messageID d version reason now)"
  unfolding insertEventReceipt_def
  by (intro moves_bind moves_then moves_freshUUID moves_modify receipts pure)

lemma moves_writeFacts: "ownedWrites p ws \<Longrightarrow> moves R (writeFacts runID eventID p provenance ws now)"
  unfolding writeFacts_def by (intro moves_modify facts)

lemma moves_scheduleEffect: "moves R (scheduleEffect env runID origin originID path now kv)"
  unfolding scheduleEffect_def
  by (intro moves_bind moves_freshUUID moves_wrapT)
     (auto simp: moves_def insertEffectRow_def tx_ok R_refl split: if_splits intro!: effects)

lemma moves_scheduleEffects: "moves R (scheduleEffects env runID origin originID basePath effects now)"
  unfolding scheduleEffects_def by (auto intro!: moves_for moves_scheduleEffect)

lemma moves_updateRuns: "(\<And>r. runKey (rf r) = runKey r) \<Longrightarrow> moves R (updateT db_runs db_runs_update rp rf)"
  by (intro moves_update runs)

lemma moves_updateBoundTask: "moves R (updateBoundTask runID i now)"
  unfolding updateBoundTask_def moveTask_def heartbeatTask_def clearCurrentTask_def
  by (intro moves_bind moves_then pure moves_update tasks attempts runs)
     (simp_all add: taskKey_def attemptKey_def runKey_def openTaskOf_def attemptActive_def)

lemma moves_authorizeBoundAttempt: "moves R (authorizeBoundAttempt run i)"
  unfolding authorizeBoundAttempt_def by (intro moves_bind moves_then pure)

lemma moves_authorizeBoundTask: "moves R (authorizeBoundTask run i)"
  unfolding authorizeBoundTask_def by (intro moves_bind moves_then pure)

lemma moves_recordOnly: "moves R (recordOnly env stored i d reason now)"
  unfolding recordOnly_def by (intro moves_then moves_insertEvent moves_receipt pure)

lemma moves_GetRun: "moves R (GetRun runID)"
  unfolding GetRun_def by (rule moves_pure)

lemma moves_scheduleClauseEffects: "moves R (scheduleClauseEffects env stored i clause clauseName now)"
  unfolding scheduleClauseEffects_def by (intro pure moves_scheduleEffects)

lemma moves_transitionEffects: "moves R (transitionEffects env stored i name tr destination tid clause clauseName now)"
  unfolding transitionEffects_def by (intro moves_then pure moves_scheduleEffects moves_scheduleClauseEffects)

lemmas steps = moves_bind moves_then moves_cases moves_freshUUID moves_insertEvent moves_receipt moves_writeFacts
  moves_scheduleEffects moves_updateBoundTask moves_authorizeBoundAttempt moves_authorizeBoundTask moves_recordOnly
  moves_GetRun moves_scheduleClauseEffects moves_transitionEffects moves_wrapT moves_pure

end

text \<open>Marking an event as rejected, and suspending its run, for the events the relation allows this for.\<close>

locale reject_frame = frame +
  fixes rejectable :: "string \<Rightarrow> bool"
  assumes rejects: "rejectable i \<Longrightarrow>
    R s (db_events_update (sql_update (\<lambda>e. ev_ID e = i) (\<lambda>e. e\<lparr>ev_Disposition := DispRejected, ev_Reason := reason\<rparr>)) s)"
begin

lemma moves_reject: "rejectable (in_ID i) \<Longrightarrow> moves R (rejectAndSuspend env run i reason now)"
  unfolding rejectAndSuspend_def
  by (intro steps moves_update rejects runs) (simp_all add: runKey_def)

lemma moves_settle:
  "rejectable (in_ID i) \<Longrightarrow> ownedWrites ProducerEngine cw \<Longrightarrow>
   moves R (settleWithoutTransition env now stored w i clause clauseName cw facts listeners)"
  unfolding settleWithoutTransition_def Let_def by (intro steps moves_reject)

end

text \<open>Applying an event or a command, for a relation that already covers a transition.\<close>

lemma clauseLoop_found:
  "clauseLoop state facts i cs (mi, t0, c0) = Inr (m, t, c) \<Longrightarrow> t = t0 \<or> (\<exists>cl \<in> set cs. t = Some cl)"
proof (induction cs arbitrary: i mi t0 c0)
  case (Cons cl cs)
  then show ?case by (fastforce simp: bindE_Inr_iff split: if_splits)
qed simp

lemma matchingEventClause_found:
  assumes "matchingEventClause w kind state facts = Inr (name, Some c, n)"
  obtains k cs where "(k, cs) \<in> set (wf_Events w)" and "c \<in> set cs"
  using assms clauseLoop_found
  by (fastforce simp: matchingEventClause_def split: option.splits dest: map_of_SomeD)

lemma matchingTransition_found:
  assumes "matchingTransition w kind state facts = Inr (name, Some tr, n, l)"
  shows "(name, tr) \<in> set (wf_Transitions w)"
  using transitionLoop_count [OF assms [unfolded matchingTransition_def]] by auto

lemma clauseWrites_owned:
  assumes "workflowWritesOwned w" and "matchingEventClause w kind state facts = Inr (name, clause, n)"
  shows "ownedWrites ProducerEngine (clauseWritesOf clause)"
proof (cases clause)
  case None
  then show ?thesis by (simp add: clauseWritesOf_def)
next
  case (Some c)
  then obtain k cs where "(k, cs) \<in> set (wf_Events w)" and "c \<in> set cs"
    using assms(2) matchingEventClause_found by blast
  then show ?thesis using assms(1) Some
    by (auto simp: clauseWritesOf_def ownedWrites_merge workflowWritesOwned_def)
qed

lemma transitionWrites_owned:
  assumes "workflowWritesOwned w" and "ownedWrites ProducerEngine (tr_Assert tr)" and "ownedWrites ProducerEngine (tr_Set tr)"
    and "ownedWrites ProducerEngine cw"
  shows "ownedWrites ProducerEngine (transitionWrites tr (stateOf w (tr_To tr)) cw)"
  using stateOf_owned [OF assms(1), of "tr_To tr"] assms(2-)
  by (auto simp: transitionWrites_def onEnterWrites_def ownedWrites_merge Let_def split: option.splits)

locale dispatch_frame = reject_frame +
  assumes moves_recordTransition:
    "moves R (recordTransition stored destination (newTransition stored i name target writes tid now) now)"
begin

lemma moves_applyTransition:
  assumes "rejectable (in_ID i)" and "ownedWrites ProducerEngine (transitionWrites tr (stateOf w (tr_To tr)) cw)"
  shows "moves R (applyTransition env now stored w i name tr clause clauseName cw facts)"
  unfolding applyTransition_def finishTransition_def Let_def
  by (intro steps moves_reject moves_recordTransition assms)

lemma moves_dispatchTransition:
  assumes i: "rejectable (in_ID i)" and w: "workflowWritesOwned w" and cw: "ownedWrites ProducerEngine (clauseWritesOf clause)"
  shows "moves R (dispatchTransition env now stored w i clause clauseName facts0)"
  unfolding dispatchTransition_def Let_def
proof (intro moves_bind_lift moves_cases moves_reject moves_settle moves_applyTransition i cw)
  fix facts x name p tr q l t
  assume "matchingTransition w (in_Kind i) (run_State stored) facts = Inr x" "x = (name, p)" "p = (tr, q)" "tr = Some t"
  then show "ownedWrites ProducerEngine (transitionWrites t (stateOf w (tr_To t)) (clauseWritesOf clause))"
    using matchingTransition_found [of w "in_Kind i" "run_State stored" facts name t "fst q" "snd q"] w cw
    by (intro transitionWrites_owned) (auto simp: workflowWritesOwned_def)
qed

lemma moves_dispatch:
  assumes i: "rejectable (in_ID i)" and w: "workflowWritesOwned w"
  shows "moves R (dispatchEvent env now stored w i)"
  unfolding dispatchEvent_def loadFacts_def
  by (intro moves_bind [OF moves_pure(4)] moves_bind_lift moves_cases moves_reject moves_dispatchTransition i w)
     (use clauseWrites_owned [OF w] in auto)

lemma moves_accept:
  assumes "rejectable (in_ID i)" and "workflowWritesOwned w" and "authorizeEvent i = None"
  shows "moves R (acceptEvent env now stored w i)"
  unfolding acceptEvent_def
  using assms by (intro steps moves_dispatch) (auto simp: authorizeEvent_None_iff ownedWrites_def)

end

text \<open>A relation that covers the acceptance of an event covers its application.\<close>

context frame
begin

lemma moves_ApplyEvent_by:
  assumes "\<And>stored w i. workflowWritesOwned w \<Longrightarrow> authorizeEvent i = None \<Longrightarrow> moves R (acceptEvent env now stored w i)"
    and "\<And>f. mutation = Some f \<Longrightarrow> moves R (f i)"
  shows "moves R (ApplyEvent env now mutation runID i)"
  unfolding ApplyEvent_def admitEvent_def processEvent_def recordDuplicate_def getRunForUpdate_def
  by (intro moves_bind_lift steps assms loadPinned_owned)

end

locale event_frame = dispatch_frame R "\<lambda>_. True" for R
begin

lemma moves_ApplyEvent:
  assumes "\<And>f. mutation = Some f \<Longrightarrow> moves R (f i)"
  shows "moves R (ApplyEvent env now mutation runID i)"
  by (intro moves_ApplyEvent_by moves_accept TrueI assms)

lemma moves_ApplyCommand: "moves R (ApplyCommand env now runID commandName c)"
  unfolding ApplyCommand_def getRunForUpdate_def loadFacts_def Let_def
  by (intro moves_bind_lift steps moves_applyTransition transitionWrites_owned loadPinned_owned) simp_all

end

text \<open>Applying events and commands in a fixed environment, as an assumption on the relation.\<close>

locale apply_frame = frame +
  fixes env :: rt_env
  assumes applies: "(\<And>f. mutation = Some f \<Longrightarrow> moves R (f i)) \<Longrightarrow> moves R (ApplyEvent env now mutation runID i)"
    and commands: "moves R (ApplyCommand env now runID commandName c)"

sublocale event_frame \<subseteq> apply_frame R env for env
  by unfold_locales (rule moves_ApplyEvent moves_ApplyCommand, assumption?)+

text \<open>Advancing a run along a transition.\<close>

locale run_frame = reject_frame R "\<lambda>_. True" for R +
  assumes advances: "R s (db_runs_update (sql_update (casMatches stored) (advanceRun stored target destination now)) s)"
    and transitions: "R s (s\<lparr>db_transitions := db_transitions s @ [t]\<rparr>)"
begin

lemma moves_insertTransition: "moves R (insertTransitionRow t)"
  unfolding insertTransitionRow_def by (intro steps moves_modify transitions)

lemma moves_runTransition: "moves R (recordTransition stored destination t now)"
  unfolding recordTransition_def by (intro steps moves_update advances moves_insertTransition)

end

sublocale run_frame \<subseteq> event_frame
  by unfold_locales (rule moves_runTransition)

end
