(* ===== verification/RuntimeSound.thy ===== *)
theory RuntimeSound
  imports RuntimeFrame
begin

text \<open>
  Invariants and functional behaviour of the runtime operations: who owns a fact, the transition log that reconstructs
  every run, the history that only grows, duplicate, stale and unauthorised events, and the effect of a transition.
\<close>

section \<open>Fact ownership\<close>

definition facts_owned :: "store \<Rightarrow> bool" where
  "facts_owned s \<longleftrightarrow> (\<forall>f \<in> set (db_facts s). producerOwnsFact (fc_Producer f) (fc_Key f))"

lemma set_upsertFact: "set (upsertFact f fs) \<subseteq> insert f (set fs)"
  unfolding upsertFact_def Let_def by (auto simp: set_sql_update)

lemma set_deleteFact: "set (deleteFact runID key fs) \<subseteq> set fs"
  by (auto simp: deleteFact_def)

lemma writeFact_owned:
  assumes "producerOwnsFact p (fst kv)" and "\<forall>f \<in> set fs. producerOwnsFact (fc_Producer f) (fc_Key f)"
    and f: "f \<in> set (writeFact runID e p pv now kv fs)"
  shows "producerOwnsFact (fc_Producer f) (fc_Key f)"
proof (cases "snd kv = GNil")
  case True
  then have "f \<in> set fs" using f set_deleteFact by (fastforce simp: writeFact_def)
  then show ?thesis using assms(2) by blast
next
  case False
  then have "fc_Producer f = p \<and> fc_Key f = fst kv \<or> f \<in> set fs"
    using f subsetD [OF set_upsertFact] by (fastforce simp: writeFact_def)
  then show ?thesis using assms(1,2) by metis
qed

lemma fold_writeFact_owned:
  "\<forall>kv \<in> set ws. producerOwnsFact p (fst kv) \<Longrightarrow> \<forall>f \<in> set fs. producerOwnsFact (fc_Producer f) (fc_Key f) \<Longrightarrow>
   \<forall>f \<in> set (fold (writeFact runID e p pv now) ws fs). producerOwnsFact (fc_Producer f) (fc_Key f)"
proof (induction ws arbitrary: fs)
  case (Cons kv ws)
  have "\<forall>f \<in> set (writeFact runID e p pv now kv fs). producerOwnsFact (fc_Producer f) (fc_Key f)"
    using Cons.prems writeFact_owned [of p kv fs] by auto
  with Cons show ?case by simp
qed simp

lemma facts_owned_writes:
  assumes "ownedWrites p ws" and "facts_owned s"
  shows "facts_owned (s\<lparr>db_facts := fold (writeFact runID e p pv now) (sort_keys ws) (db_facts s)\<rparr>)"
proof -
  have "\<forall>kv \<in> set (sort_keys ws). producerOwnsFact p (fst kv)" using assms(1) by (simp add: ownedWrites_def)
  from fold_writeFact_owned [OF this assms(2) [unfolded facts_owned_def]]
  show ?thesis by (simp add: facts_owned_def)
qed

interpretation owned: run_frame "\<lambda>s s'. facts_owned s \<longrightarrow> facts_owned s'"
proof unfold_locales
  fix s :: store and p ws runID e pv now
  assume "ownedWrites p ws"
  then show "facts_owned s \<longrightarrow>
      facts_owned (s\<lparr>db_facts := fold (writeFact runID e p pv now) (sort_keys ws) (db_facts s)\<rparr>)"
    using facts_owned_writes by blast
next
  fix s t u
  assume "facts_owned s \<longrightarrow> facts_owned t" and "facts_owned t \<longrightarrow> facts_owned u"
  then show "facts_owned s \<longrightarrow> facts_owned u" by blast
qed (simp_all add: facts_owned_def)

section \<open>The transition log\<close>

text \<open>
  The log is the event-sourced history of a run: replaying its transitions from version 0 and no state leads to the
  version and the state in the run's row, each step starting where the one before ended.
\<close>

fun replay :: "nat \<times> string \<Rightarrow> transition_row list \<Rightarrow> (nat \<times> string) option" where
  "replay acc [] = Some acc"
| "replay (v, st) (t # ts) =
     (if tn_FromVersion t = v \<and> tn_FromState t = st \<and> tn_ToVersion t = Suc v
      then replay (Suc v, tn_ToState t) ts else None)"

definition runLog :: "string \<Rightarrow> store \<Rightarrow> transition_row list" where
  "runLog runID s = filter (\<lambda>t. tn_RunID t = runID) (db_transitions s)"

definition log_inv :: "store \<Rightarrow> bool" where
  "log_inv s \<longleftrightarrow> distinct (map run_ID (db_runs s)) \<and>
     (\<forall>t \<in> set (db_transitions s). tn_RunID t \<in> run_ID ` set (db_runs s)) \<and>
     (\<forall>r \<in> set (db_runs s). replay (0, []) (runLog (run_ID r) s) = Some (run_StateVersion r, run_State r))"

lemma replay_append: "replay acc (xs @ ys) = (case replay acc xs of None \<Rightarrow> None | Some b \<Rightarrow> replay b ys)"
  by (induction acc xs rule: replay.induct) auto

lemma replay_version: "replay acc ts = Some b \<Longrightarrow> fst b = fst acc + length ts"
  by (induction acc ts rule: replay.induct) (auto split: if_splits)

text \<open>The invariant only reads the log and three columns of the runs.\<close>

definition logKey :: "run_row \<Rightarrow> string \<times> string \<times> nat" where
  "logKey r = (run_ID r, run_State r, run_StateVersion r)"

lemma log_inv_keys:
  "log_inv s \<longleftrightarrow> distinct (map fst (map logKey (db_runs s))) \<and>
     (\<forall>t \<in> set (db_transitions s). tn_RunID t \<in> fst ` set (map logKey (db_runs s))) \<and>
     (\<forall>(i, st, v) \<in> set (map logKey (db_runs s)). replay (0, []) (runLog i s) = Some (v, st))"
  by (auto simp: log_inv_def logKey_def comp_def image_image)

lemma log_inv_cong:
  assumes "db_transitions s' = db_transitions s" and "map logKey (db_runs s') = map logKey (db_runs s)"
  shows "log_inv s' \<longleftrightarrow> log_inv s"
  unfolding log_inv_keys runLog_def assms ..

lemma logKey_runKey: "runKey r = runKey r' \<Longrightarrow> logKey r = logKey r'"
  by (simp add: runKey_def logKey_def)

lemma log_inv_update_runs:
  assumes "\<And>r. P r \<Longrightarrow> logKey (f r) = logKey r"
  shows "log_inv (db_runs_update (sql_update P f) s) \<longleftrightarrow> log_inv s"
  by (rule log_inv_cong) (simp_all add: map_sql_update assms)

interpretation log: reject_frame "\<lambda>s s'. log_inv s \<longrightarrow> log_inv s'" "\<lambda>_. True"
proof unfold_locales
  fix s :: store and rf rp
  assume "\<And>r. runKey (rf r) = runKey r"
  then show "log_inv s \<longrightarrow> log_inv (db_runs_update (sql_update rp rf) s)"
    using log_inv_update_runs logKey_runKey by blast
qed (simp_all add: log_inv_def runLog_def)

lemma sql_count_one:
  assumes "sql_count P rows = 1"
  obtains r where "filter P rows = [r]"
  using assms by (auto simp: sql_count_def length_Suc_conv)

lemma cas_unique:
  assumes "distinct (map run_ID (db_runs s))" and "sql_count (casMatches stored) (db_runs s) = 1"
    and "r \<in> set (db_runs s)" and "run_ID r = run_ID stored"
  shows "casMatches stored r"
proof -
  obtain q where "filter (casMatches stored) (db_runs s) = [q]" using assms(2) by (rule sql_count_one)
  then have "q \<in> set (db_runs s)" and q: "casMatches stored q"
    by (metis (lifting) filter_eq_ConsD list.set_intros(1) mem_Collect_eq set_filter)+
  moreover from this have "run_ID q = run_ID r" using assms(4) by (simp add: casMatches_def)
  ultimately have "q = r" using assms(1,3) by (auto simp: distinct_map dest: inj_onD)
  with q show ?thesis by simp
qed

lemma log_inv_advance:
  assumes "log_inv s" and "sql_count (casMatches stored) (db_runs s) = 1"
    and "tn_RunID t = run_ID stored" and "tn_FromState t = run_State stored" and "tn_ToState t = target"
    and "tn_FromVersion t = run_StateVersion stored" and "tn_ToVersion t = run_StateVersion stored + 1"
  shows "log_inv (s\<lparr>db_runs := sql_update (casMatches stored) (advanceRun stored target destination now) (db_runs s),
    db_transitions := db_transitions s @ [t]\<rparr>)" (is "log_inv ?s")
proof -
  let ?f = "advanceRun stored target destination now"
  have ids: "map run_ID (db_runs ?s) = map run_ID (db_runs s)"
    by (simp add: map_sql_update advanceRun_def)
  then have idset: "run_ID ` set (db_runs ?s) = run_ID ` set (db_runs s)" by (metis list.set_map)
  have d: "distinct (map run_ID (db_runs s))" using assms(1) by (simp add: log_inv_def)
  have "replay (0, []) (runLog (run_ID r) ?s) = Some (run_StateVersion r, run_State r)" if r: "r \<in> set (db_runs ?s)" for r
  proof -
    from r have "r \<in> set (sql_update (casMatches stored) ?f (db_runs s))" by simp
    then show ?thesis
    proof (cases rule: in_sql_updateE)
      case (1 q)
      then have "replay (0, []) (runLog (run_ID q) s) = Some (run_StateVersion q, run_State q)"
        using assms(1) by (simp add: log_inv_def)
      with 1 assms show ?thesis by (simp add: runLog_def advanceRun_def casMatches_def replay_append)
    next
      case 2
      then have "run_ID r \<noteq> run_ID stored" using cas_unique [OF d assms(2)] by blast
      with 2 assms show ?thesis by (simp add: runLog_def log_inv_def)
    qed
  qed
  moreover obtain q where "q \<in> set (db_runs s)" and "casMatches stored q"
    using assms(2) sql_count_pos [of "casMatches stored" "db_runs s"] by auto
  then have "run_ID stored \<in> run_ID ` set (db_runs s)" by (auto simp: casMatches_def intro!: image_eqI [of _ _ q])
  ultimately show ?thesis using assms(1,3) ids idset by (auto simp: log_inv_def)
qed

interpretation log: event_frame "\<lambda>s s'. log_inv s \<longrightarrow> log_inv s'"
proof unfold_locales
  fix stored destination i name target writes tid now
  let ?t = "newTransition stored i name target writes tid now"
  have "log_inv u" if "log_inv s" and "recordTransition stored destination ?t now s = Inr (x, u)" for s u x
  proof -
    have n: "sql_count (casMatches stored) (db_runs s) = 1" and
      u: "u = s\<lparr>db_runs := sql_update (casMatches stored) (advanceRun stored target destination now) (db_runs s),
        db_transitions := db_transitions s @ [?t]\<rparr>"
      using that(2) by (auto simp: recordTransition_def insertTransitionRow_def newTransition_def tx_ok)
    show ?thesis unfolding u by (rule log_inv_advance [OF that(1) n]) (simp_all add: newTransition_def)
  qed
  then show "moves (\<lambda>s s'. log_inv s \<longrightarrow> log_inv s') (recordTransition stored destination ?t now)"
    by (simp add: moves_def)
qed

section \<open>History\<close>

text \<open>
  \<open>extends s s'\<close>: the tables of record only grow.  Events keep what they were received with (a rejection marks the
  disposition of its own event), receipts and transitions are appended, a run keeps its pinned documents and never goes back to an earlier version.
\<close>

definition run_le :: "run_row \<Rightarrow> run_row \<Rightarrow> bool" where
  "run_le r r' \<longleftrightarrow> run_ID r' = run_ID r \<and> run_TenantID r' = run_TenantID r \<and>
     run_WorkspaceRevision r' = run_WorkspaceRevision r \<and> run_WorkflowRevision r' = run_WorkflowRevision r \<and>
     run_WorkspaceYAML r' = run_WorkspaceYAML r \<and> run_WorkflowYAML r' = run_WorkflowYAML r \<and>
     run_StateVersion r \<le> run_StateVersion r'"

definition extends :: "store \<Rightarrow> store \<Rightarrow> bool" where
  "extends s s' \<longleftrightarrow> (\<forall>r \<in> set (db_runs s). \<exists>r' \<in> set (db_runs s'). run_le r r') \<and>
     prefix (map eventKey (db_events s)) (map eventKey (db_events s')) \<and>
     prefix (db_receipts s) (db_receipts s') \<and> prefix (db_transitions s) (db_transitions s')"

lemma run_le_refl: "run_le r r"
  by (simp add: run_le_def)

lemma run_le_trans: "run_le a b \<Longrightarrow> run_le b c \<Longrightarrow> run_le a c"
  by (auto simp: run_le_def)

lemma extends_update_runs:
  assumes "\<And>r. P r \<Longrightarrow> run_le r (f r)"
  shows "extends s (db_runs_update (sql_update P f) s)"
proof -
  have "\<exists>r' \<in> set (sql_update P f (db_runs s)). run_le r r'" if "r \<in> set (db_runs s)" for r
    using that assms [of r] run_le_refl [of r] unfolding set_sql_update
    by (intro bexI [of _ "if P r then f r else r"]) auto
  then show ?thesis by (simp add: extends_def)
qed

lemma extends_same_runs:
  assumes "db_runs s' = db_runs s" and "prefix (map eventKey (db_events s)) (map eventKey (db_events s'))"
    and "prefix (db_receipts s) (db_receipts s')" and "prefix (db_transitions s) (db_transitions s')"
  shows "extends s s'"
  using assms run_le_refl by (auto simp: extends_def)

interpretation hist: run_frame extends
proof unfold_locales
  fix s t u
  assume st: "extends s t" and tu: "extends t u"
  have "\<exists>r' \<in> set (db_runs u). run_le r r'" if r: "r \<in> set (db_runs s)" for r
  proof -
    obtain q where "q \<in> set (db_runs t)" and "run_le r q" using st r unfolding extends_def by blast
    moreover obtain p where "p \<in> set (db_runs u)" and "run_le q p" using tu \<open>q \<in> set (db_runs t)\<close> unfolding extends_def by blast
    ultimately show ?thesis using run_le_trans by blast
  qed
  moreover have "prefix (map eventKey (db_events s)) (map eventKey (db_events u))"
    "prefix (db_receipts s) (db_receipts u)" "prefix (db_transitions s) (db_transitions u)"
    using st tu unfolding extends_def by (auto intro: prefix_order.trans)
  ultimately show "extends s u" by (simp add: extends_def)
next
  fix s :: store and rf rp
  assume "\<And>r. runKey (rf r) = runKey r"
  then show "extends s (db_runs_update (sql_update rp rf) s)"
    by (intro extends_update_runs) (simp add: run_le_def runKey_def)
next
  fix s stored target destination now
  show "extends s (db_runs_update (sql_update (casMatches stored) (advanceRun stored target destination now)) s)"
    by (intro extends_update_runs) (auto simp: run_le_def advanceRun_def casMatches_def)
next
  fix s :: store and i reason
  show "extends s (db_events_update (sql_update (\<lambda>e. ev_ID e = i) (\<lambda>e. e\<lparr>ev_Disposition := DispRejected, ev_Reason := reason\<rparr>)) s)"
    by (rule extends_same_runs) (simp_all add: map_sql_update eventKey_def)
qed (auto intro!: extends_same_runs)

section \<open>Effect keys\<close>

text \<open>An effect is scheduled at most once for its run, origin and place in the definition.\<close>

definition effects_unique :: "store \<Rightarrow> bool" where
  "effects_unique s \<longleftrightarrow> distinct (map ef_EffectKey (db_effects s)) \<and> distinct (map ef_ID (db_effects s))"

interpretation once: run_frame "\<lambda>s s'. effects_unique s \<longrightarrow> effects_unique s'"
  by unfold_locales (auto simp: effects_unique_def)

section \<open>Results\<close>

text \<open>\<open>yields P m\<close>: every result of \<open>m\<close> satisfies \<open>P\<close>.\<close>

definition yields :: "('a \<Rightarrow> bool) \<Rightarrow> 'a tx \<Rightarrow> bool" where
  "yields P m \<longleftrightarrow> (\<forall>s x s'. m s = Inr (x, s') \<longrightarrow> P x)"

lemma yieldsD: "yields P m \<Longrightarrow> m s = Inr (x, s') \<Longrightarrow> P x"
  unfolding yields_def by blast

lemma yields_steps:
  "P x \<Longrightarrow> yields P (returnT x)"
  "(\<And>y. yields P (f y)) \<Longrightarrow> yields P (bindT m f)"
  "yields P k \<Longrightarrow> yields P (thenT m k)"
  "(b \<Longrightarrow> yields P k) \<Longrightarrow> (\<not> b \<Longrightarrow> yields P k') \<Longrightarrow> yields P (if b then k else k')"
  "(v = None \<Longrightarrow> yields P k) \<Longrightarrow> (\<And>y. v = Some y \<Longrightarrow> yields P (g y)) \<Longrightarrow> yields P (case v of None \<Rightarrow> k | Some y \<Rightarrow> g y)"
  "(\<And>a c. p = (a, c) \<Longrightarrow> yields P (h a c)) \<Longrightarrow> yields P (case p of (a, c) \<Rightarrow> h a c)"
  unfolding yields_def by (auto simp: tx_ok split: option.split prod.split)

definition settled :: "event_result \<Rightarrow> bool" where
  "settled r \<longleftrightarrow> er_Disposition r = DispAccepted \<or> er_Disposition r = DispRejected"

lemma accept_settles: "yields settled (acceptEvent env now stored w i)"
  unfolding acceptEvent_def dispatchEvent_def dispatchTransition_def settleWithoutTransition_def applyTransition_def
    finishTransition_def rejectAndSuspend_def Let_def
  by (intro yields_steps) (simp_all add: settled_def)

text \<open>Two stores that differ at most in the receipts.\<close>

definition same_but_receipts :: "store \<Rightarrow> store \<Rightarrow> bool" where
  "same_but_receipts s s' \<longleftrightarrow> s'\<lparr>db_receipts := db_receipts s, db_uuids := db_uuids s\<rparr> = s"

text \<open>The store after an event was recorded with a disposition and a reason and nothing else happened: one row of the journal,
  with everything the event brought, and one receipt for it.\<close>

definition withRecord :: "rt_env \<Rightarrow> run_row \<Rightarrow> event_input \<Rightarrow> disposition \<Rightarrow> string \<Rightarrow> int \<Rightarrow> store \<Rightarrow> store" where
  "withRecord env stored i d reason now s =
     s\<lparr>db_events := db_events s @
         [\<lparr>ev_ID = in_ID i, ev_RunID = run_ID stored, ev_MessageID = in_MessageID i, ev_Kind = in_Kind i,
           ev_AttemptID = in_AttemptID i, ev_Expected = in_Expected i, ev_Observed = run_StateVersion stored,
           ev_Disposition = d, ev_Reason = reason, ev_Producer = in_Producer i, ev_Provenance = in_Provenance i,
           ev_Payload = jsonObject (in_Payload i), ev_Facts = jsonObject (in_Facts i), ev_ReceivedAt = unixMilli now\<rparr>],
       db_receipts := db_receipts s @
         [\<lparr>rc_ID = newUUID env (db_uuids s), rc_RunID = run_ID stored, rc_EventID = in_ID i, rc_MessageID = in_MessageID i,
           rc_Disposition = d, rc_Observed = run_StateVersion stored, rc_Reason = reason, rc_ReceivedAt = unixMilli now\<rparr>],
       db_uuids := Suc (db_uuids s)\<rparr>"

lemma withRecord_tables [simp]:
  "db_runs (withRecord env stored i d reason now s) = db_runs s"
  "db_transitions (withRecord env stored i d reason now s) = db_transitions s"
  by (simp_all add: withRecord_def)

lemma insertEventReceipt_ok:
  "insertEventReceipt env runID e msg d v reason now s = Inr (x, s') \<Longrightarrow> same_but_receipts s s'"
  by (auto simp: insertEventReceipt_def tx_ok same_but_receipts_def)

lemma recordOnly_ok:
  assumes "recordOnly env stored i d reason now s = Inr (r, s')"
  shows "s' = withRecord env stored i d reason now s" and "er_Disposition r = d" and "er_Reason r = reason"
    and "\<exists>e. db_events s' = db_events s @ [e] \<and> ev_ID e = in_ID i \<and> ev_RunID e = run_ID stored \<and>
      ev_MessageID e = in_MessageID i \<and> ev_Disposition e = d"
  using assms
  by (auto simp: recordOnly_def insertEvent_def insertEventRow_def insertEventReceipt_def tx_ok withRecord_def)

text \<open>The branches of \<open>ApplyEvent\<close>, in the order of the code.\<close>

lemma authorizeBoundAttempt_same: "authorizeBoundAttempt run i s = Inr (x, s') \<Longrightarrow> s' = s"
  by (auto simp: authorizeBoundAttempt_def tx_ok split: if_splits)

lemma authorizeBoundTask_same: "authorizeBoundTask run i s = Inr (x, s') \<Longrightarrow> s' = s"
  by (auto simp: authorizeBoundTask_def tx_ok split: if_splits)

lemma ApplyEvent_starts:
  assumes "ApplyEvent env now mutation runID i s = Inr (r, s')"
  obtains stored where "find (\<lambda>r. run_ID r = runID) (db_runs s) = Some stored"
    and "(case findDuplicateEvent runID (in_ID i) (in_MessageID i) s of
           Some e \<Rightarrow> recordDuplicate env stored i e now
         | None \<Rightarrow> admitEvent env now mutation stored i) s = Inr (r, s')"
  using assms unfolding ApplyEvent_def getRunForUpdate_def tx_ok by (metis authorizeBoundAttempt_same)

lemma recordDuplicate_ok:
  "recordDuplicate env stored i e now s = Inr (r, s') \<Longrightarrow> same_but_receipts s s' \<and>
     er_Disposition r = DispDuplicate \<and> er_EventID r = e \<and> er_Run r = stored \<and> er_Transition r = None"
  by (auto simp: recordDuplicate_def tx_ok dest: insertEventReceipt_ok)

lemma admitEvent_cases:
  assumes "admitEvent env now None stored i s = Inr (r, s')"
  obtains (unauthorized) d reason where "authorizeEvent i = Some (d, reason)"
      "recordOnly env stored i d reason now s = Inr (r, s')"
  | (stale) reason where "authorizeEvent i = None" "staleReason (in_Expected i) stored = Some reason"
      "recordOnly env stored i DispStaleState reason now s = Inr (r, s')"
  | (accept) w where "authorizeEvent i = None" "staleReason (in_Expected i) stored = None"
      "loadPinnedWorkflow env stored = Inr w" "acceptEvent env now stored w i s = Inr (r, s')"
proof -
  let ?rest = "case authorizeEvent i of
        Some dr \<Rightarrow> recordOnly env stored i (fst dr) (snd dr) now
      | None \<Rightarrow>
          (case staleReason (in_Expected i) stored of
             Some reason \<Rightarrow> recordOnly env stored i DispStaleState reason now
           | None \<Rightarrow> processEvent env now None stored i)"
  obtain u t where a: "authorizeBoundTask stored i s = Inr (u, t)" and b: "?rest t = Inr (r, s')"
    using assms unfolding admitEvent_def tx_iffs(4) by (elim exE conjE)
  have rest: "?rest s = Inr (r, s')" using b unfolding authorizeBoundTask_same [OF a] .
  show thesis
  proof (cases "authorizeEvent i")
    case (Some p)
    then show thesis using rest unauthorized [of "fst p" "snd p"] by simp
  next
    case None
    then show thesis using rest stale accept
      by (cases "staleReason (in_Expected i) stored") (auto simp: processEvent_def tx_ok)
  qed
qed

end
