(* ===== verification/RuntimeRefinement.thy ===== *)
theory RuntimeRefinement
  imports RuntimeSound
begin

text \<open>
  The runtime against its specification.  The abstract state is, per run, its identity, workflow state and version; the
  abstract step is an edge of the pinned workflow's graph.  \<open>ApplyEvent\<close> and \<open>ApplyCommand\<close> refine it: a call either leaves
  the abstract state alone or moves one run along one edge and appends that step to the log.
\<close>

section \<open>Delivery of an event\<close>

definition knownEvent :: "string \<Rightarrow> event_input \<Rightarrow> store \<Rightarrow> bool" where
  "knownEvent runID i s \<longleftrightarrow> (\<exists>e \<in> set (db_events s). ev_RunID e = runID \<and>
     (ev_ID e = in_ID i \<or> (in_MessageID i \<noteq> [] \<and> ev_MessageID e = in_MessageID i)))"

lemma findDuplicate_known: "findDuplicateEvent runID (in_ID i) (in_MessageID i) s \<noteq> None \<longleftrightarrow> knownEvent runID i s"
  unfolding findDuplicateEvent_def knownEvent_def by (auto simp: find_None_iff)

lemma knownEvent_keys:
  "knownEvent runID i s \<longleftrightarrow> (\<exists>(eid, rid, mid, k, p) \<in> set (map eventKey (db_events s)). rid = runID \<and>
     (eid = in_ID i \<or> (in_MessageID i \<noteq> [] \<and> mid = in_MessageID i)))"
  by (auto simp: knownEvent_def eventKey_def)

lemma knownEvent_extends:
  assumes "extends s s'" and "knownEvent runID i s"
  shows "knownEvent runID i s'"
proof -
  have "set (map eventKey (db_events s)) \<subseteq> set (map eventKey (db_events s'))"
    using assms(1) set_mono_prefix unfolding extends_def by blast
  then show ?thesis using assms(2) unfolding knownEvent_keys by blast
qed

lemma find_run_ID: "find (\<lambda>r. run_ID r = runID) rows = Some r \<Longrightarrow> r \<in> set rows \<and> run_ID r = runID"
  by (drule find_Some_in) simp

lemma acceptEvent_known:
  assumes "acceptEvent env now stored w i s = Inr (r, s')" and "workflowWritesOwned w" and "authorizeEvent i = None"
  shows "knownEvent (run_ID stored) i s'"
proof -
  obtain u where u: "insertEvent (run_ID stored) i (run_StateVersion stored) DispAccepted [] now s = Inr ((), u)"
    and rest: "thenT (writeFacts (run_ID stored) (in_ID i) (in_Producer i) (in_Provenance i) (in_Facts i) now)
      (dispatchEvent env now stored w i) u = Inr (r, s')"
    using assms(1) unfolding acceptEvent_def tx_iffs(4) [of "insertEvent _ _ _ _ _ _"] by auto
  have "ownedWrites (in_Producer i) (in_Facts i)"
    using assms(3) by (auto simp: authorizeEvent_None_iff ownedWrites_def)
  then have "moves extends (thenT (writeFacts (run_ID stored) (in_ID i) (in_Producer i) (in_Provenance i) (in_Facts i) now)
      (dispatchEvent env now stored w i))"
    by (intro hist.steps hist.moves_dispatch TrueI assms(2))
  then have "extends u s'" using rest by (rule movesD)
  moreover have "knownEvent (run_ID stored) i u"
    using u by (auto simp: insertEvent_def insertEventRow_def tx_ok knownEvent_def)
  ultimately show ?thesis by (rule knownEvent_extends)
qed

lemma same_but_receipts_tables:
  assumes "same_but_receipts s s'"
  shows "db_events s' = db_events s" and "db_runs s' = db_runs s" and "db_transitions s' = db_transitions s"
    and "db_effects s' = db_effects s"
  using assms [unfolded same_but_receipts_def, THEN arg_cong [of _ _ db_events]]
    assms [unfolded same_but_receipts_def, THEN arg_cong [of _ _ db_runs]]
    assms [unfolded same_but_receipts_def, THEN arg_cong [of _ _ db_transitions]]
    assms [unfolded same_but_receipts_def, THEN arg_cong [of _ _ db_effects]] by simp_all

lemma ApplyEvent_known:
  assumes "ApplyEvent env now None runID i s = Inr (r, s')"
  shows "knownEvent runID i s'"
proof -
  obtain stored where stored: "find (\<lambda>r. run_ID r = runID) (db_runs s) = Some stored"
    and rest: "(case findDuplicateEvent runID (in_ID i) (in_MessageID i) s of
           Some e \<Rightarrow> recordDuplicate env stored i e now
         | None \<Rightarrow> admitEvent env now None stored i) s = Inr (r, s')"
    using assms by (rule ApplyEvent_starts)
  have id: "run_ID stored = runID" using find_run_ID [OF stored] by simp
  show ?thesis
  proof (cases "findDuplicateEvent runID (in_ID i) (in_MessageID i) s")
    case (Some e)
    then have "knownEvent runID i s" using findDuplicate_known [of runID i s] by simp
    moreover have "db_events s' = db_events s"
      using rest Some recordDuplicate_ok same_but_receipts_tables(1) by fastforce
    ultimately show ?thesis by (simp add: knownEvent_def)
  next
    case None
    then have "admitEvent env now None stored i s = Inr (r, s')" using rest by simp
    then show ?thesis
    proof (cases rule: admitEvent_cases)
      case (unauthorized d reason)
      from recordOnly_ok(4) [OF this(2)] id show ?thesis by (auto simp: knownEvent_def)
    next
      case (stale reason)
      from recordOnly_ok(4) [OF this(3)] id show ?thesis by (auto simp: knownEvent_def)
    next
      case (accept w)
      from acceptEvent_known [OF this(4) loadPinned_owned [OF this(3)] this(1)] id show ?thesis by simp
    qed
  qed
qed

lemma ApplyEvent_of_known:
  assumes "ApplyEvent env now m runID i s = Inr (r, s')" and "knownEvent runID i s"
  shows "er_Disposition r = DispDuplicate \<and> same_but_receipts s s'"
proof -
  obtain stored where "(case findDuplicateEvent runID (in_ID i) (in_MessageID i) s of
           Some e \<Rightarrow> recordDuplicate env stored i e now
         | None \<Rightarrow> admitEvent env now m stored i) s = Inr (r, s')"
    using assms(1) by (rule ApplyEvent_starts)
  moreover obtain e where "findDuplicateEvent runID (in_ID i) (in_MessageID i) s = Some e"
    using assms(2) findDuplicate_known [of runID i s] by auto
  ultimately show ?thesis using recordDuplicate_ok by auto
qed

section \<open>Refinement of the graph\<close>

definition absRuns :: "store \<Rightarrow> (string \<times> string \<times> nat) list" where
  "absRuns s = map logKey (db_runs s)"

text \<open>An edge of the workflow graph, labelled by the kind of the event or by the name of the command that takes it.\<close>

datatype edge_label = OnEvent string | OnCommand string

inductive edge :: "workflow \<Rightarrow> string \<Rightarrow> edge_label \<Rightarrow> string \<Rightarrow> bool" for w where
  transition: "(name, tr) \<in> set (wf_Transitions w) \<Longrightarrow> FromStates (tr_From tr) = Inr from \<Longrightarrow> st \<in> set from \<Longrightarrow>
    edge w st (OnEvent (tr_On tr)) (tr_To tr)"
| command: "map_of (wf_Commands w) name = Some c \<Longrightarrow> FromStates (cmd_From c) = Inr from \<Longrightarrow> st \<in> set from \<Longrightarrow>
    edge w st (OnCommand name) (cmd_To c)"

inductive_cases edgeE: "edge w st kind st'"

definition moveRun :: "transition_row \<Rightarrow> string \<times> string \<times> nat \<Rightarrow> string \<times> string \<times> nat" where
  "moveRun t a = (if fst a = tn_RunID t then (fst a, tn_ToState t, tn_ToVersion t) else a)"

text \<open>The abstract step: either nothing, or one run follows one edge, and the log records it.\<close>

definition graph_step :: "rt_env \<Rightarrow> string \<Rightarrow> edge_label \<Rightarrow> store \<Rightarrow> transition_row option \<Rightarrow> store \<Rightarrow> bool" where
  "graph_step env runID kind s step s' \<longleftrightarrow>
     (case step of
        None \<Rightarrow> absRuns s' = absRuns s \<and> db_transitions s' = db_transitions s
      | Some t \<Rightarrow> absRuns s' = map (moveRun t) (absRuns s) \<and> db_transitions s' = db_transitions s @ [t] \<and>
          (\<exists>r w. find (\<lambda>r. run_ID r = runID) (db_runs s) = Some r \<and> loadPinnedWorkflow env r = Inr w \<and> tn_RunID t = runID \<and>
             edge w (run_State r) kind (tn_ToState t) \<and> tn_FromState t = run_State r \<and>
             tn_FromVersion t = run_StateVersion r \<and> tn_ToVersion t = run_StateVersion r + 1))"

interpretation keyed: reject_frame "\<lambda>s s'. absRuns s' = absRuns s \<and> db_transitions s' = db_transitions s" "\<lambda>_. True"
proof unfold_locales
  fix s :: store and rf rp
  assume "\<And>r. runKey (rf r) = runKey r"
  then have "\<And>r. logKey (rf r) = logKey r" using logKey_runKey by blast
  then show "absRuns (db_runs_update (sql_update rp rf) s) = absRuns s \<and>
      db_transitions (db_runs_update (sql_update rp rf) s) = db_transitions s"
    by (simp add: absRuns_def map_sql_update)
qed (auto simp: absRuns_def)

lemma absRuns_advance:
  assumes "distinct (map run_ID (db_runs s))" and "sql_count (casMatches stored) (db_runs s) = 1"
  shows "map logKey (sql_update (casMatches stored) (advanceRun stored target destination now) (db_runs s)) =
    map (moveRun (newTransition stored i name target writes tid now)) (absRuns s)"
proof -
  have "logKey (if casMatches stored r then advanceRun stored target destination now r else r) =
      moveRun (newTransition stored i name target writes tid now) (logKey r)" if "r \<in> set (db_runs s)" for r
    using cas_unique [OF assms that]
    by (auto simp: logKey_def advanceRun_def moveRun_def newTransition_def casMatches_def)
  then show ?thesis by (simp add: absRuns_def sql_update_def)
qed

lemma recordTransition_ok:
  assumes "recordTransition stored destination (newTransition stored i name target writes tid now) now s = Inr (x, u)"
  shows "sql_count (casMatches stored) (db_runs s) = 1"
    and "u = s\<lparr>db_runs := sql_update (casMatches stored) (advanceRun stored target destination now) (db_runs s),
      db_transitions := db_transitions s @ [newTransition stored i name target writes tid now]\<rparr>"
  using assms by (auto simp: recordTransition_def insertTransitionRow_def newTransition_def tx_ok)

lemma reject_step:
  assumes "rejectAndSuspend env run i reason now s = Inr (r, s')"
  shows "er_Transition r = None" and "absRuns s' = absRuns s \<and> db_transitions s' = db_transitions s"
proof -
  have "yields (\<lambda>r. er_Transition r = None) (rejectAndSuspend env run i reason now)"
    unfolding rejectAndSuspend_def by (intro yields_steps) simp
  then show "er_Transition r = None" using assms by (rule yieldsD)
  show "absRuns s' = absRuns s \<and> db_transitions s' = db_transitions s"
    using keyed.moves_reject [OF TrueI] assms by (rule movesD)
qed

lemma applyTransition_step:
  assumes run: "applyTransition env now stored w i name tr clause clauseName cw facts s = Inr (r, s')"
    and own: "ownedWrites ProducerEngine (transitionWrites tr (stateOf w (tr_To tr)) cw)"
    and ids: "distinct (map run_ID (db_runs s))"
  shows "er_Transition r = None \<and> absRuns s' = absRuns s \<and> db_transitions s' = db_transitions s \<or>
    (\<exists>tid. let t = newTransition stored i name (tr_To tr) (transitionWrites tr (stateOf w (tr_To tr)) cw) tid now
       in er_Transition r = Some t \<and> er_Disposition r = DispAccepted \<and> sql_count (casMatches stored) (db_runs s) = 1 \<and>
          absRuns s' = map (moveRun t) (absRuns s) \<and>
          db_transitions s' = db_transitions s @ [t] \<and> er_Run r \<in> set (db_runs s') \<and> run_ID (er_Run r) = run_ID stored)"
proof -
  let ?dest = "stateOf w (tr_To tr)"
  let ?writes = "transitionWrites tr ?dest cw"
  obtain valid where rest: "(if \<not> valid then
        rejectAndSuspend env stored i (''destination invariant does not hold for state '' @ tr_To tr) now
      else
        bindT (freshUUID env) (\<lambda>tid.
        let t = newTransition stored i name (tr_To tr) ?writes tid now in
        thenT (recordTransition stored ?dest t now)
          (finishTransition env now stored i name tr ?dest ?writes clause clauseName t))) s = Inr (r, s')"
    using run unfolding applyTransition_def Let_def by (auto simp: tx_iffs(3,5))
  show ?thesis
  proof (cases valid)
    case False
    then show ?thesis using rest reject_step by auto
  next
    case True
    define tid where "tid = newUUID env (db_uuids s)"
    define t where "t = newTransition stored i name (tr_To tr) ?writes tid now"
    obtain u where rec: "recordTransition stored ?dest t now (s\<lparr>db_uuids := Suc (db_uuids s)\<rparr>) = Inr ((), u)"
      and after: "finishTransition env now stored i name tr ?dest ?writes clause clauseName t u = Inr (r, s')"
      using rest True by (auto simp: Let_def tx_iffs(3,4) tx_iffs(11) t_def tid_def)
    note ok = recordTransition_ok [OF rec [unfolded t_def]]
    have u: "absRuns u = map (moveRun t) (absRuns s)" "db_transitions u = db_transitions s @ [t]"
      using absRuns_advance [of s, OF ids, of stored] ok by (simp_all add: absRuns_def t_def)
    have "moves (\<lambda>s s'. absRuns s' = absRuns s \<and> db_transitions s' = db_transitions s)
        (finishTransition env now stored i name tr ?dest ?writes clause clauseName t)"
      unfolding finishTransition_def by (intro keyed.steps own)
    from movesD [OF this after] have keep: "absRuns s' = absRuns u" "db_transitions s' = db_transitions u" by simp_all
    from after obtain v where "r = \<lparr>er_EventID = in_ID i, er_Disposition = DispAccepted, er_Reason = [], er_Run = v,
        er_Transition = Some t\<rparr>" and "find (\<lambda>r. run_ID r = run_ID stored) (db_runs s') = Some v"
      unfolding finishTransition_def GetRun_def by (auto simp: tx_iffs(1,3,4,9))
    moreover from this(2) have "v \<in> set (db_runs s') \<and> run_ID v = run_ID stored" by (rule find_run_ID)
    moreover have "sql_count (casMatches stored) (db_runs s) = 1" using ok(1) by simp
    ultimately show ?thesis using u keep by (intro disjI2 exI [of _ tid]) (simp add: Let_def t_def)
  qed
qed

text \<open>The step of a store, with the run and the workflow it concerns left explicit.\<close>

definition graph_move :: "run_row \<Rightarrow> workflow \<Rightarrow> edge_label \<Rightarrow> store \<Rightarrow> event_result \<Rightarrow> store \<Rightarrow> bool" where
  "graph_move stored w kind s r s' \<longleftrightarrow>
     (case er_Transition r of
        None \<Rightarrow> absRuns s' = absRuns s \<and> db_transitions s' = db_transitions s
      | Some t \<Rightarrow> sql_count (casMatches stored) (db_runs s) = 1 \<and> absRuns s' = map (moveRun t) (absRuns s) \<and>
          db_transitions s' = db_transitions s @ [t] \<and> tn_RunID t = run_ID stored \<and> edge w (run_State stored) kind (tn_ToState t) \<and> tn_FromState t = run_State stored \<and>
          tn_FromVersion t = run_StateVersion stored \<and> tn_ToVersion t = run_StateVersion stored + 1 \<and>
          er_Disposition r = DispAccepted \<and> er_Run r \<in> set (db_runs s') \<and> run_ID (er_Run r) = run_ID stored)"

lemma graph_move_apply:
  assumes "applyTransition env now stored w i name tr clause clauseName cw facts s = Inr (r, s')"
    and "ownedWrites ProducerEngine (transitionWrites tr (stateOf w (tr_To tr)) cw)"
    and "distinct (map run_ID (db_runs s))" and "edge w (run_State stored) kind (tr_To tr)"
  shows "graph_move stored w kind s r s'"
  using applyTransition_step [OF assms(1-3)] assms(4)
  by (auto simp: graph_move_def Let_def newTransition_def)

lemma graph_move_same:
  "er_Transition r = None \<Longrightarrow> absRuns s' = absRuns s \<and> db_transitions s' = db_transitions s \<Longrightarrow> graph_move stored w kind s r s'"
  by (simp add: graph_move_def)

lemma settle_step:
  assumes "settleWithoutTransition env now stored w i clause clauseName cw facts l s = Inr (r, s')"
    and "ownedWrites ProducerEngine cw"
  shows "er_Transition r = None" and "absRuns s' = absRuns s \<and> db_transitions s' = db_transitions s"
proof -
  have "yields (\<lambda>r. er_Transition r = None) (settleWithoutTransition env now stored w i clause clauseName cw facts l)"
    unfolding settleWithoutTransition_def rejectAndSuspend_def Let_def by (intro yields_steps) simp_all
  then show "er_Transition r = None" using assms(1) by (rule yieldsD)
  show "absRuns s' = absRuns s \<and> db_transitions s' = db_transitions s"
    using keyed.moves_settle [OF TrueI assms(2)] assms(1) by (rule movesD)
qed

lemma fires_edge:
  assumes "matchingTransition w kind st facts = Inr (name, Some tr, n, l)"
  shows "edge w st (OnEvent kind) (tr_To tr)"
proof -
  have "(name, tr) \<in> set (wf_Transitions w)" and f: "fires kind st facts (name, tr)"
    using transitionLoop_count [OF assms [unfolded matchingTransition_def]] by auto
  moreover from f obtain sources where "FromStates (tr_From tr) = Inr sources" and "st \<in> set sources" and "tr_On tr = kind"
    by (auto simp: fires_def split: sum.splits)
  ultimately show ?thesis using edge.transition by metis
qed

lemma dispatchTransition_step:
  assumes run: "dispatchTransition env now stored w i clause clauseName facts0 s = Inr (r, s')"
    and w: "workflowWritesOwned w" and cw: "ownedWrites ProducerEngine (clauseWritesOf clause)"
    and ids: "distinct (map run_ID (db_runs s))"
  shows "graph_move stored w (OnEvent (in_Kind i)) s r s'"
proof -
  have tw: "ownedWrites ProducerEngine (transitionWrites t (stateOf w (tr_To t)) (clauseWritesOf clause))"
    if "matchingTransition w k st fs = Inr (name, Some t, c, l)" for k st fs name t c l
    using matchingTransition_found [OF that] w cw
    by (intro transitionWrites_owned) (auto simp: workflowWritesOwned_def)
  show ?thesis
    using run unfolding dispatchTransition_def
    by (auto simp: Let_def tx_iffs(3,5) simp del: One_nat_def split: if_splits option.splits
      intro: graph_move_same graph_move_apply ids fires_edge tw
      dest: reject_step settle_step [OF _ cw])
qed

lemma dispatch_step:
  assumes run: "dispatchEvent env now stored w i s = Inr (r, s')" and w: "workflowWritesOwned w"
    and ids: "distinct (map run_ID (db_runs s))"
  shows "graph_move stored w (OnEvent (in_Kind i)) s r s'"
  using run unfolding dispatchEvent_def loadFacts_def
  by (auto simp: tx_iffs(3,5,6) simp del: One_nat_def split: if_splits
    intro: graph_move_same dispatchTransition_step [OF _ w _ ids] clauseWrites_owned [OF w] dest: reject_step)

end
