(* ===== verification/RuntimeProperties.thy ===== *)
theory RuntimeProperties
  imports RuntimeRefinement
begin

text \<open>
  The theorems on \<open>ApplyEvent\<close> and \<open>ApplyCommand\<close>, and the demo run their witnesses execute: one run of the demo workflow,
  in the state \<^verbatim>\<open>check\<close>.
\<close>

definition demoYaml :: yaml_env where
  "demoYaml = \<lparr>DetectSchemaVersion = (\<lambda>_. Inr ''v2''), decodeUntyped = (\<lambda>_. Inr []),
     decodeWorkflow = (\<lambda>_. Inr demoWorkflow), decodeWorkspace = (\<lambda>_. Inr demoWorkspace)\<rparr>"

definition demoRt :: rt_env where
  "demoRt = \<lparr>rt_doc = demoEnv, rt_yaml = demoYaml, newUUID = (\<lambda>n. CHR ''u'' # utoa n), sha256Hex = id\<rparr>"

definition demoRun :: run_row where
  "demoRun =
     \<lparr>run_ID = ''run'', run_TenantID = ''tenant'', run_WorkspaceName = ''ws'', run_WorkflowName = ''demo'',
      run_WorkspaceRevision = ''rev'', run_WorkflowRevision = ''wfrev'', run_WorkspaceYAML = [], run_WorkflowYAML = [],
      run_State = ''check'', run_DisplayPhase = ''test'', run_StateVersion = 2, run_Status = RunActive,
      run_WaitingReason = [], run_CurrentAttemptID = [], run_CurrentTaskID = [], run_ContextBundleID = [],
      run_TriggerType = ''manual'', run_TaskRunID = [], run_TimeoutAt = 0, run_CreatedAt = 0, run_UpdatedAt = 0,
      run_FinishedAt = 0\<rparr>"

definition demoStore :: store where
  "demoStore = emptyStore\<lparr>db_runs := [demoRun]\<rparr>"

definition demoProvenance :: provenance where
  "demoProvenance = \<lparr>pv_Producer = ''ci'', pv_Connection = [], pv_Principal = [], pv_ObservedAt = 0,
     pv_ExternalID = [], pv_Reconciled = False\<rparr>"

definition demoInput :: "string \<Rightarrow> producer \<Rightarrow> nat option \<Rightarrow> gmap \<Rightarrow> event_input" where
  "demoInput eid p expected facts =
     \<lparr>in_ID = eid, in_MessageID = [], in_Kind = ''ci.completed'', in_AttemptID = [], in_TaskID = [],
      in_Expected = expected, in_Producer = p, in_Provenance = demoProvenance, in_Payload = [], in_Facts = facts\<rparr>"

definition demoCommand :: command_input where
  "demoCommand = \<lparr>ci_ID = ''c1'', ci_MessageID = [], ci_Reason = ''again'', ci_Expected = None,
     ci_Provenance = demoProvenance\<rparr>"

text \<open>Reading a result in a ground formula.\<close>

definition afterTx :: "(gerr + 'a \<times> store) \<Rightarrow> ('a \<Rightarrow> store \<Rightarrow> bool) \<Rightarrow> bool" where
  "afterTx m P = (case m of Inl e \<Rightarrow> False | Inr (x, s) \<Rightarrow> P x s)"

lemma afterTxE:
  assumes "afterTx m P"
  obtains x s where "m = Inr (x, s)" and "P x s"
  using assms by (cases m) (auto simp: afterTx_def)

definition greenEvent :: event_input where
  "greenEvent = demoInput ''e1'' ProducerCI (Some 2) [(''ci.state'', GStr ''green'')]"

lemma green_runs: "afterTx (ApplyEvent demoRt 0 None ''run'' greenEvent demoStore)
    (\<lambda>r s. map_option tn_ToState (er_Transition r) = Some ''done'' \<and>
       afterTx (ApplyEvent demoRt 1 None ''run'' greenEvent s) (\<lambda>r' s'. True))"
  by code_simp

section \<open>Delivery\<close>

text \<open>C14: events are applied at most once: in any later store of the same history, delivering the event again (same id and
  message id) answers duplicate and changes nothing but the receipts.\<close>

theorem redelivered_event_is_inert:
  assumes "ApplyEvent env now None runID i s = Inr (r, s1)" and "extends s1 s2"
    and "ApplyEvent env' now' m runID i s2 = Inr (r', s3)"
  shows "er_Disposition r' = DispDuplicate \<and> same_but_receipts s2 s3"
  by (rule ApplyEvent_of_known [OF assms(3) knownEvent_extends [OF assms(2) ApplyEvent_known [OF assms(1)]]])

theorem redelivered_event_witness:
  "\<exists>r s1 r' s2. ApplyEvent demoRt 0 None ''run'' greenEvent demoStore = Inr (r, s1) \<and>
     ApplyEvent demoRt 1 None ''run'' greenEvent s1 = Inr (r', s2) \<and> same_but_receipts s1 s2"
proof -
  from green_runs obtain r s1 where a: "ApplyEvent demoRt 0 None ''run'' greenEvent demoStore = Inr (r, s1)"
    and again: "map_option tn_ToState (er_Transition r) = Some ''done'' \<and>
      afterTx (ApplyEvent demoRt 1 None ''run'' greenEvent s1) (\<lambda>r' s'. True)" by (rule afterTxE)
  from again [THEN conjunct2] obtain r' s2 where b: "ApplyEvent demoRt 1 None ''run'' greenEvent s1 = Inr (r', s2)"
    by (rule afterTxE)
  from redelivered_event_is_inert [OF a hist.R_refl b] a b show ?thesis by blast
qed

text \<open>C15: an event answered stale or unauthorised leaves its own record and nothing else: the journal has exactly one more row,
  with everything the event brought and the disposition and reason it was answered with, there is one receipt for it, and
  every other row of every table, facts and effects included, is as it was.\<close>

theorem refused_event_leaves_its_record:
  assumes "ApplyEvent env now None runID i s = Inr (r, s')"
    and "er_Disposition r = DispStaleState \<or> er_Disposition r = DispUnauthorized"
  shows "\<exists>stored \<in> set (db_runs s). run_ID stored = runID \<and>
    s' = withRecord env stored i (er_Disposition r) (er_Reason r) now s"
proof -
  obtain stored where stored: "find (\<lambda>r. run_ID r = runID) (db_runs s) = Some stored"
    and rest: "(case findDuplicateEvent runID (in_ID i) (in_MessageID i) s of
           Some e \<Rightarrow> recordDuplicate env stored i e now
         | None \<Rightarrow> admitEvent env now None stored i) s = Inr (r, s')"
    using assms(1) by (rule ApplyEvent_starts)
  have "s' = withRecord env stored i (er_Disposition r) (er_Reason r) now s"
  proof (cases "findDuplicateEvent runID (in_ID i) (in_MessageID i) s")
    case (Some e)
    then show ?thesis using rest assms(2) recordDuplicate_ok by fastforce
  next
    case None
    have rec: "s' = withRecord env stored i (er_Disposition r) (er_Reason r) now s"
      if "recordOnly env stored i d reason now s = Inr (r, s')" for d reason
      using recordOnly_ok(1-3) [OF that] by simp
    from None have "admitEvent env now None stored i s = Inr (r, s')" using rest by simp
    then show ?thesis
    proof (cases rule: admitEvent_cases)
      case (accept w)
      then show ?thesis using yieldsD [OF accept_settles accept(4)] assms(2) by (auto simp: settled_def)
    qed (use rec in blast)+
  qed
  with find_run_ID [OF stored] show ?thesis by blast
qed

theorem refused_event_witness:
  "\<exists>r s'. ApplyEvent demoRt 0 None ''run'' (demoInput ''e1'' ProducerCI (Some 1) []) demoStore = Inr (r, s') \<and>
     er_Disposition r = DispStaleState \<and> length (db_events s') = 1 \<and> length (db_receipts s') = 1 \<and> db_runs s' = db_runs demoStore"
proof -
  have "afterTx (ApplyEvent demoRt 0 None ''run'' (demoInput ''e1'' ProducerCI (Some 1) []) demoStore)
      (\<lambda>r s. er_Disposition r = DispStaleState)" by code_simp
  then obtain r s' where "ApplyEvent demoRt 0 None ''run'' (demoInput ''e1'' ProducerCI (Some 1) []) demoStore = Inr (r, s')"
    and "er_Disposition r = DispStaleState" by (rule afterTxE)
  with refused_event_leaves_its_record [OF this(1)] show ?thesis
    by (auto simp: withRecord_def demoStore_def emptyStore_def)
qed

section \<open>Refinement\<close>

lemma insertEvent_tables:
  assumes "insertEvent runID i v d reason now s = Inr (x, u)"
  shows "db_runs u = db_runs s \<and> db_transitions u = db_transitions s"
  using assms by (auto simp: insertEvent_def insertEventRow_def tx_ok)

lemma writeFacts_tables:
  assumes "writeFacts runID e p pv ws now s = Inr (x, u)"
  shows "db_runs u = db_runs s \<and> db_transitions u = db_transitions s"
  using assms by (auto simp: writeFacts_def tx_ok)

lemma acceptEvent_step:
  assumes run: "acceptEvent env now stored w i s = Inr (r, s')" and w: "workflowWritesOwned w"
    and ids: "distinct (map run_ID (db_runs s))"
  shows "graph_move stored w (OnEvent (in_Kind i)) s r s'"
proof -
  obtain u where u: "db_runs u = db_runs s" "db_transitions u = db_transitions s"
    and d: "dispatchEvent env now stored w i u = Inr (r, s')"
    using run unfolding acceptEvent_def tx_iffs(4) by (metis insertEvent_tables writeFacts_tables)
  have "graph_move stored w (OnEvent (in_Kind i)) u r s'" by (rule dispatch_step [OF d w]) (simp add: u ids)
  then show ?thesis by (simp add: graph_move_def absRuns_def u split: option.splits)
qed

lemma ApplyEvent_step:
  assumes "ApplyEvent env now None runID i s = Inr (r, s')" and "distinct (map run_ID (db_runs s))"
  shows "er_Transition r = None \<and> absRuns s' = absRuns s \<and> db_transitions s' = db_transitions s \<or>
    (\<exists>stored w. find (\<lambda>r. run_ID r = runID) (db_runs s) = Some stored \<and> loadPinnedWorkflow env stored = Inr w \<and>
       graph_move stored w (OnEvent (in_Kind i)) s r s')"
proof -
  obtain stored where stored: "find (\<lambda>r. run_ID r = runID) (db_runs s) = Some stored"
    and rest: "(case findDuplicateEvent runID (in_ID i) (in_MessageID i) s of
           Some e \<Rightarrow> recordDuplicate env stored i e now
         | None \<Rightarrow> admitEvent env now None stored i) s = Inr (r, s')"
    using assms(1) by (rule ApplyEvent_starts)
  have inert: "er_Transition r = None \<and> absRuns s' = absRuns s \<and> db_transitions s' = db_transitions s"
    if "recordOnly env stored i d reason now s = Inr (r, s')" for d reason
  proof -
    have "yields (\<lambda>r. er_Transition r = None) (recordOnly env stored i d reason now)"
      unfolding recordOnly_def by (intro yields_steps) simp
    then have "er_Transition r = None" using that by (rule yieldsD)
    then show ?thesis using recordOnly_ok(1) [OF that] by (simp add: absRuns_def)
  qed
  show ?thesis
  proof (cases "findDuplicateEvent runID (in_ID i) (in_MessageID i) s")
    case (Some e)
    then have "same_but_receipts s s'" and "er_Transition r = None" using rest recordDuplicate_ok by auto
    then show ?thesis using same_but_receipts_tables [of s s'] by (simp add: absRuns_def)
  next
    case None
    then have "admitEvent env now None stored i s = Inr (r, s')" using rest by simp
    then show ?thesis
    proof (cases rule: admitEvent_cases)
      case (accept w)
      from acceptEvent_step [OF accept(4) loadPinned_owned [OF accept(3)] assms(2)] stored accept(3)
      show ?thesis by blast
    qed (use inert in blast)+
  qed
qed

lemma graph_move_step:
  assumes "find (\<lambda>r. run_ID r = runID) (db_runs s) = Some stored" and "loadPinnedWorkflow env stored = Inr w"
    and "graph_move stored w kind s r s'"
  shows "graph_step env runID kind s (er_Transition r) s'"
  using assms find_run_ID [OF assms(1)] by (auto simp: graph_step_def graph_move_def split: option.splits)

text \<open>C16: \<open>ApplyEvent\<close> refines the workflow graph: it leaves every run's state and version alone and logs nothing, or it moves
  the addressed run, and no other, along one edge of its pinned workflow labelled with the event's kind, to the next
  version, and appends exactly that transition to the log.\<close>

theorem events_follow_graph:
  assumes "ApplyEvent env now None runID i s = Inr (r, s')" and "distinct (map run_ID (db_runs s))"
  shows "graph_step env runID (OnEvent (in_Kind i)) s (er_Transition r) s'"
  using ApplyEvent_step [OF assms]
proof
  assume "er_Transition r = None \<and> absRuns s' = absRuns s \<and> db_transitions s' = db_transitions s"
  then show ?thesis by (simp add: graph_step_def)
qed (use graph_move_step in blast)

theorem events_follow_graph_witness:
  "\<exists>r s'. ApplyEvent demoRt 0 None ''run'' greenEvent demoStore = Inr (r, s') \<and> er_Transition r \<noteq> None \<and>
     graph_step demoRt ''run'' (OnEvent ''ci.completed'') demoStore (er_Transition r) s'"
proof -
  from green_runs obtain r s' where a: "ApplyEvent demoRt 0 None ''run'' greenEvent demoStore = Inr (r, s')"
    and n: "map_option tn_ToState (er_Transition r) = Some ''done'' \<and>
      afterTx (ApplyEvent demoRt 1 None ''run'' greenEvent s') (\<lambda>r' s'. True)" by (rule afterTxE)
  have d: "distinct (map run_ID (db_runs demoStore))" by (simp add: demoStore_def)
  have "in_Kind greenEvent = ''ci.completed''" by (simp add: greenEvent_def demoInput_def)
  with events_follow_graph [OF a d] a n show ?thesis by auto
qed

section \<open>Commands\<close>

lemma ApplyCommand_step:
  assumes run: "ApplyCommand env now runID name c s = Inr (r, s')" and ids: "distinct (map run_ID (db_runs s))"
  shows "er_Transition r = None \<and> absRuns s' = absRuns s \<and> db_transitions s' = db_transitions s \<or>
    (\<exists>stored w. find (\<lambda>r. run_ID r = runID) (db_runs s) = Some stored \<and> loadPinnedWorkflow env stored = Inr w \<and>
       graph_move stored w (OnCommand name) s r s')"
proof -
  let ?i = "commandEvent name c"
  obtain stored w cmd sources where stored: "find (\<lambda>r. run_ID r = runID) (db_runs s) = Some stored"
    and w: "loadPinnedWorkflow env stored = Inr w" and cmd: "map_of (wf_Commands w) name = Some cmd"
    and src: "FromStates (cmd_From cmd) = Inr sources" "run_State stored \<in> set sources"
    and rest: "(case staleReason (ci_Expected c) stored of
         Some reason \<Rightarrow> recordOnly env stored ?i DispStaleState reason now
       | None \<Rightarrow>
           thenT (insertEvent (run_ID stored) ?i (run_StateVersion stored) DispAccepted [] now)
           (bindT (loadFacts (run_ID stored)) (\<lambda>facts.
            applyTransition env now stored w ?i name
              \<lparr>tr_From = cmd_From cmd, tr_On = [], tr_When = [], tr_To = cmd_To cmd, tr_Assert = [], tr_Set = [],
               tr_Effects = []\<rparr> None [] [] facts))) s = Inr (r, s')"
    using run unfolding ApplyCommand_def getRunForUpdate_def Let_def
    by (auto simp: tx_iffs(3,4,5,8,9))
  have e: "edge w (run_State stored) (OnCommand name) (cmd_To cmd)"
    by (rule edge.command [OF cmd src])
  show ?thesis
  proof (cases "staleReason (ci_Expected c) stored")
    case (Some reason)
    then have rec: "recordOnly env stored ?i DispStaleState reason now s = Inr (r, s')" using rest by simp
    have "yields (\<lambda>r. er_Transition r = None) (recordOnly env stored ?i DispStaleState reason now)"
      unfolding recordOnly_def by (intro yields_steps) simp
    from yieldsD [OF this rec] show ?thesis
      using recordOnly_ok(1) [OF rec] by (simp add: absRuns_def)
  next
    case None
    let ?tr = "\<lparr>tr_From = cmd_From cmd, tr_On = [], tr_When = [], tr_To = cmd_To cmd, tr_Assert = [], tr_Set = [],
               tr_Effects = []\<rparr>"
    obtain u facts where u: "db_runs u = db_runs s \<and> db_transitions u = db_transitions s"
      and app: "applyTransition env now stored w ?i name ?tr None [] [] facts u = Inr (r, s')"
      using rest None insertEvent_tables unfolding loadFacts_def by (auto simp: tx_iffs(3,4,6)) blast
    have own: "ownedWrites ProducerEngine (transitionWrites ?tr (stateOf w (tr_To ?tr)) [])"
      using loadPinned_owned [OF w] by (intro transitionWrites_owned) simp_all
    have "graph_move stored w (OnCommand name) u r s'"
      by (rule graph_move_apply [OF app own]) (use u ids e in simp_all)
    then have "graph_move stored w (OnCommand name) s r s'"
      using u by (simp add: graph_move_def absRuns_def split: option.splits)
    with stored w show ?thesis by blast
  qed
qed

text \<open>C17: a command refines the workflow graph in the same way: it moves at most the addressed run, along an edge of a command
  of that name whose sources include the run's state.\<close>

theorem commands_follow_graph:
  assumes "ApplyCommand env now runID name c s = Inr (r, s')" and "distinct (map run_ID (db_runs s))"
  shows "graph_step env runID (OnCommand name) s (er_Transition r) s'"
  using ApplyCommand_step [OF assms]
proof
  assume "er_Transition r = None \<and> absRuns s' = absRuns s \<and> db_transitions s' = db_transitions s"
  then show ?thesis by (simp add: graph_step_def)
qed (use graph_move_step in blast)

lemma cancel_then_command:
  "afterTx (CancelActivation 0 ''run'' [] demoStore) (\<lambda>u s1.
     afterTx (GetRun ''run'' s1) (\<lambda>r1 _. run_Status r1 = RunCancelled \<and> run_FinishedAt r1 = 0) \<and>
     afterTx (ApplyCommand demoRt 5000000 ''run'' ''restart'' demoCommand s1) (\<lambda>r s2.
       er_Disposition r = DispAccepted \<and> run_Status (er_Run r) = RunActive \<and> run_State (er_Run r) = ''start''))"
  by code_simp

theorem commands_follow_graph_witness:
  "\<exists>s1 r s2. ApplyCommand demoRt 5000000 ''run'' ''restart'' demoCommand s1 = Inr (r, s2) \<and>
     er_Disposition r = DispAccepted \<and> graph_step demoRt ''run'' (OnCommand ''restart'') s1 (er_Transition r) s2"
proof -
  from cancel_then_command obtain u s1 where c: "CancelActivation 0 ''run'' [] demoStore = Inr (u, s1)"
    and q: "afterTx (GetRun ''run'' s1) (\<lambda>r1 _. run_Status r1 = RunCancelled \<and> run_FinishedAt r1 = 0) \<and>
     afterTx (ApplyCommand demoRt 5000000 ''run'' ''restart'' demoCommand s1) (\<lambda>r s2.
       er_Disposition r = DispAccepted \<and> run_Status (er_Run r) = RunActive \<and> run_State (er_Run r) = ''start'')"
    by (rule afterTxE)
  from q [THEN conjunct2] obtain r s2 where a: "ApplyCommand demoRt 5000000 ''run'' ''restart'' demoCommand s1 = Inr (r, s2)"
    and d: "er_Disposition r = DispAccepted \<and> run_Status (er_Run r) = RunActive \<and> run_State (er_Run r) = ''start''"
    by (rule afterTxE)
  have "map run_ID (db_runs s1) = map run_ID (db_runs demoStore)"
    using c by (auto simp: CancelActivation_def closeRun_def cancelEffects_def cancelOutbox_def Let_def tx_ok map_sql_update)
  then have "distinct (map run_ID (db_runs s1))" by (simp add: demoStore_def)
  from commands_follow_graph [OF a this] a d show ?thesis by auto
qed

text \<open>A run that was cancelled during activation is not final: in the demo run a command defined for its workflow state makes it active
  again, because neither commands nor events look at the status of the run.\<close>

lemma cancelled_run_can_be_reactivated:
  "\<exists>s1 r s2. CancelActivation 0 ''run'' [] demoStore = Inr ((), s1) \<and>
     afterTx (GetRun ''run'' s1) (\<lambda>r1 _. run_Status r1 = RunCancelled) \<and>
     ApplyCommand demoRt 5000000 ''run'' ''restart'' demoCommand s1 = Inr (r, s2) \<and> run_Status (er_Run r) = RunActive"
proof -
  from cancel_then_command obtain u s1 where c: "CancelActivation 0 ''run'' [] demoStore = Inr (u, s1)"
    and q: "afterTx (GetRun ''run'' s1) (\<lambda>r1 _. run_Status r1 = RunCancelled \<and> run_FinishedAt r1 = 0) \<and>
     afterTx (ApplyCommand demoRt 5000000 ''run'' ''restart'' demoCommand s1) (\<lambda>r s2.
       er_Disposition r = DispAccepted \<and> run_Status (er_Run r) = RunActive \<and> run_State (er_Run r) = ''start'')"
    by (rule afterTxE)
  from q [THEN conjunct1] have g: "afterTx (GetRun ''run'' s1) (\<lambda>r1 _. run_Status r1 = RunCancelled)"
    by (auto simp: afterTx_def split: sum.splits)
  from q [THEN conjunct2] obtain r s2 where "ApplyCommand demoRt 5000000 ''run'' ''restart'' demoCommand s1 = Inr (r, s2)"
    and "er_Disposition r = DispAccepted \<and> run_Status (er_Run r) = RunActive \<and> run_State (er_Run r) = ''start''"
    by (rule afterTxE)
  with c g show ?thesis by auto
qed

section \<open>Terminal states\<close>

definition inTerminalState :: "rt_env \<Rightarrow> run_row \<Rightarrow> bool" where
  "inTerminalState env r \<longleftrightarrow>
     (case loadPinnedWorkflow env r of Inl e \<Rightarrow> False | Inr w \<Rightarrow> st_Terminal (stateOf w (run_State r)))"

lemma loadPinned_graph:
  assumes "loadPinnedWorkflow env stored = Inr w"
  shows "graph_ok w"
proof -
  from assms obtain rwf u where v: "ValidateWorkflow (rt_doc env) u = Inr rwf" and "w = rwf_Workflow rwf"
    by (auto simp: loadPinnedWorkflow_def ParseAndValidateWorkflow_def bindE_Inr_iff)
  then show ?thesis using ValidateWorkflow_steps(10) [OF v] validated_graph [OF v] by simp
qed

lemma sourceOk_not_terminal:
  assumes "sourceOk w src" and "FromStates src = Inr sources" and "st \<in> set sources"
  shows "\<not> st_Terminal (stateOf w st)"
  using assms by (auto simp: sourceOk_def stateOf_def list_all_iff split: option.splits)

lemma graph_sources:
  assumes "graph_ok w"
  shows "(name, tr) \<in> set (wf_Transitions w) \<Longrightarrow> sourceOk w (tr_From tr)"
    and "(name, c) \<in> set (wf_Commands w) \<Longrightarrow> sourceOk w (cmd_From c)"
  using assms unfolding graph_ok_def list_all_iff [of _ "wf_Transitions w"] list_all_iff [of _ "wf_Commands w"]
  by fastforce+

lemma edge_not_terminal:
  assumes "edge w st kind st'" and "graph_ok w"
  shows "\<not> st_Terminal (stateOf w st)"
  using assms(1)
proof cases
  case (transition name tr sources)
  then show ?thesis using sourceOk_not_terminal graph_sources(1) [OF assms(2)] by blast
next
  case (command name c sources)
  then show ?thesis using sourceOk_not_terminal graph_sources(2) [OF assms(2)] map_of_SomeD by metis
qed

lemma terminal_not_moved:
  assumes "graph_move stored w label s r s'" and "loadPinnedWorkflow env stored = Inr w" and "inTerminalState env stored"
  shows "absRuns s' = absRuns s"
proof (cases "er_Transition r")
  case (Some t)
  then have "edge w (run_State stored) label (tn_ToState t)" using assms(1) by (simp add: graph_move_def)
  from edge_not_terminal [OF this loadPinned_graph [OF assms(2)]] assms(2,3) show ?thesis by (simp add: inTerminalState_def)
qed (use assms(1) in \<open>simp add: graph_move_def\<close>)

lemma demo_pinned: "run_WorkflowRevision r = ''wfrev'' \<Longrightarrow> loadPinnedWorkflow demoRt r = Inr demoWorkflow"
proof -
  have "IsV2 ''v2''" by code_simp
  then have "ParseWorkflow demoYaml d = Inr demoWorkflow" for d
    by (simp add: ParseWorkflow_def demoYaml_def)
  then show "run_WorkflowRevision r = ''wfrev'' \<Longrightarrow> loadPinnedWorkflow demoRt r = Inr demoWorkflow"
    by (simp add: loadPinnedWorkflow_def ParseAndValidateWorkflow_def demoRt_def demoWorkflow_valid demoResolvedWorkflow_def)
qed

end
