(* ===== verification/Effects.thy ===== *)
theory Effects
  imports RuntimeSound "HOL-Library.Char_ord" "HOL-Library.List_Lexorder" "HOL-Library.Product_Lexorder"
begin

text \<open>
  Effect leases: \<^verbatim>\<open>pkg/hub/workflowv2/effects.go\<close>.

  A worker claims the first due effect for the duration of a lease and completes it while the lease lasts.  A lease that
  runs out leaves the effect \<^verbatim>\<open>unknown\<close>, to be settled by reconciliation only.  \<^verbatim>\<open>ORDER BY next_attempt_at, created_at, id
  LIMIT 1\<close> is the head of the list sorted by that key (lexicographic, byte strings in byte order).  Durations are
  nanoseconds.
\<close>

record effect_view =
  fx_ID :: string
  fx_RunID :: string
  fx_EffectKey :: string
  fx_Kind :: string
  fx_Payload :: gmap
  fx_Status :: effect_status
  fx_AttemptCount :: nat
  fx_LeaseOwner :: string
  fx_LeaseExpiresAt :: int
  fx_NextAttemptAt :: int
  fx_LastError :: string

record effect_claim =
  cm_Effect :: effect_view
  cm_AttemptID :: string

record complete_request =
  ce_EffectID :: string
  ce_AttemptID :: string
  ce_Worker :: string
  ce_Status :: effect_status
  ce_Receipt :: gmap
  ce_Error :: string
  ce_RetryAfter :: int

record resolve_request =
  re_EffectID :: string
  re_Status :: effect_status
  re_Receipt :: gmap
  re_Error :: string
  re_RetryAfter :: int

fun effectStatusName :: "effect_status \<Rightarrow> string" where
  "effectStatusName EffectPlanned = ''planned''"
| "effectStatusName EffectRunning = ''running''"
| "effectStatusName EffectSucceeded = ''succeeded''"
| "effectStatusName EffectRetryableFailed = ''retryable_failed''"
| "effectStatusName EffectPermanentFailed = ''permanent_failed''"
| "effectStatusName EffectUnknown = ''unknown''"
| "effectStatusName EffectCancelled = ''cancelled''"

section \<open>Expiry\<close>

definition leaseExpiredReason :: string where
  "leaseExpiredReason = ''worker lease expired; outcome requires reconciliation''"

definition leaseExpired :: "int \<Rightarrow> effect_row \<Rightarrow> bool" where
  "leaseExpired now e \<longleftrightarrow> ef_Status e = EffectRunning \<and> ef_LeaseExpiresAt e < unixMilli now"

definition expireEffectLeases :: "int \<Rightarrow> unit tx" where
  "expireEffectLeases now =
     bindT (getsT (\<lambda>s. ef_ID ` {e \<in> set (db_effects s). leaseExpired now e})) (\<lambda>expired.
     bindT (updateT db_effect_attempts db_effect_attempts_update
       (\<lambda>a. ea_Status a = EffectRunning \<and> ea_EffectID a \<in> expired)
       (\<lambda>a. a\<lparr>ea_Status := EffectUnknown, ea_Error := leaseExpiredReason, ea_FinishedAt := unixMilli now\<rparr>)) (\<lambda>_.
     bindT (updateT db_effects db_effects_update (leaseExpired now)
       (\<lambda>e. e\<lparr>ef_Status := EffectUnknown, ef_LeaseOwner := [], ef_LeaseExpiresAt := 0,
              ef_LastError := leaseExpiredReason, ef_UpdatedAt := unixMilli now\<rparr>)) (\<lambda>_. returnT ())))"

section \<open>Claiming\<close>

definition claimable :: "int \<Rightarrow> run_row list \<Rightarrow> effect_row \<Rightarrow> bool" where
  "claimable now runs e \<longleftrightarrow>
     (ef_Status e = EffectPlanned \<or> ef_Status e = EffectRetryableFailed) \<and> ef_NextAttemptAt e \<le> unixMilli now \<and>
     list_ex (\<lambda>r. run_ID r = ef_RunID e \<and> run_Status r = RunActive) runs"

definition effectOrder :: "effect_row \<Rightarrow> int \<times> int \<times> string" where
  "effectOrder e = (ef_NextAttemptAt e, ef_CreatedAt e, ef_ID e)"

definition nextEffect :: "int \<Rightarrow> store \<Rightarrow> effect_row option" where
  "nextEffect now s =
     (case sort_key effectOrder (filter (claimable now (db_runs s)) (db_effects s)) of [] \<Rightarrow> None | e # _ \<Rightarrow> Some e)"

definition currentAttemptOf :: "string \<Rightarrow> store \<Rightarrow> string" where
  "currentAttemptOf runID s =
     (case find (\<lambda>r. run_ID r = runID) (db_runs s) of None \<Rightarrow> [] | Some r \<Rightarrow> run_CurrentAttemptID r)"

text \<open>\<^verbatim>\<open>json.Unmarshal\<close> into a map: an object, or \<^verbatim>\<open>null\<close>, which leaves the map nil.\<close>

definition effectPayload :: "effect_row \<Rightarrow> gerr + gmap" where
  "effectPayload e =
     (case ef_Payload e of
        GMap m \<Rightarrow> Inr m
      | GNil \<Rightarrow> Inr []
      | _ \<Rightarrow> Inl (Errf ''decode effect %s payload: %w'' [ef_ID e]))"

definition insertEffectAttempt :: "effect_attempt_row \<Rightarrow> unit tx" where
  "insertEffectAttempt a =
     bindT (getsT (\<lambda>s. ea_ID a \<in> ea_ID ` set (db_effect_attempts s) \<or>
       (ea_EffectID a, ea_Number a) \<in> (\<lambda>x. (ea_EffectID x, ea_Number x)) ` set (db_effect_attempts s))) (\<lambda>dup.
     thenT (whenT dup (uniqueError ''workflow_v2_effect_attempts''))
     (modifyT (\<lambda>s. s\<lparr>db_effect_attempts := db_effect_attempts s @ [a]\<rparr>)))"

definition claimMatches :: "int \<Rightarrow> effect_row \<Rightarrow> effect_row \<Rightarrow> bool" where
  "claimMatches now e x \<longleftrightarrow> ef_ID x = ef_ID e \<and> ef_Status x = ef_Status e \<and> ef_AttemptCount x = ef_AttemptCount e \<and>
     ef_NextAttemptAt x \<le> unixMilli now"

definition leaseEffect :: "int \<Rightarrow> string \<Rightarrow> int \<Rightarrow> effect_row \<Rightarrow> effect_row" where
  "leaseEffect now worker lease e =
     e\<lparr>ef_Status := EffectRunning, ef_AttemptCount := ef_AttemptCount e + 1, ef_LeaseOwner := worker,
       ef_LeaseExpiresAt := unixMilli (now + lease), ef_UpdatedAt := unixMilli now\<rparr>"

definition claimOf :: "int \<Rightarrow> string \<Rightarrow> int \<Rightarrow> effect_row \<Rightarrow> gmap \<Rightarrow> string \<Rightarrow> effect_claim" where
  "claimOf now worker lease e payload attemptID =
     \<lparr>cm_Effect = \<lparr>fx_ID = ef_ID e, fx_RunID = ef_RunID e, fx_EffectKey = ef_EffectKey e, fx_Kind = ef_Kind e,
        fx_Payload = payload, fx_Status = EffectRunning, fx_AttemptCount = ef_AttemptCount e + 1,
        fx_LeaseOwner = worker, fx_LeaseExpiresAt = now + lease,
        fx_NextAttemptAt = (if 0 < ef_NextAttemptAt e then ef_NextAttemptAt e else 0),
        fx_LastError = ef_LastError e\<rparr>,
      cm_AttemptID = attemptID\<rparr>"

definition takeLease :: "rt_env \<Rightarrow> int \<Rightarrow> string \<Rightarrow> int \<Rightarrow> effect_row \<Rightarrow> effect_claim option outcome tx" where
  "takeLease env now worker lease e =
     bindT (getsT (currentAttemptOf (ef_RunID e))) (\<lambda>runAttemptID.
     bindT (liftT (effectPayload e)) (\<lambda>payload.
     bindT (updateT db_effects db_effects_update (claimMatches now e) (leaseEffect now worker lease)) (\<lambda>changed.
     if changed \<noteq> 1 then returnT (Rollback None)
     else bindT (freshUUID env) (\<lambda>attemptID.
       thenT (insertEffectAttempt
         \<lparr>ea_ID = attemptID, ea_EffectID = ef_ID e, ea_Number = ef_AttemptCount e + 1,
          ea_AttemptID = runAttemptID, ea_Status = EffectRunning, ea_Request = ef_Payload e, ea_Receipt = [],
          ea_Error = [], ea_StartedAt = unixMilli now, ea_FinishedAt = 0\<rparr>)
       (returnT (Commit (Some (claimOf now worker lease e payload attemptID))))))))"

definition claimNext :: "rt_env \<Rightarrow> int \<Rightarrow> string \<Rightarrow> int \<Rightarrow> effect_claim option outcome tx" where
  "claimNext env now worker lease =
     thenT (expireEffectLeases now)
     (bindT (getsT (nextEffect now)) (\<lambda>found.
      case found of None \<Rightarrow> returnT (Commit None) | Some e \<Rightarrow> takeLease env now worker lease e))"

definition ClaimEffect :: "rt_env \<Rightarrow> int \<Rightarrow> string \<Rightarrow> int \<Rightarrow> effect_claim option tx" where
  "ClaimEffect env now worker lease =
     thenT (whenT (blank worker) (Errf ''worker is required'' []))
     (thenT (whenT (lease \<le> 0) (Errf ''lease duration must be positive'' []))
     (transact (claimNext env now (trimSpace worker) lease)))"

section \<open>Completing\<close>

definition nextAttemptAt :: "int \<Rightarrow> effect_status \<Rightarrow> int \<Rightarrow> int" where
  "nextAttemptAt now status retryAfter = (if status = EffectRetryableFailed then unixMilli (now + retryAfter) else 0)"

definition leasedAttempt :: "int \<Rightarrow> complete_request \<Rightarrow> store \<Rightarrow> nat option" where
  "leasedAttempt now req s = map_option ea_Number (find (\<lambda>a. ea_ID a = ce_AttemptID req \<and> ea_EffectID a = ce_EffectID req \<and>
       ea_Status a = EffectRunning \<and>
       list_ex (\<lambda>e. ef_ID e = ea_EffectID a \<and> ef_Status e = EffectRunning \<and> ef_LeaseOwner e = ce_Worker req \<and>
         unixMilli now \<le> ef_LeaseExpiresAt e) (db_effects s)) (db_effect_attempts s))"

definition finishEffect :: "effect_status \<Rightarrow> int \<Rightarrow> gmap \<Rightarrow> string \<Rightarrow> int \<Rightarrow> effect_row \<Rightarrow> effect_row" where
  "finishEffect status next receipt err now e =
     e\<lparr>ef_Status := status, ef_NextAttemptAt := next, ef_Receipt := jsonObject receipt, ef_LastError := err,
       ef_UpdatedAt := unixMilli now\<rparr>"

definition attemptNamed :: "complete_request \<Rightarrow> nat \<Rightarrow> effect_attempt_row \<Rightarrow> bool" where
  "attemptNamed req number a \<longleftrightarrow> ea_ID a = ce_AttemptID req \<and> ea_EffectID a = ce_EffectID req \<and> ea_Number a = number"

definition closeAttempt :: "int \<Rightarrow> complete_request \<Rightarrow> effect_attempt_row \<Rightarrow> effect_attempt_row" where
  "closeAttempt now req a =
     a\<lparr>ea_Status := ce_Status req, ea_Receipt := jsonObject (ce_Receipt req), ea_Error := ce_Error req,
       ea_FinishedAt := unixMilli now\<rparr>"

definition heldBy :: "complete_request \<Rightarrow> effect_row \<Rightarrow> bool" where
  "heldBy req e \<longleftrightarrow> ef_ID e = ce_EffectID req \<and> ef_Status e = EffectRunning \<and> ef_LeaseOwner e = ce_Worker req"

definition closeEffect :: "int \<Rightarrow> complete_request \<Rightarrow> effect_row \<Rightarrow> effect_row" where
  "closeEffect now req e =
     (finishEffect (ce_Status req) (nextAttemptAt now (ce_Status req) (ce_RetryAfter req)) (ce_Receipt req)
        (ce_Error req) now e)\<lparr>ef_LeaseOwner := [], ef_LeaseExpiresAt := 0\<rparr>"

definition CompleteEffect :: "int \<Rightarrow> complete_request \<Rightarrow> unit tx" where
  "CompleteEffect now req =
     thenT (whenT (ce_Status req \<in> {EffectPlanned, EffectRunning})
       (Errf ''invalid effect completion status %q'' [effectStatusName (ce_Status req)]))
     (thenT (whenT (blank (ce_EffectID req) \<or> blank (ce_AttemptID req) \<or> blank (ce_Worker req))
       (Errf ''effect id, attempt id, and worker are required'' []))
     (thenT (whenT (ce_Status req = EffectRetryableFailed \<and> ce_RetryAfter req < 0)
       (Errf ''retry delay cannot be negative'' []))
     (bindT (scanT (Errf ''effect attempt is not actively leased by worker'' []) (leasedAttempt now req)) (\<lambda>number.
      bindT (updateT db_effect_attempts db_effect_attempts_update (attemptNamed req number) (closeAttempt now req)) (\<lambda>_.
      bindT (updateT db_effects db_effects_update (heldBy req) (closeEffect now req)) (\<lambda>changed.
      whenT (changed \<noteq> 1) (Errf ''effect lease changed while completing attempt'' [])))))))"

section \<open>Reconciling\<close>

definition resolveEffect :: "int \<Rightarrow> resolve_request \<Rightarrow> effect_row \<Rightarrow> effect_row" where
  "resolveEffect now req =
     finishEffect (re_Status req) (nextAttemptAt now (re_Status req) (re_RetryAfter req)) (re_Receipt req)
       (re_Error req) now"

definition ResolveUnknownEffect :: "int \<Rightarrow> resolve_request \<Rightarrow> unit tx" where
  "ResolveUnknownEffect now req =
     thenT (whenT (re_Status req \<in> {EffectPlanned, EffectRunning, EffectUnknown})
       (Errf ''invalid reconciled effect status %q'' [effectStatusName (re_Status req)]))
     (thenT (whenT (blank (re_EffectID req)) (Errf ''effect id is required'' []))
     (thenT (whenT (re_RetryAfter req < 0) (Errf ''retry delay cannot be negative'' []))
     (bindT (updateT db_effects db_effects_update
        (\<lambda>e. ef_ID e = re_EffectID req \<and> ef_Status e = EffectUnknown) (resolveEffect now req)) (\<lambda>changed.
      whenT (changed \<noteq> 1) (Errf ''effect is not awaiting reconciliation'' [])))))"

end
