(* ===== verification/EffectLife.thy ===== *)
theory EffectLife
  imports Effects
begin

text \<open>
  The life of an effect, as a labelled transition system on its status and its attempt count, and the lease invariant.

  The first part shows that every operation moves every effect along \<open>life\<close>; which labels an operation may use is a
  parameter of the locale \<open>lease_frame\<close>.  The second part relates the effects to their attempts: an effect is running
  exactly when one of its attempts is.
\<close>

section \<open>The life of an effect\<close>

datatype life_label = LClaim | LComplete | LExpire | LResolve | LCancel

inductive life :: "life_label \<Rightarrow> effect_status \<times> nat \<Rightarrow> effect_status \<times> nat \<Rightarrow> bool" where
  claim: "st = EffectPlanned \<or> st = EffectRetryableFailed \<Longrightarrow> life LClaim (st, n) (EffectRunning, Suc n)"
| complete: "st \<noteq> EffectPlanned \<Longrightarrow> st \<noteq> EffectRunning \<Longrightarrow> life LComplete (EffectRunning, n) (st, n)"
| expire: "life LExpire (EffectRunning, n) (EffectUnknown, n)"
| resolve: "st \<noteq> EffectPlanned \<Longrightarrow> st \<noteq> EffectRunning \<Longrightarrow> st \<noteq> EffectUnknown \<Longrightarrow>
    life LResolve (EffectUnknown, n) (st, n)"
| cancel: "st \<in> {EffectPlanned, EffectRunning, EffectRetryableFailed, EffectUnknown} \<Longrightarrow>
    life LCancel (st, n) (EffectCancelled, n)"

inductive_cases lifeE: "life l a b"

definition lifeOf :: "effect_row \<Rightarrow> effect_status \<times> nat" where
  "lifeOf e = (ef_Status e, ef_AttemptCount e)"

definition lives :: "life_label set \<Rightarrow> effect_status \<times> nat \<Rightarrow> effect_status \<times> nat \<Rightarrow> bool" where
  "lives L = (\<lambda>a b. \<exists>l \<in> L. life l a b)\<^sup>*\<^sup>*"

lemma lives_refl [simp]: "lives L a a"
  by (simp add: lives_def)

lemma lives_trans: "lives L a b \<Longrightarrow> lives L b c \<Longrightarrow> lives L a c"
  unfolding lives_def by (rule rtranclp_trans)

lemma lives_step: "life l a b \<Longrightarrow> l \<in> L \<Longrightarrow> lives L a b"
  unfolding lives_def by blast

lemma lives_mono: "lives L a b \<Longrightarrow> L \<subseteq> L' \<Longrightarrow> lives L' a b"
  unfolding lives_def by (rule rtranclp_mono [THEN predicate2D, rotated]) blast+

lemma lives_invariant:
  assumes "lives L a b" and "P a" and "\<And>l x y. l \<in> L \<Longrightarrow> life l x y \<Longrightarrow> P x \<Longrightarrow> P y"
  shows "P b"
  using assms(1) unfolding lives_def by (induction rule: rtranclp_induct) (use assms in blast)+

text \<open>The outcomes are final, the attempt count never goes down, and an unknown outcome stays unknown until it is resolved or
  the effect is cancelled.\<close>

lemma lives_final:
  assumes "lives L (st, n) b" and "st \<in> {EffectSucceeded, EffectPermanentFailed, EffectCancelled}"
  shows "b = (st, n)"
  by (rule lives_invariant [OF assms(1), of "\<lambda>x. x = (st, n)"]) (use assms(2) in \<open>auto elim!: lifeE\<close>)

lemma lives_count:
  assumes "lives L a b"
  shows "snd a \<le> snd b"
  by (rule lives_invariant [OF assms, of "\<lambda>x. snd a \<le> snd x"]) (auto elim!: lifeE)

lemma lives_unknown:
  assumes "lives L (EffectUnknown, n) b" and "LResolve \<notin> L"
  shows "b = (EffectUnknown, n) \<or> b = (EffectCancelled, n)"
  by (rule lives_invariant [OF assms(1)]) (use assms(2) in \<open>auto elim!: lifeE\<close>)

lemma lives_no_claim:
  assumes "lives L a b" and "LClaim \<notin> L"
  shows "snd b = snd a"
  by (rule lives_invariant [OF assms(1)]) (use assms(2) in \<open>auto elim!: lifeE\<close>)

section \<open>What the lease operations do\<close>

definition effectIdentity :: "effect_row \<Rightarrow> (string \<times> string \<times> string) \<times> (effect_origin \<times> string \<times> string) \<times> string \<times> gval" where
  "effectIdentity e = ((ef_ID e, ef_RunID e, ef_EffectKey e), (ef_OriginType e, ef_OriginID e, ef_DefinitionPath e),
     ef_Kind e, ef_Payload e)"

lemma nextEffect_Some:
  assumes "nextEffect now s = Some e"
  shows "e \<in> set (db_effects s)" and "claimable now (db_runs s) e"
    and "\<And>x. x \<in> set (db_effects s) \<Longrightarrow> claimable now (db_runs s) x \<Longrightarrow> effectOrder e \<le> effectOrder x"
proof -
  let ?due = "filter (claimable now (db_runs s)) (db_effects s)"
  obtain es where es: "sort_key effectOrder ?due = e # es"
    using assms by (auto simp: nextEffect_def split: list.splits)
  have set: "set ?due = set (e # es)" using set_sort [of effectOrder ?due] unfolding es by simp
  then show "e \<in> set (db_effects s)" "claimable now (db_runs s) e" by auto
  show "effectOrder e \<le> effectOrder x" if "x \<in> set (db_effects s)" "claimable now (db_runs s) x" for x
  proof -
    have "x \<in> set (e # es)" using that set by auto
    moreover have "sorted (map effectOrder (e # es))" using sorted_sort_key [of effectOrder ?due] unfolding es .
    ultimately show ?thesis by auto
  qed
qed

lemma nextEffect_None:
  assumes "nextEffect now s = None" and "x \<in> set (db_effects s)"
  shows "\<not> claimable now (db_runs s) x"
proof -
  let ?due = "filter (claimable now (db_runs s)) (db_effects s)"
  have "sort_key effectOrder ?due = []" using assms(1) by (auto simp: nextEffect_def split: list.splits)
  then have "set ?due = {}" using set_sort [of effectOrder ?due] by simp
  then show ?thesis using assms(2) by auto
qed

locale lease_frame = step_order +
  fixes L :: "life_label set"
  assumes lease_uuids: "R s (s\<lparr>db_uuids := n\<rparr>)"
    and effect_rows: "(\<And>e. ep e \<Longrightarrow> effectIdentity (ef e) = effectIdentity e \<and> lives L (lifeOf e) (lifeOf (ef e))) \<Longrightarrow>
      R s (db_effects_update (sql_update ep ef) s)"
    and effect_attempts: "R s (db_effect_attempts_update g s)"
begin

lemma moves_expire: "LExpire \<in> L \<Longrightarrow> moves R (expireEffectLeases now)"
  unfolding expireEffectLeases_def
  by (intro moves_bind moves_pure moves_update effect_rows effect_attempts)
     (auto simp: effectIdentity_def lifeOf_def leaseExpired_def intro: lives_step life.expire)

lemma moves_insertEffectAttempt: "moves R (insertEffectAttempt a)"
  unfolding insertEffectAttempt_def by (intro moves_bind moves_then moves_pure moves_modify effect_attempts)

lemma moves_takeLease:
  assumes "LClaim \<in> L" and "ef_Status e = EffectPlanned \<or> ef_Status e = EffectRetryableFailed"
  shows "moves R (takeLease env now worker lease e)"
proof -
  have "effectIdentity (leaseEffect now worker lease x) = effectIdentity x \<and>
      lives L (lifeOf x) (lifeOf (leaseEffect now worker lease x))" if "claimMatches now e x" for x
    using that assms
    by (auto simp: claimMatches_def leaseEffect_def effectIdentity_def lifeOf_def intro!: lives_step [OF life.claim])
  then show ?thesis
    unfolding takeLease_def
    by (intro moves_bind moves_then moves_pure moves_cases moves_insertEffectAttempt moves_fresh lease_uuids
      moves_update effect_rows)
qed

lemma moves_claimNext:
  assumes "LExpire \<in> L" and "LClaim \<in> L"
  shows "moves R (claimNext env now worker lease)"
proof -
  have "moves R (takeLease env now worker lease e)" if "nextEffect now s = Some e" for e s
    using that nextEffect_Some(2) by (intro moves_takeLease assms) (auto simp: claimable_def)
  then have "moves R (bindT (getsT (nextEffect now)) (\<lambda>found.
      case found of None \<Rightarrow> returnT (Commit None) | Some e \<Rightarrow> takeLease env now worker lease e))"
    unfolding moves_def tx_iffs(3,6) using R_refl by (auto simp: tx_iffs(1) split: option.splits)
  then show ?thesis unfolding claimNext_def by (intro moves_then moves_expire assms(1))
qed

lemma moves_ClaimEffect: "LExpire \<in> L \<Longrightarrow> LClaim \<in> L \<Longrightarrow> moves R (ClaimEffect env now worker lease)"
  unfolding ClaimEffect_def by (intro moves_then moves_pure moves_transact moves_claimNext)

lemma moves_CompleteEffect: "LComplete \<in> L \<Longrightarrow> moves R (CompleteEffect now req)"
proof (cases "ce_Status req \<in> {EffectPlanned, EffectRunning}")
  case True
  then show ?thesis unfolding CompleteEffect_def by (auto simp: moves_def tx_ok)
next
  case False
  moreover assume "LComplete \<in> L"
  ultimately show ?thesis unfolding CompleteEffect_def
    by (intro moves_bind moves_then moves_pure moves_update effect_rows effect_attempts)
       (auto simp: effectIdentity_def lifeOf_def heldBy_def closeEffect_def finishEffect_def
         intro!: lives_step [OF life.complete])
qed

lemma moves_ResolveUnknownEffect: "LResolve \<in> L \<Longrightarrow> moves R (ResolveUnknownEffect now req)"
proof (cases "re_Status req \<in> {EffectPlanned, EffectRunning, EffectUnknown}")
  case True
  then show ?thesis unfolding ResolveUnknownEffect_def by (auto simp: moves_def tx_ok)
next
  case False
  moreover assume "LResolve \<in> L"
  ultimately show ?thesis unfolding ResolveUnknownEffect_def
    by (intro moves_bind moves_then moves_pure moves_update effect_rows)
       (auto simp: effectIdentity_def lifeOf_def resolveEffect_def finishEffect_def intro!: lives_step [OF life.resolve])
qed

lemma moves_cancelEffects: "LCancel \<in> L \<Longrightarrow> moves R (cancelEffects runID reason now)"
  unfolding cancelEffects_def
  by (intro moves_bind moves_pure moves_update effect_rows effect_attempts)
     (auto simp: effectIdentity_def lifeOf_def intro!: lives_step [OF life.cancel])

end


section \<open>What the other operations do to an effect\<close>

text \<open>Every effect is still there, with the same identity, further along its life.\<close>

definition effects_live :: "life_label set \<Rightarrow> store \<Rightarrow> store \<Rightarrow> bool" where
  "effects_live L s s' \<longleftrightarrow> (\<forall>e \<in> set (db_effects s). \<exists>e' \<in> set (db_effects s').
     effectIdentity e' = effectIdentity e \<and> lives L (lifeOf e) (lifeOf e'))"

lemma effects_live_same: "set (db_effects s) \<subseteq> set (db_effects s') \<Longrightarrow> effects_live L s s'"
  unfolding effects_live_def by (blast intro: lives_refl)

lemma effects_live_update:
  assumes "\<And>e. P e \<Longrightarrow> effectIdentity (f e) = effectIdentity e \<and> lives L (lifeOf e) (lifeOf (f e))"
  shows "effects_live L s (db_effects_update (sql_update P f) s)"
  unfolding effects_live_def
proof
  fix e assume "e \<in> set (db_effects s)"
  then have "(if P e then f e else e) \<in> set (db_effects (db_effects_update (sql_update P f) s))"
    by (simp add: set_sql_update)
  then show "\<exists>e' \<in> set (db_effects (db_effects_update (sql_update P f) s)).
      effectIdentity e' = effectIdentity e \<and> lives L (lifeOf e) (lifeOf e')"
    using assms [of e] by (intro bexI) auto
qed

lemma effects_live_trans: "effects_live L s t \<Longrightarrow> effects_live L t u \<Longrightarrow> effects_live L s u"
  unfolding effects_live_def by (metis lives_trans)

interpretation alive: run_frame "effects_live L"
  by unfold_locales (auto intro: effects_live_same elim: effects_live_trans)

interpretation alive: lease_frame "effects_live L" L
  by unfold_locales (auto intro: effects_live_same effects_live_update)

section \<open>Effects and their attempts\<close>

definition lease_inv :: "store \<Rightarrow> bool" where
  "lease_inv s \<longleftrightarrow> distinct (map ef_ID (db_effects s)) \<and> distinct (map ea_ID (db_effect_attempts s)) \<and>
     distinct (map (\<lambda>a. (ea_EffectID a, ea_Number a)) (db_effect_attempts s)) \<and>
     (\<forall>a \<in> set (db_effect_attempts s). \<exists>e \<in> set (db_effects s). ef_ID e = ea_EffectID a \<and>
        ea_Number a \<le> ef_AttemptCount e \<and>
        (ea_Status a = EffectRunning \<longrightarrow> ef_Status e = EffectRunning \<and> ea_Number a = ef_AttemptCount e)) \<and>
     (\<forall>e \<in> set (db_effects s). ef_Status e = EffectRunning \<longrightarrow>
        (\<exists>a \<in> set (db_effect_attempts s). ea_EffectID a = ef_ID e \<and> ea_Status a = EffectRunning))"

interpretation leases: run_frame "\<lambda>s s'. lease_inv s \<longrightarrow> lease_inv s'"
proof unfold_locales
  fix s :: store and e :: effect_row
  assume "ef_ID e \<notin> ef_ID ` set (db_effects s)" and "ef_Status e = EffectPlanned"
  then show "lease_inv s \<longrightarrow> lease_inv (s\<lparr>db_effects := db_effects s @ [e]\<rparr>)"
    unfolding lease_inv_def by auto
qed (simp_all add: lease_inv_def)

text \<open>Retiring attempts together with their effects.\<close>

lemma lease_inv_retire:
  assumes inv: "lease_inv s"
    and f: "\<And>a. P a \<Longrightarrow> ea_ID (f a) = ea_ID a \<and> ea_EffectID (f a) = ea_EffectID a \<and> ea_Number (f a) = ea_Number a \<and>
      ea_Status (f a) \<noteq> EffectRunning"
    and g: "\<And>e. Q e \<Longrightarrow> ef_ID (g e) = ef_ID e \<and> ef_AttemptCount (g e) = ef_AttemptCount e \<and> ef_Status (g e) \<noteq> EffectRunning"
    and both: "\<And>a e. a \<in> set (db_effect_attempts s) \<Longrightarrow> e \<in> set (db_effects s) \<Longrightarrow> ea_EffectID a = ef_ID e \<Longrightarrow>
      ea_Status a = EffectRunning \<Longrightarrow> ef_Status e = EffectRunning \<Longrightarrow> P a \<longleftrightarrow> Q e"
    and s': "db_effect_attempts s' = sql_update P f (db_effect_attempts s)" "db_effects s' = sql_update Q g (db_effects s)"
  shows "lease_inv s'"
proof -
  have ids: "map ea_ID (db_effect_attempts s') = map ea_ID (db_effect_attempts s)"
    "map (\<lambda>a. (ea_EffectID a, ea_Number a)) (db_effect_attempts s') = map (\<lambda>a. (ea_EffectID a, ea_Number a)) (db_effect_attempts s)"
    "map ef_ID (db_effects s') = map ef_ID (db_effects s)"
    unfolding s' using f g by (simp_all add: map_sql_update)
  have A: "\<exists>e' \<in> set (db_effects s'). ef_ID e' = ea_EffectID a' \<and> ea_Number a' \<le> ef_AttemptCount e' \<and>
      (ea_Status a' = EffectRunning \<longrightarrow> ef_Status e' = EffectRunning \<and> ea_Number a' = ef_AttemptCount e')"
    if a': "a' \<in> set (db_effect_attempts s')" for a'
  proof -
    obtain a where a: "a \<in> set (db_effect_attempts s)" "a' = (if P a then f a else a)"
      using a' unfolding s' set_sql_update by blast
    then obtain e where e: "e \<in> set (db_effects s)" "ef_ID e = ea_EffectID a" "ea_Number a \<le> ef_AttemptCount e"
      "ea_Status a = EffectRunning \<longrightarrow> ef_Status e = EffectRunning \<and> ea_Number a = ef_AttemptCount e"
      using inv unfolding lease_inv_def by blast
    then have "(if Q e then g e else e) \<in> set (db_effects s')" unfolding s' set_sql_update by blast
    then show ?thesis using a e f [of a] g [of e] both [of a e] by (intro bexI) auto
  qed
  have B: "\<exists>a' \<in> set (db_effect_attempts s'). ea_EffectID a' = ef_ID e' \<and> ea_Status a' = EffectRunning"
    if e': "e' \<in> set (db_effects s')" and run: "ef_Status e' = EffectRunning" for e'
  proof -
    obtain e where e: "e \<in> set (db_effects s)" "e' = (if Q e then g e else e)"
      using e' unfolding s' set_sql_update by blast
    then have q: "\<not> Q e" and e'e: "e' = e" using run g [of e] by (auto split: if_splits)
    then obtain a where a: "a \<in> set (db_effect_attempts s)" "ea_EffectID a = ef_ID e" "ea_Status a = EffectRunning"
      using inv e run unfolding lease_inv_def by blast
    then have "\<not> P a" using both [OF a(1) e(1) a(2,3)] q run e'e by simp
    then have "a \<in> set (db_effect_attempts s')" unfolding s' set_sql_update using a(1) by (auto intro!: image_eqI [of _ _ a])
    then show ?thesis using a e'e by blast
  qed
  show ?thesis unfolding lease_inv_def ids
    by (intro conjI ballI impI A B) (use inv in \<open>simp_all add: lease_inv_def\<close>)
qed

lemma lease_inv_unique:
  assumes "lease_inv s" and "e \<in> set (db_effects s)" and "e' \<in> set (db_effects s)" and "ef_ID e = ef_ID e'"
  shows "e = e'"
  using assms by (auto simp: lease_inv_def distinct_map dest: inj_onD)

lemma lease_inv_running:
  assumes "lease_inv s" and "a \<in> set (db_effect_attempts s)" and "ea_Status a = EffectRunning"
    and "e \<in> set (db_effects s)" and "ef_ID e = ea_EffectID a"
  shows "ef_Status e = EffectRunning" and "ea_Number a = ef_AttemptCount e"
proof -
  obtain e' where "e' \<in> set (db_effects s)" "ef_ID e' = ea_EffectID a" "ef_Status e' = EffectRunning"
    "ea_Number a = ef_AttemptCount e'"
    using assms(1-3) unfolding lease_inv_def by blast
  moreover have "e' = e" using lease_inv_unique [OF assms(1)] calculation(1,2) assms(4,5) by simp
  ultimately show "ef_Status e = EffectRunning" and "ea_Number a = ef_AttemptCount e" by simp_all
qed

lemma lease_inv_attempt_unique:
  assumes inv: "lease_inv s" and a: "a \<in> set (db_effect_attempts s)" "ea_Status a = EffectRunning"
    and b: "b \<in> set (db_effect_attempts s)" "ea_Status b = EffectRunning" and "ea_EffectID a = ea_EffectID b"
  shows "a = b"
proof -
  obtain e where e: "e \<in> set (db_effects s)" "ef_ID e = ea_EffectID a" using inv a unfolding lease_inv_def by blast
  then have "ea_Number a = ef_AttemptCount e" and "ea_Number b = ef_AttemptCount e"
    using lease_inv_running(2) [OF inv a e(1)] lease_inv_running(2) [OF inv b e(1)] assms(6) by simp_all
  then have "(ea_EffectID a, ea_Number a) = (ea_EffectID b, ea_Number b)" using assms(6) by simp
  moreover have "inj_on (\<lambda>a. (ea_EffectID a, ea_Number a)) (set (db_effect_attempts s))"
    using inv by (simp add: lease_inv_def distinct_map)
  ultimately show ?thesis using a(1) b(1) by (auto dest: inj_onD)
qed

lemma expire_lease_inv: "moves (\<lambda>s s'. lease_inv s \<longrightarrow> lease_inv s') (expireEffectLeases now)"
  unfolding moves_def
proof (intro allI impI)
  fix s x s'
  assume run: "expireEffectLeases now s = Inr (x, s')" and inv: "lease_inv s"
  show "lease_inv s'"
  proof (rule lease_inv_retire [OF inv])
    show "db_effect_attempts s' = sql_update
        (\<lambda>a. ea_Status a = EffectRunning \<and> ea_EffectID a \<in> ef_ID ` {e \<in> set (db_effects s). leaseExpired now e})
        (\<lambda>a. a\<lparr>ea_Status := EffectUnknown, ea_Error := leaseExpiredReason, ea_FinishedAt := unixMilli now\<rparr>)
        (db_effect_attempts s)"
      "db_effects s' = sql_update (leaseExpired now) (\<lambda>e. e\<lparr>ef_Status := EffectUnknown, ef_LeaseOwner := [],
        ef_LeaseExpiresAt := 0, ef_LastError := leaseExpiredReason, ef_UpdatedAt := unixMilli now\<rparr>) (db_effects s)"
      using run by (auto simp: expireEffectLeases_def tx_ok)
    fix a e
    assume "e \<in> set (db_effects s)" "ea_EffectID a = ef_ID e" "ea_Status a = EffectRunning"
    then show "(ea_Status a = EffectRunning \<and> ea_EffectID a \<in> ef_ID ` {e \<in> set (db_effects s). leaseExpired now e}) \<longleftrightarrow>
        leaseExpired now e"
      using lease_inv_unique [OF inv] by auto
  qed simp_all
qed

lemma cancelEffects_lease_inv: "moves (\<lambda>s s'. lease_inv s \<longrightarrow> lease_inv s') (cancelEffects runID reason now)"
  unfolding moves_def
proof (intro allI impI)
  fix s x s'
  assume run: "cancelEffects runID reason now s = Inr (x, s')" and inv: "lease_inv s"
  let ?Q = "\<lambda>e. ef_RunID e = runID \<and> ef_Status e \<in> {EffectPlanned, EffectRunning, EffectRetryableFailed, EffectUnknown}"
  show "lease_inv s'"
  proof (rule lease_inv_retire [OF inv])
    show "db_effect_attempts s' = sql_update (\<lambda>a. ea_Status a = EffectRunning \<and> ea_EffectID a \<in> effectsOfRun runID s)
        (\<lambda>a. a\<lparr>ea_Status := EffectCancelled, ea_Error := reason, ea_FinishedAt := unixMilli now\<rparr>) (db_effect_attempts s)"
      "db_effects s' = sql_update ?Q (\<lambda>e. e\<lparr>ef_Status := EffectCancelled, ef_LeaseOwner := [], ef_LeaseExpiresAt := 0,
        ef_LastError := reason, ef_UpdatedAt := unixMilli now\<rparr>) (db_effects s)"
      using run by (auto simp: cancelEffects_def tx_ok)
    fix a e
    assume "e \<in> set (db_effects s)" "ea_EffectID a = ef_ID e" "ea_Status a = EffectRunning" "ef_Status e = EffectRunning"
    then show "(ea_Status a = EffectRunning \<and> ea_EffectID a \<in> effectsOfRun runID s) \<longleftrightarrow> ?Q e"
      using lease_inv_unique [OF inv] by (auto simp: effectsOfRun_def)
  qed simp_all
qed

text \<open>A completion finds the one attempt that is running.\<close>

lemma leasedAttempt_ok:
  assumes "leasedAttempt now req s = Some n"
  obtains a e where "a \<in> set (db_effect_attempts s)" "ea_ID a = ce_AttemptID req" "ea_EffectID a = ce_EffectID req"
    "ea_Status a = EffectRunning" "ea_Number a = n" "e \<in> set (db_effects s)" "ef_ID e = ce_EffectID req"
    "ef_Status e = EffectRunning" "ef_LeaseOwner e = ce_Worker req" "unixMilli now \<le> ef_LeaseExpiresAt e"
  using assms by (auto simp: leasedAttempt_def list_ex_iff dest!: find_Some_in)

lemma CompleteEffect_ok:
  assumes "CompleteEffect now req s = Inr (x, s')"
  obtains n where "leasedAttempt now req s = Some n" and "ce_Status req \<noteq> EffectPlanned" and "ce_Status req \<noteq> EffectRunning"
    and "db_effect_attempts s' = sql_update (attemptNamed req n) (closeAttempt now req) (db_effect_attempts s)"
    and "db_effects s' = sql_update (heldBy req) (closeEffect now req) (db_effects s)"
    and "s'\<lparr>db_effect_attempts := db_effect_attempts s, db_effects := db_effects s\<rparr> = s"
    and "sql_count (heldBy req) (db_effects s) = 1"
  using assms unfolding CompleteEffect_def by (auto simp: tx_ok simp del: One_nat_def)

lemma leased_is_held:
  assumes inv: "lease_inv s" and n: "leasedAttempt now req s = Some n"
    and a: "a \<in> set (db_effect_attempts s)" "ea_EffectID a = ef_ID e" "ea_Status a = EffectRunning"
    and e: "e \<in> set (db_effects s)" "ef_Status e = EffectRunning"
  shows "attemptNamed req n a \<longleftrightarrow> heldBy req e"
proof (cases "ef_ID e = ce_EffectID req")
  case True
  obtain b e0 where b: "b \<in> set (db_effect_attempts s)" "ea_ID b = ce_AttemptID req" "ea_EffectID b = ce_EffectID req"
    "ea_Status b = EffectRunning" "ea_Number b = n"
    and e0: "e0 \<in> set (db_effects s)" "ef_ID e0 = ce_EffectID req" "ef_LeaseOwner e0 = ce_Worker req"
    using n by (rule leasedAttempt_ok)
  have ee: "e = e0" using lease_inv_unique [OF inv e(1) e0(1)] e0(2) True by simp
  have "a = b" using lease_inv_attempt_unique [OF inv a(1,3) b(1,4)] a(2) b(3) True by simp
  then show ?thesis using b e e0 ee by (simp add: attemptNamed_def heldBy_def)
next
  case False
  then show ?thesis using a(2) by (simp add: attemptNamed_def heldBy_def)
qed

lemma CompleteEffect_lease_inv: "moves (\<lambda>s s'. lease_inv s \<longrightarrow> lease_inv s') (CompleteEffect now req)"
  unfolding moves_def
proof (intro allI impI)
  fix s x s'
  assume run: "CompleteEffect now req s = Inr (x, s')" and inv: "lease_inv s"
  from run obtain n where n: "leasedAttempt now req s = Some n" and st: "ce_Status req \<noteq> EffectRunning"
    and s': "db_effect_attempts s' = sql_update (attemptNamed req n) (closeAttempt now req) (db_effect_attempts s)"
      "db_effects s' = sql_update (heldBy req) (closeEffect now req) (db_effects s)"
    by (rule CompleteEffect_ok)
  show "lease_inv s'"
    by (rule lease_inv_retire [OF inv _ _ _ s'])
       (use st leased_is_held [OF inv n] in \<open>simp_all add: closeAttempt_def closeEffect_def finishEffect_def\<close>)
qed

lemma ResolveUnknownEffect_lease_inv: "moves (\<lambda>s s'. lease_inv s \<longrightarrow> lease_inv s') (ResolveUnknownEffect now req)"
  unfolding moves_def
proof (intro allI impI)
  fix s x s'
  assume run: "ResolveUnknownEffect now req s = Inr (x, s')" and inv: "lease_inv s"
  let ?Q = "\<lambda>e. ef_ID e = re_EffectID req \<and> ef_Status e = EffectUnknown"
  from run have st: "re_Status req \<noteq> EffectRunning"
    and eff: "db_effects s' = sql_update ?Q (resolveEffect now req) (db_effects s)"
    and att: "db_effect_attempts s' = sql_update (\<lambda>_. False) id (db_effect_attempts s)"
    by (auto simp: ResolveUnknownEffect_def tx_ok sql_update_def)
  show "lease_inv s'"
    by (rule lease_inv_retire [OF inv _ _ _ att eff]) (use st in \<open>auto simp: resolveEffect_def finishEffect_def\<close>)
qed

lemma claimable_not_running: "claimable now runs e \<Longrightarrow> ef_Status e \<noteq> EffectRunning"
  by (auto simp: claimable_def)

text \<open>The claim itself: the effect runs, and the new attempt has its number.\<close>

lemma lease_inv_claim:
  assumes inv: "lease_inv s" and e: "e \<in> set (db_effects s)" and st: "ef_Status e \<noteq> EffectRunning"
    and a: "ea_ID a \<notin> ea_ID ` set (db_effect_attempts s)"
      "(ea_EffectID a, ea_Number a) \<notin> (\<lambda>x. (ea_EffectID x, ea_Number x)) ` set (db_effect_attempts s)"
      "ea_EffectID a = ef_ID e" "ea_Number a = ef_AttemptCount e + 1" "ea_Status a = EffectRunning"
    and s': "db_effects s' = sql_update (claimMatches now e) (leaseEffect now worker lease) (db_effects s)"
      "db_effect_attempts s' = db_effect_attempts s @ [a]"
    and due: "ef_NextAttemptAt e \<le> unixMilli now"
  shows "lease_inv s'"
proof -
  let ?f = "leaseEffect now worker lease"
  have only: "claimMatches now e x \<longleftrightarrow> x = e" if "x \<in> set (db_effects s)" for x
    using lease_inv_unique [OF inv that e] due by (auto simp: claimMatches_def)
  have mem: "(if x = e then ?f x else x) \<in> set (db_effects s')" if "x \<in> set (db_effects s)" for x
    using that only [OF that] unfolding s' set_sql_update by (auto intro!: image_eqI [of _ _ x])
  have "\<exists>e' \<in> set (db_effects s'). ef_ID e' = ea_EffectID b \<and> ea_Number b \<le> ef_AttemptCount e' \<and>
      (ea_Status b = EffectRunning \<longrightarrow> ef_Status e' = EffectRunning \<and> ea_Number b = ef_AttemptCount e')"
    if b: "b \<in> set (db_effect_attempts s')" for b
  proof (cases "b = a")
    case True
    then show ?thesis using mem [OF e] a by (intro bexI [of _ "?f e"]) (auto simp: leaseEffect_def)
  next
    case False
    then obtain x where x: "x \<in> set (db_effects s)" "ef_ID x = ea_EffectID b" "ea_Number b \<le> ef_AttemptCount x"
      "ea_Status b = EffectRunning \<longrightarrow> ef_Status x = EffectRunning \<and> ea_Number b = ef_AttemptCount x"
      using inv b unfolding s' lease_inv_def by auto
    then show ?thesis using mem [OF x(1)] st
      by (intro bexI [of _ "if x = e then ?f x else x"]) (auto simp: leaseEffect_def)
  qed
  moreover have "\<exists>b \<in> set (db_effect_attempts s'). ea_EffectID b = ef_ID e' \<and> ea_Status b = EffectRunning"
    if e': "e' \<in> set (db_effects s')" and run: "ef_Status e' = EffectRunning" for e'
  proof -
    obtain x where x: "x \<in> set (db_effects s)" "e' = (if x = e then ?f x else x)"
      using e' only unfolding s' set_sql_update by auto
    show ?thesis
    proof (cases "x = e")
      case True
      then show ?thesis using x a s' by (auto simp: leaseEffect_def)
    next
      case False
      then obtain b where "b \<in> set (db_effect_attempts s)" "ea_EffectID b = ef_ID x" "ea_Status b = EffectRunning"
        using inv x run unfolding lease_inv_def by auto
      then show ?thesis using x False s' by auto
    qed
  qed
  moreover have "map ef_ID (db_effects s') = map ef_ID (db_effects s)"
    unfolding s' by (rule map_sql_update) (simp add: leaseEffect_def)
  ultimately show ?thesis using inv a(1,2) s' unfolding lease_inv_def by auto
qed

lemma takeLease_ok:
  assumes "takeLease env now worker lease e s = Inr (Commit r, s')"
  obtains a where "db_effects s' = sql_update (claimMatches now e) (leaseEffect now worker lease) (db_effects s)"
    and "db_effect_attempts s' = db_effect_attempts s @ [a]"
    and "ea_ID a \<notin> ea_ID ` set (db_effect_attempts s)"
    and "(ea_EffectID a, ea_Number a) \<notin> (\<lambda>x. (ea_EffectID x, ea_Number x)) ` set (db_effect_attempts s)"
    and "ea_EffectID a = ef_ID e" "ea_Number a = ef_AttemptCount e + 1" "ea_Status a = EffectRunning"
    and "db_runs s' = db_runs s"
    and "\<exists>payload. effectPayload e = Inr payload \<and> r = Some (claimOf now worker lease e payload (ea_ID a))"
    and "sql_count (claimMatches now e) (db_effects s) = 1"
  using assms unfolding takeLease_def
  by (auto simp: tx_ok insertEffectAttempt_def simp del: One_nat_def split: if_splits)

lemma ClaimEffect_lease_inv: "moves (\<lambda>s s'. lease_inv s \<longrightarrow> lease_inv s') (ClaimEffect env now worker lease)"
proof -
  have "lease_inv s'" if run: "claimNext env now w lease s = Inr (Commit r, s')" and inv: "lease_inv s" for w r s s'
  proof -
    obtain u t where ex: "expireEffectLeases now s = Inr (u, t)"
      and rest: "(case nextEffect now t of None \<Rightarrow> returnT (Commit None) | Some e \<Rightarrow> takeLease env now w lease e) t =
        Inr (Commit r, s')"
      using run unfolding claimNext_def by (auto simp: tx_iffs(3,4,6))
    have t: "lease_inv t" using expire_lease_inv inv ex unfolding moves_def by blast
    show ?thesis
    proof (cases "nextEffect now t")
      case None
      then show ?thesis using rest t by (simp add: tx_iffs(1))
    next
      case (Some e)
      note e = nextEffect_Some [OF Some]
      have "takeLease env now w lease e t = Inr (Commit r, s')" using rest Some by simp
      then obtain a where "db_effects s' = sql_update (claimMatches now e) (leaseEffect now w lease) (db_effects t)"
        and "db_effect_attempts s' = db_effect_attempts t @ [a]"
        and "ea_ID a \<notin> ea_ID ` set (db_effect_attempts t)"
        and "(ea_EffectID a, ea_Number a) \<notin> (\<lambda>x. (ea_EffectID x, ea_Number x)) ` set (db_effect_attempts t)"
        and "ea_EffectID a = ef_ID e" "ea_Number a = ef_AttemptCount e + 1" "ea_Status a = EffectRunning"
        by (rule takeLease_ok)
      then show ?thesis
        using lease_inv_claim [OF t e(1) claimable_not_running [OF e(2)]] e(2) by (simp add: claimable_def)
    qed
  qed
  then show ?thesis unfolding ClaimEffect_def moves_def by (auto simp: tx_ok)
qed

end
