(* ===== verification/GoTime.thy ===== *)
theory GoTime
  imports Prelude
begin

text \<open>
  Instants in JSON: \<^verbatim>\<open>time.Time\<close> is marshalled as RFC 3339 with nanoseconds, in UTC here, and unmarshalled by the strict
  parser of the \<^verbatim>\<open>time\<close> package.  An instant is its nanoseconds since the Unix epoch, days follow the proleptic Gregorian
  calendar.  \<open>parse_jsonTime\<close> is the round trip for the years 0 to 9999, the range \<^verbatim>\<open>MarshalJSON\<close> accepts.
\<close>

section \<open>The calendar\<close>

definition civil :: "int \<Rightarrow> int \<times> int \<times> int" where
  "civil days =
     (let z = days + 719468; era = z div 146097; doe = z mod 146097;
          yoe = (doe - doe div 1460 + doe div 36524 - doe div 146096) div 365;
          doy = doe - (365 * yoe + yoe div 4 - yoe div 100); mp = (5 * doy + 2) div 153;
          m = (if mp < 10 then mp + 3 else mp - 9)
      in (yoe + era * 400 + (if m \<le> 2 then 1 else 0), m, doy - (153 * mp + 2) div 5 + 1))"

definition leapYear :: "int \<Rightarrow> bool" where
  "leapYear y \<longleftrightarrow> y mod 4 = 0 \<and> (y mod 100 \<noteq> 0 \<or> y mod 400 = 0)"

definition daysIn :: "int \<Rightarrow> int \<Rightarrow> int" where
  "daysIn m y = (if m = 2 then (if leapYear y then 29 else 28) else if m = 4 \<or> m = 6 \<or> m = 9 \<or> m = 11 then 30 else 31)"

definition daysOf :: "int \<Rightarrow> int \<Rightarrow> int \<Rightarrow> int" where
  "daysOf y m d =
     (let y' = (if m \<le> 2 then y - 1 else y); yoe = y' mod 400; mp = (m + 9) mod 12; doy = (153 * mp + 2) div 5 + d - 1
      in y' div 400 * 146097 + (yoe * 365 + yoe div 4 - yoe div 100 + doy) - 719468)"

lemma div_by: "n = d * x + r \<Longrightarrow> 0 \<le> r \<Longrightarrow> r < d \<Longrightarrow> n div d = x" for n :: int
  by (simp add: div_mult_self2)

lemma mod_by: "n = d * x + r \<Longrightarrow> 0 \<le> r \<Longrightarrow> r < d \<Longrightarrow> n mod d = r" for n :: int
  by simp

lemma quotient: "0 < d \<Longrightarrow> n = d * (n div d) + n mod d \<and> 0 \<le> n mod d \<and> n mod d < d" for n :: int
  by simp

text \<open>The day of an era as a century, a leap cycle, a year and a day.\<close>

lemma era_parts:
  fixes doe :: int
  assumes "0 \<le> doe" and "doe < 146097"
  obtains c q k w where "doe = 36524 * c + 1461 * q + 365 * k + w" "0 \<le> c" "c \<le> 3" "0 \<le> q" "q \<le> 24" "0 \<le> k" "k \<le> 3" "0 \<le> w"
    "w \<le> 365" "w = 365 \<longrightarrow> k = 3 \<and> (q = 24 \<longrightarrow> c = 3)"
proof -
  define c where "c = min 3 (doe div 36524)"
  define r where "r = doe - 36524 * c"
  define q where "q = r div 1461"
  define u where "u = r - 1461 * q"
  define k where "k = min 3 (u div 365)"
  have c: "0 \<le> c" "c \<le> 3" using assms by (simp_all add: c_def)
  have r: "0 \<le> r" "r \<le> 36524" "r = 36524 \<longrightarrow> c = 3"
    using assms quotient [of 36524 doe] unfolding r_def c_def by (auto simp: min_def)
  have u: "0 \<le> u" "u \<le> 1460" "0 \<le> q" "q \<le> 24" unfolding u_def q_def using r quotient [of 1461 r] by auto
  have k: "0 \<le> k" "k \<le> 3" "0 \<le> u - 365 * k" "u - 365 * k \<le> 365" "u - 365 * k = 365 \<longrightarrow> u = 1460 \<and> k = 3"
    unfolding k_def using u quotient [of 365 u] by (auto simp: min_def)
  show thesis
  proof (rule that [of c q k "u - 365 * k"])
    show "doe = 36524 * c + 1461 * q + 365 * k + (u - 365 * k)" by (simp add: r_def u_def)
    show "u - 365 * k = 365 \<longrightarrow> k = 3 \<and> (q = 24 \<longrightarrow> c = 3)" using k r by (auto simp: u_def)
  qed (use c u k in auto)
qed

lemma era_year:
  fixes doe :: int
  assumes "0 \<le> doe" and "doe < 146097"
  defines "yoe \<equiv> (doe - doe div 1460 + doe div 36524 - doe div 146096) div 365"
  defines "doy \<equiv> doe - (365 * yoe + yoe div 4 - yoe div 100)"
  shows "0 \<le> yoe \<and> yoe < 400 \<and> 0 \<le> doy \<and> doy \<le> 365 \<and> (doy = 365 \<longrightarrow> leapYear (yoe + 1))"
proof -
  from assms(1,2) obtain c q k w where p: "doe = 36524 * c + 1461 * q + 365 * k + w" "0 \<le> c" "c \<le> 3" "0 \<le> q" "q \<le> 24" "0 \<le> k" "k \<le> 3"
    "0 \<le> w" "w \<le> 365" "w = 365 \<longrightarrow> k = 3 \<and> (q = 24 \<longrightarrow> c = 3)"
    by (rule era_parts)
  define e :: int where "e = (if 24 * c + q + 365 * k + w < 1460 then 0 else 1)"
  have "doe div 1460 = 25 * c + q + e"
    by (rule div_by [where r = "24 * c + q + 365 * k + w - 1460 * e"]) (use p in \<open>auto simp: e_def\<close>)
  moreover have "doe div 36524 - doe div 146096 = c"
  proof (cases "doe = 146096")
    case True
    then have "c = 3" using p by linarith
    then show ?thesis using True by simp
  next
    case False
    then have "doe div 146096 = 0" using assms(1,2) by simp
    moreover have "doe div 36524 = c"
      by (rule div_by [where r = "1461 * q + 365 * k + w"]) (use p False in auto)
    ultimately show ?thesis by simp
  qed
  ultimately have N: "doe - doe div 1460 + doe div 36524 - doe div 146096 = 36500 * c + 1460 * q + 365 * k + w - e"
    using p(1) by linarith
  have yoe: "yoe = 100 * c + 4 * q + k"
    unfolding yoe_def N by (rule div_by [where r = "w - e"]) (use p in \<open>auto simp: e_def\<close>)
  have "yoe div 4 = 25 * c + q" unfolding yoe by (rule div_by [where r = k]) (use p in auto)
  moreover have "yoe div 100 = c" unfolding yoe by (rule div_by [where r = "4 * q + k"]) (use p in auto)
  ultimately have doy: "doy = w" unfolding doy_def using yoe p(1) by linarith
  have "leapYear (yoe + 1)" if "w = 365"
  proof -
    have k: "k = 3" "q = 24 \<longrightarrow> c = 3" using p(10) that by auto
    have y: "yoe + 1 = 4 * (25 * c + q + 1)" using yoe k by simp
    show ?thesis
    proof (cases "q = 24")
      case True
      then show ?thesis using yoe k by (simp add: leapYear_def)
    next
      case False
      then have "(yoe + 1) mod 100 = 4 * q + 4" by (intro mod_by [where x = c]) (use yoe k p in auto)
      then have "(yoe + 1) mod 100 \<noteq> 0" using p(4) by linarith
      moreover have "(yoe + 1) mod 4 = 0" unfolding y by simp
      ultimately show ?thesis unfolding leapYear_def by blast
    qed
  qed
  then show ?thesis using yoe doy p by auto
qed

text \<open>The months of a year that starts in March.\<close>

definition monthOk :: "int \<Rightarrow> bool" where
  "monthOk doy \<longleftrightarrow> (let mp = (5 * doy + 2) div 153; m = (if mp < 10 then mp + 3 else mp - 9); d = doy - (153 * mp + 2) div 5 + 1 in
     1 \<le> m \<and> m \<le> 12 \<and> (m + 9) mod 12 = mp \<and> 1 \<le> d \<and>
     d \<le> (if m = 2 then (if doy = 365 then 29 else 28) else if m = 4 \<or> m = 6 \<or> m = 9 \<or> m = 11 then 30 else 31))"

lemma months_checked: "list_all monthOk [0..365]"
  by code_simp

lemma monthOk:
  fixes doy :: int
  assumes "0 \<le> doy" and "doy \<le> 365" and mp: "mp = (5 * doy + 2) div 153" and m: "m = (if mp < 10 then mp + 3 else mp - 9)"
    and d: "d = doy - (153 * mp + 2) div 5 + 1"
  shows "1 \<le> m \<and> m \<le> 12 \<and> (m + 9) mod 12 = mp \<and> 1 \<le> d \<and>
    d \<le> (if m = 2 then (if doy = 365 then 29 else 28) else if m = 4 \<or> m = 6 \<or> m = 9 \<or> m = 11 then 30 else 31)"
proof -
  have "monthOk doy" using months_checked assms(1,2) by (simp only: list_all_iff set_upto) simp
  then show ?thesis unfolding monthOk_def Let_def mp [symmetric] unfolding m [symmetric] unfolding d [symmetric] .
qed

lemma leapYear_era: "leapYear (y + 400 * era) \<longleftrightarrow> leapYear y"
proof -
  have "(y + 400 * era) mod d = y mod d" if "400 mod d = 0" for d :: int
  proof -
    from that obtain k where "400 = d * k" by (metis dvd_eq_mod_eq_0 dvdE)
    then have "y + 400 * era = y + (k * era) * d" by (simp add: algebra_simps)
    then show ?thesis by (metis mod_mult_self1)
  qed
  from this [of 4] this [of 100] this [of 400] show ?thesis unfolding leapYear_def by simp
qed

lemma civil_days:
  assumes "civil days = (y, m, d)"
  shows "daysOf y m d = days \<and> 1 \<le> m \<and> m \<le> 12 \<and> 1 \<le> d \<and> d \<le> daysIn m y"
proof -
  define z where "z = days + 719468"
  define era where "era = z div 146097"
  define doe where "doe = z mod 146097"
  define yoe where "yoe = (doe - doe div 1460 + doe div 36524 - doe div 146096) div 365"
  define doy where "doy = doe - (365 * yoe + yoe div 4 - yoe div 100)"
  define mp where "mp = (5 * doy + 2) div 153"
  define m' where "m' = (if mp < 10 then mp + 3 else mp - 9)"
  have "civil days = (yoe + era * 400 + (if m' \<le> 2 then 1 else 0), m', doy - (153 * mp + 2) div 5 + 1)"
    unfolding civil_def Let_def m'_def mp_def doy_def yoe_def doe_def era_def z_def by (rule refl)
  then have y: "y = yoe + era * 400 + (if m \<le> 2 then 1 else 0)" and m: "m = (if mp < 10 then mp + 3 else mp - 9)"
    and d: "d = doy - (153 * mp + 2) div 5 + 1"
    using assms m'_def by (simp_all only: prod.inject)
  have doe: "0 \<le> doe" "doe < 146097" by (simp_all add: doe_def)
  have year: "0 \<le> yoe" "yoe < 400" "0 \<le> doy" "doy \<le> 365" "doy = 365 \<longrightarrow> leapYear (yoe + 1)"
    using era_year [OF doe] by (simp_all add: yoe_def doy_def)
  have ok: "1 \<le> m" "m \<le> 12" "(m + 9) mod 12 = mp" "1 \<le> d"
    "d \<le> (if m = 2 then (if doy = 365 then 29 else 28) else if m = 4 \<or> m = 6 \<or> m = 9 \<or> m = 11 then 30 else 31)"
    using monthOk [OF year(3,4) mp_def m d] by - (elim conjE, assumption)+
  have y': "(if m \<le> 2 then y - 1 else y) = yoe + 400 * era" by (simp add: y)
  have "(yoe + 400 * era) div 400 = era" "(yoe + 400 * era) mod 400 = yoe" using year by simp_all
  moreover have "z = era * 146097 + doe" by (simp add: era_def doe_def)
  ultimately have "daysOf y m d = days"
    unfolding daysOf_def Let_def y' ok(3) using d doy_def z_def by simp
  moreover have "d \<le> daysIn m y"
    using ok(5) year(5) leapYear_era [of "yoe + 1" era] y by (auto simp: daysIn_def algebra_simps split: if_splits)
  ultimately show ?thesis using ok by blast
qed

section \<open>Digits\<close>

definition isDigit :: "char \<Rightarrow> bool" where
  "isDigit c \<longleftrightarrow> 48 \<le> (of_char c :: nat) \<and> (of_char c :: nat) \<le> 57"

definition digitsVal :: "string \<Rightarrow> int" where
  "digitsVal = foldl (\<lambda>a c. 10 * a + (of_char c - 48)) 0"

definition pad :: "nat \<Rightarrow> int \<Rightarrow> string" where
  "pad width n = (let ds = natDigits n in replicate (width - length ds) (CHR ''0'') @ ds)"

lemma digit_char: "0 \<le> d \<Longrightarrow> d < 10 \<Longrightarrow> (of_char (char_of (48 + nat d)) :: int) = 48 + d \<and> isDigit (char_of (48 + nat d))"
proof -
  assume "0 \<le> d" and "d < 10"
  then have "d \<in> set [0..9]" by simp
  moreover have "list_all (\<lambda>d. (of_char (char_of (48 + nat d)) :: int) = 48 + d \<and> isDigit (char_of (48 + nat d))) [0..9]"
    by code_simp
  ultimately show ?thesis unfolding list_all_iff by blast
qed

lemma digitsVal_append: "digitsVal (xs @ ys) = foldl (\<lambda>a c. 10 * a + (of_char c - 48)) (digitsVal xs) ys"
  by (simp add: digitsVal_def)

lemma digitsVal_snoc: "digitsVal (xs @ [c]) = 10 * digitsVal xs + (of_char c - 48)"
  by (simp add: digitsVal_append)

lemma natDigits_ok: "0 \<le> n \<Longrightarrow> digitsVal (natDigits n) = n \<and> list_all isDigit (natDigits n)"
proof (induction n rule: natDigits.induct)
  case (1 n)
  show ?case
  proof (cases "n < 10")
    case True
    then show ?thesis using 1(2) digit_char [of n] by (simp add: natDigits.simps [of n] digitsVal_def)
  next
    case False
    then have "digitsVal (natDigits (n div 10)) = n div 10 \<and> list_all isDigit (natDigits (n div 10))" using 1 by simp
    then show ?thesis using False 1(2) digit_char [of "n mod 10"]
      by (simp add: natDigits.simps [of n] digitsVal_snoc)
  qed
qed

lemma natDigits_length: "0 \<le> n \<Longrightarrow> n < 10 ^ Suc w \<Longrightarrow> length (natDigits n) \<le> Suc w"
proof (induction w arbitrary: n)
  case 0
  then show ?case by (simp add: natDigits.simps [of n])
next
  case (Suc w)
  show ?case
  proof (cases "n < 10")
    case True
    then show ?thesis by (simp add: natDigits.simps [of n])
  next
    case False
    have "n div 10 < 10 ^ Suc w" using Suc.prems by (simp add: div_less_iff_less_mult)
    then have "length (natDigits (n div 10)) \<le> Suc w" using Suc by simp
    then show ?thesis using False by (simp add: natDigits.simps [of n])
  qed
qed

lemma digitsVal_zeros: "digitsVal (replicate k (CHR ''0'') @ ds) = digitsVal ds"
  by (induction k) (simp_all add: digitsVal_def)

lemma pad_ok:
  assumes "0 \<le> n" and "n < 10 ^ w" and "w \<noteq> 0"
  shows "length (pad w n) = w" "list_all isDigit (pad w n)" "digitsVal (pad w n) = n"
proof -
  obtain v where v: "w = Suc v" using assms(3) by (cases w) auto
  show "length (pad w n) = w" "digitsVal (pad w n) = n" "list_all isDigit (pad w n)"
    using natDigits_length [OF assms(1) assms(2) [unfolded v]] natDigits_ok [OF assms(1)]
    by (simp_all add: v pad_def Let_def digitsVal_zeros) (simp add: list_all_iff isDigit_def)
qed

section \<open>RFC 3339\<close>

definition jsonTime :: "int \<Rightarrow> string" where
  "jsonTime t =
     (let (y, m, d) = civil (t div 86400000000000); secs = t mod 86400000000000 div 1000000000;
          frac = rev (dropWhile (\<lambda>c. c = CHR ''0'') (rev (pad 9 (t mod 1000000000))))
      in pad 4 y @ ''-'' @ pad 2 m @ ''-'' @ pad 2 d @ ''T'' @ pad 2 (secs div 3600) @ '':'' @ pad 2 (secs mod 3600 div 60) @
         '':'' @ pad 2 (secs mod 60) @ (if frac = [] then [] else CHR ''.'' # frac) @ ''Z'')"

text \<open>A field of \<open>n\<close> digits, followed by a separator.\<close>

definition field :: "nat \<Rightarrow> string \<Rightarrow> (int \<times> string) option" where
  "field n s = (if n \<le> length s \<and> list_all isDigit (take n s) then Some (digitsVal (take n s), drop n s) else None)"

definition expect :: "char \<Rightarrow> string \<Rightarrow> string option" where
  "expect c s = (case s of [] \<Rightarrow> None | x # xs \<Rightarrow> if x = c then Some xs else None)"

definition bindO :: "'a option \<Rightarrow> ('a \<Rightarrow> 'b option) \<Rightarrow> 'b option" where
  "bindO m f = (case m of None \<Rightarrow> None | Some x \<Rightarrow> f x)"

lemma bindO_Some [simp]: "bindO (Some x) f = f x"
  by (simp add: bindO_def)

text \<open>The fraction of a second (digits beyond the ninth are dropped), and the offset from UTC in seconds.\<close>

definition fraction :: "string \<Rightarrow> (int \<times> string) option" where
  "fraction s =
     (case expect (CHR ''.'') s of
        None \<Rightarrow> Some (0, s)
      | Some r \<Rightarrow>
          let ds = takeWhile isDigit r in
          if ds = [] then None else Some (digitsVal (take 9 (ds @ replicate 9 (CHR ''0''))), dropWhile isDigit r))"

definition offset :: "string \<Rightarrow> int option" where
  "offset s =
     (if s = ''Z'' then Some 0
      else case s of
        [] \<Rightarrow> None
      | c # r \<Rightarrow>
          if c = CHR ''+'' \<or> c = CHR ''-'' then
            bindO (field 2 r) (\<lambda>(h, r). bindO (expect (CHR '':'') r) (\<lambda>r. bindO (field 2 r) (\<lambda>(m, r).
              if r = [] \<and> h < 24 \<and> m < 60 then Some ((if c = CHR ''-'' then -1 else 1) * (h * 3600 + m * 60)) else None)))
          else None)"

definition parseTime :: "string \<Rightarrow> int option" where
  "parseTime s =
     bindO (field 4 s) (\<lambda>(y, s). bindO (expect (CHR ''-'') s) (\<lambda>s.
     bindO (field 2 s) (\<lambda>(m, s). bindO (expect (CHR ''-'') s) (\<lambda>s.
     bindO (field 2 s) (\<lambda>(d, s). bindO (expect (CHR ''T'') s) (\<lambda>s.
     bindO (field 2 s) (\<lambda>(hh, s). bindO (expect (CHR '':'') s) (\<lambda>s.
     bindO (field 2 s) (\<lambda>(mm, s). bindO (expect (CHR '':'') s) (\<lambda>s.
     bindO (field 2 s) (\<lambda>(ss, s). bindO (fraction s) (\<lambda>(n, s). bindO (offset s) (\<lambda>off.
     if 1 \<le> m \<and> m \<le> 12 \<and> 1 \<le> d \<and> d \<le> daysIn m y \<and> hh < 24 \<and> mm < 60 \<and> ss < 60
     then Some ((daysOf y m d * 86400 + hh * 3600 + mm * 60 + ss - off) * 1000000000 + n) else None)))))))))))))"

lemma field_pad:
  assumes "0 \<le> n" and "n < 10 ^ w" and "w \<noteq> 0"
  shows "field w (pad w n @ s) = Some (n, s)"
  using pad_ok [OF assms] by (simp add: field_def)

lemma fields:
  shows "0 \<le> n \<Longrightarrow> n < 100 \<Longrightarrow> field 2 (pad 2 n @ s) = Some (n, s)"
    and "0 \<le> n \<Longrightarrow> n < 10000 \<Longrightarrow> field 4 (pad 4 n @ s) = Some (n, s)"
proof -
  have p: "(10::int) ^ 2 = 100" "(10::int) ^ 4 = 10000" "(2::nat) \<noteq> 0" "(4::nat) \<noteq> 0" by simp_all
  show "0 \<le> n \<Longrightarrow> n < 100 \<Longrightarrow> field 2 (pad 2 n @ s) = Some (n, s)"
    by (rule field_pad [of n 2 s, unfolded p(1), OF _ _ p(3)])
  show "0 \<le> n \<Longrightarrow> n < 10000 \<Longrightarrow> field 4 (pad 4 n @ s) = Some (n, s)"
    by (rule field_pad [of n 4 s, unfolded p(2), OF _ _ p(4)])
qed

lemma strip_zeros: "\<exists>k. s = rev (dropWhile (\<lambda>c. c = CHR ''0'') (rev s)) @ replicate k (CHR ''0'')"
proof -
  have "\<exists>k. takeWhile (\<lambda>c. c = z) r = replicate k z" for z :: char and r
    by (induction r) (auto intro: exI [of _ 0] exI [of _ "Suc k" for k])
  then obtain k where "takeWhile (\<lambda>c. c = CHR ''0'') (rev s) = replicate k (CHR ''0'')" by blast
  then have "rev s = replicate k (CHR ''0'') @ dropWhile (\<lambda>c. c = CHR ''0'') (rev s)" by (metis takeWhile_dropWhile_id)
  then have "s = rev (replicate k (CHR ''0'') @ dropWhile (\<lambda>c. c = CHR ''0'') (rev s))" by (metis rev_rev_ident)
  then show ?thesis by auto
qed

lemma fraction_ok:
  assumes "0 \<le> n" and "n < 1000000000"
  defines "frac \<equiv> rev (dropWhile (\<lambda>c. c = CHR ''0'') (rev (pad 9 n)))"
  shows "fraction ((if frac = [] then [] else CHR ''.'' # frac) @ ''Z'') = Some (n, ''Z'')"
proof -
  have "length (pad 9 n) = 9 \<and> list_all isDigit (pad 9 n) \<and> digitsVal (pad 9 n) = n"
    using pad_ok [of n 9] assms(1,2) by simp
  moreover obtain k where k: "pad 9 n = frac @ replicate k (CHR ''0'')" using strip_zeros unfolding frac_def by blast
  ultimately have f: "length frac + k = 9" "list_all isDigit frac" "digitsVal (frac @ replicate k (CHR ''0'')) = n" by auto
  show ?thesis
  proof (cases "frac = []")
    case True
    have "digitsVal (replicate k (CHR ''0'')) = 0" using digitsVal_zeros [of k "[]"] by (simp add: digitsVal_def)
    then show ?thesis using True f by (simp add: fraction_def expect_def)
  next
    case False
    have "takeWhile isDigit (frac @ ''Z'') = frac" "dropWhile isDigit (frac @ ''Z'') = ''Z''"
      using f(2) by (simp_all add: takeWhile_append2 dropWhile_append2 list_all_iff isDigit_def)
    moreover have "take 9 (frac @ replicate 9 (CHR ''0'')) = frac @ replicate k (CHR ''0'')"
      using f(1) by (simp add: take_replicate min_def)
    ultimately show ?thesis using False f(3) by (simp add: fraction_def expect_def Let_def)
  qed
qed

lemma parse_fields:
  assumes "0 \<le> y" "y < 10000" and "1 \<le> m" "m \<le> 12" "1 \<le> d" "d \<le> daysIn m y" and "0 \<le> hh" "hh < 24" "0 \<le> mm" "mm < 60" "0 \<le> ss" "ss < 60"
    and "fraction tail = Some (n, ''Z'')"
  shows "parseTime (pad 4 y @ ''-'' @ pad 2 m @ ''-'' @ pad 2 d @ ''T'' @ pad 2 hh @ '':'' @ pad 2 mm @ '':'' @ pad 2 ss @ tail) =
    Some ((daysOf y m d * 86400 + hh * 3600 + mm * 60 + ss) * 1000000000 + n)"
proof -
  have "d < 100" using assms(6) by (auto simp: daysIn_def split: if_splits)
  then show ?thesis using assms by (simp add: parseTime_def expect_def offset_def fields)
qed

text \<open>Reading back what was written.\<close>

theorem parse_jsonTime:
  assumes "0 \<le> fst (civil (t div 86400000000000))" and "fst (civil (t div 86400000000000)) < 10000"
  shows "parseTime (jsonTime t) = Some t"
proof -
  obtain y m d where c: "civil (t div 86400000000000) = (y, m, d)" by (cases "civil (t div 86400000000000)") auto
  note day = civil_days [OF c]
  define secs where "secs = t mod 86400000000000 div 1000000000"
  have secs: "0 \<le> secs" "secs < 86400" by (auto simp: secs_def div_less_iff_less_mult)
  have hms: "0 \<le> secs div 3600" "secs div 3600 < 24" "0 \<le> secs mod 3600 div 60" "secs mod 3600 div 60 < 60"
    "0 \<le> secs mod 60" "secs mod 60 < 60"
    using secs by (auto simp: div_less_iff_less_mult)
  have "secs mod 3600 mod 60 = secs mod 60" by (rule mod_mod_cancel) simp
  then have whole: "secs div 3600 * 3600 + secs mod 3600 div 60 * 60 + secs mod 60 = secs"
    using quotient [of 3600 secs] quotient [of 60 "secs mod 3600"] by linarith
  define tail where "tail = (if rev (dropWhile (\<lambda>c. c = CHR ''0'') (rev (pad 9 (t mod 1000000000)))) = [] then []
      else CHR ''.'' # rev (dropWhile (\<lambda>c. c = CHR ''0'') (rev (pad 9 (t mod 1000000000))))) @ ''Z''"
  have frac: "fraction tail = Some (t mod 1000000000, ''Z'')" unfolding tail_def
    by (rule fraction_ok) simp_all
  have split: "t = (D * 86400 + q) * 1000000000 + x" if "86400000000000 * D + r = t" "1000000000 * q + x = r" for D q x r :: int
    using that by simp
  have "t mod 86400000000000 mod 1000000000 = t mod 1000000000" by (rule mod_mod_cancel) simp
  then have t: "(t div 86400000000000 * 86400 + secs) * 1000000000 + t mod 1000000000 = t"
    using split [OF mult_div_mod_eq [of 86400000000000 t] mult_div_mod_eq [of 1000000000 "t mod 86400000000000"]]
    unfolding secs_def by simp
  have y: "0 \<le> y" "y < 10000" using assms c by simp_all
  have "jsonTime t = pad 4 y @ ''-'' @ pad 2 m @ ''-'' @ pad 2 d @ ''T'' @ pad 2 (secs div 3600) @ '':'' @
      pad 2 (secs mod 3600 div 60) @ '':'' @ pad 2 (secs mod 60) @ tail"
    unfolding jsonTime_def c secs_def [symmetric] Let_def prod.case tail_def [symmetric] ..
  moreover have "daysOf y m d * 86400 + secs div 3600 * 3600 + secs mod 3600 div 60 * 60 + secs mod 60 = t div 86400000000000 * 86400 + secs"
    using day whole by linarith
  ultimately show ?thesis
    using parse_fields [OF y _ _ _ _ hms frac, of m d] day t by (simp only: simp_thms)
qed

end
