(* ===== verification/Tasks.thy ===== *)
theory Tasks
  imports Effects GoTime
begin

text \<open>
  Agent tasks and command tasks: \<^verbatim>\<open>pkg/hub/workflowv2/tasks.go\<close>, \<^verbatim>\<open>exec_tasks.go\<close> and \<^verbatim>\<open>exec_receipts.go\<close>, with the
  \<^verbatim>\<open>AgentTask\<close> of \<^verbatim>\<open>pkg/types/v2/control.go\<close> and the configurations of \<^verbatim>\<open>exec_effects.go\<close>.

  A claimed effect of kind \<^verbatim>\<open>agent.task\<close>, \<^verbatim>\<open>exec.run\<close> or \<^verbatim>\<open>dependency.update\<close> becomes an assignment in the control outbox, in
  the transaction that completes the effect.  Instants are nanoseconds.  Decoding into a typed Go struct is \<open>decodeFields\<close>: a known field must have its type or be null,
  unknown fields are ignored, and field names match exactly.
\<close>

section \<open>JSON of instants and tasks\<close>

fun taskStatusName :: "agent_task_status \<Rightarrow> string" where
  "taskStatusName TaskAssigned = ''assigned''"
| "taskStatusName TaskRunning = ''running''"
| "taskStatusName TaskCompleted = ''completed''"
| "taskStatusName TaskFailed = ''failed''"
| "taskStatusName TaskCancelled = ''cancelled''"
| "taskStatusName TaskTimedOut = ''timed_out''"

record agent_task =
  gt_ID :: string
  gt_RunID :: string
  gt_AttemptID :: string
  gt_State :: string
  gt_StateVersion :: nat
  gt_Status :: agent_task_status
  gt_Instructions :: string
  gt_AllowedActions :: "string list"
  gt_RequiredArtifacts :: "string list"
  gt_HeartbeatDeadline :: int
  gt_Deadline :: int

definition omitEmptyList :: "string \<Rightarrow> string list \<Rightarrow> gmap" where
  "omitEmptyList key xs = (if xs = [] then [] else [(key, GList (map GStr xs))])"

definition taskJSON :: "agent_task \<Rightarrow> gval" where
  "taskJSON t = GMap (
     [(''id'', GStr (gt_ID t)), (''run_id'', GStr (gt_RunID t)), (''attempt_id'', GStr (gt_AttemptID t)),
      (''state'', GStr (gt_State t)), (''state_version'', GInt (int (gt_StateVersion t))),
      (''status'', GStr (taskStatusName (gt_Status t))), (''instructions'', GStr (gt_Instructions t))] @
     omitEmptyList ''allowed_actions'' (gt_AllowedActions t) @
     omitEmptyList ''required_artifacts'' (gt_RequiredArtifacts t) @
     [(''heartbeat_deadline'', GStr (jsonTime (gt_HeartbeatDeadline t))), (''deadline'', GStr (jsonTime (gt_Deadline t)))])"

text \<open>\<^verbatim>\<open>json.Marshal\<close>: the text of a canonical value, with Go's HTML-safe escapes; strings are valid UTF-8 without the two
  Unicode line separators.\<close>

definition hexDigit :: "nat \<Rightarrow> char" where
  "hexDigit n = char_of (if n < 10 then 48 + n else 87 + n)"

definition jsonChar :: "char \<Rightarrow> string" where
  "jsonChar c =
     (let n = of_char c :: nat; esc = \<lambda>x. [CHR 0x5C, x] in
      if n = 34 \<or> n = 92 then esc c
      else if n = 8 then esc (CHR ''b'') else if n = 12 then esc (CHR ''f'') else if n = 10 then esc (CHR ''n'')
      else if n = 13 then esc (CHR ''r'') else if n = 9 then esc (CHR ''t'')
      else if n < 32 \<or> n = 38 \<or> n = 60 \<or> n = 62 then esc (CHR ''u'') @ ''00'' @ [hexDigit (n div 16), hexDigit (n mod 16)]
      else [c])"

definition jsonString :: "string \<Rightarrow> string" where
  "jsonString s = [CHR 0x22] @ concat (map jsonChar s) @ [CHR 0x22]"

text \<open>A float of 22 or more digits is printed with an exponent.\<close>

definition jsonExp :: "int \<Rightarrow> string" where
  "jsonExp j =
     (let ds = natDigits \<bar>shortest_int j\<bar>; mantissa = rev (dropWhile (\<lambda>c. c = CHR ''0'') (rev ds))
      in (if j < 0 then ''-'' else []) @ take 1 mantissa @
         (if length mantissa \<le> 1 then [] else CHR ''.'' # drop 1 mantissa) @ ''e+'' @ utoa (length ds - 1))"

fun jsonText :: "jtext \<Rightarrow> string" where
  "jsonText JNull = ''null''"
| "jsonText (JBool b) = (if b then ''true'' else ''false'')"
| "jsonText (JNum i) = itoa i"
| "jsonText (JExp j) = jsonExp j"
| "jsonText (JFrac t) = t"
| "jsonText (JStr s) = jsonString s"
| "jsonText (JArr vs) = CHR ''['' # joinWith (CHR '','') (map jsonText vs) @ '']''"
| "jsonText (JObj m) = CHR 0x7B # joinWith (CHR '','') (map (\<lambda>(k, v). jsonString k @ CHR '':'' # jsonText v) m) @ [CHR 0x7D]"

definition marshalJSON :: "gval \<Rightarrow> string" where
  "marshalJSON v = jsonText (json_norm v)"

section \<open>Decoding effect payloads\<close>

datatype field_type = FStr | FStrs | FBool | FUint | FTime

fun hasFieldType :: "field_type \<Rightarrow> gval \<Rightarrow> bool" where
  "hasFieldType _ GNil = True"
| "hasFieldType FStr (GStr s) = True"
| "hasFieldType FBool (GBool b) = True"
| "hasFieldType FUint v = (case json_norm v of JNum i \<Rightarrow> 0 \<le> i \<and> i < 2 ^ 64 | _ \<Rightarrow> False)"
| "hasFieldType FTime (GStr s) = (parseTime s \<noteq> None)"
| "hasFieldType FStrs (GList vs) = list_all (\<lambda>v. case v of GStr s \<Rightarrow> True | GNil \<Rightarrow> True | _ \<Rightarrow> False) vs"
| "hasFieldType _ _ = False"

definition decodeFields :: "(string \<times> field_type) list \<Rightarrow> gval \<Rightarrow> gerr + gmap" where
  "decodeFields fs v =
     (case v of
        GNil \<Rightarrow> Inr []
      | GMap m \<Rightarrow>
          (if list_all (\<lambda>(k, x). case map_of fs k of None \<Rightarrow> True | Some ty \<Rightarrow> hasFieldType ty x) m then Inr m
           else Inl (Errf ''json: cannot unmarshal value into Go struct field'' []))
      | _ \<Rightarrow> Inl (Errf ''json: cannot unmarshal value into Go struct'' []))"

definition strField :: "gmap \<Rightarrow> string \<Rightarrow> string" where
  "strField m k = (case map_of m k of Some (GStr s) \<Rightarrow> s | _ \<Rightarrow> [])"

definition strsField :: "gmap \<Rightarrow> string \<Rightarrow> string list" where
  "strsField m k =
     (case map_of m k of Some (GList vs) \<Rightarrow> map (\<lambda>v. case v of GStr s \<Rightarrow> s | _ \<Rightarrow> []) vs | _ \<Rightarrow> [])"

definition uintField :: "gmap \<Rightarrow> string \<Rightarrow> nat" where
  "uintField m k =
     (case map_of m k of None \<Rightarrow> 0 | Some v \<Rightarrow> (case json_norm v of JNum i \<Rightarrow> nat i | _ \<Rightarrow> 0))"

text \<open>The zero \<^verbatim>\<open>time.Time\<close> is the first of January of the year 1.\<close>

definition zeroTime :: int where
  "zeroTime = -62135596800000000000"

definition timeField :: "gmap \<Rightarrow> string \<Rightarrow> int" where
  "timeField m k =
     (case map_of m k of Some (GStr s) \<Rightarrow> (case parseTime s of None \<Rightarrow> zeroTime | Some t \<Rightarrow> t) | _ \<Rightarrow> zeroTime)"

definition agentTaskFields :: "(string \<times> field_type) list" where
  "agentTaskFields = [(''prompt'', FStr), (''instructions'', FStr), (''allowed_actions'', FStrs),
     (''required_artifacts'', FStrs), (''include_facts'', FStrs)]"

definition execRunFields :: "(string \<times> field_type) list" where
  "execRunFields = [(''command'', FStr), (''timeout'', FStr)]"

definition dependencyUpdateFields :: "(string \<times> field_type) list" where
  "dependencyUpdateFields = [(''ecosystems'', FStrs), (''paths'', FStrs), (''exclude_paths'', FStrs), (''grouping'', FStr),
     (''include_major'', FBool), (''separate_major'', FBool), (''separate_security'', FBool), (''separate_runtime'', FBool),
     (''allow'', FStrs), (''ignore'', FStrs), (''timeout'', FStr)]"

section \<open>The control outbox\<close>

definition newOutbox :: "envelope \<Rightarrow> int \<Rightarrow> outbox_row" where
  "newOutbox en now =
     \<lparr>ob_MessageID = en_MessageID en, ob_RunID = en_RunID en, ob_AttemptID = en_AttemptID en, ob_TaskID = en_TaskID en,
      ob_Kind = en_Kind en, ob_Envelope = en, ob_Status = OutPending, ob_AttemptCount = 0, ob_NextAttemptAt = 0,
      ob_LastError = [], ob_CreatedAt = unixMilli now, ob_UpdatedAt = unixMilli now, ob_AcknowledgedAt = 0\<rparr>"

definition insertOutbox :: "envelope \<Rightarrow> int \<Rightarrow> unit tx" where
  "insertOutbox en now =
     bindT (getsT (\<lambda>s. en_MessageID en \<in> ob_MessageID ` set (db_outbox s))) (\<lambda>dup.
     thenT (whenT dup (uniqueError ''workflow_v2_control_outbox.message_id''))
     (modifyT (\<lambda>s. s\<lparr>db_outbox := db_outbox s @ [newOutbox en now]\<rparr>)))"

definition insertTask :: "task_row \<Rightarrow> unit tx" where
  "insertTask t =
     bindT (getsT (\<lambda>s. tk_ID t \<in> tk_ID ` set (db_tasks s))) (\<lambda>dup.
     thenT (whenT dup (uniqueError ''workflow_v2_agent_tasks.id''))
     (modifyT (\<lambda>s. s\<lparr>db_tasks := db_tasks s @ [t]\<rparr>)))"

section \<open>Materialising a claimed effect\<close>

record leased_effect =
  le_RunID :: string
  le_AttemptID :: string
  le_State :: string
  le_StateVersion :: nat
  le_Kind :: string
  le_Payload :: gval

definition leasedTo :: "int \<Rightarrow> string \<Rightarrow> string \<Rightarrow> effect_row \<Rightarrow> bool" where
  "leasedTo now effectID worker e \<longleftrightarrow> ef_ID e = effectID \<and> ef_Status e = EffectRunning \<and> ef_LeaseOwner e = worker \<and>
     unixMilli now \<le> ef_LeaseExpiresAt e"

definition attemptRunning :: "string \<Rightarrow> string \<Rightarrow> effect_attempt_row \<Rightarrow> bool" where
  "attemptRunning effectID effectAttemptID a \<longleftrightarrow>
     ea_ID a = effectAttemptID \<and> ea_EffectID a = effectID \<and> ea_Status a = EffectRunning"

text \<open>The join of the effect, its running attempt and its active run.\<close>

definition findLeased :: "int \<Rightarrow> string \<Rightarrow> string \<Rightarrow> string \<Rightarrow> store \<Rightarrow> leased_effect option" where
  "findLeased now effectID effectAttemptID worker s =
     (case find (leasedTo now effectID worker) (db_effects s) of
        None \<Rightarrow> None
      | Some e \<Rightarrow>
          if \<not> list_ex (attemptRunning effectID effectAttemptID) (db_effect_attempts s) then None
          else map_option (\<lambda>r.
            \<lparr>le_RunID = run_ID r, le_AttemptID = run_CurrentAttemptID r, le_State = run_State r,
             le_StateVersion = run_StateVersion r, le_Kind = ef_Kind e, le_Payload = ef_Payload e\<rparr>)
            (find (\<lambda>r. run_ID r = ef_RunID e \<and> run_Status r = RunActive) (db_runs s)))"

definition requireActiveAttempt :: "leased_effect \<Rightarrow> unit tx" where
  "requireActiveAttempt l =
     thenT (whenT (le_AttemptID l = []) (Errf ''run %s has no active attempt'' [le_RunID l]))
     (bindT (getsT (\<lambda>s. list_ex (attemptActive (le_AttemptID l) (le_RunID l)) (db_attempts s))) (\<lambda>active.
      whenT (\<not> active) (Wrapf ''load active run attempt: %w'' [] errNoRows)))"

definition materialiseReceipt :: "string \<Rightarrow> string \<Rightarrow> gmap" where
  "materialiseReceipt taskID messageID = [(''message_id'', GStr messageID), (''task_id'', GStr taskID)]"

definition succeedAttempt :: "int \<Rightarrow> string \<Rightarrow> gmap \<Rightarrow> effect_attempt_row \<Rightarrow> effect_attempt_row" where
  "succeedAttempt now runAttemptID receipt a =
     a\<lparr>ea_Status := EffectSucceeded, ea_AttemptID := runAttemptID, ea_Receipt := receipt, ea_FinishedAt := unixMilli now\<rparr>"

definition succeedEffect :: "int \<Rightarrow> gmap \<Rightarrow> effect_row \<Rightarrow> effect_row" where
  "succeedEffect now receipt e =
     e\<lparr>ef_Status := EffectSucceeded, ef_LeaseOwner := [], ef_LeaseExpiresAt := 0, ef_Receipt := receipt,
       ef_LastError := [], ef_UpdatedAt := unixMilli now\<rparr>"

definition succeedLeased ::
    "int \<Rightarrow> string \<Rightarrow> string \<Rightarrow> string \<Rightarrow> string \<Rightarrow> gmap \<Rightarrow> string \<Rightarrow> unit tx" where
  "succeedLeased now effectID effectAttemptID worker runAttemptID receipt changedError =
     bindT (updateT db_effect_attempts db_effect_attempts_update (attemptRunning effectID effectAttemptID)
       (succeedAttempt now runAttemptID receipt)) (\<lambda>_.
     bindT (updateT db_effects db_effects_update
       (\<lambda>e. ef_ID e = effectID \<and> ef_Status e = EffectRunning \<and> ef_LeaseOwner e = worker)
       (succeedEffect now receipt)) (\<lambda>changed.
     whenT (changed \<noteq> 1) (Errf changedError [])))"

section \<open>Agent tasks\<close>

definition includeFact :: "string \<Rightarrow> store \<Rightarrow> gerr + (string list \<times> gmap) \<Rightarrow> string \<Rightarrow> gerr + (string list \<times> gmap)" where
  "includeFact runID s acc raw =
     bindE acc (\<lambda>(seen, values).
     let key = trimSpace raw in
     bindE (whenE (key = [] \<or> key \<in> set seen)
       (Errf ''agent task effect include_facts must contain unique non-empty keys'' [])) (\<lambda>_.
     case find (\<lambda>f. fc_RunID f = runID \<and> fc_Key f = key) (db_facts s) of
       None \<Rightarrow> Inl (Errf ''agent task required fact %q is unavailable'' [key])
     | Some f \<Rightarrow> Inr (key # seen, AList.update key (fc_Value f) values)))"

definition includedFacts :: "string \<Rightarrow> string list \<Rightarrow> store \<Rightarrow> gerr + gmap" where
  "includedFacts runID keys s = bindE (foldl (includeFact runID s) (Inr ([], [])) keys) (\<lambda>(_, values). Inr values)"

definition taskInstructions :: "string \<Rightarrow> gmap \<Rightarrow> string tx" where
  "taskInstructions runID payload =
     (let own = trimSpace (strField payload ''instructions'');
          instructions = (if own = [] then trimSpace (strField payload ''prompt'') else own);
          keys = strsField payload ''include_facts'' in
      thenT (whenT (instructions = []) (Errf ''agent task effect instructions are required'' []))
      (thenT (whenT (20 < length keys) (Errf ''agent task effect includes more than 20 facts'' []))
      (if keys = [] then returnT instructions
       else bindT (getsT (includedFacts runID keys)) (\<lambda>r. bindT (liftT r) (\<lambda>values.
         returnT (instructions @ [CHR 0x0A, CHR 0x0A] @ ''Typed workflow facts:'' @ [CHR 0x0A] @ marshalJSON (GMap values)))))))"

definition positiveOr :: "int \<Rightarrow> int \<Rightarrow> int" where
  "positiveOr d n = (if n \<le> 0 then d else n)"

definition twoHours :: int where
  "twoHours = 7200000000000"

definition agentTaskOf :: "int \<Rightarrow> int \<Rightarrow> int \<Rightarrow> leased_effect \<Rightarrow> gmap \<Rightarrow> string \<Rightarrow> string \<Rightarrow> agent_task" where
  "agentTaskOf now heartbeatTimeout taskTimeout l payload instructions taskID =
     \<lparr>gt_ID = taskID, gt_RunID = le_RunID l, gt_AttemptID = le_AttemptID l, gt_State = le_State l,
      gt_StateVersion = le_StateVersion l, gt_Status = TaskAssigned, gt_Instructions = instructions,
      gt_AllowedActions = strsField payload ''allowed_actions'',
      gt_RequiredArtifacts = strsField payload ''required_artifacts'',
      gt_HeartbeatDeadline = now + heartbeatTimeout, gt_Deadline = now + taskTimeout\<rparr>"

definition taskRow :: "agent_task \<Rightarrow> string \<Rightarrow> int \<Rightarrow> task_row" where
  "taskRow t effectID now =
     \<lparr>tk_ID = gt_ID t, tk_RunID = gt_RunID t, tk_EffectID = effectID, tk_AttemptID = gt_AttemptID t, tk_State = gt_State t,
      tk_StateVersion = gt_StateVersion t, tk_Status = gt_Status t, tk_Instructions = gt_Instructions t,
      tk_AllowedActions = gt_AllowedActions t, tk_RequiredArtifacts = gt_RequiredArtifacts t,
      tk_HeartbeatDeadline = unixMilli (gt_HeartbeatDeadline t), tk_Deadline = unixMilli (gt_Deadline t),
      tk_LastHeartbeatAt = 0, tk_TerminalReason = [], tk_CreatedAt = unixMilli now, tk_UpdatedAt = unixMilli now,
      tk_FinishedAt = 0\<rparr>"

definition assignment :: "string \<Rightarrow> string \<Rightarrow> string \<Rightarrow> string \<Rightarrow> string \<Rightarrow> nat \<Rightarrow> string \<Rightarrow> int \<Rightarrow> gval \<Rightarrow> envelope" where
  "assignment messageID kind runID attemptID taskID version cause now payload =
     \<lparr>en_ProtocolVersion = 2, en_MessageID = messageID, en_Kind = kind, en_RunID = runID, en_AttemptID = attemptID,
      en_TaskID = taskID, en_ExpectedStateVersion = Some version, en_CausationID = cause, en_SentAt = now,
      en_Payload = Some payload\<rparr>"

definition currentRun :: "leased_effect \<Rightarrow> run_row \<Rightarrow> bool" where
  "currentRun l r \<longleftrightarrow> run_ID r = le_RunID l \<and> run_CurrentAttemptID r = le_AttemptID l \<and> run_State r = le_State l \<and>
     run_StateVersion r = le_StateVersion l \<and> run_Status r = RunActive"

definition queueAssignment :: "rt_env \<Rightarrow> int \<Rightarrow> string \<Rightarrow> string \<Rightarrow> leased_effect \<Rightarrow> string \<Rightarrow> gval \<Rightarrow> envelope tx" where
  "queueAssignment env now effectID kind l taskID payload =
     bindT (freshUUID env) (\<lambda>messageID.
     let en = assignment messageID kind (le_RunID l) (le_AttemptID l) taskID (le_StateVersion l) effectID now payload in
     thenT (liftT (ValidateControlEnvelope en ''hub_to_claw''))
     (thenT (insertOutbox en now) (returnT en)))"

definition assignAgentTask :: "rt_env \<Rightarrow> int \<Rightarrow> string \<Rightarrow> int \<Rightarrow> int \<Rightarrow> leased_effect \<Rightarrow> (agent_task \<times> envelope) tx" where
  "assignAgentTask env now effectID heartbeatTimeout taskTimeout l =
     thenT (whenT (le_Kind l \<noteq> ''agent.task'') (Errf ''effect %s has kind %q, want agent.task'' [effectID, le_Kind l]))
     (thenT (requireActiveAttempt l)
     (bindT (liftT (wrapE ''decode agent task effect: %w'' [] (decodeFields agentTaskFields (le_Payload l)))) (\<lambda>payload.
      bindT (taskInstructions (le_RunID l) payload) (\<lambda>instructions.
      bindT (freshUUID env) (\<lambda>taskID.
      let task = agentTaskOf now (positiveOr twoMinutes heartbeatTimeout) (positiveOr twoHours taskTimeout) l payload
            instructions taskID in
      thenT (insertTask (taskRow task effectID now))
      (bindT (updateT db_runs db_runs_update (currentRun l)
         (\<lambda>r. r\<lparr>run_CurrentTaskID := taskID, run_UpdatedAt := unixMilli now\<rparr>)) (\<lambda>changed.
       thenT (whenT (changed \<noteq> 1) (Errf ''run changed while materializing agent task'' []))
       (bindT (queueAssignment env now effectID ''agent.task.assign'' l taskID (taskJSON task)) (\<lambda>en.
        returnT (task, en))))))))))"

definition MaterializeAgentTask ::
    "rt_env \<Rightarrow> int \<Rightarrow> string \<Rightarrow> string \<Rightarrow> string \<Rightarrow> int \<Rightarrow> int \<Rightarrow> agent_task tx" where
  "MaterializeAgentTask env now effectID effectAttemptID worker heartbeatTimeout taskTimeout =
     thenT (whenT (blank effectID \<or> blank effectAttemptID \<or> blank worker)
       (Errf ''effect id, effect attempt id, and worker are required'' []))
     (bindT (scanT (Errf ''agent task effect is not actively leased'' []) (findLeased now effectID effectAttemptID worker)) (\<lambda>l.
      bindT (assignAgentTask env now effectID heartbeatTimeout taskTimeout l) (\<lambda>(task, en).
      thenT (succeedLeased now effectID effectAttemptID worker (le_AttemptID l)
        (materialiseReceipt (gt_ID task) (en_MessageID en)) ''agent task effect lease changed while materializing'')
      (returnT task))))"

section \<open>Overdue tasks\<close>

text \<open>\<^verbatim>\<open>ORDER BY created_at, id\<close>.\<close>

definition taskExpired :: "int \<Rightarrow> task_row \<Rightarrow> bool" where
  "taskExpired now t \<longleftrightarrow> taskOpen t \<and> (tk_Deadline t < unixMilli now \<or> tk_HeartbeatDeadline t < unixMilli now)"

definition missedDeadline :: "string \<Rightarrow> string" where
  "missedDeadline taskID = ''agent task '' @ taskID @ '' missed its heartbeat or execution deadline''"

definition expireTask :: "int \<Rightarrow> task_row \<Rightarrow> unit tx" where
  "expireTask now task =
     (let reason = missedDeadline (tk_ID task) in
      bindT (updateT db_tasks db_tasks_update (\<lambda>t. tk_ID t = tk_ID task \<and> taskOpen t)
        (\<lambda>t. t\<lparr>tk_Status := TaskTimedOut, tk_TerminalReason := reason, tk_UpdatedAt := unixMilli now,
               tk_FinishedAt := unixMilli now\<rparr>)) (\<lambda>_.
      bindT (updateT db_runs db_runs_update
        (\<lambda>r. run_ID r = tk_RunID task \<and> run_CurrentTaskID r = tk_ID task \<and> run_Status r = RunActive)
        (\<lambda>r. r\<lparr>run_Status := RunSuspended, run_WaitingReason := reason, run_UpdatedAt := unixMilli now\<rparr>)) (\<lambda>_.
      returnT ())))"

definition expiredTasks :: "int \<Rightarrow> store \<Rightarrow> task_row list" where
  "expiredTasks now s = sort_key (\<lambda>t. (tk_CreatedAt t, tk_ID t)) (filter (taskExpired now) (db_tasks s))"

definition ExpireAgentTasks :: "int \<Rightarrow> string list tx" where
  "ExpireAgentTasks now =
     bindT (getsT (expiredTasks now)) (\<lambda>expired.
     thenT (forT (expireTask now) expired) (returnT (map tk_ID expired)))"

section \<open>Command tasks\<close>

definition commandAssignmentKind :: "string \<Rightarrow> string \<Rightarrow> gval \<Rightarrow> gerr + string" where
  "commandAssignmentKind effectID kind payload =
     (if kind = ''exec.run'' then
        bindE (wrapE ''decode exec.run effect: %w'' [] (decodeFields execRunFields payload)) (\<lambda>cfg.
        bindE (whenE (blank (strField cfg ''command'')) (Errf ''exec.run effect command is required'' [])) (\<lambda>_.
        Inr ''exec.run.assign''))
      else if kind = ''dependency.update'' then
        bindE (wrapE ''decode dependency.update effect: %w'' [] (decodeFields dependencyUpdateFields payload)) (\<lambda>cfg.
        bindE (whenE (strsField cfg ''ecosystems'' = []) (Errf ''dependency.update effect ecosystems are required'' [])) (\<lambda>_.
        Inr ''dependency.update.assign''))
      else Inl (Errf ''effect %s has kind %q, want exec.run or dependency.update'' [effectID, kind]))"

definition assignCommandTask :: "rt_env \<Rightarrow> int \<Rightarrow> string \<Rightarrow> leased_effect \<Rightarrow> envelope tx" where
  "assignCommandTask env now effectID l =
     thenT (requireActiveAttempt l)
     (bindT (freshUUID env) (\<lambda>taskID.
      bindT (liftT (commandAssignmentKind effectID (le_Kind l) (le_Payload l))) (\<lambda>kind.
      queueAssignment env now effectID kind l taskID (le_Payload l))))"

definition MaterializeCommandTask :: "rt_env \<Rightarrow> int \<Rightarrow> string \<Rightarrow> string \<Rightarrow> string \<Rightarrow> envelope tx" where
  "MaterializeCommandTask env now effectID effectAttemptID worker =
     thenT (whenT (blank effectID \<or> blank effectAttemptID \<or> blank worker)
       (Errf ''effect id, effect attempt id, and worker are required'' []))
     (bindT (scanT (Errf ''command effect is not actively leased'' []) (findLeased now effectID effectAttemptID worker)) (\<lambda>l.
      bindT (assignCommandTask env now effectID l) (\<lambda>en.
      thenT (succeedLeased now effectID effectAttemptID worker (le_AttemptID l)
        (materialiseReceipt (en_TaskID en) (en_MessageID en)) ''command effect lease changed while materializing'')
      (returnT en))))"

section \<open>Command receipts\<close>

definition setIfPresent :: "gmap \<Rightarrow> string \<Rightarrow> string \<Rightarrow> gmap \<Rightarrow> gmap" where
  "setIfPresent receipt key target facts =
     (case map_of receipt key of None \<Rightarrow> facts | Some v \<Rightarrow> AList.update target v facts)"

definition renameFact :: "string \<Rightarrow> string \<Rightarrow> gmap \<Rightarrow> gmap" where
  "renameFact old new facts =
     (case map_of facts old of None \<Rightarrow> facts | Some v \<Rightarrow> AList.delete old (AList.update new v facts))"

definition execReceiptKeys :: "string list" where
  "execReceiptKeys = [''exit_code'', ''succeeded'', ''stdout'', ''stderr'', ''error'']"

definition dependencyReceiptKeys :: "string list" where
  "dependencyReceiptKeys =
     [''ecosystems'', ''manifests'', ''updates'', ''commands'', ''files_changed'', ''succeeded'', ''error'']"

definition commandReceiptFacts :: "string \<Rightarrow> gmap \<Rightarrow> gmap" where
  "commandReceiptFacts kind receipt =
     (if kind = ''exec.run.completed'' \<or> kind = ''exec.run.failed'' then
        let facts = foldl (\<lambda>m key. setIfPresent receipt key (''exec.'' @ key) m) [] execReceiptKeys
        in foldl (\<lambda>m key. renameFact (''exec.'' @ key) (''exec.last_run.'' @ key) m) facts
             [''succeeded'', ''exit_code'', ''stdout'', ''stderr'', ''error'']
      else if kind = ''dependency.update.completed'' \<or> kind = ''dependency.update.failed'' then
        foldl (\<lambda>m key. setIfPresent receipt key (''exec.dependency_update.'' @ key) m) [] dependencyReceiptKeys
      else [])"

text \<open>\<^verbatim>\<open>json.Unmarshal\<close> of an optional raw payload into a map.\<close>

definition payloadObject :: "gval option \<Rightarrow> gerr + gmap" where
  "payloadObject p =
     (case p of
        None \<Rightarrow> Inr []
      | Some (GMap m) \<Rightarrow> Inr m
      | Some GNil \<Rightarrow> Inr []
      | Some _ \<Rightarrow> Inl (Errf ''json: cannot unmarshal value into Go value of type map[string]interface {}'' []))"

definition boundInput :: "envelope \<Rightarrow> string \<Rightarrow> producer \<Rightarrow> int \<Rightarrow> gmap \<Rightarrow> gmap \<Rightarrow> event_input" where
  "boundInput en taskID p observed payload facts =
     \<lparr>in_ID = en_MessageID en, in_MessageID = en_MessageID en, in_Kind = en_Kind en, in_AttemptID = en_AttemptID en,
      in_TaskID = taskID, in_Expected = en_ExpectedStateVersion en, in_Producer = p,
      in_Provenance = \<lparr>pv_Producer = producerName p, pv_Connection = [], pv_Principal = [], pv_ObservedAt = observed,
        pv_ExternalID = [], pv_Reconciled = False\<rparr>,
      in_Payload = payload, in_Facts = facts\<rparr>"

definition eventReceipt :: "envelope \<Rightarrow> event_result \<Rightarrow> control_receipt" where
  "eventReceipt en r = \<lparr>cr_MessageID = en_MessageID en, cr_Disposition = er_Disposition r,
     cr_StateVersion = run_StateVersion (er_Run r), cr_Reason = er_Reason r\<rparr>"

definition ApplyCommandReceipt :: "rt_env \<Rightarrow> int \<Rightarrow> int \<Rightarrow> envelope \<Rightarrow> control_receipt tx" where
  "ApplyCommandReceipt env observed now en =
     thenT (liftT (ValidateControlEnvelope en ''claw_to_hub''))
     (bindT (liftT (payloadObject (en_Payload en))) (\<lambda>payload.
      bindT (ApplyEvent env now None (en_RunID en)
        (boundInput en [] ProducerEngine observed [] (commandReceiptFacts (en_Kind en) payload))) (\<lambda>r.
      returnT (eventReceipt en r))))"

end
