(* ===== verification/Attempts.thy ===== *)
theory Attempts
  imports Tasks
begin

text \<open>
  Attempts and control messages on the hub: the operations of \<^verbatim>\<open>pkg/hub/workflowv2/control.go\<close> on the attempts, the control
  outbox and the messages of a claw.  \<^verbatim>\<open>Snapshot\<close> is left out (it reads the context and delivery tables).
\<close>

record attempt_view =
  ax_ID :: string
  ax_RunID :: string
  ax_ClawID :: string
  ax_Number :: nat
  ax_Status :: attempt_status
  ax_StartedAt :: int
  ax_HeartbeatAt :: int
  ax_FinishedAt :: int

record control_binding =
  cb_RunID :: string
  cb_AttemptID :: string

definition runLive :: "run_row \<Rightarrow> bool" where
  "runLive r \<longleftrightarrow> run_Status r = RunActive \<or> run_Status r = RunSuspended"

definition attemptLive :: "attempt_row \<Rightarrow> bool" where
  "attemptLive a \<longleftrightarrow> at_Status a = AttProvisioning \<or> at_Status a = AttActive"

definition outboxOpen :: "outbox_row \<Rightarrow> bool" where
  "outboxOpen m \<longleftrightarrow> ob_Status m = OutPending \<or> ob_Status m = OutSent"

section \<open>Who speaks for a run\<close>

definition OwnsClawExecution :: "string \<Rightarrow> string \<Rightarrow> bool tx" where
  "OwnsClawExecution tenantID clawID =
     thenT (whenT (blank tenantID \<or> blank clawID) (Errf ''tenant id and claw id are required'' []))
     (getsT (\<lambda>s. list_ex (\<lambda>a. at_ClawID a = clawID \<and>
        list_ex (\<lambda>r. run_ID r = at_RunID a \<and> run_TenantID r = tenantID) (db_runs s)) (db_attempts s)))"

definition bindingsOf :: "string \<Rightarrow> string \<Rightarrow> store \<Rightarrow> control_binding list" where
  "bindingsOf tenantID clawID s =
     map (\<lambda>r. \<lparr>cb_RunID = run_ID r, cb_AttemptID = run_CurrentAttemptID r\<rparr>)
       (sort_key (\<lambda>r. (- run_UpdatedAt r, run_ID r))
         (filter (\<lambda>r. run_TenantID r = tenantID \<and> runLive r \<and>
            list_ex (\<lambda>a. at_ID a = run_CurrentAttemptID r \<and> at_ClawID a = clawID \<and> at_Status a = AttActive) (db_attempts s))
          (db_runs s)))"

definition ActiveControlBinding :: "string \<Rightarrow> string \<Rightarrow> control_binding option tx" where
  "ActiveControlBinding tenantID clawID =
     thenT (whenT (blank tenantID \<or> blank clawID) (Errf ''tenant id and claw id are required'' []))
     (bindT (getsT (\<lambda>s. take 2 (bindingsOf tenantID clawID s))) (\<lambda>bindings.
      if bindings = [] then returnT None
      else thenT (whenT (1 < length bindings) (Errf ''claw %s has multiple active workflow v2 attempts'' [clawID]))
        (returnT (Some (hd bindings)))))"

definition attemptAuthorized :: "string \<Rightarrow> string \<Rightarrow> string \<Rightarrow> string \<Rightarrow> store \<Rightarrow> bool" where
  "attemptAuthorized runID attemptID clawID tenantID s \<longleftrightarrow>
     list_ex (\<lambda>r. run_ID r = runID \<and> run_TenantID r = tenantID \<and> run_CurrentAttemptID r = attemptID) (db_runs s) \<and>
     list_ex (\<lambda>a. attemptActive attemptID runID a \<and> at_ClawID a = clawID) (db_attempts s)"

definition AuthorizeControlAttempt :: "string \<Rightarrow> string \<Rightarrow> string \<Rightarrow> string \<Rightarrow> unit tx" where
  "AuthorizeControlAttempt runID attemptID clawID tenantID =
     bindT (getsT (attemptAuthorized runID attemptID clawID tenantID)) (\<lambda>found.
     whenT (\<not> found) (Errf ''active workflow attempt not found'' []))"

section \<open>Starting an attempt\<close>

definition supersededReason :: string where
  "supersededReason = ''superseded by a new attempt''"

definition replacementTask :: "int \<Rightarrow> string \<Rightarrow> string \<Rightarrow> task_row \<Rightarrow> agent_task" where
  "replacementTask now attemptID taskID t =
     \<lparr>gt_ID = taskID, gt_RunID = [], gt_AttemptID = attemptID, gt_State = tk_State t, gt_StateVersion = tk_StateVersion t,
      gt_Status = TaskAssigned, gt_Instructions = tk_Instructions t, gt_AllowedActions = tk_AllowedActions t,
      gt_RequiredArtifacts = tk_RequiredArtifacts t, gt_HeartbeatDeadline = now + twoMinutes,
      gt_Deadline = tk_Deadline t * 1000000\<rparr>"

definition replaceTask :: "rt_env \<Rightarrow> int \<Rightarrow> string \<Rightarrow> string \<Rightarrow> task_row \<Rightarrow> string tx" where
  "replaceTask env now runID attemptID t =
     bindT (updateT db_tasks db_tasks_update (\<lambda>x. tk_ID x = tk_ID t \<and> tk_RunID x = runID \<and> taskOpen x)
       (\<lambda>x. x\<lparr>tk_Status := TaskCancelled, tk_TerminalReason := supersededReason, tk_UpdatedAt := unixMilli now,
              tk_FinishedAt := unixMilli now\<rparr>)) (\<lambda>_.
     bindT (freshUUID env) (\<lambda>taskID.
     let task = replacementTask now attemptID taskID t in
     thenT (insertTask ((taskRow task (tk_EffectID t) now)\<lparr>tk_RunID := runID\<rparr>))
     (bindT (freshUUID env) (\<lambda>messageID.
      thenT (insertOutbox (assignment messageID ''agent.task.assign'' runID attemptID taskID (tk_StateVersion t) (tk_ID t) now
        (taskJSON task)) now)
      (returnT taskID)))))"

definition replaceCurrentTask :: "rt_env \<Rightarrow> int \<Rightarrow> string \<Rightarrow> string \<Rightarrow> string \<Rightarrow> string tx" where
  "replaceCurrentTask env now runID attemptID currentTaskID =
     (if currentTaskID = [] then returnT []
      else bindT (getsT (\<lambda>s. find (\<lambda>t. tk_ID t = currentTaskID \<and> tk_RunID t = runID) (db_tasks s))) (\<lambda>old.
        case old of
          None \<Rightarrow> returnT []
        | Some t \<Rightarrow> if taskOpen t then replaceTask env now runID attemptID t else returnT []))"

definition nextAttemptNumber :: "string \<Rightarrow> store \<Rightarrow> nat" where
  "nextAttemptNumber runID s =
     foldl max 0 (map at_Number (filter (\<lambda>a. at_RunID a = runID) (db_attempts s))) + 1"

definition loseAttempts :: "string \<Rightarrow> int \<Rightarrow> nat tx" where
  "loseAttempts runID now = updateT db_attempts db_attempts_update (\<lambda>a. at_RunID a = runID \<and> attemptLive a)
     (\<lambda>a. a\<lparr>at_Status := AttLost, at_FinishedAt := unixMilli now, at_Reason := supersededReason\<rparr>)"

definition bindRun :: "string \<Rightarrow> string \<Rightarrow> string \<Rightarrow> int \<Rightarrow> nat tx" where
  "bindRun runID attemptID taskID now = updateT db_runs db_runs_update (\<lambda>r. run_ID r = runID)
     (\<lambda>r. r\<lparr>run_CurrentAttemptID := attemptID, run_CurrentTaskID := taskID, run_UpdatedAt := unixMilli now\<rparr>)"

definition openAttempt :: "rt_env \<Rightarrow> int \<Rightarrow> string \<Rightarrow> string \<Rightarrow> (string \<times> nat) tx" where
  "openAttempt env now runID clawID =
     bindT (loseAttempts runID now) (\<lambda>_.
     bindT (getsT (nextAttemptNumber runID)) (\<lambda>number.
     bindT (freshUUID env) (\<lambda>attemptID.
     thenT (insertAttemptRow (newAttemptRow attemptID runID clawID number now))
     (thenT (cancelOutbox runID (\<lambda>m. m) now)
     (returnT (attemptID, number))))))"

definition StartAttempt :: "rt_env \<Rightarrow> int \<Rightarrow> string \<Rightarrow> string \<Rightarrow> attempt_view tx" where
  "StartAttempt env now runID clawID =
     thenT (whenT (blank runID \<or> blank clawID) (Errf ''run id and claw id are required'' []))
     (bindT (GetRun runID) (\<lambda>r.
      thenT (whenT (\<not> runLive r) (Errf ''cannot start attempt for %s run'' [runStatusName (run_Status r)]))
      (bindT (openAttempt env now runID clawID) (\<lambda>(attemptID, number).
       bindT (replaceCurrentTask env now runID attemptID (run_CurrentTaskID r)) (\<lambda>taskID.
       bindT (bindRun runID attemptID taskID now) (\<lambda>_.
       returnT \<lparr>ax_ID = attemptID, ax_RunID = runID, ax_ClawID = clawID, ax_Number = number, ax_Status = AttActive,
         ax_StartedAt = now, ax_HeartbeatAt = 0, ax_FinishedAt = 0\<rparr>))))))"

section \<open>The control outbox\<close>

definition EnqueueControl :: "int \<Rightarrow> envelope \<Rightarrow> unit tx" where
  "EnqueueControl now envelope0 =
     thenT (liftT (ValidateControlEnvelope envelope0 ''hub_to_claw''))
     (bindT (GetRun (en_RunID envelope0)) (\<lambda>r.
      thenT (whenT (\<not> runLive r) (Errf ''cannot enqueue control for %s run'' [runStatusName (run_Status r)]))
      (let en = (if en_AttemptID envelope0 = [] then envelope0\<lparr>en_AttemptID := run_CurrentAttemptID r\<rparr> else envelope0) in
       thenT (whenT (en_AttemptID en = [] \<or> en_AttemptID en \<noteq> run_CurrentAttemptID r)
         (Errf ''control envelope does not target the current attempt'' []))
       (thenT (whenT (en_ExpectedStateVersion en \<noteq> None \<and> en_ExpectedStateVersion en \<noteq> Some (run_StateVersion r))
         (Errf ''control envelope state version %d is stale; current version is %d''
           [utoa (the (en_ExpectedStateVersion en)), utoa (run_StateVersion r)]))
       (bindT (getsT (\<lambda>s. en_MessageID en \<in> ob_MessageID ` set (db_outbox s))) (\<lambda>known.
        if known then returnT () else insertOutbox en now))))))"

definition controlReady :: "string \<Rightarrow> string \<Rightarrow> int \<Rightarrow> store \<Rightarrow> outbox_row \<Rightarrow> bool" where
  "controlReady runID attemptID now s m \<longleftrightarrow>
     ob_RunID m = runID \<and> ob_AttemptID m = attemptID \<and>
     list_ex (\<lambda>r. run_ID r = ob_RunID m \<and> run_CurrentAttemptID r = ob_AttemptID m) (db_runs s) \<and>
     list_ex (\<lambda>a. at_ID a = ob_AttemptID m \<and> at_Status a = AttActive) (db_attempts s) \<and>
     outboxOpen m \<and> ob_NextAttemptAt m \<le> unixMilli now"

definition ReadyControl :: "int \<Rightarrow> string \<Rightarrow> string \<Rightarrow> int \<Rightarrow> envelope list tx" where
  "ReadyControl now runID attemptID limit0 =
     (let limit = (if limit0 \<le> 0 \<or> 100 < limit0 then 100 else limit0) in
      getsT (\<lambda>s. map ob_Envelope (take (nat limit) (sort_key (\<lambda>m. (ob_CreatedAt m, ob_MessageID m))
        (filter (controlReady runID attemptID now s) (db_outbox s))))))"

definition MarkControlSent :: "int \<Rightarrow> string \<Rightarrow> unit tx" where
  "MarkControlSent now messageID =
     bindT (updateT db_outbox db_outbox_update (\<lambda>m. ob_MessageID m = messageID \<and> outboxOpen m)
       (\<lambda>m. m\<lparr>ob_Status := OutSent, ob_AttemptCount := ob_AttemptCount m + 1,
              ob_NextAttemptAt := unixMilli (now + 5000000000), ob_UpdatedAt := unixMilli now\<rparr>)) (\<lambda>_. returnT ())"

definition outboxFor :: "string \<Rightarrow> string \<Rightarrow> string \<Rightarrow> outbox_row \<Rightarrow> bool" where
  "outboxFor messageID runID attemptID m \<longleftrightarrow>
     ob_MessageID m = messageID \<and> ob_RunID m = runID \<and> ob_AttemptID m = attemptID \<and> outboxOpen m"

definition settleOutbox :: "outbox_status \<Rightarrow> int \<Rightarrow> string \<Rightarrow> string \<Rightarrow> string \<Rightarrow> unit tx" where
  "settleOutbox status now runID attemptID messageID =
     bindT (updateT db_outbox db_outbox_update (outboxFor messageID runID attemptID)
       (\<lambda>m. m\<lparr>ob_Status := status, ob_AcknowledgedAt := unixMilli now, ob_UpdatedAt := unixMilli now\<rparr>)) (\<lambda>changed.
     whenT (changed \<noteq> 1) (Errf ''control message is not pending for this attempt'' []))"

definition rejectedReason :: "control_receipt \<Rightarrow> string" where
  "rejectedReason receipt =
     (let reason = ''control message '' @ cr_MessageID receipt @ '' was '' @ dispositionName (cr_Disposition receipt) @
            '' by the claw'';
          detail = trimSpace (cr_Reason receipt)
      in if detail = [] then reason else reason @ '': '' @ take 500 detail)"

definition rejectControl :: "int \<Rightarrow> string \<Rightarrow> string \<Rightarrow> control_receipt \<Rightarrow> unit tx" where
  "rejectControl now runID attemptID receipt =
     thenT (settleOutbox OutCancelled now runID attemptID (cr_MessageID receipt))
     (bindT (updateT db_runs db_runs_update
        (\<lambda>r. run_ID r = runID \<and> run_CurrentAttemptID r = attemptID \<and> runLive r)
        (\<lambda>r. r\<lparr>run_Status := RunSuspended, run_WaitingReason := rejectedReason receipt,
               run_UpdatedAt := unixMilli now\<rparr>)) (\<lambda>changed.
      whenT (changed \<noteq> 1) (Errf ''workflow attempt is no longer active'' [])))"

definition AcknowledgeControl :: "int \<Rightarrow> string \<Rightarrow> string \<Rightarrow> control_receipt \<Rightarrow> unit tx" where
  "AcknowledgeControl now runID attemptID receipt =
     thenT (whenT (blank (cr_MessageID receipt)) (Errf ''message id is required'' []))
     (if cr_Disposition receipt = DispAccepted \<or> cr_Disposition receipt = DispDuplicate
      then settleOutbox OutAcknowledged now runID attemptID (cr_MessageID receipt)
      else rejectControl now runID attemptID receipt)"

section \<open>Messages of a claw\<close>

definition ApplyAgentControl :: "rt_env \<Rightarrow> int \<Rightarrow> int \<Rightarrow> envelope \<Rightarrow> control_receipt tx" where
  "ApplyAgentControl env observed now en =
     thenT (liftT (ValidateControlEnvelope en ''claw_to_hub''))
     (thenT (whenT (en_Kind en = ''delivery.submitted'' \<or> en_Kind en = ''pull_request.claimed'')
       (Errf ''delivery claims require trusted source-control verification'' []))
     (bindT (liftT (wrapE ''decode control payload: %w'' [] (payloadObject (en_Payload en)))) (\<lambda>payload.
      bindT (ApplyEvent env now None (en_RunID en) (boundInput en (en_TaskID en) ProducerAgent observed payload [])) (\<lambda>r.
      returnT (eventReceipt en r)))))"

definition rejectionReason :: "string \<Rightarrow> string" where
  "rejectionReason why =
     (let reason = trimSpace why in take 1000 (if reason = [] then ''control message was rejected'' else reason))"

definition RejectAgentControl :: "rt_env \<Rightarrow> int \<Rightarrow> envelope \<Rightarrow> string \<Rightarrow> control_receipt tx" where
  "RejectAgentControl env now en why =
     (let reason = rejectionReason why in
      thenT (whenT (blank (en_MessageID en) \<or> blank (en_RunID en) \<or> blank (en_AttemptID en))
        (Errf ''message id, run id, and attempt id are required'' []))
      (bindT (getRunForUpdate (en_RunID en)) (\<lambda>r.
       let i = boundInput en (en_TaskID en) ProducerAgent now [] [] in
       thenT (authorizeBoundAttempt r i)
       (bindT (getsT (findDuplicateEvent (run_ID r) (in_ID i) (in_MessageID i))) (\<lambda>existing.
        case existing of
          Some e \<Rightarrow>
            thenT (insertEventReceipt env (run_ID r) e (in_MessageID i) DispDuplicate (run_StateVersion r)
              ''event already received'' now)
            (returnT \<lparr>cr_MessageID = en_MessageID en, cr_Disposition = DispDuplicate,
               cr_StateVersion = run_StateVersion r, cr_Reason = ''event already received''\<rparr>)
        | None \<Rightarrow>
            thenT (insertEvent (run_ID r) i (run_StateVersion r) DispRejected reason now)
            (thenT (insertEventReceipt env (run_ID r) (in_ID i) (in_MessageID i) DispRejected (run_StateVersion r) reason now)
            (returnT \<lparr>cr_MessageID = en_MessageID en, cr_Disposition = DispRejected,
               cr_StateVersion = run_StateVersion r, cr_Reason = reason\<rparr>)))))))"

end
