(* ===== verification/Actions.thy ===== *)
theory Actions
  imports EffectLife Attempts
begin

text \<open>
  Operations that are several transactions, one after the other.

  An action runs in a \<open>world\<close> that says, for its \<open>n\<close>th transaction, what the other goroutines commit before it
  (\<open>wd_others n\<close>) and what the clock reads (\<open>wd_clock n\<close>).  A failed transaction is rolled back, but what was committed
  before it stays: the result of an action is an error or a value, together with the store it leaves.

  The lemmas carry the reasoning about transactions over: a reflexive and transitive relation that every transaction and
  every interference respects relates the store before an action to the store after it.
\<close>

record world =
  wd_clock :: "nat \<Rightarrow> int"
  wd_others :: "nat \<Rightarrow> store \<Rightarrow> store"

type_synonym 'a act = "world \<Rightarrow> nat \<Rightarrow> store \<Rightarrow> (gerr + 'a) \<times> nat \<times> store"

definition returnA :: "'a \<Rightarrow> 'a act" where
  "returnA x = (\<lambda>w n s. (Inr x, n, s))"

definition failA :: "gerr \<Rightarrow> 'a act" where
  "failA e = (\<lambda>w n s. (Inl e, n, s))"

definition bindA :: "'a act \<Rightarrow> ('a \<Rightarrow> 'b act) \<Rightarrow> 'b act" where
  "bindA m f = (\<lambda>w n s. case m w n s of (Inl e, k, t) \<Rightarrow> (Inl e, k, t) | (Inr x, k, t) \<Rightarrow> f x w k t)"

text \<open>Recover from an error, with the store as the failed action left it.\<close>

definition catchA :: "'a act \<Rightarrow> (gerr \<Rightarrow> 'a act) \<Rightarrow> 'a act" where
  "catchA m h = (\<lambda>w n s. case m w n s of (Inl e, k, t) \<Rightarrow> h e w k t | (Inr x, k, t) \<Rightarrow> (Inr x, k, t))"

definition liftA :: "gerr + 'a \<Rightarrow> 'a act" where
  "liftA r = (case r of Inl e \<Rightarrow> failA e | Inr x \<Rightarrow> returnA x)"

definition whenA :: "bool \<Rightarrow> gerr \<Rightarrow> unit act" where
  "whenA b e = (if b then failA e else returnA ())"

text \<open>One transaction, given the clock reading.\<close>

definition atomicA :: "(int \<Rightarrow> 'a tx) \<Rightarrow> 'a act" where
  "atomicA m = (\<lambda>w n s.
     let t = wd_others w n s
     in case m (wd_clock w n) t of Inl e \<Rightarrow> (Inl e, Suc n, t) | Inr (x, u) \<Rightarrow> (Inr x, Suc n, u))"

definition finalStore :: "'a act \<Rightarrow> world \<Rightarrow> store \<Rightarrow> store" where
  "finalStore m w s = snd (snd (m w 0 s))"

definition outcomeOf :: "'a act \<Rightarrow> world \<Rightarrow> store \<Rightarrow> gerr + 'a" where
  "outcomeOf m w s = fst (m w 0 s)"

section \<open>What an action does to the store\<close>

definition does :: "(store \<Rightarrow> store \<Rightarrow> bool) \<Rightarrow> 'a act \<Rightarrow> bool" where
  "does R m \<longleftrightarrow> (\<forall>w n s. (\<forall>k t. R t (wd_others w k t)) \<longrightarrow> R s (snd (snd (m w n s))))"

lemma doesD: "does R m \<Longrightarrow> (\<And>k t. R t (wd_others w k t)) \<Longrightarrow> R s (finalStore m w s)"
  unfolding does_def finalStore_def by blast

context step_order
begin

lemma does_pure: "does R (returnA x)" "does R (failA e)" "does R (liftA r)" "does R (whenA b e)"
  by (auto simp: does_def returnA_def failA_def liftA_def whenA_def R_refl split: sum.splits)

lemma does_bind:
  assumes "does R m" and "\<And>x. does R (f x)"
  shows "does R (bindA m f)"
  unfolding does_def
proof (intro allI impI)
  fix w :: world and n s assume w: "\<forall>k t. R t (wd_others w k t)"
  obtain r k t where m: "m w n s = (r, k, t)" by (cases "m w n s") auto
  then have "R s t" using assms(1) w unfolding does_def by (metis snd_conv)
  moreover have "R t (snd (snd (f x w k t)))" for x using assms(2) w unfolding does_def by blast
  ultimately show "R s (snd (snd (bindA m f w n s)))" using R_trans by (cases r) (auto simp: bindA_def m)
qed

lemma does_catch:
  assumes "does R m" and "\<And>e. does R (h e)"
  shows "does R (catchA m h)"
  unfolding does_def
proof (intro allI impI)
  fix w :: world and n s assume w: "\<forall>k t. R t (wd_others w k t)"
  obtain r k t where m: "m w n s = (r, k, t)" by (cases "m w n s") auto
  then have "R s t" using assms(1) w unfolding does_def by (metis snd_conv)
  moreover have "R t (snd (snd (h e w k t)))" for e using assms(2) w unfolding does_def by blast
  ultimately show "R s (snd (snd (catchA m h w n s)))" using R_trans by (cases r) (auto simp: catchA_def m)
qed

lemma does_atomic:
  assumes "\<And>now. moves R (m now)"
  shows "does R (atomicA m)"
  unfolding does_def
proof (intro allI impI)
  fix w :: world and n s assume w: "\<forall>k t. R t (wd_others w k t)"
  let ?t = "wd_others w n s"
  have t: "R s ?t" using w by blast
  show "R s (snd (snd (atomicA m w n s)))"
  proof (cases "m (wd_clock w n) ?t")
    case (Inr p)
    obtain x u where p: "p = (x, u)" by (cases p)
    then have "R ?t u" using assms Inr unfolding moves_def by blast
    then show ?thesis using t R_trans Inr p by (auto simp: atomicA_def Let_def)
  qed (use t in \<open>simp add: atomicA_def Let_def\<close>)
qed

end

text \<open>An action run alone: nobody else commits, so its transactions run one after the other on the same store.\<close>

definition alone :: "(nat \<Rightarrow> int) \<Rightarrow> world" where
  "alone clock = \<lparr>wd_clock = clock, wd_others = (\<lambda>n s. s)\<rparr>"

lemma alone_simps [simp]: "wd_others (alone clock) n s = s" "wd_clock (alone clock) n = clock n"
  by (simp_all add: alone_def)

lemma atomicA_Inl: "m (wd_clock w n) (wd_others w n s) = Inl e \<Longrightarrow> atomicA m w n s = (Inl e, Suc n, wd_others w n s)"
  by (simp add: atomicA_def Let_def)

lemma atomicA_Inr: "m (wd_clock w n) (wd_others w n s) = Inr (x, u) \<Longrightarrow> atomicA m w n s = (Inr x, Suc n, u)"
  by (simp add: atomicA_def Let_def)

end
