(* ===== verification/Delivery.thy ===== *)
theory Delivery
  imports Actions
begin

text \<open>
  Delivery: the pull requests of a run (\<^verbatim>\<open>pkg/hub/workflowv2/delivery.go\<close>, \<^verbatim>\<open>pr_registration.go\<close>).

  A claw only claims pull requests.  Each claim is verified through a \<open>verifier\<close> (the source-control connection, an
  argument) and checked against the workspace pinned by the run before a row of \<^verbatim>\<open>workflow_v2_delivery_prs\<close> is written.
  Every change of a head opens a new generation and supersedes the evidence of the old one.

  \<^verbatim>\<open>url.Parse\<close> is a parameter that yields what the code reads of a URL.  The reads of \<^verbatim>\<open>verifyDeliveryClaims\<close> are one step
  of an action; what it hands to the transaction that follows may be outdated by then, as in the code.
\<close>

record pr_claim =
  pc_URL :: string
  pc_Supersedes :: string

type_synonym delivery_manifest = "pr_claim list"

record verified_pr =
  vp_ID :: string
  vp_URL :: string
  vp_Repository :: string
  vp_RepositoryName :: string
  vp_Number :: int
  vp_SourceBranch :: string
  vp_BaseBranch :: string
  vp_HeadSHA :: string
  vp_State :: string
  vp_Supersedes :: string
  vp_VerifiedAt :: int
  vp_Provenance :: provenance

type_synonym pr_verifier = "run_row \<Rightarrow> workspace \<Rightarrow> pr_claim \<Rightarrow> gerr + verified_pr"

record parsed_url =
  url_Scheme :: string
  url_Host :: string
  url_Path :: string
  url_RawQuery :: string
  url_Fragment :: string

type_synonym url_parser = "string \<Rightarrow> gerr + parsed_url"

section \<open>Verifying claims\<close>

definition validateVerifiedPullRequest :: "workspace \<Rightarrow> pr_claim \<Rightarrow> verified_pr \<Rightarrow> gerr + unit" where
  "validateVerifiedPullRequest ws claim pr =
     (case map_of (ws_Repositories ws) (vp_RepositoryName pr) of
        None \<Rightarrow> Inl (Errf ''repository name %q is not in pinned workspace'' [vp_RepositoryName pr])
      | Some repo \<Rightarrow>
          bindE (whenE (repo_Repository repo \<noteq> vp_Repository pr)
            (Errf ''repository %q does not match workspace repository %q'' [vp_Repository pr, repo_Repository repo])) (\<lambda>_.
          bindE (whenE (vp_Number pr \<le> 0 \<or> blank (vp_URL pr) \<or> blank (vp_HeadSHA pr) \<or> blank (vp_SourceBranch pr) \<or>
              blank (vp_BaseBranch pr))
            (Errf ''verified pull request identity, branches, and head SHA are required'' [])) (\<lambda>_.
          bindE (whenE (vp_State pr \<notin> set [''open'', ''closed'', ''merged''])
            (Errf ''verified pull request state %q is invalid'' [vp_State pr])) (\<lambda>_.
          bindE (whenE (trimSpace (pv_Producer (vp_Provenance pr)) \<noteq> producerName ProducerSourceControl \<or>
              pv_ObservedAt (vp_Provenance pr) = zeroTime \<or> vp_VerifiedAt pr = zeroTime)
            (Errf ''verified pull request requires trusted source-control provenance'' [])) (\<lambda>_.
          whenE (pc_URL claim \<noteq> vp_URL pr)
            (Errf ''verified URL %q does not match claimed URL'' [vp_URL pr]))))))"

definition prIdentity :: "verified_pr \<Rightarrow> string" where
  "prIdentity pr = vp_Repository pr @ ''#'' @ itoa (vp_Number pr)"

definition absoluteHTTP :: "gerr + parsed_url \<Rightarrow> bool" where
  "absoluteHTTP r \<longleftrightarrow> (case r of Inl _ \<Rightarrow> False
     | Inr u \<Rightarrow> (url_Scheme u = ''https'' \<or> url_Scheme u = ''http'') \<and> url_Host u \<noteq> [])"

fun verifyClaims ::
    "url_parser \<Rightarrow> (pr_claim \<Rightarrow> gerr + verified_pr) \<Rightarrow> workspace \<Rightarrow> nat \<Rightarrow> string list \<Rightarrow> string list \<Rightarrow> delivery_manifest \<Rightarrow>
     gerr + verified_pr list" where
  "verifyClaims parse verify ws i urls identities [] = Inr []"
| "verifyClaims parse verify ws i urls identities (raw # claims) =
     (let claim = raw\<lparr>pc_URL := trimSpace (pc_URL raw)\<rparr> in
      bindE (whenE (\<not> blank (pc_Supersedes claim))
        (Errf ''pull_requests[%d].supersedes requires hub-owned source-control reconciliation'' [utoa i])) (\<lambda>_.
      bindE (whenE (\<not> absoluteHTTP (parse (pc_URL claim)))
        (Errf ''pull_requests[%d].url is not an absolute HTTP(S) URL'' [utoa i])) (\<lambda>_.
      bindE (whenE (pc_URL claim \<in> set urls) (Errf ''pull_requests[%d].url is duplicated'' [utoa i])) (\<lambda>_.
      bindE (wrapE ''verify pull_requests[%d] %s: %w'' [utoa i, pc_URL claim] (verify claim)) (\<lambda>pr.
      bindE (wrapE ''verify pull_requests[%d] %s: %w'' [utoa i, pc_URL claim] (validateVerifiedPullRequest ws claim pr)) (\<lambda>_.
      bindE (whenE (prIdentity pr \<in> set identities)
        (Errf ''pull_requests[%d] duplicates verified PR %s'' [utoa i, prIdentity pr])) (\<lambda>_.
      bindE (verifyClaims parse verify ws (Suc i) (pc_URL claim # urls) (prIdentity pr # identities) claims) (\<lambda>rest.
      Inr (pr # rest)))))))))"

definition verifyDeliveryClaims ::
    "rt_env \<Rightarrow> url_parser \<Rightarrow> string \<Rightarrow> string \<Rightarrow> delivery_manifest \<Rightarrow> pr_verifier option \<Rightarrow> verified_pr list tx" where
  "verifyDeliveryClaims env parse runID attemptID manifest verifier =
     thenT (whenT (verifier = None \<and> manifest \<noteq> []) (Errf ''pull request verifier is required'' []))
     (thenT (whenT (100 < length manifest) (Errf ''delivery manifest exceeds 100 pull requests'' []))
     (bindT (GetRun runID) (\<lambda>run.
      bindT (getsT (\<lambda>s. list_ex (attemptActive attemptID runID) (db_attempts s))) (\<lambda>active.
      thenT (whenT (\<not> active \<or> run_CurrentAttemptID run \<noteq> attemptID) (Errf ''delivery attempt is not active'' []))
      (bindT (liftT (wrapE ''load pinned workspace: %w'' []
         (ParseAndValidateWorkspace (rt_doc env) (rt_yaml env) (run_WorkspaceYAML run)))) (\<lambda>rws.
       liftT (case verifier of
           None \<Rightarrow> Inr []
         | Some verify \<Rightarrow> verifyClaims parse (verify run (rw_Workspace rws)) (rw_Workspace rws) 0 [] [] manifest)))))))"

section \<open>The rows of a pull request\<close>

definition prNamed :: "string \<Rightarrow> string \<Rightarrow> int \<Rightarrow> pr_row \<Rightarrow> bool" where
  "prNamed runID repository number p \<longleftrightarrow> pr_RunID p = runID \<and> pr_Repository p = repository \<and> pr_Number p = number"

definition prRow :: "string \<Rightarrow> verified_pr \<Rightarrow> string \<Rightarrow> bool \<Rightarrow> int \<Rightarrow> pr_row" where
  "prRow runID pr prID registeredOnly now =
     \<lparr>pr_ID = prID, pr_RunID = runID, pr_URL = vp_URL pr, pr_RepositoryName = vp_RepositoryName pr,
      pr_Repository = vp_Repository pr, pr_Number = vp_Number pr, pr_SourceBranch = vp_SourceBranch pr,
      pr_BaseBranch = vp_BaseBranch pr, pr_HeadSHA = vp_HeadSHA pr, pr_State = vp_State pr, pr_Active = True,
      pr_Supersedes = vp_Supersedes pr, pr_Provenance = vp_Provenance pr, pr_VerifiedAt = unixMilli (vp_VerifiedAt pr),
      pr_UpdatedAt = unixMilli now, pr_RegisteredOnly = registeredOnly\<rparr>"

text \<open>\<^verbatim>\<open>INSERT ... ON CONFLICT(run_id,repository,pr_number) DO UPDATE\<close>: the row keeps its id; the URL is unique in a run.\<close>

definition insertPRRow :: "pr_row \<Rightarrow> unit tx" where
  "insertPRRow p =
     bindT (getsT (\<lambda>s. pr_ID p \<in> pr_ID ` set (db_prs s) \<or>
       (pr_RunID p, pr_URL p) \<in> (\<lambda>x. (pr_RunID x, pr_URL x)) ` set (db_prs s))) (\<lambda>dup.
     thenT (whenT dup (uniqueError ''workflow_v2_delivery_prs''))
     (modifyT (\<lambda>s. s\<lparr>db_prs := db_prs s @ [p]\<rparr>)))"

definition replacePRRow :: "pr_row \<Rightarrow> unit tx" where
  "replacePRRow p =
     (let same = prNamed (pr_RunID p) (pr_Repository p) (pr_Number p) in
      bindT (getsT (\<lambda>s. \<exists>x \<in> set (db_prs s). \<not> same x \<and> pr_RunID x = pr_RunID p \<and> pr_URL x = pr_URL p)) (\<lambda>dup.
      thenT (whenT dup (uniqueError ''workflow_v2_delivery_prs''))
      (bindT (updateT db_prs db_prs_update same (\<lambda>x. p\<lparr>pr_ID := pr_ID x\<rparr>)) (\<lambda>_. returnT ()))))"

text \<open>\<^verbatim>\<open>COALESCE(MAX(generation),0)\<close> over the heads of a pull request.\<close>

definition headGeneration :: "string \<Rightarrow> store \<Rightarrow> nat" where
  "headGeneration prID s = foldl max 0 (map hd_Generation (filter (\<lambda>h. hd_PRID h = prID) (db_heads s)))"

definition supersedeEvidence :: "string \<Rightarrow> string \<Rightarrow> int \<Rightarrow> unit tx" where
  "supersedeEvidence runID prID at =
     bindT (updateT db_evidence db_evidence_update
       (\<lambda>e. ed_RunID e = runID \<and> ed_PRID e = prID \<and> ed_SupersededAt e = 0)
       (\<lambda>e. e\<lparr>ed_SupersededAt := at\<rparr>)) (\<lambda>_. returnT ())"

definition insertHead :: "rt_env \<Rightarrow> string \<Rightarrow> string \<Rightarrow> int \<Rightarrow> unit tx" where
  "insertHead env prID sha at =
     bindT (getsT (\<lambda>s. headGeneration prID s + 1)) (\<lambda>generation.
     bindT (freshUUID env) (\<lambda>i.
     bindT (getsT (\<lambda>s. i \<in> hd_ID ` set (db_heads s))) (\<lambda>dup.
     thenT (whenT dup (uniqueError ''workflow_v2_delivery_heads.id''))
     (modifyT (\<lambda>s. s\<lparr>db_heads := db_heads s @
       [\<lparr>hd_ID = i, hd_PRID = prID, hd_SHA = sha, hd_Generation = generation, hd_ObservedAt = at\<rparr>]\<rparr>)))))"

text \<open>A new head: its generation, and the end of the evidence for the previous head.\<close>

definition openHead :: "rt_env \<Rightarrow> string \<Rightarrow> string \<Rightarrow> string option \<Rightarrow> string \<Rightarrow> int \<Rightarrow> unit tx" where
  "openHead env runID prID existingHead sha at =
     (if existingHead = Some sha then returnT ()
      else thenT (insertHead env prID sha at)
        (if existingHead = None \<or> existingHead = Some [] then returnT () else supersedeEvidence runID prID at))"

definition upsertDeliveryPR :: "rt_env \<Rightarrow> string \<Rightarrow> bool \<Rightarrow> int \<Rightarrow> verified_pr \<Rightarrow> (verified_pr \<times> bool) tx" where
  "upsertDeliveryPR env runID registeredOnly now pr =
     bindT (getsT (\<lambda>s. find (prNamed runID (vp_Repository pr) (vp_Number pr)) (db_prs s))) (\<lambda>existing.
     case existing of
       None \<Rightarrow>
         bindT (freshUUID env) (\<lambda>prID.
         thenT (insertPRRow (prRow runID pr prID registeredOnly now))
         (thenT (openHead env runID prID None (vp_HeadSHA pr) (unixMilli now))
         (returnT (pr\<lparr>vp_ID := prID\<rparr>, True))))
     | Some p \<Rightarrow>
         if registeredOnly \<and> \<not> pr_RegisteredOnly p then returnT (pr\<lparr>vp_ID := pr_ID p\<rparr>, False)
         else
           thenT (replacePRRow (prRow runID pr (pr_ID p) registeredOnly now))
           (thenT (openHead env runID (pr_ID p) (Some (pr_HeadSHA p)) (vp_HeadSHA pr) (unixMilli now))
           (returnT (pr\<lparr>vp_ID := pr_ID p\<rparr>, False))))"

fun upsertAll :: "rt_env \<Rightarrow> string \<Rightarrow> bool \<Rightarrow> int \<Rightarrow> verified_pr list \<Rightarrow> (verified_pr list \<times> bool) tx" where
  "upsertAll env runID registeredOnly now [] = returnT ([], False)"
| "upsertAll env runID registeredOnly now (pr # prs) =
     bindT (upsertDeliveryPR env runID registeredOnly now pr) (\<lambda>(pr', added).
     bindT (upsertAll env runID registeredOnly now prs) (\<lambda>(prs', inserted).
     returnT (pr' # prs', added \<or> inserted)))"

definition delivered :: "string \<Rightarrow> pr_row \<Rightarrow> bool" where
  "delivered runID p \<longleftrightarrow> pr_RunID p = runID \<and> pr_Active p \<and> \<not> pr_RegisteredOnly p"

definition deliveryFactsFrom :: "string \<Rightarrow> store \<Rightarrow> gmap" where
  "deliveryFactsFrom runID s =
     (let count = sql_count (delivered runID) (db_prs s);
          opened = sql_count (\<lambda>p. delivered runID p \<and> pr_State p = ''open'') (db_prs s);
          merged = sql_count (\<lambda>p. delivered runID p \<and> pr_State p = ''merged'') (db_prs s)
      in [(''count'', GInt (int count)), (''open'', GInt (int opened)), (''merged'', GInt (int merged)),
          (''all_merged'', GBool (merged = count))])"

text \<open>The facts a summary becomes; \<^verbatim>\<open>summary["count"]\<close> of a map that has the key.\<close>

definition summaryField :: "gmap \<Rightarrow> string \<Rightarrow> gval" where
  "summaryField summary k = (case map_of summary k of Some v \<Rightarrow> v | None \<Rightarrow> GNil)"

definition deliveryFacts :: "gmap \<Rightarrow> gmap" where
  "deliveryFacts summary =
     [(''delivery.count'', summaryField summary ''count''), (''delivery.open'', summaryField summary ''open''),
      (''delivery.merged'', summaryField summary ''merged''), (''delivery.all_merged'', summaryField summary ''all_merged'')]"

section \<open>Submitting a delivery\<close>

definition sourceControlProvenance :: "int \<Rightarrow> provenance" where
  "sourceControlProvenance now =
     \<lparr>pv_Producer = producerName ProducerSourceControl, pv_Connection = [], pv_Principal = [], pv_ObservedAt = now,
      pv_ExternalID = [], pv_Reconciled = False\<rparr>"

definition deliveryInput :: "string \<Rightarrow> string \<Rightarrow> string \<Rightarrow> string \<Rightarrow> nat option \<Rightarrow> int \<Rightarrow> event_input" where
  "deliveryInput eventID messageID kind attemptID expected now =
     \<lparr>in_ID = eventID, in_MessageID = messageID, in_Kind = kind, in_AttemptID = attemptID, in_TaskID = [],
      in_Expected = expected, in_Producer = ProducerSourceControl, in_Provenance = sourceControlProvenance now,
      in_Payload = [], in_Facts = []\<rparr>"

definition amendDelivery :: "rt_env \<Rightarrow> string \<Rightarrow> int \<Rightarrow> verified_pr list \<Rightarrow> event_mutation" where
  "amendDelivery env runID now verified i =
     bindT (upsertAll env runID False now verified) (\<lambda>_.
     bindT (getsT (deliveryFactsFrom runID)) (\<lambda>summary.
     returnT (i\<lparr>in_Payload := [(''delivery'', GMap summary)], in_Facts := deliveryFacts summary\<rparr>)))"

definition recordDelivery ::
    "rt_env \<Rightarrow> string \<Rightarrow> string \<Rightarrow> string \<Rightarrow> string \<Rightarrow> nat option \<Rightarrow> verified_pr list \<Rightarrow> int \<Rightarrow> event_result tx" where
  "recordDelivery env runID attemptID eventID messageID expected verified now =
     ApplyEvent env now (Some (amendDelivery env runID now verified)) runID
       (deliveryInput eventID messageID ''delivery.verified'' attemptID expected now)"

section \<open>Control messages\<close>

text \<open>\<^verbatim>\<open>json.Unmarshal\<close> into a \<^verbatim>\<open>DeliveryManifest\<close>.\<close>

definition decodeClaim :: "gval \<Rightarrow> gerr + pr_claim" where
  "decodeClaim v =
     bindE (decodeFields [(''url'', FStr), (''supersedes'', FStr)] v) (\<lambda>m.
     Inr \<lparr>pc_URL = strField m ''url'', pc_Supersedes = strField m ''supersedes''\<rparr>)"

fun decodeClaims :: "gval list \<Rightarrow> gerr + pr_claim list" where
  "decodeClaims [] = Inr []"
| "decodeClaims (v # vs) = bindE (decodeClaim v) (\<lambda>c. bindE (decodeClaims vs) (\<lambda>cs. Inr (c # cs)))"

definition decodeManifest :: "gval option \<Rightarrow> gerr + delivery_manifest" where
  "decodeManifest payload =
     (case payload of
        None \<Rightarrow> Inl (Errf ''unexpected end of JSON input'' [])
      | Some GNil \<Rightarrow> Inr []
      | Some (GMap m) \<Rightarrow>
          (case map_of m ''pull_requests'' of
             None \<Rightarrow> Inr []
           | Some GNil \<Rightarrow> Inr []
           | Some (GList vs) \<Rightarrow> decodeClaims vs
           | Some _ \<Rightarrow> Inl (Errf ''json: cannot unmarshal value into Go struct field'' []))
      | Some _ \<Rightarrow> Inl (Errf ''json: cannot unmarshal value into Go struct'' []))"

definition deliveryEventKind :: "string \<Rightarrow> string" where
  "deliveryEventKind kind = (if kind = ''pull_request.claimed'' then kind else ''delivery.verified'')"

definition deliveryReceipt :: "string \<Rightarrow> disposition \<Rightarrow> nat \<Rightarrow> string \<Rightarrow> control_receipt" where
  "deliveryReceipt messageID d version reason =
     \<lparr>cr_MessageID = messageID, cr_Disposition = d, cr_StateVersion = version, cr_Reason = reason\<rparr>"

text \<open>The check before the verification: a message already received, or one that expects another state version, is answered
  at once.\<close>

definition preflightDeliveryControlTx :: "rt_env \<Rightarrow> int \<Rightarrow> envelope \<Rightarrow> control_receipt option tx" where
  "preflightDeliveryControlTx env now en =
     bindT (getRunForUpdate (en_RunID en)) (\<lambda>run.
     let i = deliveryInput (en_MessageID en) (en_MessageID en) (deliveryEventKind (en_Kind en)) (en_AttemptID en)
               (en_ExpectedStateVersion en) now in
     thenT (authorizeBoundAttempt run i)
     (bindT (getsT (findDuplicateEvent (run_ID run) (in_ID i) (in_MessageID i))) (\<lambda>found.
      case found of
        Some existing \<Rightarrow>
          thenT (insertEventReceipt env (run_ID run) existing (in_MessageID i) DispDuplicate (run_StateVersion run)
            ''event already received'' now)
          (returnT (Some (deliveryReceipt (en_MessageID en) DispDuplicate (run_StateVersion run) ''event already received'')))
      | None \<Rightarrow>
          (case staleReason (en_ExpectedStateVersion en) run of
             None \<Rightarrow> returnT None
           | Some reason \<Rightarrow>
               thenT (insertEvent (run_ID run) i (run_StateVersion run) DispStaleState reason now)
               (thenT (insertEventReceipt env (run_ID run) (in_ID i) (in_MessageID i) DispStaleState
                  (run_StateVersion run) reason now)
               (returnT (Some (deliveryReceipt (en_MessageID en) DispStaleState (run_StateVersion run) reason))))))))"

definition preflightDeliveryControl :: "rt_env \<Rightarrow> int \<Rightarrow> envelope \<Rightarrow> control_receipt option tx" where
  "preflightDeliveryControl env now en =
     transact (bindT (preflightDeliveryControlTx env now en) (\<lambda>r.
       returnT (if r = None then Rollback r else Commit r)))"

section \<open>Registering a pull request\<close>

definition recordClaim :: "rt_env \<Rightarrow> int \<Rightarrow> string \<Rightarrow> run_row \<Rightarrow> string \<Rightarrow> envelope \<Rightarrow> control_receipt tx" where
  "recordClaim env now runID run attemptID en =
     thenT (insertEvent runID
       (deliveryInput (en_MessageID en) (en_MessageID en) (en_Kind en) attemptID (en_ExpectedStateVersion en) now)
       (run_StateVersion run) DispAccepted [] now)
     (thenT (insertEventReceipt env runID (en_MessageID en) (en_MessageID en) DispAccepted (run_StateVersion run) [] now)
     (returnT (deliveryReceipt (en_MessageID en) DispAccepted (run_StateVersion run) [])))"

definition boundAttemptInput :: "string \<Rightarrow> event_input" where
  "boundAttemptInput attemptID = (deliveryInput [] [] [] attemptID None 0)"

definition registerVerified ::
    "rt_env \<Rightarrow> string \<Rightarrow> string \<Rightarrow> envelope option \<Rightarrow> verified_pr list \<Rightarrow> int \<Rightarrow>
     (verified_pr list \<times> bool \<times> control_receipt option) tx" where
  "registerVerified env runID attemptID oen verified now =
     bindT (getRunForUpdate runID) (\<lambda>run.
     thenT (whenT (run_Status run \<noteq> RunActive \<and> run_Status run \<noteq> RunSuspended)
       (Errf ''registration run is no longer active'' []))
     (thenT (authorizeBoundAttempt run (boundAttemptInput attemptID))
     (bindT (case oen of None \<Rightarrow> returnT None | Some en \<Rightarrow> preflightDeliveryControlTx env now en) (\<lambda>handled.
      case handled of
        Some r \<Rightarrow> returnT ([], False, Some r)
      | None \<Rightarrow>
          bindT (upsertAll env runID True now verified) (\<lambda>(prs, inserted).
          bindT (case oen of
              None \<Rightarrow> returnT None
            | Some en \<Rightarrow> bindT (recordClaim env now runID run attemptID en) (\<lambda>r. returnT (Some r))) (\<lambda>r.
          returnT (prs, inserted, r)))))))"

definition registerPullRequests ::
    "rt_env \<Rightarrow> url_parser \<Rightarrow> string \<Rightarrow> string \<Rightarrow> delivery_manifest \<Rightarrow> pr_verifier option \<Rightarrow> envelope option \<Rightarrow>
     (verified_pr list \<times> bool \<times> control_receipt option) act" where
  "registerPullRequests env parse runID attemptID manifest verifier oen =
     bindA (atomicA (\<lambda>_. verifyDeliveryClaims env parse runID attemptID manifest verifier)) (\<lambda>verified.
     atomicA (registerVerified env runID attemptID oen verified))"

definition RegisterPullRequest ::
    "rt_env \<Rightarrow> url_parser \<Rightarrow> string \<Rightarrow> string \<Rightarrow> pr_claim \<Rightarrow> pr_verifier option \<Rightarrow> (verified_pr \<times> bool) act" where
  "RegisterPullRequest env parse runID attemptID claim verifier =
     bindA (registerPullRequests env parse runID attemptID [claim] verifier None) (\<lambda>(verified, inserted, _).
     returnA (hd verified, inserted))"

end
