(* ===== verification/EvidencePolicy.thy ===== *)
theory EvidencePolicy
  imports Workflow GoTime
begin

text \<open>
  Delivery policies over evidence: \<^verbatim>\<open>evaluateEvidenceNode\<close>, \<^verbatim>\<open>evaluateEvidenceLeaf\<close> and their helpers in
  \<^verbatim>\<open>pkg/hub/workflowv2/evidence.go\<close>.

  A policy is a tree of \<^verbatim>\<open>all\<close>, \<^verbatim>\<open>any\<close> and \<^verbatim>\<open>not\<close> nodes; its verdict is one of three statuses, ordered
  unsatisfied < pending < satisfied, so that \<^verbatim>\<open>combineAllPolicyStatus\<close> is the minimum.  The lemmas show that an accepted
  policy is evaluated without error, what the leaves demand, and that a decided verdict is stable.
\<close>

record stored_evidence =
  se_Domain :: string
  se_Connection :: string
  se_ExternalID :: string
  se_Kind :: string
  se_Status :: string
  se_Payload :: gmap
  se_ObservedAt :: int

datatype policy_status = PolicyUnsatisfied | PolicyPending | PolicySatisfied

fun policyRank :: "policy_status \<Rightarrow> nat" where
  "policyRank PolicyUnsatisfied = 0"
| "policyRank PolicyPending = 1"
| "policyRank PolicySatisfied = 2"

instantiation policy_status :: linorder
begin

definition less_eq_policy_status :: "policy_status \<Rightarrow> policy_status \<Rightarrow> bool" where
  "less_eq_policy_status a b \<longleftrightarrow> policyRank a \<le> policyRank b"

definition less_policy_status :: "policy_status \<Rightarrow> policy_status \<Rightarrow> bool" where
  "less_policy_status a b \<longleftrightarrow> policyRank a < policyRank b"

instance
proof
  fix a b :: policy_status
  show "a \<le> b \<Longrightarrow> b \<le> a \<Longrightarrow> a = b"
    by (cases a; cases b) (simp_all add: less_eq_policy_status_def)
qed (auto simp: less_eq_policy_status_def less_policy_status_def)

end

definition combineAllPolicyStatus :: "policy_status \<Rightarrow> policy_status \<Rightarrow> policy_status" where
  "combineAllPolicyStatus left right =
     (if left = PolicyUnsatisfied \<or> right = PolicyUnsatisfied then PolicyUnsatisfied
      else if left = PolicyPending \<or> right = PolicyPending then PolicyPending
      else PolicySatisfied)"

lemma combineAll_min: "combineAllPolicyStatus a b = min a b"
  by (cases a; cases b) (simp_all add: combineAllPolicyStatus_def min_def less_eq_policy_status_def)

fun policyStatusName :: "policy_status \<Rightarrow> string" where
  "policyStatusName PolicyPending = ''pending''"
| "policyStatusName PolicySatisfied = ''satisfied''"
| "policyStatusName PolicyUnsatisfied = ''unsatisfied''"

section \<open>Leaves\<close>

definition isFailureEvidenceStatus :: "string \<Rightarrow> bool" where
  "isFailureEvidenceStatus status \<longleftrightarrow> toLower (trimSpace status) \<in>
     set [''failure'', ''failed'', ''error'', ''cancelled'', ''timed_out'', ''changes_requested'', ''rejected'']"

fun stringItems :: "gval list \<Rightarrow> gerr + string list" where
  "stringItems [] = Inr []"
| "stringItems (GStr s # vs) =
     (if blank s then Inl (Errf ''must contain non-empty strings'' [])
      else bindE (stringItems vs) (\<lambda>ss. Inr (s # ss)))"
| "stringItems (_ # vs) = Inl (Errf ''must contain non-empty strings'' [])"

definition stringList :: "gval option \<Rightarrow> gerr + string list" where
  "stringList raw = (case raw of Some (GList items) \<Rightarrow> stringItems items | _ \<Rightarrow> Inl (Errf ''must be a list'' []))"

text \<open>An integer from \<open>2\<^sup>6\<^sup>3\<close> on is a \<^verbatim>\<open>uint64\<close>, which is not among the accepted types; a float outside the range of
  \<^verbatim>\<open>int\<close> does not survive the conversion there and back.\<close>

definition integerValue :: "gval \<Rightarrow> gerr + int" where
  "integerValue raw =
     (case raw of
        GInt i \<Rightarrow> if i < 2 ^ 63 then Inr i else Inl (Errf ''must be an integer'' [])
      | GFloat j \<Rightarrow> if - (2 ^ 63) \<le> j \<and> j < 2 ^ 63 then Inr j else Inl (Errf ''must be an integer'' [])
      | _ \<Rightarrow> Inl (Errf ''must be an integer'' []))"

definition checkMatches :: "string \<Rightarrow> string \<Rightarrow> stored_evidence \<Rightarrow> bool" where
  "checkMatches pipeline check item \<longleftrightarrow>
     se_Domain item = ''ci'' \<and> se_Kind item = check \<and> map_of (se_Payload item) ''pipeline'' = Some (GStr pipeline)"

definition laterCheck :: "stored_evidence \<Rightarrow> stored_evidence \<Rightarrow> bool" where
  "laterCheck candidate latest \<longleftrightarrow> se_ObservedAt latest < se_ObservedAt candidate \<or>
     (se_ObservedAt candidate = se_ObservedAt latest \<and> str_less (se_ExternalID latest) (se_ExternalID candidate))"

definition latestCheck :: "string \<Rightarrow> string \<Rightarrow> stored_evidence list \<Rightarrow> stored_evidence option" where
  "latestCheck pipeline check evidence =
     foldl (\<lambda>latest item.
       if checkMatches pipeline check item then
         (case latest of
            None \<Rightarrow> Some item
          | Some l \<Rightarrow> if laterCheck item l then Some item else latest)
       else latest) None evidence"

fun evaluateChecks :: "string \<Rightarrow> string list \<Rightarrow> stored_evidence list \<Rightarrow> policy_status" where
  "evaluateChecks pipeline [] evidence = PolicySatisfied"
| "evaluateChecks pipeline (check # checks) evidence =
     (case latestCheck pipeline check evidence of
        None \<Rightarrow> PolicyPending
      | Some latest \<Rightarrow>
          if isFailureEvidenceStatus (se_Status latest) then PolicyUnsatisfied
          else if se_Status latest \<noteq> ''success'' then PolicyPending
          else evaluateChecks pipeline checks evidence)"

definition evaluateCILeaf :: "gmap \<Rightarrow> stored_evidence list \<Rightarrow> gerr + policy_status" where
  "evaluateCILeaf leaf evidence =
     (let pipeline = strField leaf ''pipeline'' in
      bindE (whenE (pipeline = []) (Errf ''CI policy leaf requires pipeline'' [])) (\<lambda>_.
      bindE (wrapE ''CI policy leaf checks: %w'' [] (stringList (map_of leaf ''checks''))) (\<lambda>checks.
      bindE (whenE (checks = []) (Errf ''CI policy leaf checks must not be empty'' [])) (\<lambda>_.
      Inr (evaluateChecks pipeline checks evidence)))))"

definition minimumApprovals :: "gmap \<Rightarrow> gerr + int" where
  "minimumApprovals leaf =
     (case map_of leaf ''approvals'' of
        Some (GMap approvals) \<Rightarrow>
          (case map_of approvals ''minimum'' of
             None \<Rightarrow> Inr 1
           | Some raw \<Rightarrow>
               (case integerValue raw of
                  Inr parsed \<Rightarrow> if parsed < 0 then Inl (Errf ''review approvals.minimum is invalid'' []) else Inr parsed
                | Inl e \<Rightarrow> Inl (Errf ''review approvals.minimum is invalid'' [])))
      | _ \<Rightarrow> Inr 1)"

definition approvalMatches :: "string \<Rightarrow> stored_evidence \<Rightarrow> bool" where
  "approvalMatches connection item \<longleftrightarrow>
     se_Domain item = ''review'' \<and> se_Connection item = connection \<and> se_Kind item = ''approval''"

definition laterApproval :: "stored_evidence \<Rightarrow> stored_evidence \<Rightarrow> bool" where
  "laterApproval item current \<longleftrightarrow> se_ObservedAt current < se_ObservedAt item \<or>
     (se_ObservedAt item = se_ObservedAt current \<and> str_less (se_Status current) (se_Status item))"

definition latestByPrincipal :: "string \<Rightarrow> stored_evidence list \<Rightarrow> (string \<times> stored_evidence) list" where
  "latestByPrincipal connection evidence =
     foldl (\<lambda>latest item.
       if approvalMatches connection item \<and>
          (case map_of latest (se_ExternalID item) of None \<Rightarrow> True | Some current \<Rightarrow> laterApproval item current)
       then AList.update (se_ExternalID item) item latest
       else latest) [] evidence"

definition reviewVerdict :: "int \<Rightarrow> stored_evidence list \<Rightarrow> policy_status" where
  "reviewVerdict minimum latest =
     (let approvals = int (length (filter (\<lambda>i. se_Status i = ''approved'') latest));
          changesRequested = list_ex (\<lambda>i. isFailureEvidenceStatus (se_Status i)) latest
      in if minimum \<le> approvals \<and> \<not> changesRequested then PolicySatisfied
         else if changesRequested then PolicyUnsatisfied
         else PolicyPending)"

definition evaluateReviewLeaf :: "gmap \<Rightarrow> stored_evidence list \<Rightarrow> gerr + policy_status" where
  "evaluateReviewLeaf leaf evidence =
     (let connection = strField leaf ''connection'' in
      bindE (whenE (connection = []) (Errf ''review policy leaf requires connection'' [])) (\<lambda>_.
      bindE (minimumApprovals leaf) (\<lambda>minimum.
      Inr (reviewVerdict minimum (map snd (latestByPrincipal connection evidence))))))"

definition evaluateEvidenceLeaf :: "gmap \<Rightarrow> string \<Rightarrow> stored_evidence list \<Rightarrow> gerr + policy_status" where
  "evaluateEvidenceLeaf leaf domain evidence =
     (if domain = ''ci'' then evaluateCILeaf leaf evidence else evaluateReviewLeaf leaf evidence)"

section \<open>Nodes\<close>

fun negatePolicy :: "policy_status \<Rightarrow> policy_status" where
  "negatePolicy PolicyPending = PolicyPending"
| "negatePolicy PolicySatisfied = PolicyUnsatisfied"
| "negatePolicy PolicyUnsatisfied = PolicySatisfied"

function (sequential) evaluateEvidenceNode :: "gval \<Rightarrow> string \<Rightarrow> stored_evidence list \<Rightarrow> gerr + policy_status"
  and evaluateAll :: "gval list \<Rightarrow> string \<Rightarrow> stored_evidence list \<Rightarrow> policy_status \<Rightarrow> gerr + policy_status"
  and evaluateAny :: "gval list \<Rightarrow> string \<Rightarrow> stored_evidence list \<Rightarrow> bool \<Rightarrow> gerr + policy_status" where
  "evaluateEvidenceNode (GMap m) domain evidence =
     (case map_of m ''all'' of
        Some raw \<Rightarrow>
          (case raw of
             GList items \<Rightarrow> if items = [] then Inl (Errf ''all requires a non-empty list'' [])
               else evaluateAll items domain evidence PolicySatisfied
           | _ \<Rightarrow> Inl (Errf ''all requires a non-empty list'' []))
      | None \<Rightarrow>
     (case map_of m ''any'' of
        Some raw \<Rightarrow>
          (case raw of
             GList items \<Rightarrow> if items = [] then Inl (Errf ''any requires a non-empty list'' [])
               else evaluateAny items domain evidence False
           | _ \<Rightarrow> Inl (Errf ''any requires a non-empty list'' []))
      | None \<Rightarrow>
     (case map_of m ''not'' of
        Some raw \<Rightarrow> bindE (evaluateEvidenceNode raw domain evidence) (\<lambda>status. Inr (negatePolicy status))
      | None \<Rightarrow> evaluateEvidenceLeaf m domain evidence)))"
| "evaluateEvidenceNode _ domain evidence = Inl (Errf ''policy node has unsupported type %T'' [])"
| "evaluateAll [] domain evidence status = Inr status"
| "evaluateAll (item # items) domain evidence status =
     bindE (evaluateEvidenceNode item domain evidence) (\<lambda>itemStatus.
     evaluateAll items domain evidence (combineAllPolicyStatus status itemStatus))"
| "evaluateAny [] domain evidence pending = Inr (if pending then PolicyPending else PolicyUnsatisfied)"
| "evaluateAny (item # items) domain evidence pending =
     bindE (evaluateEvidenceNode item domain evidence) (\<lambda>itemStatus.
     if itemStatus = PolicySatisfied then Inr PolicySatisfied
     else evaluateAny items domain evidence (pending \<or> itemStatus = PolicyPending))"
  by pat_completeness auto
termination
  by (relation "measure (\<lambda>x. case x of
       Inl (v, _, _) \<Rightarrow> 2 * gsz v
     | Inr (Inl (vs, _, _, _)) \<Rightarrow> 2 * glsz vs + 1
     | Inr (Inr (vs, _, _, _)) \<Rightarrow> 2 * glsz vs + 1)")
     (auto dest: map_of_gmsz split: gval.splits)

definition evaluateEvidencePolicyStatus :: "gmap \<Rightarrow> string \<Rightarrow> stored_evidence list \<Rightarrow> gerr + policy_status" where
  "evaluateEvidencePolicyStatus policy domain evidence = evaluateEvidenceNode (GMap policy) domain evidence"

section \<open>An accepted policy is evaluated without error\<close>

lemma stringItems_ok: "(\<forall>v \<in> set vs. case v of GStr s \<Rightarrow> \<not> blank s | _ \<Rightarrow> False) \<Longrightarrow> \<exists>ss. stringItems vs = Inr ss \<and> length ss = length vs"
  by (induction vs rule: stringItems.induct) (auto split: gval.splits)

lemma policyOperator_cases:
  assumes "policyOperator path m = Inr op"
  shows "op = [] \<and> map_of m ''all'' = None \<and> map_of m ''any'' = None \<and> map_of m ''not'' = None \<or>
    op = ''all'' \<and> map_of m ''all'' \<noteq> None \<and> map_of m ''any'' = None \<and> map_of m ''not'' = None \<or>
    op = ''any'' \<and> map_of m ''all'' = None \<and> map_of m ''any'' \<noteq> None \<and> map_of m ''not'' = None \<or>
    op = ''not'' \<and> map_of m ''all'' = None \<and> map_of m ''any'' = None \<and> map_of m ''not'' \<noteq> None"
  using assms unfolding policyOperator_def
  by (cases "map_of m ''all''"; cases "map_of m ''any''"; cases "map_of m ''not''") simp_all

lemma validateCILeaf_evaluates:
  assumes "validateCILeaf path m metadata = Inr ()"
  shows "\<exists>v. evaluateCILeaf m evidence = Inr v"
proof -
  from assms obtain checks where p: "\<not> blank (strField m ''pipeline'')" and c: "map_of m ''checks'' = Some (GList checks)"
    and ne: "checks \<noteq> []"
    and ok: "\<forall>k < length checks. \<not> (case checks ! k of GStr s \<Rightarrow> blank s | _ \<Rightarrow> True)"
    unfolding validateCILeaf_def by (auto simp: bindE_Inr_iff split: option.splits gval.splits)
  have "\<forall>v \<in> set checks. case v of GStr s \<Rightarrow> \<not> blank s | _ \<Rightarrow> False"
  proof
    fix v assume "v \<in> set checks"
    then obtain k where "k < length checks" "checks ! k = v" by (auto simp: in_set_conv_nth)
    with ok show "case v of GStr s \<Rightarrow> \<not> blank s | _ \<Rightarrow> False" by (auto split: gval.splits)
  qed
  then obtain ss where "stringItems checks = Inr ss" "length ss = length checks" using stringItems_ok by blast
  moreover have "strField m ''pipeline'' \<noteq> []" using p by auto
  moreover have "ss \<noteq> []" using ne \<open>length ss = length checks\<close> by auto
  ultimately show ?thesis using c by (simp add: evaluateCILeaf_def stringList_def Let_def)
qed

text \<open>The integers of a decoded document: \<^verbatim>\<open>int\<close>, or \<^verbatim>\<open>uint64\<close> beyond its range.\<close>

fun goIntegers :: "gval \<Rightarrow> bool" where
  "goIntegers (GInt i) \<longleftrightarrow> - (2 ^ 63) \<le> i \<and> i < 2 ^ 64"
| "goIntegers (GList vs) \<longleftrightarrow> list_all goIntegers vs"
| "goIntegers (GMap m) \<longleftrightarrow> list_all (\<lambda>(k, v). goIntegers v) m"
| "goIntegers (GStruct m) \<longleftrightarrow> list_all (\<lambda>(k, v). goIntegers v) m"
| "goIntegers _ \<longleftrightarrow> True"

lemma goIntegers_lookup: "goIntegers (GMap m) \<Longrightarrow> map_of m k = Some v \<Longrightarrow> goIntegers v"
  by (auto simp: list_all_iff dest: map_of_SomeD)

lemma policyInteger_value:
  "policyNonNegativeInteger v = (i, True) \<Longrightarrow> 0 \<le> i \<Longrightarrow> goIntegers v \<Longrightarrow> integerValue v = Inr i"
  by (auto simp: policyNonNegativeInteger_def integerValue_def split: gval.splits if_splits)

lemma validateReviewLeaf_evaluates:
  assumes "validateReviewLeaf path m metadata = Inr ()" and ints: "goIntegers (GMap m)"
  shows "\<exists>v. evaluateReviewLeaf m evidence = Inr v"
proof -
  obtain approvals i ok where c: "\<not> blank (strField m ''connection'')" and a: "map_of m ''approvals'' = Some (GMap approvals)"
    and n: "policyNonNegativeInteger (case map_of approvals ''minimum'' of None \<Rightarrow> GNil | Some v \<Rightarrow> v) = (i, ok)"
      "ok" "0 \<le> i"
    using assms(1) unfolding validateReviewLeaf_def Let_def
    by (auto simp: bindE_Inr_iff not_less split: option.splits gval.splits prod.splits)
  then obtain v where v: "map_of approvals ''minimum'' = Some v"
    by (cases "map_of approvals ''minimum''") (auto simp: policyNonNegativeInteger_def)
  have "goIntegers v" using goIntegers_lookup [OF goIntegers_lookup [OF ints a] v] .
  then have "integerValue v = Inr i" using n v by (intro policyInteger_value) simp_all
  then have "minimumApprovals m = Inr i" using a v n(3) by (simp add: minimumApprovals_def)
  moreover have "strField m ''connection'' \<noteq> []" using c by auto
  ultimately show ?thesis by (simp add: evaluateReviewLeaf_def Let_def)
qed

lemmas validateNode_GMap = validateEvidencePolicyNode.simps [of _ "GMap _", unfolded gval.case]

lemma validateEvidencePolicyNode_evaluates:
  "validateEvidencePolicyNode path node mode root = Inr () \<Longrightarrow> goIntegers node \<Longrightarrow>
     \<exists>v. evaluateEvidenceNode node mode evidence = Inr v"
  "validatePolicyItems path i items mode = Inr () \<Longrightarrow> goIntegers (GList items) \<Longrightarrow>
     (\<forall>st. \<exists>v. evaluateAll items mode evidence st = Inr v) \<and> (\<forall>p. \<exists>v. evaluateAny items mode evidence p = Inr v)"
proof (induction path node mode root and path i items mode rule: validateEvidencePolicyNode_validatePolicyItems.induct)
  case (1 path node mode root)
  then obtain m where node: "node = GMap m" "m \<noteq> []"
    by (auto simp: validateEvidencePolicyNode.simps split: gval.splits if_splits)
  obtain op where op: "policyOperator path m = Inr op" and meta: "checkMetadata path m mode = Inr ()"
    using 1(3) unfolding node(1) validateNode_GMap using node(2) by (auto simp: bindE_Inr_iff)
  show ?case
  proof (cases "op = []")
    case True
    then have none: "map_of m ''all'' = None" "map_of m ''any'' = None" "map_of m ''not'' = None"
      using policyOperator_cases [OF op] by auto
    have leaf: "(if mode = ''ci'' then validateCILeaf path m (policyMetadata mode root)
        else validateReviewLeaf path m (policyMetadata mode root)) = Inr ()"
      using 1(3) True op meta node(2) unfolding node(1) validateNode_GMap
      by (simp add: bindE_Inr_iff)
    then show ?thesis
      using none 1(4) validateCILeaf_evaluates validateReviewLeaf_evaluates node(1)
      by (auto simp: evaluateEvidenceLeaf_def split: if_splits)
  next
    case False
    then obtain operand where x: "map_of m op = Some operand"
      using policyOperator_cases [OF op] by auto
    have ints: "goIntegers operand" using goIntegers_lookup [OF 1(4) [unfolded node(1)] x] .
    have body: "onlyKeys m (op # policyMetadata mode root) (\<lambda>k. Errf ''%s: unsupported field %q beside %s'' [path, k, op]) = Inr ()"
      "(if op = ''not'' then validateEvidencePolicyNode (path @ ''.not'') operand mode False
        else (case operand of
            GList items \<Rightarrow> bindE (whenE (items = []) (Errf ''%s.%s must be a non-empty list'' [path, op])) (\<lambda>_.
              validatePolicyItems (dot path op) 0 items mode)
          | _ \<Rightarrow> Inl (Errf ''%s.%s must be a non-empty list'' [path, op]))) = Inr ()"
      using 1(3) False op meta node(2) x unfolding node(1) validateNode_GMap
      by (simp_all add: bindE_Inr_iff)
    show ?thesis
    proof (cases "op = ''not''")
      case True
      then have "\<exists>v. evaluateEvidenceNode operand mode evidence = Inr v"
        using body x ints by (intro 1(1) [OF node(1) node(2) op meta False body(1) x True]) simp_all
      then show ?thesis using policyOperator_cases [OF op] True x node(1) by auto
    next
      case False
      then obtain items where items: "operand = GList items" "items \<noteq> []" "validatePolicyItems (dot path op) 0 items mode = Inr ()"
        using body(2) by (auto simp: bindE_Inr_iff split: gval.splits)
      have "(\<forall>st. \<exists>v. evaluateAll items mode evidence st = Inr v) \<and> (\<forall>p. \<exists>v. evaluateAny items mode evidence p = Inr v)"
        by (rule 1(2) [OF node op meta \<open>op \<noteq> []\<close> body(1) x False items(1)]) (use ints items in simp_all)
      then show ?thesis using policyOperator_cases [OF op] False \<open>op \<noteq> []\<close> x node(1) items(1,2) by auto
    qed
  qed
next
  case (3 path i item items mode)
  have node: "validateEvidencePolicyNode (idx path i) item mode False = Inr ()"
    and rest: "validatePolicyItems path (Suc i) items mode = Inr ()"
    using "3.prems"(1) by (simp_all add: bindE_Inr_iff)
  obtain v where v: "evaluateEvidenceNode item mode evidence = Inr v" using "3.IH"(1) [OF node] "3.prems"(2) by auto
  have "(\<forall>st. \<exists>v. evaluateAll items mode evidence st = Inr v) \<and> (\<forall>p. \<exists>v. evaluateAny items mode evidence p = Inr v)"
    by (rule "3.IH"(2) [OF node rest]) (use "3.prems"(2) in simp_all)
  then show ?case by (auto simp: v)
qed simp_all

section \<open>A decided verdict is stable\<close>

text \<open>The second result settles the first: it is the same, unless the first was pending.\<close>

definition settles :: "gerr + policy_status \<Rightarrow> gerr + policy_status \<Rightarrow> bool" where
  "settles a b \<longleftrightarrow> (\<forall>v. a = Inr v \<longrightarrow> (\<exists>w. b = Inr w \<and> (v = PolicyPending \<or> w = v)))"

lemma settlesE:
  assumes "settles a b" and "a = Inr v"
  obtains w where "b = Inr w" and "v = PolicyPending \<or> w = v"
  using assms unfolding settles_def by blast

lemma evaluateAny_pending: "evaluateAny items d E True \<noteq> Inr PolicyUnsatisfied"
  by (induction items) (auto simp: bindE_Inr_iff)

lemma settles_negate: "settles a b \<Longrightarrow> settles (bindE a (\<lambda>v. Inr (negatePolicy v))) (bindE b (\<lambda>v. Inr (negatePolicy v)))"
  unfolding settles_def by (auto simp: bindE_Inr_iff)

lemma settled_min:
  "st = PolicyPending \<or> st' = st \<Longrightarrow> v = PolicyPending \<or> w = v \<Longrightarrow>
   combineAllPolicyStatus st v = PolicyPending \<or> combineAllPolicyStatus st' w = combineAllPolicyStatus st v"
  by (cases st; cases v) (auto simp: combineAllPolicyStatus_def)

lemma evaluateEvidenceNode_settles:
  "(\<And>m. settles (evaluateEvidenceLeaf m d E) (evaluateEvidenceLeaf m d E')) \<Longrightarrow>
     settles (evaluateEvidenceNode node d E) (evaluateEvidenceNode node d E')"
  "(\<And>m. settles (evaluateEvidenceLeaf m d E) (evaluateEvidenceLeaf m d E')) \<Longrightarrow>
     \<forall>st'. (st = PolicyPending \<or> st' = st) \<longrightarrow> settles (evaluateAll items d E st) (evaluateAll items d E' st')"
  "(\<And>m. settles (evaluateEvidenceLeaf m d E) (evaluateEvidenceLeaf m d E')) \<Longrightarrow>
     \<forall>p'. (p' \<longrightarrow> p) \<longrightarrow> settles (evaluateAny items d E p) (evaluateAny items d E' p')"
proof (induction node d E and items d E st and items d E p rule: evaluateEvidenceNode_evaluateAll_evaluateAny.induct)
  case (1 m d E)
  show ?case
  proof (cases "map_of m ''all''")
    case None
    note all = this
    show ?thesis
    proof (cases "map_of m ''any''")
      case None
      note any = this
      show ?thesis
      proof (cases "map_of m ''not''")
        case None
        then show ?thesis using all any "1.prems" by simp
      next
        case (Some raw)
        then show ?thesis using all any settles_negate [OF "1.IH"(1) [OF all any Some "1.prems"]] by simp
      qed
    next
      case (Some raw)
      then show ?thesis using all "1.IH"(2) [OF all Some _ _ "1.prems"]
        by (cases raw) (auto simp: settles_def)
    qed
  next
    case (Some raw)
    then show ?thesis using "1.IH"(3) [OF Some _ _ "1.prems"]
      by (cases raw) (auto simp: settles_def)
  qed
next
  case (3 d E st)
  then show ?case by (simp add: settles_def)
next
  case (4 item items d E st)
  show ?case
  proof (intro allI impI)
    fix st' assume st: "st = PolicyPending \<or> st' = st"
    show "settles (evaluateAll (item # items) d E st) (evaluateAll (item # items) d E' st')"
      unfolding settles_def
    proof (intro allI impI)
      fix u assume "evaluateAll (item # items) d E st = Inr u"
      then obtain v where v: "evaluateEvidenceNode item d E = Inr v"
        and rest: "evaluateAll items d E (combineAllPolicyStatus st v) = Inr u" by (auto simp: bindE_Inr_iff)
      obtain w where w: "evaluateEvidenceNode item d E' = Inr w" "v = PolicyPending \<or> w = v"
        using "4.IH"(1) [OF "4.prems"] v by (rule settlesE)
      have "settles (evaluateAll items d E (combineAllPolicyStatus st v)) (evaluateAll items d E' (combineAllPolicyStatus st' w))"
        using "4.IH"(2) [OF v "4.prems"] settled_min [OF st w(2)] by blast
      then obtain t where "evaluateAll items d E' (combineAllPolicyStatus st' w) = Inr t" "u = PolicyPending \<or> t = u"
        using rest by (rule settlesE)
      then show "\<exists>t. evaluateAll (item # items) d E' st' = Inr t \<and> (u = PolicyPending \<or> t = u)"
        using w(1) by simp
    qed
  qed
next
  case (5 d E p)
  then show ?case by (auto simp: settles_def)
next
  case (6 item items d E p)
  show ?case
  proof (intro allI impI)
    fix p' assume p: "p' \<longrightarrow> p"
    show "settles (evaluateAny (item # items) d E p) (evaluateAny (item # items) d E' p')"
      unfolding settles_def
    proof (intro allI impI)
      fix u assume u: "evaluateAny (item # items) d E p = Inr u"
      then obtain v where v: "evaluateEvidenceNode item d E = Inr v" by (auto simp: bindE_Inr_iff)
      obtain w where w: "evaluateEvidenceNode item d E' = Inr w" "v = PolicyPending \<or> w = v"
        using "6.IH"(1) [OF "6.prems"] v by (rule settlesE)
      show "\<exists>t. evaluateAny (item # items) d E' p' = Inr t \<and> (u = PolicyPending \<or> t = u)"
      proof (cases "v = PolicySatisfied")
        case True
        then show ?thesis using u v w by simp
      next
        case False
        then have rest: "evaluateAny items d E (p \<or> v = PolicyPending) = Inr u" using u v by simp
        show ?thesis
        proof (cases "w = PolicySatisfied")
          case True
          then have "v = PolicyPending" using w(2) False by auto
          then have "u \<noteq> PolicyUnsatisfied" using rest evaluateAny_pending [of items d E] by auto
          then show ?thesis using True w(1) by (cases u) simp_all
        next
          case notSat: False
          have "settles (evaluateAny items d E (p \<or> v = PolicyPending)) (evaluateAny items d E' (p' \<or> w = PolicyPending))"
          proof -
            have "p' \<or> w = PolicyPending \<longrightarrow> p \<or> v = PolicyPending" using p w(2) by auto
            with "6.IH"(2) [OF v False "6.prems"] show ?thesis by simp
          qed
          then obtain t where "evaluateAny items d E' (p' \<or> w = PolicyPending) = Inr t" "u = PolicyPending \<or> t = u"
            using rest by (rule settlesE)
          then show ?thesis using w(1) notSat by simp
        qed
      qed
    qed
  qed
qed (simp_all add: settles_def)

text \<open>
  In a CI policy the leaves look at the latest observation of each check.  Evidence that adds observations only of checks
  without any leaves every decided verdict alone.
\<close>

definition extendsChecks :: "stored_evidence list \<Rightarrow> stored_evidence list \<Rightarrow> bool" where
  "extendsChecks E E' \<longleftrightarrow> (\<forall>pipeline check. latestCheck pipeline check E = None \<or>
     latestCheck pipeline check E' = latestCheck pipeline check E)"

lemma evaluateChecks_settled:
  "extendsChecks E E' \<Longrightarrow> evaluateChecks pipeline checks E = PolicyPending \<or>
     evaluateChecks pipeline checks E' = evaluateChecks pipeline checks E"
proof (induction checks)
  case (Cons check checks)
  show ?case
  proof (cases "latestCheck pipeline check E")
    case (Some item)
    then have "latestCheck pipeline check E' = Some item"
      using Cons.prems [unfolded extendsChecks_def, rule_format, of pipeline check] by simp
    then show ?thesis using Some Cons by simp
  qed simp
qed simp

lemma ci_leaf_settles: "extendsChecks E E' \<Longrightarrow> settles (evaluateEvidenceLeaf m ''ci'' E) (evaluateEvidenceLeaf m ''ci'' E')"
  unfolding evaluateEvidenceLeaf_def evaluateCILeaf_def settles_def Let_def
  by (auto simp: bindE_Inr_iff dest: evaluateChecks_settled)

section \<open>What a leaf demands\<close>

lemma evaluateChecks_satisfied_iff:
  "evaluateChecks pipeline checks E = PolicySatisfied \<longleftrightarrow>
     (\<forall>check \<in> set checks. \<exists>item. latestCheck pipeline check E = Some item \<and> se_Status item = ''success'')"
proof (induction checks)
  case (Cons check checks)
  have "\<not> isFailureEvidenceStatus ''success''" by (simp add: isFailureEvidenceStatus_def) code_simp
  then show ?case using Cons by (auto split: option.splits)
qed simp

lemma latestCheck_snoc:
  "latestCheck pipeline check (E @ [item]) =
     (if checkMatches pipeline check item then
        (case latestCheck pipeline check E of
           None \<Rightarrow> Some item
         | Some l \<Rightarrow> if laterCheck item l then Some item else Some l)
      else latestCheck pipeline check E)"
  by (simp add: latestCheck_def split: option.splits)

lemma latestCheck_None_iff: "latestCheck pipeline check E = None \<longleftrightarrow> (\<forall>item \<in> set E. \<not> checkMatches pipeline check item)"
  by (induction E rule: rev_induct) (auto simp: latestCheck_snoc latestCheck_def [of _ _ "[]"] split: option.splits)

lemma latestCheck_in:
  "latestCheck pipeline check E = Some item \<Longrightarrow> item \<in> set E \<and> checkMatches pipeline check item \<and>
     (\<forall>x \<in> set E. checkMatches pipeline check x \<longrightarrow> se_ObservedAt x \<le> se_ObservedAt item)"
proof (induction E arbitrary: item rule: rev_induct)
  case (snoc x E)
  show ?case
  proof (cases "latestCheck pipeline check E")
    case None
    then have "item = x" "checkMatches pipeline check x"
      using snoc.prems by (auto simp: latestCheck_snoc split: if_splits)
    then show ?thesis using None by (auto simp: latestCheck_None_iff)
  next
    case (Some l)
    note l = snoc.IH [OF Some]
    show ?thesis
    proof (cases "checkMatches pipeline check x \<and> laterCheck x l")
      case True
      then have "item = x" using snoc.prems Some by (auto simp: latestCheck_snoc)
      moreover have "se_ObservedAt l \<le> se_ObservedAt x" using True by (auto simp: laterCheck_def)
      ultimately show ?thesis using True l by fastforce
    next
      case False
      then have "item = l" using snoc.prems Some by (auto simp: latestCheck_snoc split: if_splits)
      then show ?thesis using l False by (auto simp: laterCheck_def)
    qed
  qed
qed (simp add: latestCheck_def)

lemma extendsChecks_append:
  "(\<And>item. item \<in> set new \<Longrightarrow> se_Domain item = ''ci'' \<Longrightarrow>
      (\<forall>x \<in> set E. \<not> (se_Domain x = ''ci'' \<and> se_Kind x = se_Kind item \<and>
         map_of (se_Payload x) ''pipeline'' = map_of (se_Payload item) ''pipeline''))) \<Longrightarrow>
   extendsChecks E (E @ new)"
proof (induction new rule: rev_induct)
  case (snoc item new)
  have old: "extendsChecks E (E @ new)" using snoc.prems by (intro snoc.IH) simp
  have none: "latestCheck p c E = None" if "checkMatches p c item" for p c
    using that snoc.prems [of item] by (auto simp: checkMatches_def latestCheck_None_iff)
  show ?case unfolding extendsChecks_def
  proof (intro allI)
    fix p c
    show "latestCheck p c E = None \<or> latestCheck p c (E @ new @ [item]) = latestCheck p c E"
    proof (cases "checkMatches p c item")
      case False
      then have "latestCheck p c ((E @ new) @ [item]) = latestCheck p c (E @ new)" by (simp only: latestCheck_snoc if_False)
      then show ?thesis using old by (simp add: extendsChecks_def)
    qed (simp add: none)
  qed
qed (simp add: extendsChecks_def)

text \<open>The order of the checks of a leaf matters: a failed check behind one that has not reported stays hidden, though the same
  two checks as two leaves of an \<^verbatim>\<open>all\<close> are unsatisfied.\<close>

lemma failed_check_hidden_by_order:
  assumes "latestCheck p a E = None" and "latestCheck p b E = Some item" and "isFailureEvidenceStatus (se_Status item)"
  shows "evaluateChecks p [a, b] E = PolicyPending" and "evaluateChecks p [b, a] E = PolicyUnsatisfied"
    and "combineAllPolicyStatus (evaluateChecks p [a] E) (evaluateChecks p [b] E) = PolicyUnsatisfied"
  using assms by (simp_all add: combineAllPolicyStatus_def)

text \<open>The latest approval evidence of a reviewer counts, whatever its status: a review that only comments replaces the
  reviewer's request for changes, and also an approval.\<close>

lemma latestByPrincipal_snoc:
  "latestByPrincipal connection (E @ [item]) =
     (if approvalMatches connection item \<and>
         (case map_of (latestByPrincipal connection E) (se_ExternalID item) of
            None \<Rightarrow> True | Some current \<Rightarrow> laterApproval item current)
      then AList.update (se_ExternalID item) item (latestByPrincipal connection E)
      else latestByPrincipal connection E)"
  by (simp add: latestByPrincipal_def)

end
