(* ===== verification/Evidence.thy ===== *)
theory Evidence
  imports Delivery EvidencePolicy
begin

text \<open>
  Evidence and the delivery policy of a run: \<^verbatim>\<open>pkg/hub/workflowv2/evidence.go\<close>.

  Adapters record evidence for the current head of a delivered pull request; the policy of the workflow is evaluated over
  the evidence of the current generation, and its result is published as events.  The publishing events re-evaluate the
  policy inside their transaction and start over (at most five times) when its inputs changed in between.

  \<^verbatim>\<open>json_extract(payload_json,'$.pipeline')=?\<close> compares a text; the identifiers of a set are drawn and the clock is read
  once, at its transaction.
\<close>

record evidence_input =
  ei_ID :: string
  ei_RunID :: string
  ei_PRID :: string
  ei_HeadSHA :: string
  ei_Domain :: string
  ei_Connection :: string
  ei_ExternalID :: string
  ei_Kind :: string
  ei_Status :: string
  ei_Payload :: gmap
  ei_Provenance :: provenance
  ei_ObservedAt :: int

record evidence_scope =
  es_RunID :: string
  es_PRID :: string
  es_HeadSHA :: string
  es_Domain :: string
  es_Connection :: string
  es_Pipeline :: string

record delivery_policy_result =
  dr_Revision :: string
  dr_PullRequestCount :: nat
  dr_MinimumMet :: bool
  dr_CISatisfied :: bool
  dr_CIStatus :: policy_status
  dr_ReviewSatisfied :: bool
  dr_ReviewStatus :: policy_status
  dr_AllMerged :: bool
  dr_Satisfied :: bool

section \<open>Preparing a set of evidence\<close>

definition validateEvidenceProducer :: "string \<Rightarrow> producer \<Rightarrow> gerr + unit" where
  "validateEvidenceProducer domain p =
     (let check = \<lambda>allowed. whenE (\<not> allowed)
            (Errf ''producer %q cannot record %s evidence'' [producerName p, domain]) in
      if domain = ''ci'' then check (p = ProducerCI)
      else if domain = ''review'' then check (p = ProducerReview)
      else if domain = ''pull_request'' then check (p = ProducerSourceControl)
      else if domain = ''operator'' then check (p = ProducerOperator)
      else if domain = ''effect'' then check (p = ProducerEffect)
      else if domain = ''context'' then check (p = ProducerContext)
      else Inl (Errf ''unsupported evidence domain %q'' [domain]))"

text \<open>The subject all scopes and inputs must share.\<close>

record evidence_subject =
  sj_RunID :: string
  sj_PRID :: string
  sj_HeadSHA :: string
  sj_Domain :: string

definition trimScope :: "evidence_scope \<Rightarrow> evidence_scope" where
  "trimScope sc =
     \<lparr>es_RunID = trimSpace (es_RunID sc), es_PRID = trimSpace (es_PRID sc), es_HeadSHA = trimSpace (es_HeadSHA sc),
      es_Domain = toLower (trimSpace (es_Domain sc)), es_Connection = trimSpace (es_Connection sc),
      es_Pipeline = trimSpace (es_Pipeline sc)\<rparr>"

definition scopeSubject :: "evidence_scope \<Rightarrow> evidence_subject" where
  "scopeSubject sc = \<lparr>sj_RunID = es_RunID sc, sj_PRID = es_PRID sc, sj_HeadSHA = es_HeadSHA sc, sj_Domain = es_Domain sc\<rparr>"

fun checkScopes :: "producer \<Rightarrow> nat \<Rightarrow> evidence_subject option \<Rightarrow> evidence_scope list \<Rightarrow> gerr + evidence_subject option" where
  "checkScopes p i subject [] = Inr subject"
| "checkScopes p i subject (sc # scopes) =
     bindE (whenE (es_RunID sc = [] \<or> es_PRID sc = [] \<or> es_HeadSHA sc = [] \<or> es_Domain sc = [] \<or> es_Connection sc = [])
       (Errf ''evidence scope[%d]: run, pull request, head, domain, and connection are required'' [utoa i])) (\<lambda>_.
     bindE (validateEvidenceProducer (es_Domain sc) p) (\<lambda>_.
     bindE (whenE (subject \<noteq> None \<and> subject \<noteq> Some (scopeSubject sc))
       (Errf ''evidence scopes must share run, pull request, head, and domain'' [])) (\<lambda>_.
     checkScopes p (Suc i) (Some (scopeSubject sc)) scopes)))"

record prepared_evidence =
  pe_Input :: evidence_input
  pe_ID :: string
  pe_Observed :: int
  pe_Pipeline :: string

definition payloadPipeline :: "gmap \<Rightarrow> string" where
  "payloadPipeline payload = (case map_of payload ''pipeline'' of Some (GStr s) \<Rightarrow> s | _ \<Rightarrow> [])"

definition trimInput :: "evidence_input \<Rightarrow> evidence_input" where
  "trimInput i =
     i\<lparr>ei_Domain := toLower (trimSpace (ei_Domain i)), ei_Connection := trimSpace (ei_Connection i),
       ei_ExternalID := trimSpace (ei_ExternalID i), ei_Kind := trimSpace (ei_Kind i),
       ei_Status := toLower (trimSpace (ei_Status i))\<rparr>"

definition inputSubject :: "evidence_input \<Rightarrow> evidence_subject" where
  "inputSubject i = \<lparr>sj_RunID = ei_RunID i, sj_PRID = ei_PRID i, sj_HeadSHA = ei_HeadSHA i, sj_Domain = ei_Domain i\<rparr>"

definition observedOr :: "int \<Rightarrow> int \<Rightarrow> int" where
  "observedOr t now = (if t = zeroTime then now else t)"

definition checkInput :: "producer \<Rightarrow> nat \<Rightarrow> evidence_subject option \<Rightarrow> evidence_input \<Rightarrow> gerr + unit" where
  "checkInput p index subject i =
     bindE (validateEvidenceProducer (ei_Domain i) p) (\<lambda>_.
     bindE (whenE (ei_RunID i = [] \<or> ei_PRID i = [] \<or> ei_HeadSHA i = [] \<or> ei_ExternalID i = [] \<or> ei_Kind i = [] \<or>
         ei_Status i = [])
       (Errf ''evidence[%d]: run, pull request, head, external id, kind, and status are required'' [utoa index])) (\<lambda>_.
     bindE (whenE (subject \<noteq> None \<and> subject \<noteq> Some (inputSubject i))
       (Errf ''evidence set must share run, pull request, head, and domain'' [])) (\<lambda>_.
     whenE (trimSpace (pv_Producer (ei_Provenance i)) \<noteq> producerName p)
       (Errf ''evidence provenance producer %q does not match trusted adapter %q''
          [pv_Producer (ei_Provenance i), producerName p]))))"

definition prepareItem :: "int \<Rightarrow> evidence_input \<Rightarrow> string \<Rightarrow> prepared_evidence" where
  "prepareItem now i ident =
     (let itemObserved = observedOr (ei_ObservedAt i) now in
      \<lparr>pe_Input = i\<lparr>ei_Provenance := (ei_Provenance i)\<lparr>pv_ObservedAt := observedOr (pv_ObservedAt (ei_Provenance i)) itemObserved\<rparr>\<rparr>,
       pe_ID = ident, pe_Observed = itemObserved, pe_Pipeline = trimSpace (payloadPipeline (ei_Payload i))\<rparr>)"

fun prepareInputs ::
    "rt_env \<Rightarrow> int \<Rightarrow> producer \<Rightarrow> nat \<Rightarrow> evidence_subject option \<Rightarrow> evidence_input list \<Rightarrow>
     (evidence_subject option \<times> prepared_evidence list) tx" where
  "prepareInputs env now p index subject [] = returnT (subject, [])"
| "prepareInputs env now p index subject (raw # inputs) =
     (let i = trimInput raw in
      thenT (liftT (checkInput p index subject i))
      (bindT (if blank (ei_ID i) then freshUUID env else returnT (trimSpace (ei_ID i))) (\<lambda>ident.
       bindT (prepareInputs env now p (Suc index) (Some (inputSubject i)) inputs) (\<lambda>(subject', rest).
       returnT (subject', prepareItem now i ident # rest)))))"

text \<open>The latest observation of the set, or the present when there is none.\<close>

definition observedOf :: "int \<Rightarrow> prepared_evidence list \<Rightarrow> int" where
  "observedOf now prepared =
     (case prepared of [] \<Rightarrow> now | x # xs \<Rightarrow> foldl (\<lambda>t e. if t < pe_Observed e then pe_Observed e else t) (pe_Observed x) xs)"

definition scopeKey :: "string \<Rightarrow> string \<Rightarrow> string" where
  "scopeKey connection pipeline = connection @ [CHR 0x00] @ pipeline"

section \<open>Writing a set of evidence\<close>

definition activeDelivery :: "string \<Rightarrow> string \<Rightarrow> pr_row \<Rightarrow> bool" where
  "activeDelivery prID runID p \<longleftrightarrow> pr_ID p = prID \<and> pr_RunID p = runID \<and> pr_Active p \<and> \<not> pr_RegisteredOnly p"

definition inScope :: "evidence_subject \<Rightarrow> nat \<Rightarrow> int \<Rightarrow> evidence_scope \<Rightarrow> evidence_row \<Rightarrow> bool" where
  "inScope sj generation observed sc e \<longleftrightarrow>
     ed_RunID e = sj_RunID sj \<and> ed_PRID e = sj_PRID sj \<and> ed_Generation e = generation \<and> ed_Domain e = sj_Domain sj \<and>
     ed_Connection e = es_Connection sc \<and>
     (es_Pipeline sc = [] \<or> map_of (ed_Payload e) ''pipeline'' = Some (GStr (es_Pipeline sc))) \<and>
     ed_SupersededAt e = 0 \<and> ed_ObservedAt e \<le> unixMilli observed"

definition supersedeScope :: "evidence_subject \<Rightarrow> nat \<Rightarrow> int \<Rightarrow> int \<Rightarrow> evidence_scope \<Rightarrow> unit tx" where
  "supersedeScope sj generation observed now sc =
     bindT (updateT db_evidence db_evidence_update (inScope sj generation observed sc)
       (\<lambda>e. e\<lparr>ed_SupersededAt := unixMilli now\<rparr>)) (\<lambda>_. returnT ())"

definition evidenceRow :: "evidence_subject \<Rightarrow> nat \<Rightarrow> prepared_evidence \<Rightarrow> evidence_row" where
  "evidenceRow sj generation item =
     (let i = pe_Input item in
      \<lparr>ed_ID = pe_ID item, ed_RunID = sj_RunID sj, ed_PRID = sj_PRID sj, ed_HeadSHA = sj_HeadSHA sj,
       ed_Generation = generation, ed_Domain = sj_Domain sj, ed_Connection = ei_Connection i,
       ed_ExternalID = ei_ExternalID i, ed_Kind = ei_Kind i, ed_Status = ei_Status i,
       ed_Payload = jsonObject (ei_Payload i), ed_Provenance = ei_Provenance i,
       ed_ObservedAt = unixMilli (pe_Observed item), ed_SupersededAt = 0\<rparr>)"

definition evidenceKey :: "evidence_row \<Rightarrow> (string \<times> string \<times> string) \<times> (string \<times> string \<times> string) \<times> nat" where
  "evidenceKey e = ((ed_RunID e, ed_PRID e, ed_Domain e), (ed_Connection e, ed_ExternalID e, ed_Kind e), ed_Generation e)"

definition refreshEvidence :: "evidence_row \<Rightarrow> evidence_row \<Rightarrow> evidence_row" where
  "refreshEvidence new old =
     old\<lparr>ed_Status := ed_Status new, ed_Payload := ed_Payload new, ed_Provenance := ed_Provenance new,
         ed_ObservedAt := ed_ObservedAt new, ed_SupersededAt := 0\<rparr>"

text \<open>\<^verbatim>\<open>INSERT ... ON CONFLICT(...) DO UPDATE ... WHERE excluded.observed_at>=observed_at\<close>.\<close>

definition upsertEvidence :: "evidence_row \<Rightarrow> unit tx" where
  "upsertEvidence new =
     bindT (getsT (\<lambda>s. (evidenceKey new \<in> evidenceKey ` set (db_evidence s), ed_ID new \<in> ed_ID ` set (db_evidence s)))) (\<lambda>(known, dup).
     if known then
       bindT (updateT db_evidence db_evidence_update
         (\<lambda>old. evidenceKey old = evidenceKey new \<and> ed_ObservedAt old \<le> ed_ObservedAt new) (refreshEvidence new)) (\<lambda>_. returnT ())
     else thenT (whenT dup (uniqueError ''workflow_v2_evidence.id''))
       (modifyT (\<lambda>s. s\<lparr>db_evidence := db_evidence s @ [new]\<rparr>)))"

definition storeEvidence ::
    "int \<Rightarrow> evidence_subject \<Rightarrow> evidence_scope list \<Rightarrow> bool \<Rightarrow> int \<Rightarrow> prepared_evidence list \<Rightarrow> unit tx" where
  "storeEvidence now sj scopes reconcile observed prepared =
     bindT (scanT (Wrapf ''load active delivery: %w'' [] errNoRows)
       (\<lambda>s. map_option (\<lambda>p. (pr_HeadSHA p, headGeneration (pr_ID p) s)) (find (activeDelivery (sj_PRID sj) (sj_RunID sj)) (db_prs s))))
     (\<lambda>(currentHead, generation).
     thenT (whenT (currentHead \<noteq> sj_HeadSHA sj)
       (Errf ''evidence head %s is stale; current head is %s'' [sj_HeadSHA sj, currentHead]))
     (thenT (whenT (generation < 1) (Errf ''active delivery has no verified head generation'' []))
     (thenT (if reconcile then forT (supersedeScope sj generation observed now) scopes else returnT ())
     (forT (\<lambda>item. upsertEvidence (evidenceRow sj generation item)) prepared))))"

definition emptySubject :: evidence_subject where
  "emptySubject = \<lparr>sj_RunID = [], sj_PRID = [], sj_HeadSHA = [], sj_Domain = []\<rparr>"

definition recordEvidenceTx ::
    "rt_env \<Rightarrow> evidence_scope list \<Rightarrow> evidence_input list \<Rightarrow> producer \<Rightarrow> bool \<Rightarrow> int \<Rightarrow> (evidence_subject \<times> int) tx" where
  "recordEvidenceTx env rawScopes inputs p reconcile now =
     (let scopes = map trimScope rawScopes in
      thenT (whenT (inputs = [] \<and> scopes = []) (Errf ''evidence set must not be empty'' []))
      (bindT (liftT (checkScopes p 0 None scopes)) (\<lambda>subject.
       bindT (prepareInputs env now p 0 subject inputs) (\<lambda>(subject', prepared).
       let observed = observedOf now prepared;
           sj = (case subject' of None \<Rightarrow> emptySubject | Some sj \<Rightarrow> sj) in
       thenT (whenT (reconcile \<and> (\<exists>item \<in> set prepared. scopeKey (ei_Connection (pe_Input item)) (pe_Pipeline item) \<notin>
             (\<lambda>sc. scopeKey (es_Connection sc) (es_Pipeline sc)) ` set scopes))
         (Errf ''evidence input is outside its reconciliation scopes'' []))
       (thenT (storeEvidence now sj scopes reconcile observed prepared)
       (returnT (sj, observed)))))))"

section \<open>Evaluating the delivery policy\<close>

record policy_subject =
  ps_ID :: string
  ps_Repository :: string
  ps_Number :: int
  ps_State :: string
  ps_HeadSHA :: string
  ps_Generation :: nat
  ps_Evidence :: "stored_evidence list"

definition storedEvidence :: "evidence_row \<Rightarrow> stored_evidence" where
  "storedEvidence e =
     \<lparr>se_Domain = ed_Domain e, se_Connection = ed_Connection e, se_ExternalID = ed_ExternalID e, se_Kind = ed_Kind e,
      se_Status = ed_Status e, se_Payload = ed_Payload e, se_ObservedAt = ed_ObservedAt e\<rparr>"

definition currentEvidence :: "string \<Rightarrow> string \<Rightarrow> nat \<Rightarrow> evidence_row \<Rightarrow> bool" where
  "currentEvidence runID prID generation e \<longleftrightarrow>
     ed_RunID e = runID \<and> ed_PRID e = prID \<and> ed_Generation e = generation \<and> ed_SupersededAt e = 0"

definition evidenceOrder :: "evidence_row \<Rightarrow> string \<times> string \<times> string \<times> string \<times> int" where
  "evidenceOrder e = (ed_Domain e, ed_Connection e, ed_ExternalID e, ed_Kind e, ed_ObservedAt e)"

definition loadCurrentEvidence :: "string \<Rightarrow> string \<Rightarrow> nat \<Rightarrow> store \<Rightarrow> stored_evidence list" where
  "loadCurrentEvidence runID prID generation s =
     map storedEvidence (sort_key evidenceOrder (filter (currentEvidence runID prID generation) (db_evidence s)))"

definition policySubject :: "string \<Rightarrow> store \<Rightarrow> pr_row \<Rightarrow> policy_subject" where
  "policySubject runID s p =
     (let generation = headGeneration (pr_ID p) s in
      \<lparr>ps_ID = pr_ID p, ps_Repository = pr_Repository p, ps_Number = pr_Number p, ps_State = pr_State p,
       ps_HeadSHA = pr_HeadSHA p, ps_Generation = generation,
       ps_Evidence = loadCurrentEvidence runID (pr_ID p) generation s\<rparr>)"

definition deliveredRows :: "string \<Rightarrow> store \<Rightarrow> pr_row list" where
  "deliveredRows runID s = sort_key (\<lambda>p. (pr_Repository p, pr_Number p)) (filter (delivered runID) (db_prs s))"

definition loadDeliveryPolicySubjects :: "string \<Rightarrow> store \<Rightarrow> gerr + policy_subject list" where
  "loadDeliveryPolicySubjects runID s =
     (let subjects = map (policySubject runID s) (deliveredRows runID s)
      in case find (\<lambda>x. ps_Generation x < 1) subjects of
           Some x \<Rightarrow> Inl (Errf ''active delivery %s has no verified head generation'' [ps_ID x])
         | None \<Rightarrow> Inr subjects)"

text \<open>The JSON of the subjects, field by field in the order of the structs; a nil slice is \<^verbatim>\<open>null\<close>.\<close>

definition evidenceText :: "stored_evidence \<Rightarrow> jtext" where
  "evidenceText e = JObj
     [(''Domain'', JStr (se_Domain e)), (''Connection'', JStr (se_Connection e)), (''ExternalID'', JStr (se_ExternalID e)),
      (''Kind'', JStr (se_Kind e)), (''Status'', JStr (se_Status e)), (''Payload'', json_norm (GMap (se_Payload e))),
      (''ObservedAt'', JStr (jsonTime (se_ObservedAt e * 1000000)))]"

definition nilList :: "jtext list \<Rightarrow> jtext" where
  "nilList xs = (if xs = [] then JNull else JArr xs)"

definition subjectText :: "policy_subject \<Rightarrow> jtext" where
  "subjectText x = JObj
     [(''id'', JStr (ps_ID x)), (''repository'', JStr (ps_Repository x)), (''number'', JNum (ps_Number x)),
      (''state'', JStr (ps_State x)), (''head_sha'', JStr (ps_HeadSHA x)), (''generation'', JNum (int (ps_Generation x))),
      (''evidence'', nilList (map evidenceText (ps_Evidence x)))]"

definition policyRevision :: "rt_env \<Rightarrow> policy_subject list \<Rightarrow> string" where
  "policyRevision env subjects = ''sha256:'' @ sha256Hex env (jsonText (nilList (map subjectText subjects)))"

text \<open>The status of one policy over all subjects; validation guarantees that a named policy exists.\<close>

definition policyNamed :: "(string \<times> gmap) list option \<Rightarrow> string \<Rightarrow> gmap" where
  "policyNamed block name = (case block of None \<Rightarrow> [] | Some ps \<Rightarrow> (case map_of ps name of None \<Rightarrow> [] | Some p \<Rightarrow> p))"

fun combineSubjects :: "workflow \<Rightarrow> pr_delivery \<Rightarrow> policy_subject list \<Rightarrow> policy_status \<times> policy_status \<Rightarrow>
    gerr + policy_status \<times> policy_status" where
  "combineSubjects w req [] (ci, review) = Inr (ci, review)"
| "combineSubjects w req (x # xs) (ci, review) =
     bindE (if pd_CIPolicy req = [] then Inr ci
            else bindE (wrapE ''evaluate CI policy %s: %w'' [pd_CIPolicy req]
                (evaluateEvidencePolicyStatus (policyNamed (wf_CI w) (pd_CIPolicy req)) ''ci'' (ps_Evidence x))) (\<lambda>status.
              Inr (combineAllPolicyStatus ci status))) (\<lambda>ci'.
     bindE (if pd_ReviewPolicy req = [] then Inr review
            else bindE (wrapE ''evaluate review policy %s: %w'' [pd_ReviewPolicy req]
                (evaluateEvidencePolicyStatus (policyNamed (wf_Review w) (pd_ReviewPolicy req)) ''review'' (ps_Evidence x))) (\<lambda>status.
              Inr (combineAllPolicyStatus review status))) (\<lambda>review'.
     combineSubjects w req xs (ci', review')))"

definition pullRequestPolicy :: "workflow \<Rightarrow> pr_delivery option" where
  "pullRequestPolicy w = (case wf_Delivery w of None \<Rightarrow> None | Some d \<Rightarrow> wd_PullRequests d)"

definition evaluatePolicy :: "workflow \<Rightarrow> string \<Rightarrow> policy_subject list \<Rightarrow> gerr + delivery_policy_result" where
  "evaluatePolicy w revision subjects =
     (let merged = length (filter (\<lambda>x. ps_State x = ''merged'') subjects);
          allMerged = (length subjects = merged);
          initial = \<lparr>dr_Revision = revision, dr_PullRequestCount = length subjects, dr_MinimumMet = True,
            dr_CISatisfied = True, dr_CIStatus = PolicySatisfied, dr_ReviewSatisfied = True,
            dr_ReviewStatus = PolicySatisfied, dr_AllMerged = allMerged, dr_Satisfied = True\<rparr>
      in case pullRequestPolicy w of
           None \<Rightarrow> Inr initial
         | Some req \<Rightarrow>
             bindE (combineSubjects w req subjects (PolicySatisfied, PolicySatisfied)) (\<lambda>(ci, review).
             let minimumMet = (pd_Minimum req \<le> int (length subjects) \<and> (\<not> pd_Required req \<or> subjects \<noteq> []));
                 completionMet = (if pd_Completion req = ''all_merged'' then allMerged else True) in
             Inr (initial\<lparr>dr_MinimumMet := minimumMet, dr_CIStatus := ci, dr_CISatisfied := ci = PolicySatisfied,
               dr_ReviewStatus := review, dr_ReviewSatisfied := review = PolicySatisfied,
               dr_Satisfied := minimumMet \<and> ci = PolicySatisfied \<and> review = PolicySatisfied \<and> completionMet\<rparr>)))"

definition evaluateDeliveryPolicy :: "rt_env \<Rightarrow> string \<Rightarrow> delivery_policy_result tx" where
  "evaluateDeliveryPolicy env runID =
     bindT (GetRun runID) (\<lambda>run.
     bindT (liftT (ParseAndValidateWorkflow (rt_doc env) (rt_yaml env) (run_WorkflowYAML run))) (\<lambda>rwf.
     bindT (getsT (loadDeliveryPolicySubjects runID)) (\<lambda>loaded.
     bindT (liftT loaded) (\<lambda>subjects.
     liftT (evaluatePolicy (rwf_Workflow rwf) (policyRevision env subjects) subjects)))))"

section \<open>Publishing the result\<close>

definition errDeliveryPolicyChanged :: gerr where
  "errDeliveryPolicyChanged = Errf ''delivery policy inputs changed before publication'' []"

definition policyRevisionMatches :: "string \<Rightarrow> string \<Rightarrow> string \<Rightarrow> bool tx" where
  "policyRevisionMatches runID factKey revision =
     bindT (getsT (\<lambda>s. find (\<lambda>f. fc_RunID f = runID \<and> fc_Key f = factKey) (db_facts s))) (\<lambda>found.
     case found of
       None \<Rightarrow> returnT False
     | Some f \<Rightarrow>
         (case fc_Value f of
            GStr current \<Rightarrow> returnT (current = revision)
          | GNil \<Rightarrow> returnT ([] = revision)
          | _ \<Rightarrow> failT (Wrapf ''decode %s: %w'' [factKey] (Errf ''json: cannot unmarshal value into Go value of type string'' []))))"

definition confirmRevision :: "rt_env \<Rightarrow> string \<Rightarrow> delivery_policy_result \<Rightarrow> event_mutation" where
  "confirmRevision env runID expected i =
     bindT (evaluateDeliveryPolicy env runID) (\<lambda>current.
     thenT (whenT (dr_Revision current \<noteq> dr_Revision expected) errDeliveryPolicyChanged)
     (returnT i))"

definition policyEvent :: "string \<Rightarrow> producer \<Rightarrow> string \<Rightarrow> string \<Rightarrow> gmap \<Rightarrow> gmap \<Rightarrow> int \<Rightarrow> event_input" where
  "policyEvent eventID p kind attemptID payload facts observed =
     \<lparr>in_ID = eventID, in_MessageID = [], in_Kind = kind, in_AttemptID = attemptID, in_TaskID = [], in_Expected = None,
      in_Producer = p,
      in_Provenance = \<lparr>pv_Producer = producerName p, pv_Connection = [], pv_Principal = [], pv_ObservedAt = observed,
        pv_ExternalID = [], pv_Reconciled = False\<rparr>,
      in_Payload = payload, in_Facts = facts\<rparr>"

definition applyDeliveryPolicyEvent ::
    "rt_env \<Rightarrow> string \<Rightarrow> delivery_policy_result \<Rightarrow> (string \<Rightarrow> event_input) \<Rightarrow> int \<Rightarrow> event_result tx" where
  "applyDeliveryPolicyEvent env runID expected mk now =
     bindT (freshUUID env) (\<lambda>eventID.
     ApplyEvent env now (Some (confirmRevision env runID expected)) runID (mk eventID))"

definition statusPayload :: "string \<Rightarrow> string \<Rightarrow> policy_status \<Rightarrow> string \<Rightarrow> gmap" where
  "statusPayload domain policy status revision =
     [(domain, GMap [(''policy'', GStr policy), (''status'', GStr (policyStatusName status)), (''revision'', GStr revision)])]"

definition statusFacts :: "string \<Rightarrow> string \<Rightarrow> policy_status \<Rightarrow> string \<Rightarrow> gmap" where
  "statusFacts domain policy status revision =
     [(domain @ ''.policy'', GStr policy), (domain @ ''.status'', GStr (policyStatusName status)),
      (domain @ ''.policy_revision'', GStr revision)]"

definition resultStruct :: "delivery_policy_result \<Rightarrow> gval" where
  "resultStruct r = GStruct
     [(''revision'', GStr (dr_Revision r)), (''pull_request_count'', GInt (int (dr_PullRequestCount r))),
      (''minimum_met'', GBool (dr_MinimumMet r)), (''ci_satisfied'', GBool (dr_CISatisfied r)),
      (''ci_status'', GStr (policyStatusName (dr_CIStatus r))), (''review_satisfied'', GBool (dr_ReviewSatisfied r)),
      (''review_status'', GStr (policyStatusName (dr_ReviewStatus r))), (''all_merged'', GBool (dr_AllMerged r)),
      (''satisfied'', GBool (dr_Satisfied r))]"

definition resultFacts :: "delivery_policy_result \<Rightarrow> gmap" where
  "resultFacts r =
     [(''delivery.minimum_met'', GBool (dr_MinimumMet r)), (''delivery.ci_satisfied'', GBool (dr_CISatisfied r)),
      (''delivery.review_satisfied'', GBool (dr_ReviewSatisfied r)), (''delivery.all_merged'', GBool (dr_AllMerged r)),
      (''delivery.satisfied'', GBool (dr_Satisfied r)), (''delivery.policy_revision'', GStr (dr_Revision r))]"

text \<open>One event, unless its revision fact already has the result.\<close>

definition publishUnlessKnown ::
    "rt_env \<Rightarrow> string \<Rightarrow> string \<Rightarrow> string \<Rightarrow> delivery_policy_result \<Rightarrow> (string \<Rightarrow> event_input) \<Rightarrow> unit act" where
  "publishUnlessKnown env runID label factKey result mk =
     bindA (atomicA (\<lambda>_. policyRevisionMatches runID factKey (dr_Revision result))) (\<lambda>unchanged.
     if unchanged then returnA ()
     else bindA (atomicA (applyDeliveryPolicyEvent env runID result mk)) (\<lambda>event.
       whenA (er_Disposition event \<noteq> DispAccepted)
         (Errf (label @ '' policy event was %s: %s'') [dispositionName (er_Disposition event), er_Reason event])))"

definition publishStatus ::
    "rt_env \<Rightarrow> string \<Rightarrow> string \<Rightarrow> string \<Rightarrow> producer \<Rightarrow> string \<Rightarrow> string \<Rightarrow> policy_status \<Rightarrow> delivery_policy_result \<Rightarrow> int \<Rightarrow>
     unit act" where
  "publishStatus env runID attemptID domain p label policy status result observed =
     publishUnlessKnown env runID label (domain @ ''.policy_revision'') result (\<lambda>eventID.
       policyEvent eventID p (domain @ ''.policy.evaluated'') attemptID
         (statusPayload domain policy status (dr_Revision result))
         (statusFacts domain policy status (dr_Revision result)) observed)"

definition publishResult :: "rt_env \<Rightarrow> string \<Rightarrow> string \<Rightarrow> delivery_policy_result \<Rightarrow> int \<Rightarrow> unit act" where
  "publishResult env runID attemptID result observed =
     publishUnlessKnown env runID ''delivery'' ''delivery.policy_revision'' result (\<lambda>eventID.
       policyEvent eventID ProducerEngine ''workflow.delivery.evaluated'' attemptID
         [(''workflow'', GMap [(''delivery'', resultStruct result)])] (resultFacts result) observed)"

definition loadRunWorkflow :: "rt_env \<Rightarrow> string \<Rightarrow> workflow tx" where
  "loadRunWorkflow env runID =
     bindT (GetRun runID) (\<lambda>run.
     bindT (liftT (ParseAndValidateWorkflow (rt_doc env) (rt_yaml env) (run_WorkflowYAML run))) (\<lambda>rwf.
     returnT (rwf_Workflow rwf)))"

definition publishEvidencePolicyEvents ::
    "rt_env \<Rightarrow> string \<Rightarrow> string \<Rightarrow> string \<Rightarrow> delivery_policy_result \<Rightarrow> int \<Rightarrow> unit act" where
  "publishEvidencePolicyEvents env runID attemptID domain result observed =
     bindA (atomicA (\<lambda>_. loadRunWorkflow env runID)) (\<lambda>w.
     bindA (case pullRequestPolicy w of
         None \<Rightarrow> returnA ()
       | Some req \<Rightarrow>
           if domain = ''ci'' \<and> pd_CIPolicy req \<noteq> [] then
             publishStatus env runID attemptID ''ci'' ProducerCI ''CI'' (pd_CIPolicy req) (dr_CIStatus result) result observed
           else if domain = ''review'' \<and> pd_ReviewPolicy req \<noteq> [] then
             publishStatus env runID attemptID ''review'' ProducerReview ''review'' (pd_ReviewPolicy req)
               (dr_ReviewStatus result) result observed
           else returnA ()) (\<lambda>_.
     publishResult env runID attemptID result observed))"

text \<open>At most five attempts; only a changed revision starts another one.\<close>

fun publishLoop :: "nat \<Rightarrow> rt_env \<Rightarrow> string \<Rightarrow> string \<Rightarrow> string \<Rightarrow> int \<Rightarrow> delivery_policy_result act" where
  "publishLoop 0 env runID attemptID domain observed =
     failA (Errf ''delivery policy kept changing during publication'' [])"
| "publishLoop (Suc n) env runID attemptID domain observed =
     bindA (atomicA (\<lambda>_. evaluateDeliveryPolicy env runID)) (\<lambda>result.
     bindA (catchA
         (bindA (publishEvidencePolicyEvents env runID attemptID domain result observed) (\<lambda>_. returnA True))
         (\<lambda>err. if err = errDeliveryPolicyChanged then returnA False else failA err)) (\<lambda>published.
     if published then returnA result else publishLoop n env runID attemptID domain observed))"

definition evaluateAndPublishDeliveryPolicy ::
    "rt_env \<Rightarrow> string \<Rightarrow> string \<Rightarrow> string \<Rightarrow> int \<Rightarrow> delivery_policy_result act" where
  "evaluateAndPublishDeliveryPolicy env runID attemptID domain observed =
     publishLoop 5 env runID attemptID domain observed"

section \<open>The operations\<close>

definition recordEvidenceSet ::
    "rt_env \<Rightarrow> evidence_scope list \<Rightarrow> evidence_input list \<Rightarrow> producer \<Rightarrow> bool \<Rightarrow> delivery_policy_result act" where
  "recordEvidenceSet env scopes inputs p reconcile =
     bindA (atomicA (recordEvidenceTx env scopes inputs p reconcile)) (\<lambda>(sj, observed).
     evaluateAndPublishDeliveryPolicy env (sj_RunID sj) [] (sj_Domain sj) observed)"

definition RecordEvidence :: "rt_env \<Rightarrow> evidence_input \<Rightarrow> producer \<Rightarrow> delivery_policy_result act" where
  "RecordEvidence env i p = recordEvidenceSet env [] [i] p False"

definition inputScope :: "evidence_input \<Rightarrow> evidence_scope" where
  "inputScope i = \<lparr>es_RunID = ei_RunID i, es_PRID = ei_PRID i, es_HeadSHA = ei_HeadSHA i, es_Domain = ei_Domain i,
     es_Connection = ei_Connection i, es_Pipeline = trimSpace (payloadPipeline (ei_Payload i))\<rparr>"

fun distinctScopes :: "string list \<Rightarrow> evidence_scope list \<Rightarrow> evidence_scope list" where
  "distinctScopes seen [] = []"
| "distinctScopes seen (sc # scopes) =
     (let key = scopeKey (es_Connection sc) (es_Pipeline sc)
      in if key \<in> set seen then distinctScopes seen scopes else sc # distinctScopes (key # seen) scopes)"

definition ReconcileEvidenceSet :: "rt_env \<Rightarrow> evidence_input list \<Rightarrow> producer \<Rightarrow> delivery_policy_result act" where
  "ReconcileEvidenceSet env inputs p =
     (if inputs = [] then failA (Errf ''evidence set must not be empty without explicit scopes'' [])
      else recordEvidenceSet env (distinctScopes [] (map inputScope inputs)) inputs p True)"

definition ReconcileEvidenceSnapshot ::
    "rt_env \<Rightarrow> evidence_scope list \<Rightarrow> evidence_input list \<Rightarrow> producer \<Rightarrow> delivery_policy_result act" where
  "ReconcileEvidenceSnapshot env scopes inputs p = recordEvidenceSet env scopes inputs p True"

end
