(* ===== verification/Reconcile.thy ===== *)
theory Reconcile
  imports Evidence
begin

text \<open>
  What moves a delivery: the submission by the claw (\<^verbatim>\<open>SubmitDelivery\<close>, \<^verbatim>\<open>ApplyDeliveryControl\<close> of
  \<^verbatim>\<open>pkg/hub/workflowv2/delivery.go\<close>), the reconciliation with the source-control system and review feedback
  (\<^verbatim>\<open>pkg/hub/workflowv2/reconciliation.go\<close>).

  The value of the fact \<^verbatim>\<open>review.feedback\<close> is compared with new feedback by its JSON text as read back from the store.
\<close>

section \<open>Submission\<close>

text \<open>The mutation writes the identifiers of the rows into the verified pull requests; it runs unless the event is a duplicate or
  stale, and for this producer the event is never unauthorised.\<close>

definition withRowIDs :: "string \<Rightarrow> event_result \<Rightarrow> verified_pr list \<Rightarrow> store \<Rightarrow> verified_pr list" where
  "withRowIDs runID r verified s =
     (if er_Disposition r = DispAccepted \<or> er_Disposition r = DispRejected then
        map (\<lambda>pr. case find (prNamed runID (vp_Repository pr) (vp_Number pr)) (db_prs s) of
          None \<Rightarrow> pr | Some p \<Rightarrow> pr\<lparr>vp_ID := pr_ID p\<rparr>) verified
      else verified)"

definition submitTx ::
    "rt_env \<Rightarrow> string \<Rightarrow> string \<Rightarrow> string option \<Rightarrow> string \<Rightarrow> nat option \<Rightarrow> verified_pr list \<Rightarrow> int \<Rightarrow>
     (verified_pr list \<times> event_result \<times> int) tx" where
  "submitTx env runID attemptID eventID messageID expected verified now =
     bindT (case eventID of None \<Rightarrow> freshUUID env | Some i \<Rightarrow> returnT i) (\<lambda>i.
     bindT (recordDelivery env runID attemptID i messageID expected verified now) (\<lambda>r.
     bindT (getsT (withRowIDs runID r verified)) (\<lambda>prs.
     returnT (prs, r, now))))"

definition submitDelivery ::
    "rt_env \<Rightarrow> url_parser \<Rightarrow> string \<Rightarrow> string \<Rightarrow> string option \<Rightarrow> string \<Rightarrow> nat option \<Rightarrow> delivery_manifest \<Rightarrow>
     pr_verifier option \<Rightarrow> (verified_pr list \<times> event_result) act" where
  "submitDelivery env parse runID attemptID eventID messageID expected manifest verifier =
     bindA (atomicA (\<lambda>_. verifyDeliveryClaims env parse runID attemptID manifest verifier)) (\<lambda>verified.
     bindA (atomicA (submitTx env runID attemptID eventID messageID expected verified)) (\<lambda>(prs, r, now).
     bindA (if er_Disposition r = DispAccepted
            then bindA (evaluateAndPublishDeliveryPolicy env runID attemptID [] now) (\<lambda>_. returnA ())
            else returnA ()) (\<lambda>_.
     returnA (sort_key (\<lambda>pr. (vp_Repository pr, vp_Number pr)) prs, r))))"

definition SubmitDelivery ::
    "rt_env \<Rightarrow> url_parser \<Rightarrow> string \<Rightarrow> string \<Rightarrow> delivery_manifest \<Rightarrow> pr_verifier option \<Rightarrow> verified_pr list act" where
  "SubmitDelivery env parse runID attemptID manifest verifier =
     bindA (submitDelivery env parse runID attemptID None [] None manifest verifier) (\<lambda>(verified, r).
     bindA (whenA (er_Disposition r \<noteq> DispAccepted)
       (Errf ''delivery verification event was %s: %s'' [dispositionName (er_Disposition r), er_Reason r])) (\<lambda>_.
     returnA verified))"

definition emptyReceipt :: control_receipt where
  "emptyReceipt = \<lparr>cr_MessageID = [], cr_Disposition = DispAccepted, cr_StateVersion = 0, cr_Reason = []\<rparr>"

definition ApplyDeliveryControl :: "rt_env \<Rightarrow> url_parser \<Rightarrow> envelope \<Rightarrow> pr_verifier option \<Rightarrow> control_receipt act" where
  "ApplyDeliveryControl env parse en verifier =
     bindA (liftA (ValidateControlEnvelope en ''claw_to_hub'')) (\<lambda>_.
     bindA (whenA (en_Kind en \<noteq> ''delivery.submitted'' \<and> en_Kind en \<noteq> ''pull_request.claimed'')
       (Errf ''message kind %q is not a delivery submission'' [en_Kind en])) (\<lambda>_.
     bindA (liftA (wrapE ''decode delivery manifest: %w'' [] (decodeManifest (en_Payload en)))) (\<lambda>manifest.
     bindA (atomicA (\<lambda>now. preflightDeliveryControl env now en)) (\<lambda>handled.
     case handled of
       Some r \<Rightarrow> returnA r
     | None \<Rightarrow>
         if en_Kind en = ''pull_request.claimed'' then
           bindA (registerPullRequests env parse (en_RunID en) (en_AttemptID en) manifest verifier (Some en)) (\<lambda>(_, _, r).
           returnA (case r of None \<Rightarrow> emptyReceipt | Some x \<Rightarrow> x))
         else
           bindA (submitDelivery env parse (en_RunID en) (en_AttemptID en) (Some (en_MessageID en)) (en_MessageID en)
             (en_ExpectedStateVersion en) manifest verifier) (\<lambda>(_, r).
           returnA (deliveryReceipt (en_MessageID en) (er_Disposition r) (run_StateVersion (er_Run r)) (er_Reason r)))))))"

section \<open>Delivery targets\<close>

record delivery_target =
  dt_RunID :: string
  dt_AttemptID :: string
  dt_PRID :: string
  dt_RepositoryName :: string
  dt_Repository :: string
  dt_Number :: int
  dt_URL :: string
  dt_HeadSHA :: string
  dt_HeadObservedAt :: int
  dt_State :: string
  dt_WorkspaceYAML :: string
  dt_WorkflowYAML :: string

definition latestHead :: "string \<Rightarrow> store \<Rightarrow> head_row option" where
  "latestHead prID s =
     find (\<lambda>h. hd_PRID h = prID \<and> hd_Generation h = headGeneration prID s) (db_heads s)"

definition targetOf :: "store \<Rightarrow> run_row \<Rightarrow> pr_row \<Rightarrow> delivery_target" where
  "targetOf s r p =
     \<lparr>dt_RunID = run_ID r, dt_AttemptID = run_CurrentAttemptID r, dt_PRID = pr_ID p,
      dt_RepositoryName = pr_RepositoryName p, dt_Repository = pr_Repository p, dt_Number = pr_Number p,
      dt_URL = pr_URL p, dt_HeadSHA = pr_HeadSHA p,
      dt_HeadObservedAt = 1000000 * (case latestHead (pr_ID p) s of Some h \<Rightarrow> hd_ObservedAt h | None \<Rightarrow> pr_VerifiedAt p),
      dt_State = pr_State p, dt_WorkspaceYAML = run_WorkspaceYAML r, dt_WorkflowYAML = run_WorkflowYAML r\<rparr>"

text \<open>The join of deliveries, active runs and their active current attempts.\<close>

definition ownedDeliveries :: "(pr_row \<Rightarrow> bool) \<Rightarrow> store \<Rightarrow> (run_row \<times> pr_row) list" where
  "ownedDeliveries wanted s =
     [(r, p). p \<leftarrow> db_prs s, wanted p, pr_Active p, \<not> pr_RegisteredOnly p,
       r \<leftarrow> db_runs s, run_ID r = pr_RunID p, run_Status r = RunActive,
       list_ex (\<lambda>a. at_ID a = run_CurrentAttemptID r \<and> at_Status a = AttActive) (db_attempts s)]"

definition targetsBy :: "(run_row \<times> pr_row \<Rightarrow> 'k::linorder) \<Rightarrow> (pr_row \<Rightarrow> bool) \<Rightarrow> store \<Rightarrow> delivery_target list" where
  "targetsBy key wanted s = map (\<lambda>(r, p). targetOf s r p) (sort_key key (ownedDeliveries wanted s))"

definition ActiveDeliveryTargets :: "string \<Rightarrow> int \<Rightarrow> delivery_target list tx" where
  "ActiveDeliveryTargets repository number =
     thenT (whenT (blank repository \<or> number \<le> 0) (Errf ''repository and positive pull request number are required'' []))
     (getsT (targetsBy (\<lambda>(r, p). run_ID r) (\<lambda>p. pr_Repository p = trimSpace repository \<and> pr_Number p = number)))"

definition ActiveDeliveryTargetsByHead :: "string \<Rightarrow> delivery_target list tx" where
  "ActiveDeliveryTargetsByHead headSHA =
     thenT (whenT (blank headSHA) (Errf ''pull request head SHA is required'' []))
     (getsT (targetsBy (\<lambda>(r, p). (run_ID r, pr_Repository p, pr_Number p)) (\<lambda>p. pr_HeadSHA p = trimSpace headSHA)))"

definition ActiveDeliveryTargetsAll :: "delivery_target list tx" where
  "ActiveDeliveryTargetsAll =
     getsT (targetsBy (\<lambda>(r, p). (run_UpdatedAt r, pr_Repository p, pr_Number p, run_ID r)) (\<lambda>p. True))"

section \<open>Reconciling a pull request\<close>

definition ownedRow :: "delivery_target \<Rightarrow> pr_row \<Rightarrow> bool" where
  "ownedRow target p \<longleftrightarrow> pr_ID p = dt_PRID target \<and> pr_RunID p = dt_RunID target \<and> pr_Repository p = dt_Repository target \<and>
     pr_Number p = dt_Number target \<and> pr_Active p \<and> \<not> pr_RegisteredOnly p"

definition observePR :: "verified_pr \<Rightarrow> int \<Rightarrow> pr_row \<Rightarrow> pr_row" where
  "observePR verified observed p =
     p\<lparr>pr_URL := vp_URL verified, pr_SourceBranch := vp_SourceBranch verified, pr_BaseBranch := vp_BaseBranch verified,
       pr_HeadSHA := vp_HeadSHA verified, pr_State := vp_State verified, pr_Provenance := vp_Provenance verified,
       pr_VerifiedAt := unixMilli (vp_VerifiedAt verified), pr_UpdatedAt := unixMilli observed\<rparr>"

definition changedWhileReconciling :: gerr where
  "changedWhileReconciling = Errf ''verified delivery changed while reconciling'' []"

definition updatePRRow :: "delivery_target \<Rightarrow> verified_pr \<Rightarrow> int \<Rightarrow> unit tx" where
  "updatePRRow target verified observed =
     bindT (getsT (\<lambda>s. \<exists>x \<in> set (db_prs s). pr_ID x \<noteq> dt_PRID target \<and> pr_RunID x = dt_RunID target \<and>
       pr_URL x = vp_URL verified)) (\<lambda>dup.
     thenT (whenT dup (uniqueError ''workflow_v2_delivery_prs''))
     (bindT (updateT db_prs db_prs_update
        (\<lambda>p. pr_ID p = dt_PRID target \<and> pr_RunID p = dt_RunID target \<and> pr_Active p \<and> \<not> pr_RegisteredOnly p)
        (observePR verified observed)) (\<lambda>changed.
      whenT (changed \<noteq> 1) changedWhileReconciling)))"

definition pullRequestPayload :: "delivery_target \<Rightarrow> verified_pr \<Rightarrow> string \<Rightarrow> string \<Rightarrow> gmap" where
  "pullRequestPayload target verified currentHead currentState =
     [(''id'', GStr (dt_PRID target)), (''repository'', GStr (vp_Repository verified)), (''number'', GInt (vp_Number verified)),
      (''url'', GStr (vp_URL verified)), (''head_sha'', GStr (vp_HeadSHA verified)), (''state'', GStr (vp_State verified)),
      (''previous_head_sha'', GStr currentHead), (''previous_state'', GStr currentState),
      (''head_changed'', GBool (currentHead \<noteq> vp_HeadSHA verified))]"

definition pullRequestFacts :: "delivery_target \<Rightarrow> verified_pr \<Rightarrow> string \<Rightarrow> gmap" where
  "pullRequestFacts target verified currentHead =
     [(''pull_request.id'', GStr (dt_PRID target)), (''pull_request.repository'', GStr (vp_Repository verified)),
      (''pull_request.number'', GInt (vp_Number verified)), (''pull_request.url'', GStr (vp_URL verified)),
      (''pull_request.head_sha'', GStr (vp_HeadSHA verified)), (''pull_request.state'', GStr (vp_State verified)),
      (''pull_request.head_changed'', GBool (currentHead \<noteq> vp_HeadSHA verified))]"

definition reconcileMutation :: "rt_env \<Rightarrow> delivery_target \<Rightarrow> verified_pr \<Rightarrow> int \<Rightarrow> event_mutation" where
  "reconcileMutation env target verified observed i =
     bindT (scanT errNoRows (\<lambda>s. find (ownedRow target) (db_prs s))) (\<lambda>p.
     thenT (whenT (pr_HeadSHA p \<noteq> dt_HeadSHA target \<or> pr_State p \<noteq> dt_State target) changedWhileReconciling)
     (thenT (updatePRRow target verified observed)
     (thenT (if pr_HeadSHA p = vp_HeadSHA verified then returnT ()
             else thenT (insertHead env (dt_PRID target) (vp_HeadSHA verified) (unixMilli observed))
               (supersedeEvidence (dt_RunID target) (dt_PRID target) (unixMilli observed)))
     (bindT (getsT (deliveryFactsFrom (dt_RunID target))) (\<lambda>summary.
      returnT (i\<lparr>in_Payload := [(''pull_request'', GMap (pullRequestPayload target verified (pr_HeadSHA p) (pr_State p))),
                 (''delivery'', GMap summary)],
               in_Facts := pullRequestFacts target verified (pr_HeadSHA p) @ deliveryFacts summary\<rparr>))))))"

definition checkReconcile :: "rt_env \<Rightarrow> delivery_target \<Rightarrow> string \<Rightarrow> verified_pr \<Rightarrow> gerr + unit" where
  "checkReconcile env target eventKind verified =
     bindE (whenE (dt_RunID target = [] \<or> dt_AttemptID target = [] \<or> dt_PRID target = [])
       (Errf ''delivery target run, attempt, and pull request are required'' [])) (\<lambda>_.
     bindE (whenE (\<not> hasPrefix eventKind ''pull_request.'')
       (Errf ''source-control reconciliation event %q must use pull_request namespace'' [eventKind])) (\<lambda>_.
     bindE (wrapE ''load pinned workspace: %w'' []
       (ParseAndValidateWorkspace (rt_doc env) (rt_yaml env) (dt_WorkspaceYAML target))) (\<lambda>rws.
     bindE (validateVerifiedPullRequest (rw_Workspace rws) \<lparr>pc_URL = dt_URL target, pc_Supersedes = []\<rparr> verified) (\<lambda>_.
     whenE (vp_Repository verified \<noteq> dt_Repository target \<or> vp_Number verified \<noteq> dt_Number target \<or>
         vp_RepositoryName verified \<noteq> dt_RepositoryName target)
       (Errf ''reconciled pull request does not match owned delivery target'' [])))))"

definition reconcileInput :: "delivery_target \<Rightarrow> string \<Rightarrow> string \<Rightarrow> producer \<Rightarrow> provenance \<Rightarrow> event_input" where
  "reconcileInput target eventID eventKind p prov =
     \<lparr>in_ID = eventID, in_MessageID = eventID, in_Kind = eventKind, in_AttemptID = dt_AttemptID target, in_TaskID = [],
      in_Expected = None, in_Producer = p, in_Provenance = prov, in_Payload = [], in_Facts = []\<rparr>"

definition orFreshID :: "rt_env \<Rightarrow> string \<Rightarrow> string tx" where
  "orFreshID env eventID = (if blank eventID then freshUUID env else returnT eventID)"

definition reconcileTx ::
    "rt_env \<Rightarrow> delivery_target \<Rightarrow> string \<Rightarrow> string \<Rightarrow> verified_pr \<Rightarrow> int \<Rightarrow> event_result tx" where
  "reconcileTx env target eventID eventKind verified now =
     bindT (orFreshID env eventID) (\<lambda>ident.
     ApplyEvent env now (Some (reconcileMutation env target verified (pv_ObservedAt (vp_Provenance verified))))
       (dt_RunID target) (reconcileInput target ident eventKind ProducerSourceControl (vp_Provenance verified)))"

definition ReconcilePullRequest ::
    "rt_env \<Rightarrow> delivery_target \<Rightarrow> string \<Rightarrow> string \<Rightarrow> verified_pr \<Rightarrow> event_result act" where
  "ReconcilePullRequest env target eventID eventKind verified =
     bindA (liftA (checkReconcile env target eventKind verified)) (\<lambda>_.
     bindA (atomicA (reconcileTx env target eventID eventKind verified)) (\<lambda>event.
     bindA (if er_Disposition event = DispAccepted
            then bindA (evaluateAndPublishDeliveryPolicy env (dt_RunID target) (dt_AttemptID target) []
              (pv_ObservedAt (vp_Provenance verified))) (\<lambda>_. returnA ())
            else returnA ()) (\<lambda>_.
     returnA event)))"

section \<open>Review feedback\<close>

definition valueOrNil :: "gmap \<Rightarrow> string \<Rightarrow> gval" where
  "valueOrNil m k = (case map_of m k of None \<Rightarrow> GNil | Some v \<Rightarrow> v)"

definition reviewFeedbackExternalIDsMatch :: "string \<Rightarrow> string \<Rightarrow> bool" where
  "reviewFeedbackExternalIDsMatch current incoming \<longleftrightarrow>
     current = incoming \<or> (current \<noteq> [] \<and> hasSuffix incoming (CHR '':'' # current))"

definition feedbackFact :: "string \<Rightarrow> store \<Rightarrow> fact_row option" where
  "feedbackFact runID s = find (\<lambda>f. fc_RunID f = runID \<and> fc_Key f = ''review.feedback'') (db_facts s)"

definition feedbackObject :: "gval \<Rightarrow> gerr + gmap" where
  "feedbackObject v =
     (case v of
        GMap m \<Rightarrow> Inr m
      | GNil \<Rightarrow> Inr []
      | _ \<Rightarrow> Inl (Errf ''json: cannot unmarshal value into Go value of type map[string]interface {}'' []))"

definition checkCurrentFeedback :: "string \<Rightarrow> gmap \<Rightarrow> provenance \<Rightarrow> fact_row option \<Rightarrow> gerr + unit" where
  "checkCurrentFeedback eventKind feedback prov current =
     (case current of
        None \<Rightarrow> Inr ()
      | Some f \<Rightarrow>
          bindE (whenE (pv_ObservedAt prov < pv_ObservedAt (fc_Provenance f))
            (Errf ''review feedback observation is older than the current fact'' [])) (\<lambda>_.
          if eventKind = ''review.feedback.reconciled'' then
            bindE (wrapE ''decode current review feedback: %w'' [] (feedbackObject (fc_Value f))) (\<lambda>m.
            whenE (valueOrNil m ''kind'' \<noteq> valueOrNil feedback ''kind'' \<or>
                \<not> reviewFeedbackExternalIDsMatch (pv_ExternalID (fc_Provenance f)) (pv_ExternalID prov))
              (Errf ''review feedback object changed while reconciling'' []))
          else Inr ()))"

definition feedbackMutation :: "delivery_target \<Rightarrow> string \<Rightarrow> gmap \<Rightarrow> provenance \<Rightarrow> event_mutation" where
  "feedbackMutation target eventKind feedback prov i =
     bindT (getsT (feedbackFact (dt_RunID target))) (\<lambda>current.
     thenT (liftT (checkCurrentFeedback eventKind feedback prov current))
     (bindT (scanT (Wrapf ''load review delivery target: %w'' [] errNoRows) (\<lambda>s. find (ownedRow target) (db_prs s))) (\<lambda>p.
      thenT (whenT (pr_HeadSHA p \<noteq> dt_HeadSHA target)
        (Errf ''review feedback head %s is stale; current head is %s'' [dt_HeadSHA target, pr_HeadSHA p]))
      (returnT (i\<lparr>in_Payload := [(''review'', GMap [(''feedback'', GMap feedback), (''pull_request_id'', GStr (dt_PRID target)),
                  (''head_sha'', GStr (pr_HeadSHA p))])],
                in_Facts := [(''review.feedback'', GMap feedback)]\<rparr>)))))"

definition applyReviewFeedbackEvent ::
    "rt_env \<Rightarrow> delivery_target \<Rightarrow> string \<Rightarrow> string \<Rightarrow> gmap \<Rightarrow> provenance \<Rightarrow> int \<Rightarrow> event_result tx" where
  "applyReviewFeedbackEvent env target eventID eventKind feedback prov now =
     thenT (whenT (dt_RunID target = [] \<or> dt_AttemptID target = [] \<or> dt_PRID target = [] \<or> dt_HeadSHA target = [])
       (Errf ''review feedback requires an owned delivery target'' []))
     (bindT (orFreshID env eventID) (\<lambda>ident.
      ApplyEvent env now (Some (feedbackMutation target eventKind feedback prov)) (dt_RunID target)
        (reconcileInput target ident eventKind ProducerReview prov)))"

definition ApplyReviewFeedback :: "rt_env \<Rightarrow> delivery_target \<Rightarrow> string \<Rightarrow> gmap \<Rightarrow> provenance \<Rightarrow> event_result act" where
  "ApplyReviewFeedback env target eventID feedback prov =
     atomicA (applyReviewFeedbackEvent env target eventID ''review.feedback.received'' feedback prov)"

definition currentReviewFeedback :: "string \<Rightarrow> gmap \<Rightarrow> provenance \<Rightarrow> (int \<times> bool \<times> bool) tx" where
  "currentReviewFeedback runID feedback prov =
     bindT (getsT (feedbackFact runID)) (\<lambda>current.
     case current of
       None \<Rightarrow> returnT (zeroTime, False, False)
     | Some f \<Rightarrow>
         bindT (liftT (feedbackObject (fc_Value f))) (\<lambda>m.
         returnT (pv_ObservedAt (fc_Provenance f),
           valueOrNil m ''kind'' = valueOrNil feedback ''kind'' \<and>
             reviewFeedbackExternalIDsMatch (pv_ExternalID (fc_Provenance f)) (pv_ExternalID prov),
           json_norm (fc_Value f) = json_norm (json_roundtrip (GMap feedback)))))"

definition ReconcileReviewFeedback :: "rt_env \<Rightarrow> delivery_target \<Rightarrow> string \<Rightarrow> gmap \<Rightarrow> provenance \<Rightarrow> event_result act" where
  "ReconcileReviewFeedback env target eventID feedback prov =
     bindA (ApplyReviewFeedback env target eventID feedback prov) (\<lambda>received.
     if er_Disposition received \<noteq> DispDuplicate then returnA received
     else bindA (atomicA (\<lambda>_. currentReviewFeedback (dt_RunID target) feedback prov)) (\<lambda>(observedAt, sameObject, sameContent).
       if \<not> sameObject \<or> sameContent \<or> pv_ObservedAt prov < observedAt then returnA received
       else atomicA (applyReviewFeedbackEvent env target
              (eventID @ '':revision:'' @ sha256Hex env (marshalJSON (GMap feedback)))
              ''review.feedback.reconciled'' feedback prov)))"

end
