(* ===== verification/DeliveryFrame.thy ===== *)
theory DeliveryFrame
  imports Reconcile
begin

text \<open>
  What the delivery transactions may do to the rest of the store: \<open>delivery_frame\<close> extends the frame of events by a relation
  that does not look at the delivery tables, and covers every transaction of the delivery actions.  The transactions that
  only read are covered by every frame.
\<close>

context step_order
begin

lemma moves_verifyDeliveryClaims: "moves R (verifyDeliveryClaims env parse runID attemptID manifest verifier)"
  unfolding verifyDeliveryClaims_def GetRun_def by (intro moves_bind moves_then moves_pure moves_cases)

lemma moves_evaluateDeliveryPolicy: "moves R (evaluateDeliveryPolicy env runID)"
  unfolding evaluateDeliveryPolicy_def GetRun_def by (intro moves_bind moves_then moves_pure moves_cases)

lemma moves_policyRevisionMatches: "moves R (policyRevisionMatches runID factKey revision)"
  unfolding policyRevisionMatches_def by (auto split: gval.splits intro!: moves_bind moves_pure moves_cases)

lemma moves_loadRunWorkflow: "moves R (loadRunWorkflow env runID)"
  unfolding loadRunWorkflow_def GetRun_def by (intro moves_bind moves_then moves_pure moves_cases)

lemma moves_currentReviewFeedback: "moves R (currentReviewFeedback runID feedback prov)"
  unfolding currentReviewFeedback_def by (intro moves_bind moves_then moves_pure moves_cases)

lemma moves_confirmRevision: "moves R (confirmRevision env runID expected i)"
  unfolding confirmRevision_def by (intro moves_bind moves_then moves_pure moves_evaluateDeliveryPolicy)

lemma moves_feedbackMutation: "moves R (feedbackMutation target eventKind feedback prov i)"
  unfolding feedbackMutation_def by (intro moves_bind moves_then moves_pure)

end

text \<open>The pull request, head and evidence rows a transaction writes, as assumptions on the relation.\<close>

locale amend_frame = apply_frame +
  assumes moves_upsertAll: "moves R (upsertAll env runID registeredOnly now prs)"
    and moves_storeEvidence: "moves R (storeEvidence now sj scopes reconcile observed prepared)"
    and moves_reconcileMutation: "moves R (reconcileMutation env target verified observed i)"
begin

lemma moves_amendDelivery: "moves R (amendDelivery env runID now verified i)"
  unfolding amendDelivery_def by (intro moves_bind moves_upsertAll pure)

lemma moves_submitTx: "moves R (submitTx env runID attemptID eventID messageID expected verified now)"
  unfolding submitTx_def recordDelivery_def
  by (intro moves_bind moves_cases moves_freshUUID applies pure) (auto intro: moves_amendDelivery)

lemma moves_preflightTx: "moves R (preflightDeliveryControlTx env now en)"
  unfolding preflightDeliveryControlTx_def getRunForUpdate_def Let_def by (intro steps)

lemma moves_preflight: "moves R (preflightDeliveryControl env now en)"
  unfolding preflightDeliveryControl_def by (intro moves_transact moves_bind moves_preflightTx pure)

lemma moves_registerVerified: "moves R (registerVerified env runID attemptID oen verified now)"
  unfolding registerVerified_def recordClaim_def getRunForUpdate_def
  by (intro steps moves_upsertAll moves_preflightTx)

lemma moves_prepareInputs: "moves R (prepareInputs env now p index subject inputs)"
  by (induction inputs arbitrary: index subject) (auto simp: Let_def intro!: steps)

lemma moves_recordEvidenceTx: "moves R (recordEvidenceTx env scopes inputs p reconcile now)"
  unfolding recordEvidenceTx_def Let_def by (intro steps moves_prepareInputs moves_storeEvidence)

lemma moves_policyEvent: "moves R (applyDeliveryPolicyEvent env runID expected mk now)"
  unfolding applyDeliveryPolicyEvent_def
  by (intro moves_bind moves_freshUUID applies) (auto intro: moves_confirmRevision)

lemma moves_reconcileTx: "moves R (reconcileTx env target eventID eventKind verified now)"
  unfolding reconcileTx_def orFreshID_def
  by (intro moves_bind moves_cases moves_freshUUID applies pure) (auto intro: moves_reconcileMutation)

lemma moves_feedbackEvent: "moves R (applyReviewFeedbackEvent env target eventID eventKind feedback prov now)"
  unfolding applyReviewFeedbackEvent_def orFreshID_def
  by (intro moves_bind moves_then moves_cases moves_freshUUID applies pure) (auto intro: moves_feedbackMutation)

end

text \<open>A relation that does not look at the delivery tables.\<close>

locale delivery_frame = apply_frame +
  assumes prs: "R s (db_prs_update fp s)"
    and heads: "R s (db_heads_update fh s)"
    and evidence: "R s (db_evidence_update fe s)"
begin

lemma moves_supersedeEvidence: "moves R (supersedeEvidence runID prID at)"
  unfolding supersedeEvidence_def by (intro moves_bind moves_update evidence pure)

lemma moves_insertHead: "moves R (insertHead env prID sha at)"
  unfolding insertHead_def by (intro steps moves_modify heads)

lemma moves_openHead: "moves R (openHead env runID prID existing sha at)"
  unfolding openHead_def by (intro steps moves_insertHead moves_supersedeEvidence)

lemma moves_upsertDeliveryPR: "moves R (upsertDeliveryPR env runID registeredOnly now pr)"
  unfolding upsertDeliveryPR_def insertPRRow_def replacePRRow_def Let_def
  by (intro steps moves_openHead moves_modify moves_update prs)

lemma moves_upserts: "moves R (upsertAll env runID registeredOnly now rows)"
  by (induction rows) (auto intro!: steps moves_upsertDeliveryPR)

lemma moves_supersedeScope: "moves R (supersedeScope sj generation observed now sc)"
  unfolding supersedeScope_def by (intro steps moves_update evidence)

lemma moves_upsertEvidence: "moves R (upsertEvidence new)"
  unfolding upsertEvidence_def by (intro steps moves_update moves_modify evidence)

lemma moves_stores: "moves R (storeEvidence now sj scopes reconcile observed prepared)"
  unfolding storeEvidence_def by (intro steps moves_for moves_supersedeScope moves_upsertEvidence)

lemma moves_reconciles: "moves R (reconcileMutation env target verified observed i)"
  unfolding reconcileMutation_def updatePRRow_def
  by (intro steps moves_update prs moves_insertHead moves_supersedeEvidence)

end

sublocale delivery_frame \<subseteq> amend_frame
  by unfold_locales (rule moves_upserts moves_stores moves_reconciles)+

end
