(* ===== verification/HubFrame.thy ===== *)
theory HubFrame
  imports DeliveryFrame
begin

text \<open>
  What the lease, task, attempt and outbox operations may do to the store.  \<open>side_frame\<close> extends the frame of the lease
  operations by the tables of attempts, tasks and messages; none of these operations moves a run to another workflow
  state.  \<open>hub_frame\<close> joins it with the frame of events, so that it covers every operation of the store.
\<close>

context lease_frame
begin

lemma moves_succeedLeased:
  "LComplete \<in> L \<Longrightarrow> moves R (succeedLeased now effectID effectAttemptID worker runAttemptID receipt err)"
  unfolding succeedLeased_def
  by (intro moves_bind moves_pure moves_update effect_rows effect_attempts)
     (auto simp: effectIdentity_def lifeOf_def succeedEffect_def intro!: lives_step [OF life.complete])

end

text \<open>Assembling a context bundle (\<^verbatim>\<open>context.go\<close>): the table of bundles is outside the model, but two statements change a run.  The
  first links the bundle, before the event that reports it; the second suspends the run when a required source failed and
  that event led nowhere.\<close>

definition linkContext :: "int \<Rightarrow> string \<Rightarrow> string \<Rightarrow> unit tx" where
  "linkContext now runID bundleID =
     bindT (updateT db_runs db_runs_update (\<lambda>r. run_ID r = runID)
       (\<lambda>r. r\<lparr>run_ContextBundleID := bundleID, run_UpdatedAt := unixMilli now\<rparr>)) (\<lambda>_. returnT ())"

definition suspendForContext :: "int \<Rightarrow> string \<Rightarrow> nat \<Rightarrow> unit tx" where
  "suspendForContext now runID version =
     bindT (updateT db_runs db_runs_update
       (\<lambda>r. run_ID r = runID \<and> run_StateVersion r = version \<and> (run_Status r = RunActive \<or> run_Status r = RunSuspended))
       (\<lambda>r. r\<lparr>run_Status := RunSuspended, run_WaitingReason := ''one or more required knowledge sources failed'',
         run_UpdatedAt := unixMilli now\<rparr>)) (\<lambda>_. returnT ())"

text \<open>The columns of a run that only a transition changes.\<close>

definition stateKey :: "run_row \<Rightarrow> (string \<times> string \<times> string \<times> string) \<times> (string \<times> string \<times> string \<times> string) \<times> string \<times> nat" where
  "stateKey r = ((run_ID r, run_TenantID r, run_WorkspaceName r, run_WorkflowName r),
     (run_WorkspaceRevision r, run_WorkflowRevision r, run_WorkspaceYAML r, run_WorkflowYAML r),
     run_State r, run_StateVersion r)"

definition attemptName :: "attempt_row \<Rightarrow> string \<times> string \<times> string \<times> nat" where
  "attemptName a = (at_ID a, at_RunID a, at_ClawID a, at_Number a)"

definition outboxKey :: "outbox_row \<Rightarrow> (string \<times> string \<times> string) \<times> string \<times> string \<times> envelope" where
  "outboxKey m = ((ob_MessageID m, ob_RunID m, ob_AttemptID m), ob_TaskID m, ob_Kind m, ob_Envelope m)"

text \<open>Only open attempts, tasks and messages change, and they keep their identity.\<close>

locale side_frame = step_order +
  assumes side_uuids: "R s (s\<lparr>db_uuids := n\<rparr>)"
    and side_attempts: "(\<And>a. ap a \<Longrightarrow> attemptLive a \<and> attemptName (af a) = attemptName a) \<Longrightarrow>
      R s (db_attempts_update (sql_update ap af) s)"
    and side_new_attempt: "at_ID a \<notin> at_ID ` set (db_attempts s) \<Longrightarrow> R s (s\<lparr>db_attempts := db_attempts s @ [a]\<rparr>)"
    and side_tasks: "(\<And>t. tp t \<Longrightarrow> taskOpen t \<and> taskKey (tf t) = taskKey t) \<Longrightarrow>
      R s (db_tasks_update (sql_update tp tf) s)"
    and side_new_task: "tk_ID t \<notin> tk_ID ` set (db_tasks s) \<Longrightarrow> R s (s\<lparr>db_tasks := db_tasks s @ [t]\<rparr>)"
    and side_outbox: "(\<And>m. op m \<Longrightarrow> outboxOpen m \<and> outboxKey (mf m) = outboxKey m) \<Longrightarrow>
      R s (db_outbox_update (sql_update op mf) s)"
    and side_new_message: "ob_MessageID m \<notin> ob_MessageID ` set (db_outbox s) \<Longrightarrow>
      R s (s\<lparr>db_outbox := db_outbox s @ [m]\<rparr>)"
    and side_runs: "(\<And>r. stateKey (rf r) = stateKey r) \<Longrightarrow> R s (db_runs_update (sql_update rp rf) s)"
begin

lemmas side_pure = moves_pure moves_cases moves_bind moves_then

lemma moves_sideUUID: "moves R (freshUUID env)"
  by (rule moves_fresh [OF side_uuids])

lemma moves_insertOutbox: "moves R (insertOutbox en now)"
  unfolding insertOutbox_def by (auto simp: moves_def tx_ok newOutbox_def intro!: side_new_message)

lemma moves_insertTask: "moves R (insertTask t)"
  unfolding insertTask_def by (auto simp: moves_def tx_ok intro!: side_new_task)

lemma moves_insertAttemptRow: "moves R (insertAttemptRow a)"
  unfolding insertAttemptRow_def by (auto simp: moves_def tx_ok intro!: side_new_attempt)

lemma moves_cancelOutbox: "(\<And>m. outboxKey (mark m) = outboxKey m) \<Longrightarrow> moves R (cancelOutbox runID mark now)"
  unfolding cancelOutbox_def
  by (intro side_pure moves_update side_outbox) (auto simp: outboxOpen_def outboxKey_def)

lemma moves_SideGetRun: "moves R (GetRun runID)"
  unfolding GetRun_def by (rule moves_pure)

lemmas side_steps = side_pure moves_sideUUID moves_insertOutbox moves_insertTask moves_insertAttemptRow moves_cancelOutbox
  moves_SideGetRun moves_update side_attempts side_tasks side_outbox side_runs

lemmas side_keys = stateKey_def attemptName_def attemptLive_def taskKey_def outboxKey_def outboxOpen_def outboxFor_def

lemma moves_CompleteActivation: "moves R (CompleteActivation now runID)"
  unfolding CompleteActivation_def getRunForUpdate_def by (intro side_steps) (simp_all add: side_keys)

lemma moves_contextOps: "moves R (linkContext now runID bundleID)" "moves R (suspendForContext now runID version)"
  unfolding linkContext_def suspendForContext_def by (intro side_steps; simp add: side_keys)+

lemma moves_closeRun: "moves R (closeRun now runID reason)"
  unfolding closeRun_def by (intro side_steps) (auto simp: side_keys)

lemma moves_queueAssignment: "moves R (queueAssignment env now effectID kind l taskID payload)"
  unfolding queueAssignment_def Let_def by (intro side_steps)

lemma moves_requireActiveAttempt: "moves R (requireActiveAttempt l)"
  unfolding requireActiveAttempt_def by (intro side_steps)

lemma moves_assignAgentTask: "moves R (assignAgentTask env now effectID heartbeatTimeout taskTimeout l)"
  unfolding assignAgentTask_def taskInstructions_def Let_def
  by (intro side_steps moves_queueAssignment moves_requireActiveAttempt) (auto simp: side_keys)

lemma moves_assignCommandTask: "moves R (assignCommandTask env now effectID l)"
  unfolding assignCommandTask_def by (intro side_steps moves_queueAssignment moves_requireActiveAttempt)

lemma moves_ExpireAgentTasks: "moves R (ExpireAgentTasks now)"
  unfolding ExpireAgentTasks_def expireTask_def Let_def
  by (intro side_steps moves_for) (auto simp: side_keys)

lemma moves_StartAttempt: "moves R (StartAttempt env now runID clawID)"
  unfolding StartAttempt_def openAttempt_def replaceCurrentTask_def replaceTask_def loseAttempts_def bindRun_def Let_def
  by (intro side_steps) (auto simp: side_keys)

lemma moves_EnqueueControl: "moves R (EnqueueControl now en)"
  unfolding EnqueueControl_def Let_def by (intro side_steps)

lemma moves_MarkControlSent: "moves R (MarkControlSent now messageID)"
  unfolding MarkControlSent_def by (intro side_steps) (simp_all add: side_keys)

lemma moves_AcknowledgeControl: "moves R (AcknowledgeControl now runID attemptID receipt)"
  unfolding AcknowledgeControl_def rejectControl_def settleOutbox_def
  by (intro side_steps) (auto simp: side_keys)

end

lemma ParsePair_workflow_owned:
  assumes "ParseAndValidateWorkflowPair env yaml d1 d2 = Inr (rwf, rws)"
  shows "workflowWritesOwned (rwf_Workflow rwf)"
proof -
  from assms obtain w where "ValidateWorkflow env w = Inr rwf"
    by (auto simp: ParseAndValidateWorkflowPair_def ValidateWorkflowAgainstWorkspace_def bindE_Inr_iff Let_def)
  then show ?thesis using ValidateWorkflow_steps(10) validated_writes_owned by metis
qed

section \<open>The operations of the store\<close>

text \<open>An operation with its arguments, as the callers of the store issue them: every statement of the program that writes one of
  the tables of the model is in one of them.  Left out are the operations that only read, and those that write only what is
  outside the model: the history of cron schedules, the column that marks the slot of a cron run as released, and the
  table of context bundles.  An action of several transactions appears as its transactions; so \<^verbatim>\<open>assembleContext\<close> is
  \<open>OpLinkContext\<close>, an \<open>OpEvent\<close> and \<open>OpSuspendForContext\<close>, for whatever bundle it assembled.\<close>

datatype operation =
    OpCreateRun create_request
  | OpCompleteActivation string
  | OpCancelActivation string string
  | OpEvent string event_input
  | OpCommand string string command_input
  | OpClaimEffect string int
  | OpCompleteEffect complete_request
  | OpResolveEffect resolve_request
  | OpAgentTask string string string int int
  | OpCommandTask string string string
  | OpExpireTasks
  | OpStartAttempt string string
  | OpEnqueueControl envelope
  | OpMarkSent string
  | OpAcknowledge string string control_receipt
  | OpAgentControl envelope
  | OpCommandReceipt envelope
  | OpRejectControl envelope string
  | OpSubmitDelivery string string "string option" string "nat option" "verified_pr list"
  | OpPreflightDelivery envelope
  | OpRegisterPRs string string "envelope option" "verified_pr list"
  | OpRecordEvidence "evidence_scope list" "evidence_input list" producer bool
  | OpPolicyEvent string delivery_policy_result "producer \<times> string \<times> string" gmap gmap int
  | OpReconcilePR delivery_target string string verified_pr
  | OpReviewFeedback delivery_target string string gmap provenance
  | OpLinkContext string string
  | OpSuspendForContext string nat

definition void :: "'a tx \<Rightarrow> unit tx" where
  "void m = thenT m (returnT ())"

fun perform :: "rt_env \<Rightarrow> int \<Rightarrow> operation \<Rightarrow> unit tx" where
  "perform env now (OpCreateRun req) = void (CreateRun env now req)"
| "perform env now (OpCompleteActivation runID) = CompleteActivation now runID"
| "perform env now (OpCancelActivation runID reason) = CancelActivation now runID reason"
| "perform env now (OpEvent runID i) = void (ApplyEvent env now None runID i)"
| "perform env now (OpCommand runID name c) = void (ApplyCommand env now runID name c)"
| "perform env now (OpClaimEffect worker lease) = void (ClaimEffect env now worker lease)"
| "perform env now (OpCompleteEffect req) = CompleteEffect now req"
| "perform env now (OpResolveEffect req) = ResolveUnknownEffect now req"
| "perform env now (OpAgentTask e a worker heartbeat deadline) =
     void (MaterializeAgentTask env now e a worker heartbeat deadline)"
| "perform env now (OpCommandTask e a worker) = void (MaterializeCommandTask env now e a worker)"
| "perform env now OpExpireTasks = void (ExpireAgentTasks now)"
| "perform env now (OpStartAttempt runID clawID) = void (StartAttempt env now runID clawID)"
| "perform env now (OpEnqueueControl en) = EnqueueControl now en"
| "perform env now (OpMarkSent messageID) = MarkControlSent now messageID"
| "perform env now (OpAcknowledge runID attemptID receipt) = AcknowledgeControl now runID attemptID receipt"
| "perform env now (OpAgentControl en) = void (ApplyAgentControl env now now en)"
| "perform env now (OpCommandReceipt en) = void (ApplyCommandReceipt env now now en)"
| "perform env now (OpRejectControl en why) = void (RejectAgentControl env now en why)"
| "perform env now (OpSubmitDelivery runID attemptID eventID messageID expected verified) =
     void (submitTx env runID attemptID eventID messageID expected verified now)"
| "perform env now (OpPreflightDelivery en) = void (preflightDeliveryControl env now en)"
| "perform env now (OpRegisterPRs runID attemptID oen verified) = void (registerVerified env runID attemptID oen verified now)"
| "perform env now (OpRecordEvidence scopes inputs p reconcile) = void (recordEvidenceTx env scopes inputs p reconcile now)"
| "perform env now (OpPolicyEvent runID expected (p, kind, attemptID) payload facts observed) =
     void (applyDeliveryPolicyEvent env runID expected
       (\<lambda>eventID. policyEvent eventID p kind attemptID payload facts observed) now)"
| "perform env now (OpReconcilePR target eventID eventKind verified) =
     void (reconcileTx env target eventID eventKind verified now)"
| "perform env now (OpReviewFeedback target eventID eventKind feedback prov) =
     void (applyReviewFeedbackEvent env target eventID eventKind feedback prov now)"
| "perform env now (OpLinkContext runID bundleID) = linkContext now runID bundleID"
| "perform env now (OpSuspendForContext runID version) = suspendForContext now runID version"

text \<open>A history: each operation commits or, on an error, leaves the store as it was.\<close>

definition commit :: "unit tx \<Rightarrow> store \<Rightarrow> store" where
  "commit m s = (case m s of Inl e \<Rightarrow> s | Inr (x, s') \<Rightarrow> s')"

definition runOps :: "rt_env \<Rightarrow> (int \<times> operation) list \<Rightarrow> store \<Rightarrow> store" where
  "runOps env ops s = foldl (\<lambda>t (now, oper). commit (perform env now oper) t) s ops"

text \<open>The operations that go through the event pipeline, and those that end or cancel a leased effect.\<close>

fun eventOp :: "operation \<Rightarrow> bool" where
  "eventOp (OpCreateRun _) = True"
| "eventOp (OpEvent _ _) = True"
| "eventOp (OpCommand _ _ _) = True"
| "eventOp (OpAgentControl _) = True"
| "eventOp (OpCommandReceipt _) = True"
| "eventOp (OpRejectControl _ _) = True"
| "eventOp _ = False"

fun leaseOp :: "operation \<Rightarrow> bool" where
  "leaseOp (OpClaimEffect _ _) = True"
| "leaseOp (OpCompleteEffect _) = True"
| "leaseOp (OpResolveEffect _) = True"
| "leaseOp (OpAgentTask _ _ _ _ _) = True"
| "leaseOp (OpCommandTask _ _ _) = True"
| "leaseOp (OpCancelActivation _ _) = True"
| "leaseOp _ = False"

fun deliveryOp :: "operation \<Rightarrow> bool" where
  "deliveryOp (OpSubmitDelivery _ _ _ _ _ _) = True"
| "deliveryOp (OpPreflightDelivery _) = True"
| "deliveryOp (OpRegisterPRs _ _ _ _) = True"
| "deliveryOp (OpRecordEvidence _ _ _ _) = True"
| "deliveryOp (OpPolicyEvent _ _ _ _ _ _) = True"
| "deliveryOp (OpReconcilePR _ _ _ _) = True"
| "deliveryOp (OpReviewFeedback _ _ _ _ _) = True"
| "deliveryOp _ = False"

context step_order
begin

lemma moves_void: "moves R m \<Longrightarrow> moves R (void m)"
  unfolding void_def by (intro moves_then moves_pure)

end

context side_frame
begin

lemma moves_sideOp: "\<not> eventOp oper \<Longrightarrow> \<not> leaseOp oper \<Longrightarrow> \<not> deliveryOp oper \<Longrightarrow> moves R (perform env now oper)"
  by (cases oper)
     (simp_all add: moves_void moves_CompleteActivation moves_ExpireAgentTasks moves_StartAttempt moves_EnqueueControl
       moves_MarkControlSent moves_AcknowledgeControl moves_contextOps)

end

context amend_frame
begin

lemma moves_deliveryOp:
  assumes "deliveryOp oper"
  shows "moves R (perform env now oper)"
proof (cases oper)
  case (OpPolicyEvent runID expected k payload facts observed)
  obtain p kind attemptID where "k = (p, kind, attemptID)" by (cases k)
  then show ?thesis using OpPolicyEvent by (simp add: moves_void moves_policyEvent)
qed (use assms in \<open>simp_all add: moves_void moves_submitTx moves_preflight moves_registerVerified moves_recordEvidenceTx
    moves_reconcileTx moves_feedbackEvent\<close>)

end

text \<open>Every operation of the store: the frame of events covers the pipeline, the other operations are an assumption for those
  a relation allows, and so is the opening of a run, which breaks and restores the log within its transaction.\<close>

locale hub_frame = apply_frame R env for R env +
  fixes allowed :: "operation \<Rightarrow> bool"
  assumes opens: "run_StateVersion r = 1 \<Longrightarrow> moves R (openRun env now r claw)"
    and otherOps: "\<not> eventOp oper \<Longrightarrow> allowed oper \<Longrightarrow> moves R (perform env now oper)"
begin

lemma moves_plainEvent: "moves R (ApplyEvent env now None runID i)"
  by (rule applies) simp

lemma moves_ApplyAgentControl: "moves R (ApplyAgentControl env observed now en)"
  unfolding ApplyAgentControl_def by (intro steps moves_plainEvent)

lemma moves_ApplyCommandReceipt: "moves R (ApplyCommandReceipt env observed now en)"
  unfolding ApplyCommandReceipt_def by (intro steps moves_plainEvent)

lemma moves_RejectAgentControl: "moves R (RejectAgentControl env now en why)"
  unfolding RejectAgentControl_def getRunForUpdate_def Let_def by (intro steps)

lemma moves_enterInitialState:
  "ownedWrites ProducerEngine (onEnterWrites initial) \<Longrightarrow>
   moves R (enterInitialState env now runID stateName initial eventID transitionID)"
  unfolding enterInitialState_def by (intro steps)

lemma moves_CreateRun: "moves R (CreateRun env now req)"
  unfolding CreateRun_def Let_def
proof (intro moves_bind_lift moves_then [OF moves_pure(5)] moves_cases moves_bind moves_then opens
    moves_enterInitialState moves_GetRun moves_freshUUID moves_pure)
  fix x rwf rws
  assume "ParseAndValidateWorkflowPair (rt_doc env) (rt_yaml env) (cq_WorkflowYAML req) (cq_WorkspaceYAML req) = Inr x"
    and "x = (rwf, rws)"
  then have "workflowWritesOwned (rwf_Workflow rwf)"
    using ParsePair_workflow_owned by blast
  then show "ownedWrites ProducerEngine (onEnterWrites (stateOf (rwf_Workflow rwf) (wf_InitialState (rwf_Workflow rwf))))"
    by (rule stateOf_owned)
qed (simp_all add: newRunRow_def Let_def)

lemma moves_perform:
  assumes "allowed oper"
  shows "moves R (perform env now oper)"
proof (cases "eventOp oper")
  case True
  then show ?thesis
    by (cases oper)
       (simp_all add: moves_void moves_CreateRun moves_plainEvent commands moves_ApplyAgentControl
         moves_ApplyCommandReceipt moves_RejectAgentControl)
next
  case False
  then show ?thesis using otherOps assms by blast
qed

lemma R_commit: "allowed oper \<Longrightarrow> R s (commit (perform env now oper) s)"
  using moves_perform [of oper now] R_refl
  by (auto simp: commit_def moves_def split: sum.splits)

lemma R_runOps: "\<forall>(now, oper) \<in> set ops. allowed oper \<Longrightarrow> R s (runOps env ops s)"
  unfolding runOps_def
proof (induction ops arbitrary: s)
  case Nil
  then show ?case by (simp add: R_refl)
next
  case (Cons p ops)
  obtain now oper where p: "p = (now, oper)" by (cases p)
  have "R s (commit (perform env now oper) s)" using Cons.prems p by (auto intro: R_commit)
  with Cons p show ?case by (auto intro: R_trans)
qed

end

text \<open>A relation whose frame is given table by table, with the labels of \<open>life\<close> it admits.\<close>

locale plain_frame = apply_frame R env + side_frame R + lease_frame R L for R env L +
  assumes labels: "- {LResolve} \<subseteq> L"
    and plain_opens: "run_StateVersion r = 1 \<Longrightarrow> moves R (openRun env now r claw)"
    and deliveries: "deliveryOp oper \<Longrightarrow> moves R (perform env now oper)"
begin

lemma label: "LComplete \<in> L" "LCancel \<in> L" "LClaim \<in> L" "LExpire \<in> L"
  using labels by auto

lemma moves_CancelActivation: "moves R (CancelActivation now runID why)"
  unfolding CancelActivation_def Let_def by (intro moves_then moves_cancelEffects moves_closeRun label)

lemma moves_MaterializeAgentTask:
  "moves R (MaterializeAgentTask env now effectID effectAttemptID worker heartbeatTimeout taskTimeout)"
  unfolding MaterializeAgentTask_def by (intro side_steps moves_assignAgentTask moves_succeedLeased label)

lemma moves_MaterializeCommandTask: "moves R (MaterializeCommandTask env now effectID effectAttemptID worker)"
  unfolding MaterializeCommandTask_def by (intro side_steps moves_assignCommandTask moves_succeedLeased label)

end

fun resolveOp :: "operation \<Rightarrow> bool" where
  "resolveOp (OpResolveEffect _) = True"
| "resolveOp _ = False"

sublocale plain_frame \<subseteq> hub_frame R env "\<lambda>oper. LResolve \<in> L \<or> \<not> resolveOp oper"
proof unfold_locales
  fix now oper
  assume a: "\<not> eventOp oper" "LResolve \<in> L \<or> \<not> resolveOp oper"
  show "moves R (perform env now oper)"
  proof (cases "leaseOp oper")
    case True
    then show ?thesis using a
      by (cases oper) (auto intro: moves_void moves_ClaimEffect moves_CompleteEffect moves_ResolveUnknownEffect
        moves_CancelActivation moves_MaterializeAgentTask moves_MaterializeCommandTask label)
  qed (use a moves_sideOp deliveries in blast)
qed (rule plain_opens)

text \<open>The opening of a run, for a relation that covers its insertions one by one.\<close>

locale open_frame = run_frame +
  assumes new_run: "run_ID r \<notin> run_ID ` set (db_runs s) \<Longrightarrow> R s (s\<lparr>db_runs := db_runs s @ [r]\<rparr>)"
    and new_attempt: "R s (s\<lparr>db_attempts := db_attempts s @ [a]\<rparr>)"
begin

lemma moves_insertRunRow: "moves R (insertRunRow r)"
  unfolding insertRunRow_def by (auto simp: moves_def tx_ok intro: new_run)

lemma moves_newAttempt: "moves R (insertAttemptRow a)"
  unfolding insertAttemptRow_def by (intro moves_bind moves_then moves_pure moves_modify new_attempt)

lemma moves_openRun: "moves R (openRun env now r claw)"
  unfolding openRun_def by (intro steps moves_insertRunRow moves_newAttempt moves_insertTransition)

end

end
