(* ===== verification/HubInvariants.thy ===== *)
theory HubInvariants
  imports HubFrame
begin

text \<open>
  The invariants and the history order of the store, for all its operations: every locale of the previous theories is
  interpreted at \<open>hub_frame\<close>.  \<open>store_inv\<close> is their conjunction with the binding of attempts to runs; it holds in
  the empty store and every history keeps it.
\<close>

section \<open>Fact ownership, the log, history and effect keys\<close>

interpretation owned: open_frame "\<lambda>s s'. facts_owned s \<longrightarrow> facts_owned s'"
  by unfold_locales (simp_all add: facts_owned_def)

interpretation owned: delivery_frame "\<lambda>s s'. facts_owned s \<longrightarrow> facts_owned s'" env
  by unfold_locales (simp_all add: facts_owned_def)

interpretation owned: plain_frame "\<lambda>s s'. facts_owned s \<longrightarrow> facts_owned s'" env UNIV
  by unfold_locales (simp_all add: facts_owned_def owned.moves_openRun [unfolded facts_owned_def]
    owned.moves_deliveryOp [unfolded facts_owned_def])

interpretation once: open_frame "\<lambda>s s'. effects_unique s \<longrightarrow> effects_unique s'"
  by unfold_locales (simp_all add: effects_unique_def)

lemma effects_unique_update:
  assumes "\<And>e. P e \<Longrightarrow> effectIdentity (f e) = effectIdentity e"
  shows "effects_unique (db_effects_update (sql_update P f) s) = effects_unique s"
  using assms by (simp add: effects_unique_def map_sql_update effectIdentity_def)

interpretation once: delivery_frame "\<lambda>s s'. effects_unique s \<longrightarrow> effects_unique s'" env
  by unfold_locales (simp_all add: effects_unique_def)

interpretation once: plain_frame "\<lambda>s s'. effects_unique s \<longrightarrow> effects_unique s'" env UNIV
proof unfold_locales
  fix s ep ef
  assume "\<And>e. ep e \<Longrightarrow> effectIdentity (ef e) = effectIdentity e \<and> lives UNIV (lifeOf e) (lifeOf (ef e))"
  then show "effects_unique s \<longrightarrow> effects_unique (db_effects_update (sql_update ep ef) s)"
    using effects_unique_update by blast
qed (simp_all add: effects_unique_def once.moves_openRun [unfolded effects_unique_def]
    once.moves_deliveryOp [unfolded effects_unique_def])

interpretation hist: open_frame extends
  by unfold_locales (auto simp: extends_def intro: run_le_refl)

interpretation hist: delivery_frame extends env
  by unfold_locales (auto simp: extends_def intro: run_le_refl)

interpretation hist: plain_frame extends env UNIV
proof unfold_locales
  fix s :: store and rf rp
  assume "\<And>r. stateKey (rf r) = stateKey r"
  then show "extends s (db_runs_update (sql_update rp rf) s)"
    by (intro extends_update_runs) (simp add: run_le_def stateKey_def)
qed (auto intro: extends_same_runs hist.moves_openRun hist.moves_deliveryOp)

interpretation waits: open_frame "effects_live (- {LResolve})"
  by unfold_locales (auto intro: effects_live_same)

interpretation waits: delivery_frame "effects_live (- {LResolve})" env
  by unfold_locales (auto intro: effects_live_same)

interpretation waits: plain_frame "effects_live (- {LResolve})" env "- {LResolve}"
  by unfold_locales (auto intro: effects_live_same waits.moves_openRun waits.moves_deliveryOp)

interpretation lived: open_frame "effects_live UNIV"
  by unfold_locales (auto intro: effects_live_same)

interpretation lived: delivery_frame "effects_live UNIV" env
  by unfold_locales (auto intro: effects_live_same)

interpretation lived: plain_frame "effects_live UNIV" env UNIV
  by unfold_locales (auto intro: effects_live_same lived.moves_openRun lived.moves_deliveryOp)

section \<open>The transition log\<close>

lemma log_inv_open:
  assumes "log_inv s" and "run_ID r \<notin> run_ID ` set (db_runs s)" and "run_StateVersion r = 1"
    and "db_runs s' = db_runs s @ [r]" and "db_transitions s' = db_transitions s @ [initialTransition r tid eid now]"
  shows "log_inv s'"
proof -
  let ?t = "initialTransition r tid eid now"
  have t: "tn_RunID ?t = run_ID r" "tn_FromVersion ?t = 0" "tn_FromState ?t = []" "tn_ToVersion ?t = 1" "tn_ToState ?t = run_State r"
    by (simp_all add: initialTransition_def)
  have "tn_RunID x \<noteq> run_ID r" if "x \<in> set (db_transitions s)" for x
  proof
    assume "tn_RunID x = run_ID r"
    moreover have "tn_RunID x \<in> run_ID ` set (db_runs s)" using assms(1) that by (simp add: log_inv_def)
    ultimately show False using assms(2) by simp
  qed
  then have "runLog (run_ID r) s = []" by (simp add: runLog_def filter_empty_conv)
  then have r: "runLog (run_ID r) s' = [?t]" using assms(5) t by (simp add: runLog_def)
  have old: "runLog (run_ID q) s' = runLog (run_ID q) s" if "q \<in> set (db_runs s)" for q
    using that assms(2,5) t by (auto simp: runLog_def)
  have "replay (0, []) (runLog (run_ID q) s') = Some (run_StateVersion q, run_State q)" if "q \<in> set (db_runs s')" for q
  proof (cases "q = r")
    case True
    then show ?thesis using r t assms(3) by simp
  next
    case False
    then have "q \<in> set (db_runs s)" using that assms(4) by simp
    then show ?thesis using old assms(1) by (simp add: log_inv_def)
  qed
  then show ?thesis using assms t by (auto simp: log_inv_def)
qed

lemma openRun_rows:
  assumes "openRun env now r claw s = Inr (x, s')"
  obtains tid eid where "run_ID r \<notin> run_ID ` set (db_runs s)" and "db_runs s' = db_runs s @ [r]"
    and "db_transitions s' = db_transitions s @ [initialTransition r tid eid now]"
  using assms
  by (auto simp: openRun_def insertRunRow_def insertAttemptRow_def insertEvent_def insertEventRow_def insertTransitionRow_def
    tx_ok split: if_splits)

lemma log_inv_same:
  "db_runs s' = db_runs s \<Longrightarrow> db_transitions s' = db_transitions s \<Longrightarrow> log_inv s' \<longleftrightarrow> log_inv s"
  by (rule log_inv_cong) simp_all

interpretation log: delivery_frame "\<lambda>s s'. log_inv s \<longrightarrow> log_inv s'" env
  by unfold_locales (simp_all add: log_inv_def runLog_def)

interpretation log: plain_frame "\<lambda>s s'. log_inv s \<longrightarrow> log_inv s'" env UNIV
proof unfold_locales
  fix s :: store and rf rp
  assume "\<And>r. stateKey (rf r) = stateKey r"
  then have "\<And>r. logKey (rf r) = logKey r" by (simp add: stateKey_def logKey_def)
  then show "log_inv s \<longrightarrow> log_inv (db_runs_update (sql_update rp rf) s)" using log_inv_update_runs by blast
next
  fix r :: run_row and env now claw
  assume "run_StateVersion r = 1"
  then show "moves (\<lambda>s s'. log_inv s \<longrightarrow> log_inv s') (openRun env now r claw)"
    unfolding moves_def using log_inv_open by (blast elim: openRun_rows)
next
  fix env now oper
  assume "deliveryOp oper"
  then show "moves (\<lambda>s s'. log_inv s \<longrightarrow> log_inv s') (perform env now oper)" by (rule log.moves_deliveryOp)
qed (simp_all add: log_inv_def runLog_def)

section \<open>Leases\<close>

interpretation leases: open_frame "\<lambda>s s'. lease_inv s \<longrightarrow> lease_inv s'"
  by unfold_locales (simp_all add: lease_inv_def)

interpretation leases: side_frame "\<lambda>s s'. lease_inv s \<longrightarrow> lease_inv s'"
  by unfold_locales (simp_all add: lease_inv_def)

interpretation leases: delivery_frame "\<lambda>s s'. lease_inv s \<longrightarrow> lease_inv s'" env
  by unfold_locales (simp_all add: lease_inv_def)

interpretation kept: side_frame "\<lambda>s s'. db_effects s' = db_effects s \<and> db_effect_attempts s' = db_effect_attempts s"
  by unfold_locales simp_all

lemma findLeased_ok:
  assumes "findLeased now effectID effectAttemptID worker s = Some l"
  obtains e a where "e \<in> set (db_effects s)" "leasedTo now effectID worker e"
    "a \<in> set (db_effect_attempts s)" "attemptRunning effectID effectAttemptID a"
  using assms by (auto simp: findLeased_def list_ex_iff split: option.splits if_splits dest: find_Some_in)

lemma succeedLeased_lease_inv:
  assumes inv: "lease_inv s" and l: "findLeased now effectID effectAttemptID worker s = Some l"
    and run: "succeedLeased now effectID effectAttemptID worker aid receipt err t = Inr (x, s')"
    and t: "db_effects t = db_effects s \<and> db_effect_attempts t = db_effect_attempts s"
  shows "lease_inv s'"
proof -
  let ?Q = "\<lambda>e. ef_ID e = effectID \<and> ef_Status e = EffectRunning \<and> ef_LeaseOwner e = worker"
  obtain e0 a0 where e0: "e0 \<in> set (db_effects s)" "leasedTo now effectID worker e0"
    and a0: "a0 \<in> set (db_effect_attempts s)" "attemptRunning effectID effectAttemptID a0"
    using l by (rule findLeased_ok)
  have rows: "db_effect_attempts s' = sql_update (attemptRunning effectID effectAttemptID) (succeedAttempt now aid receipt)
      (db_effect_attempts s)"
    "db_effects s' = sql_update ?Q (succeedEffect now receipt) (db_effects s)"
    using run t by (auto simp: succeedLeased_def tx_ok)
  show ?thesis
  proof (rule lease_inv_retire [OF inv _ _ _ rows])
    fix a e
    assume a: "a \<in> set (db_effect_attempts s)" "ea_EffectID a = ef_ID e" "ea_Status a = EffectRunning"
      and e: "e \<in> set (db_effects s)" "ef_Status e = EffectRunning"
    show "attemptRunning effectID effectAttemptID a \<longleftrightarrow> ?Q e"
    proof (cases "ef_ID e = effectID")
      case True
      then have "e = e0" using lease_inv_unique [OF inv e(1) e0(1)] e0(2) by (simp add: leasedTo_def)
      moreover have "a = a0"
        using lease_inv_attempt_unique [OF inv a(1,3) a0(1)] a0(2) a(2) True by (simp add: attemptRunning_def)
      ultimately show ?thesis using a0 e0 by (simp add: leasedTo_def)
    next
      case False
      then show ?thesis using a(2) by (simp add: attemptRunning_def)
    qed
  qed (auto simp: attemptRunning_def succeedAttempt_def succeedEffect_def)
qed

lemma materialise_lease_inv:
  assumes "\<And>l. moves (\<lambda>s s'. db_effects s' = db_effects s \<and> db_effect_attempts s' = db_effect_attempts s) (prepare l)"
  shows "moves (\<lambda>s s'. lease_inv s \<longrightarrow> lease_inv s')
    (thenT (whenT b err) (bindT (scanT err' (findLeased now effectID effectAttemptID worker)) (\<lambda>l.
      bindT (prepare l) (\<lambda>p. thenT (succeedLeased now effectID effectAttemptID worker (aid l) (receipt p) msg)
        (returnT (result p))))))"
  unfolding moves_def
proof (intro allI impI)
  fix s x s'
  assume run: "thenT (whenT b err) (bindT (scanT err' (findLeased now effectID effectAttemptID worker)) (\<lambda>l.
      bindT (prepare l) (\<lambda>p. thenT (succeedLeased now effectID effectAttemptID worker (aid l) (receipt p) msg)
        (returnT (result p))))) s = Inr (x, s')" and inv: "lease_inv s"
  then obtain l p t u where l: "findLeased now effectID effectAttemptID worker s = Some l"
    and prep: "prepare l s = Inr (p, t)"
    and fin: "succeedLeased now effectID effectAttemptID worker (aid l) (receipt p) msg t = Inr (u, s')"
    unfolding tx_iffs(1,3,4,8,9) by blast
  from succeedLeased_lease_inv [OF inv l fin movesD [OF assms prep]] show "lease_inv s'" .
qed

interpretation leases: hub_frame "\<lambda>s s'. lease_inv s \<longrightarrow> lease_inv s'" env "\<lambda>_. True"
proof unfold_locales
  have agent: "moves (\<lambda>s s'. lease_inv s \<longrightarrow> lease_inv s')
      (MaterializeAgentTask env now e a w heartbeat deadline)" for env now e a w heartbeat deadline
    unfolding MaterializeAgentTask_def case_prod_beta
    by (rule materialise_lease_inv, rule kept.moves_assignAgentTask)
  have command: "moves (\<lambda>s s'. lease_inv s \<longrightarrow> lease_inv s') (MaterializeCommandTask env now e a w)" for env now e a w
    unfolding MaterializeCommandTask_def by (rule materialise_lease_inv, rule kept.moves_assignCommandTask)
  have cancel: "moves (\<lambda>s s'. lease_inv s \<longrightarrow> lease_inv s') (CancelActivation now runID why)" for now runID why
    unfolding CancelActivation_def Let_def
    by (intro leases.moves_then cancelEffects_lease_inv leases.moves_closeRun)
  fix env now oper
  assume other: "\<not> eventOp oper"
  show "moves (\<lambda>s s'. lease_inv s \<longrightarrow> lease_inv s') (perform env now oper)"
  proof (cases "leaseOp oper")
    case True
    then show ?thesis
      using agent command cancel ClaimEffect_lease_inv CompleteEffect_lease_inv ResolveUnknownEffect_lease_inv
      by (cases oper) (auto intro: leases.moves_void)
  qed (use other leases.moves_sideOp leases.moves_deliveryOp in blast)
qed (rule leases.moves_openRun)

end
