(* ===== verification/HubBinding.thy ===== *)
theory HubBinding
  imports HubInvariants
begin

text \<open>
  Attempts and messages over the life of the store: what is closed stays closed, a run has at most one live attempt, which
  is its current one, and every open message is addressed to it.
\<close>

section \<open>Closed rows stay as they are\<close>

text \<open>An attempt, task or message keeps its identity while it is open, and every column once it is closed.\<close>

definition attempt_le :: "attempt_row \<Rightarrow> attempt_row \<Rightarrow> bool" where
  "attempt_le a b \<longleftrightarrow> attemptName b = attemptName a \<and> (\<not> attemptLive a \<longrightarrow> b = a)"

definition task_le :: "task_row \<Rightarrow> task_row \<Rightarrow> bool" where
  "task_le t u \<longleftrightarrow> taskKey u = taskKey t \<and> (\<not> taskOpen t \<longrightarrow> u = t)"

definition message_le :: "outbox_row \<Rightarrow> outbox_row \<Rightarrow> bool" where
  "message_le m n \<longleftrightarrow> outboxKey n = outboxKey m \<and> (\<not> outboxOpen m \<longrightarrow> n = m)"

definition rows_follow :: "('r \<Rightarrow> 'r \<Rightarrow> bool) \<Rightarrow> 'r list \<Rightarrow> 'r list \<Rightarrow> bool" where
  "rows_follow le rs rs' \<longleftrightarrow> length rs \<le> length rs' \<and> list_all2 le rs (take (length rs) rs')"

definition closed_stay :: "store \<Rightarrow> store \<Rightarrow> bool" where
  "closed_stay s s' \<longleftrightarrow> rows_follow attempt_le (db_attempts s) (db_attempts s') \<and>
     rows_follow task_le (db_tasks s) (db_tasks s') \<and> rows_follow message_le (db_outbox s) (db_outbox s')"

lemma rows_follow_refl: "(\<And>r. le r r) \<Longrightarrow> rows_follow le rs rs"
  by (simp add: rows_follow_def list_all2_refl)

lemma rows_follow_trans:
  assumes "rows_follow le rs rs'" and "rows_follow le rs' rs''" and "\<And>a b c. le a b \<Longrightarrow> le b c \<Longrightarrow> le a c"
  shows "rows_follow le rs rs''"
  using assms unfolding rows_follow_def list_all2_conv_all_nth by (auto intro: order_trans)

lemma rows_follow_append: "(\<And>r. le r r) \<Longrightarrow> rows_follow le rs (rs @ xs)"
  by (simp add: rows_follow_def list_all2_refl)

lemma rows_follow_update: "(\<And>r. le r r) \<Longrightarrow> (\<And>r. P r \<Longrightarrow> le r (f r)) \<Longrightarrow> rows_follow le rs (sql_update P f rs)"
  by (auto simp: rows_follow_def list_all2_conv_all_nth sql_update_def)

lemma rows_follow_in:
  assumes "rows_follow le rs rs'" and "r \<in> set rs"
  shows "\<exists>r' \<in> set rs'. le r r'"
proof -
  from assms(2) obtain i where i: "i < length rs" "rs ! i = r" by (auto simp: in_set_conv_nth)
  with assms(1) have "le r (rs' ! i)" "i < length rs'" by (auto simp: rows_follow_def list_all2_conv_all_nth)
  then show ?thesis by (intro bexI [of _ "rs' ! i"]) simp_all
qed

lemma le_refl: "attempt_le a a" "task_le t t" "message_le m m"
  by (simp_all add: attempt_le_def task_le_def message_le_def)

lemma attempt_le_trans: "attempt_le a b \<Longrightarrow> attempt_le b c \<Longrightarrow> attempt_le a c"
  by (auto simp: attempt_le_def attemptLive_def)

lemma task_le_trans: "task_le a b \<Longrightarrow> task_le b c \<Longrightarrow> task_le a c"
  by (auto simp: task_le_def taskOpen_def)

lemma message_le_trans: "message_le a b \<Longrightarrow> message_le b c \<Longrightarrow> message_le a c"
  by (auto simp: message_le_def outboxOpen_def)

lemma rows:
  "rows_follow attempt_le as as" "rows_follow task_le ts ts" "rows_follow message_le ms ms"
  "rows_follow attempt_le as (as @ as')" "rows_follow task_le ts (ts @ ts')" "rows_follow message_le ms (ms @ ms')"
  by (simp_all add: rows_follow_refl rows_follow_append le_refl)

lemma follow_trans:
  "rows_follow attempt_le as as' \<Longrightarrow> rows_follow attempt_le as' as'' \<Longrightarrow> rows_follow attempt_le as as''"
  "rows_follow task_le ts ts' \<Longrightarrow> rows_follow task_le ts' ts'' \<Longrightarrow> rows_follow task_le ts ts''"
  "rows_follow message_le ms ms' \<Longrightarrow> rows_follow message_le ms' ms'' \<Longrightarrow> rows_follow message_le ms ms''"
  by (erule (1) rows_follow_trans, blast intro: attempt_le_trans task_le_trans message_le_trans)+

lemma closed_stay_trans: "closed_stay s t \<Longrightarrow> closed_stay t u \<Longrightarrow> closed_stay s u"
  unfolding closed_stay_def using follow_trans by blast

lemma closed_attempts:
  "(\<And>a. ap a \<Longrightarrow> attempt_le a (af a)) \<Longrightarrow> closed_stay s (db_attempts_update (sql_update ap af) s)"
  by (simp add: closed_stay_def rows rows_follow_update le_refl)

lemma closed_tasks: "(\<And>t. tp t \<Longrightarrow> task_le t (tf t)) \<Longrightarrow> closed_stay s (db_tasks_update (sql_update tp tf) s)"
  by (simp add: closed_stay_def rows rows_follow_update le_refl)

lemma closed_outbox: "(\<And>m. mp m \<Longrightarrow> message_le m (mf m)) \<Longrightarrow> closed_stay s (db_outbox_update (sql_update mp mf) s)"
  by (simp add: closed_stay_def rows rows_follow_update le_refl)

lemma closed_same:
  "db_attempts s' = db_attempts s \<Longrightarrow> db_tasks s' = db_tasks s \<Longrightarrow> db_outbox s' = db_outbox s \<Longrightarrow> closed_stay s s'"
  by (simp add: closed_stay_def rows)

lemma closed_append:
  "closed_stay s (s\<lparr>db_attempts := db_attempts s @ as\<rparr>)" "closed_stay s (s\<lparr>db_tasks := db_tasks s @ ts\<rparr>)"
  "closed_stay s (s\<lparr>db_outbox := db_outbox s @ ms\<rparr>)"
  by (simp_all add: closed_stay_def rows)

lemmas closed_intros = closed_attempts closed_tasks closed_outbox closed_same closed_append

interpretation closed: open_frame closed_stay
proof unfold_locales
  show "closed_stay s u" if "closed_stay s t" "closed_stay t u" for s t u
    using that by (rule closed_stay_trans)
qed (auto intro!: closed_intros simp: attempt_le_def attemptKey_def attemptName_def attemptLive_def task_le_def)

interpretation closed: delivery_frame closed_stay env
  by unfold_locales (auto intro!: closed_intros)

interpretation closed: plain_frame closed_stay env UNIV
proof unfold_locales
  show "moves closed_stay (openRun env now r claw)" for env now r claw by (rule closed.moves_openRun)
  show "deliveryOp oper \<Longrightarrow> moves closed_stay (perform env now oper)" for env now oper by (rule closed.moves_deliveryOp)
qed (auto intro!: closed_intros simp: attempt_le_def task_le_def message_le_def)

section \<open>One live attempt per run\<close>

definition bindKey :: "run_row \<Rightarrow> string \<times> string" where
  "bindKey r = (run_ID r, run_CurrentAttemptID r)"

definition binding_inv :: "store \<Rightarrow> bool" where
  "binding_inv s \<longleftrightarrow> distinct (map run_ID (db_runs s)) \<and> distinct (map at_ID (db_attempts s)) \<and>
     (\<forall>a \<in> set (db_attempts s). at_RunID a \<in> run_ID ` set (db_runs s) \<and>
        (attemptLive a \<longrightarrow> (at_RunID a, at_ID a) \<in> bindKey ` set (db_runs s))) \<and>
     (\<forall>m \<in> set (db_outbox s). ob_RunID m \<in> run_ID ` set (db_runs s) \<and>
        (outboxOpen m \<longrightarrow> (ob_RunID m, ob_AttemptID m) \<in> bindKey ` set (db_runs s)))"

lemma binding_inv_keys:
  "binding_inv s \<longleftrightarrow> distinct (map fst (map bindKey (db_runs s))) \<and> distinct (map at_ID (db_attempts s)) \<and>
     (\<forall>a \<in> set (db_attempts s). at_RunID a \<in> fst ` set (map bindKey (db_runs s)) \<and>
        (attemptLive a \<longrightarrow> (at_RunID a, at_ID a) \<in> set (map bindKey (db_runs s)))) \<and>
     (\<forall>m \<in> set (db_outbox s). ob_RunID m \<in> fst ` set (map bindKey (db_runs s)) \<and>
        (outboxOpen m \<longrightarrow> (ob_RunID m, ob_AttemptID m) \<in> set (map bindKey (db_runs s))))"
  by (simp add: binding_inv_def bindKey_def comp_def image_image)

lemma binding_inv_cong:
  "map bindKey (db_runs s') = map bindKey (db_runs s) \<Longrightarrow> db_attempts s' = db_attempts s \<Longrightarrow> db_outbox s' = db_outbox s \<Longrightarrow>
   binding_inv s' \<longleftrightarrow> binding_inv s"
  unfolding binding_inv_keys by simp

lemma binding_runs:
  assumes "\<And>r. rp r \<Longrightarrow> bindKey (rf r) = bindKey r"
  shows "binding_inv (db_runs_update (sql_update rp rf) s) \<longleftrightarrow> binding_inv s"
  by (rule binding_inv_cong) (simp_all add: map_sql_update assms)

lemma binding_attempts:
  assumes "\<And>a. ap a \<Longrightarrow> at_ID (af a) = at_ID a \<and> at_RunID (af a) = at_RunID a \<and> (attemptLive (af a) \<longrightarrow> attemptLive a)"
    and "binding_inv s"
  shows "binding_inv (db_attempts_update (sql_update ap af) s)"
  using assms unfolding binding_inv_def by (auto simp: map_sql_update set_sql_update)

lemma binding_outbox:
  assumes "\<And>m. mp m \<Longrightarrow> ob_RunID (mf m) = ob_RunID m \<and> ob_AttemptID (mf m) = ob_AttemptID m \<and> (outboxOpen (mf m) \<longrightarrow> outboxOpen m)"
    and "binding_inv s"
  shows "binding_inv (db_outbox_update (sql_update mp mf) s)"
  using assms unfolding binding_inv_def by (auto simp: set_sql_update)

lemma binding_send:
  assumes "binding_inv s" and "(ob_RunID m, ob_AttemptID m) \<in> bindKey ` set (db_runs s)"
  shows "binding_inv (s\<lparr>db_outbox := db_outbox s @ [m]\<rparr>)"
  using assms unfolding binding_inv_def by (auto simp: bindKey_def)

interpretation bound: run_frame "\<lambda>s s'. binding_inv s \<longrightarrow> binding_inv s'"
proof unfold_locales
  fix s :: store and af ap
  assume "\<And>a. attemptKey (af a) = attemptKey a"
  then have "\<And>a. at_ID (af a) = at_ID a \<and> at_RunID (af a) = at_RunID a \<and> (attemptLive (af a) \<longrightarrow> attemptLive a)"
    by (simp add: attemptKey_def attemptLive_def)
  then show "binding_inv s \<longrightarrow> binding_inv (db_attempts_update (sql_update ap af) s)" using binding_attempts by blast
next
  fix s :: store and rf rp
  assume "\<And>r. runKey (rf r) = runKey r"
  then show "binding_inv s \<longrightarrow> binding_inv (db_runs_update (sql_update rp rf) s)"
    using binding_runs [of rp rf] by (simp add: runKey_def bindKey_def)
next
  fix s stored target destination now
  show "binding_inv s \<longrightarrow>
      binding_inv (db_runs_update (sql_update (casMatches stored) (advanceRun stored target destination now)) s)"
    using binding_runs [of "casMatches stored" "advanceRun stored target destination now"]
    by (simp add: advanceRun_def bindKey_def)
qed (simp_all add: binding_inv_def)

interpretation bound: delivery_frame "\<lambda>s s'. binding_inv s \<longrightarrow> binding_inv s'" env
  by unfold_locales (simp_all add: binding_inv_def)

interpretation bound: lease_frame "\<lambda>s s'. binding_inv s \<longrightarrow> binding_inv s'" UNIV
  by unfold_locales (simp_all add: binding_inv_def)

lemma bound_steps:
  "moves (\<lambda>s s'. binding_inv s \<longrightarrow> binding_inv s') (insertTask t)"
  "moves (\<lambda>s s'. binding_inv s \<longrightarrow> binding_inv s') (updateT db_tasks db_tasks_update tp tf)"
  "(\<And>r. bindKey (rf r) = bindKey r) \<Longrightarrow> moves (\<lambda>s s'. binding_inv s \<longrightarrow> binding_inv s') (updateT db_runs db_runs_update rp rf)"
  "(\<And>a. ap a \<Longrightarrow> at_ID (af a) = at_ID a \<and> at_RunID (af a) = at_RunID a \<and> (attemptLive (af a) \<longrightarrow> attemptLive a)) \<Longrightarrow>
   moves (\<lambda>s s'. binding_inv s \<longrightarrow> binding_inv s') (updateT db_attempts db_attempts_update ap af)"
  "(\<And>m. mp m \<Longrightarrow> ob_RunID (mf m) = ob_RunID m \<and> ob_AttemptID (mf m) = ob_AttemptID m \<and> (outboxOpen (mf m) \<longrightarrow> outboxOpen m)) \<Longrightarrow>
   moves (\<lambda>s s'. binding_inv s \<longrightarrow> binding_inv s') (updateT db_outbox db_outbox_update mp mf)"
  unfolding moves_def
  by (auto simp: tx_ok insertTask_def binding_runs intro: binding_attempts binding_outbox) (simp_all add: binding_inv_def)

lemma bound_plain_ops:
  "moves (\<lambda>s s'. binding_inv s \<longrightarrow> binding_inv s') (CompleteActivation now runID)"
  "moves (\<lambda>s s'. binding_inv s \<longrightarrow> binding_inv s') (CancelActivation now runID why)"
  "moves (\<lambda>s s'. binding_inv s \<longrightarrow> binding_inv s') (ExpireAgentTasks now)"
  "moves (\<lambda>s s'. binding_inv s \<longrightarrow> binding_inv s') (MarkControlSent now messageID)"
  "moves (\<lambda>s s'. binding_inv s \<longrightarrow> binding_inv s') (AcknowledgeControl now runID attemptID receipt)"
  "moves (\<lambda>s s'. binding_inv s \<longrightarrow> binding_inv s') (linkContext now runID bundleID)"
  "moves (\<lambda>s s'. binding_inv s \<longrightarrow> binding_inv s') (suspendForContext now runID version)"
  unfolding CompleteActivation_def CancelActivation_def closeRun_def cancelOutbox_def ExpireAgentTasks_def expireTask_def
    MarkControlSent_def AcknowledgeControl_def rejectControl_def settleOutbox_def getRunForUpdate_def linkContext_def
    suspendForContext_def Let_def
  by (intro bound.moves_bind bound.moves_then bound.moves_cases bound.moves_pure bound.moves_for bound_steps
        bound.moves_cancelEffects;
      simp add: bindKey_def attemptLive_def outboxOpen_def)+

text \<open>Sending to the current attempt \<open>p\<close> of a run.\<close>

definition bound_to :: "string \<times> string \<Rightarrow> store \<Rightarrow> store \<Rightarrow> bool" where
  "bound_to p s s' \<longleftrightarrow> (binding_inv s \<and> p \<in> bindKey ` set (db_runs s) \<longrightarrow>
     binding_inv s' \<and> p \<in> bindKey ` set (db_runs s'))"

interpretation sends: step_order "bound_to p"
  by unfold_locales (simp_all add: bound_to_def)

lemma image_sql_update:
  assumes "\<And>r. P r \<Longrightarrow> k (f r) = k r"
  shows "k ` set (sql_update P f rs) = k ` set rs"
  by (metis assms list.set_map map_sql_update)

lemma sends_steps:
  "moves (bound_to p) (freshUUID env)" "moves (bound_to p) (insertTask t)"
  "(\<And>r. bindKey (rf r) = bindKey r) \<Longrightarrow> moves (bound_to p) (updateT db_runs db_runs_update rp rf)"
  "(en_RunID en, en_AttemptID en) = p \<Longrightarrow> moves (bound_to p) (insertOutbox en now)"
  unfolding moves_def bound_to_def
  by (auto simp: tx_ok insertTask_def binding_runs image_sql_update insertOutbox_def newOutbox_def intro!: binding_send)
     (simp_all add: binding_inv_def)

lemma sends_queueAssignment: "moves (bound_to (le_RunID l, le_AttemptID l)) (queueAssignment env now e kind l taskID payload)"
  unfolding queueAssignment_def Let_def
  by (intro sends.moves_bind sends.moves_then sends.moves_pure sends_steps) (simp add: assignment_def)

lemma sends_assign:
  "moves (bound_to (le_RunID l, le_AttemptID l)) (assignAgentTask env now e h d l)"
  "moves (bound_to (le_RunID l, le_AttemptID l)) (assignCommandTask env now e l)"
  unfolding assignAgentTask_def assignCommandTask_def requireActiveAttempt_def taskInstructions_def Let_def
  by (intro sends.moves_bind sends.moves_then sends.moves_pure sends.moves_cases sends_steps sends_queueAssignment;
      simp add: bindKey_def)+

lemma bindKey_member: "r \<in> set rs \<Longrightarrow> run_ID r = i \<Longrightarrow> (i, run_CurrentAttemptID r) \<in> bindKey ` set rs"
  by (auto simp: bindKey_def intro!: image_eqI [of _ _ r])

lemma findLeased_bound:
  assumes "findLeased now e a w s = Some l"
  shows "(le_RunID l, le_AttemptID l) \<in> bindKey ` set (db_runs s)"
  using assms
  by (auto simp: findLeased_def split: option.splits if_splits dest!: find_Some_in intro: bindKey_member)

text \<open>Nothing but the assignment touches what the invariant reads.\<close>

lemma bound_materialise:
  assumes "\<And>l. moves (bound_to (le_RunID l, le_AttemptID l)) (prepare l)"
  shows "moves (\<lambda>s s'. binding_inv s \<longrightarrow> binding_inv s')
    (thenT (whenT b err) (bindT (scanT err' (findLeased now effectID effectAttemptID worker)) (\<lambda>l.
      bindT (prepare l) (\<lambda>p. thenT (succeedLeased now effectID effectAttemptID worker (aid l) (receipt p) msg)
        (returnT (result p))))))"
  unfolding moves_def
proof (intro allI impI)
  fix s x s'
  assume run: "thenT (whenT b err) (bindT (scanT err' (findLeased now effectID effectAttemptID worker)) (\<lambda>l.
      bindT (prepare l) (\<lambda>p. thenT (succeedLeased now effectID effectAttemptID worker (aid l) (receipt p) msg)
        (returnT (result p))))) s = Inr (x, s')" and inv: "binding_inv s"
  then obtain l p t u where l: "findLeased now effectID effectAttemptID worker s = Some l"
    and prep: "prepare l s = Inr (p, t)"
    and fin: "succeedLeased now effectID effectAttemptID worker (aid l) (receipt p) msg t = Inr (u, s')"
    unfolding tx_iffs(1,3,4,8,9) by blast
  have "binding_inv t" using movesD [OF assms prep] inv findLeased_bound [OF l] by (simp add: bound_to_def)
  then show "binding_inv s'" using movesD [OF bound.moves_succeedLeased fin] by simp
qed

lemma GetRun_ok: "GetRun runID s = Inr (r, s') \<longleftrightarrow> s' = s \<and> find (\<lambda>r. run_ID r = runID) (db_runs s) = Some r"
  by (auto simp: GetRun_def tx_ok)

lemma EnqueueControl_binding: "moves (\<lambda>s s'. binding_inv s \<longrightarrow> binding_inv s') (EnqueueControl now en)"
proof -
  have send: "moves (bound_to (run_ID r, run_CurrentAttemptID r))
     (thenT (whenT (\<not> runLive r) err1) (thenT (whenT (en_AttemptID en' = [] \<or> en_AttemptID en' \<noteq> run_CurrentAttemptID r) err2)
       (thenT (whenT c err3) (bindT (getsT f) (\<lambda>known. if known then returnT () else insertOutbox en' now)))))"
    if "en_RunID en' = run_ID r" for r en' err1 err2 err3 c f
  proof (cases "en_AttemptID en' = run_CurrentAttemptID r")
    case True
    then show ?thesis using that
      by (intro sends.moves_bind sends.moves_then sends.moves_pure sends.moves_cases sends_steps) simp
  next
    case False
    then show ?thesis by (auto simp: moves_def tx_ok)
  qed
  have "binding_inv s'" if run: "EnqueueControl now en s = Inr (x, s')" and inv: "binding_inv s" for s x s'
  proof -
    from run obtain r where r: "find (\<lambda>r. run_ID r = en_RunID en) (db_runs s) = Some r"
      by (auto simp: EnqueueControl_def tx_iffs(3,4,5) GetRun_ok)
    then have id: "run_ID r = en_RunID en" and mem: "(run_ID r, run_CurrentAttemptID r) \<in> bindKey ` set (db_runs s)"
      using find_Some_in [OF r] by (auto intro: bindKey_member)
    let ?en = "if en_AttemptID en = [] then en\<lparr>en_AttemptID := run_CurrentAttemptID r\<rparr> else en"
    have "en_RunID ?en = run_ID r" using id by simp
    from movesD [OF send [OF this]] show ?thesis
      using run r inv mem unfolding EnqueueControl_def Let_def bound_to_def tx_iffs(3,4,5) GetRun_ok by fastforce
  qed
  then show ?thesis by (auto simp: moves_def)
qed

section \<open>Starting an attempt\<close>

text \<open>The messages that replacing a task posts, and the rows an attempt starts with.\<close>

definition posts :: "string \<Rightarrow> string \<Rightarrow> store \<Rightarrow> store \<Rightarrow> bool" where
  "posts runID attemptID s s' \<longleftrightarrow> db_runs s' = db_runs s \<and> db_attempts s' = db_attempts s \<and>
     (\<exists>ms. db_outbox s' = db_outbox s @ ms \<and> (\<forall>m \<in> set ms. ob_RunID m = runID \<and> ob_AttemptID m = attemptID))"

interpretation posted: step_order "posts runID attemptID"
proof unfold_locales
  show "posts runID attemptID s s" for s by (simp add: posts_def)
  show "posts runID attemptID s u" if "posts runID attemptID s t" "posts runID attemptID t u" for s t u
  proof -
    from that(1) obtain ms where ms: "db_outbox t = db_outbox s @ ms" "\<forall>m \<in> set ms. ob_RunID m = runID \<and> ob_AttemptID m = attemptID"
      by (auto simp: posts_def)
    from that(2) obtain ns where "db_outbox u = db_outbox t @ ns" "\<forall>m \<in> set ns. ob_RunID m = runID \<and> ob_AttemptID m = attemptID"
      by (auto simp: posts_def)
    with ms that show ?thesis unfolding posts_def by (intro conjI exI [of _ "ms @ ns"]) auto
  qed
qed

lemma posted_steps:
  "moves (posts runID attemptID) (freshUUID env)" "moves (posts runID attemptID) (insertTask t)"
  "moves (posts runID attemptID) (updateT db_tasks db_tasks_update tp tf)"
  "en_RunID en = runID \<Longrightarrow> en_AttemptID en = attemptID \<Longrightarrow> moves (posts runID attemptID) (insertOutbox en now)"
  by (auto simp: moves_def posts_def tx_ok insertTask_def insertOutbox_def newOutbox_def)

lemma posts_replaceCurrentTask: "moves (posts runID attemptID) (replaceCurrentTask env now runID attemptID taskID)"
  unfolding replaceCurrentTask_def replaceTask_def Let_def
  by (intro posted.moves_bind posted.moves_then posted.moves_pure posted.moves_cases posted_steps) (simp_all add: assignment_def)

definition loseAttempt :: "int \<Rightarrow> attempt_row \<Rightarrow> attempt_row" where
  "loseAttempt now a = a\<lparr>at_Status := AttLost, at_FinishedAt := unixMilli now, at_Reason := supersededReason\<rparr>"

definition silence :: "int \<Rightarrow> outbox_row \<Rightarrow> outbox_row" where
  "silence now m = m\<lparr>ob_Status := OutCancelled, ob_UpdatedAt := unixMilli now\<rparr>"

definition rebind :: "string \<Rightarrow> string \<Rightarrow> int \<Rightarrow> run_row \<Rightarrow> run_row" where
  "rebind attemptID taskID now r = r\<lparr>run_CurrentAttemptID := attemptID, run_CurrentTaskID := taskID, run_UpdatedAt := unixMilli now\<rparr>"

lemma openAttempt_ok:
  assumes "openAttempt env now runID clawID s = Inr (p, t)"
  shows "db_runs t = db_runs s \<and> fst p \<notin> at_ID ` set (db_attempts s) \<and>
    db_attempts t = sql_update (\<lambda>a. at_RunID a = runID \<and> attemptLive a) (loseAttempt now) (db_attempts s) @
      [newAttemptRow (fst p) runID clawID (snd p) now] \<and>
    db_outbox t = sql_update (\<lambda>m. ob_RunID m = runID \<and> outboxOpen m) (silence now) (db_outbox s)"
proof -
  have ids: "at_ID ` set (sql_update P (loseAttempt now) as) = at_ID ` set as" for P as
    by (rule image_sql_update) (simp add: loseAttempt_def)
  show ?thesis
    using assms unfolding openAttempt_def loseAttempts_def insertAttemptRow_def cancelOutbox_def
    by (auto simp: tx_iffs newAttemptRow_def outboxOpen_def silence_def [abs_def] ids [unfolded loseAttempt_def]
      loseAttempt_def [abs_def])
qed

lemma StartAttempt_ok:
  assumes "StartAttempt env now runID clawID s = Inr (x, s')"
  obtains r taskID ms where "find (\<lambda>r. run_ID r = runID) (db_runs s) = Some r" and "runLive r"
    and "ax_ID x \<notin> at_ID ` set (db_attempts s)"
    and "db_attempts s' = sql_update (\<lambda>a. at_RunID a = runID \<and> attemptLive a) (loseAttempt now) (db_attempts s) @
      [newAttemptRow (ax_ID x) runID clawID (ax_Number x) now]"
    and "db_outbox s' = sql_update (\<lambda>m. ob_RunID m = runID \<and> outboxOpen m) (silence now) (db_outbox s) @ ms"
    and "\<forall>m \<in> set ms. ob_RunID m = runID \<and> ob_AttemptID m = ax_ID x"
    and "db_runs s' = sql_update (\<lambda>r. run_ID r = runID) (rebind (ax_ID x) taskID now) (db_runs s)"
proof -
  from assms obtain r p t taskID u where r: "find (\<lambda>r. run_ID r = runID) (db_runs s) = Some r" "runLive r"
    and op: "openAttempt env now runID clawID s = Inr (p, t)"
    and rep: "replaceCurrentTask env now runID (fst p) (run_CurrentTaskID r) t = Inr (taskID, u)"
    and s': "s' = u\<lparr>db_runs := sql_update (\<lambda>r. run_ID r = runID) (rebind (fst p) taskID now) (db_runs u)\<rparr>"
    and x: "ax_ID x = fst p" "ax_Number x = snd p"
    unfolding StartAttempt_def bindRun_def rebind_def [abs_def]
    by (auto simp: tx_iffs(1,3,4,8,10) GetRun_ok)
  obtain ms where "db_outbox u = db_outbox t @ ms" "\<forall>m \<in> set ms. ob_RunID m = runID \<and> ob_AttemptID m = fst p"
    and "db_runs u = db_runs t" "db_attempts u = db_attempts t"
    using movesD [OF posts_replaceCurrentTask rep] by (auto simp: posts_def)
  then show thesis using that [OF r, of ms taskID] openAttempt_ok [OF op] s' x by simp
qed

lemma StartAttempt_binding: "moves (\<lambda>s s'. binding_inv s \<longrightarrow> binding_inv s') (StartAttempt env now runID clawID)"
  unfolding moves_def
proof (intro allI impI)
  fix s x s'
  assume run: "StartAttempt env now runID clawID s = Inr (x, s')" and inv: "binding_inv s"
  from run obtain r taskID ms where r: "find (\<lambda>r. run_ID r = runID) (db_runs s) = Some r"
    and fresh: "ax_ID x \<notin> at_ID ` set (db_attempts s)"
    and atts: "db_attempts s' = sql_update (\<lambda>a. at_RunID a = runID \<and> attemptLive a) (loseAttempt now) (db_attempts s) @
      [newAttemptRow (ax_ID x) runID clawID (ax_Number x) now]"
    and outs: "db_outbox s' = sql_update (\<lambda>m. ob_RunID m = runID \<and> outboxOpen m) (silence now) (db_outbox s) @ ms"
    and ms: "\<forall>m \<in> set ms. ob_RunID m = runID \<and> ob_AttemptID m = ax_ID x"
    and runs: "db_runs s' = sql_update (\<lambda>r. run_ID r = runID) (rebind (ax_ID x) taskID now) (db_runs s)"
    by (rule StartAttempt_ok)
  have ids: "map run_ID (db_runs s') = map run_ID (db_runs s)" unfolding runs by (simp add: map_sql_update rebind_def)
  then have idset: "run_ID ` set (db_runs s') = run_ID ` set (db_runs s)" by (metis list.set_map)
  have "rebind (ax_ID x) taskID now r \<in> set (db_runs s')"
    using find_Some_in [OF r] unfolding runs set_sql_update by (auto intro!: image_eqI [of _ _ r])
  then have here: "(runID, ax_ID x) \<in> bindKey ` set (db_runs s')"
    using find_Some_in [OF r] by (intro image_eqI [of _ _ "rebind (ax_ID x) taskID now r"]) (simp_all add: bindKey_def rebind_def)
  have there: "p \<in> bindKey ` set (db_runs s')" if "p \<in> bindKey ` set (db_runs s)" "fst p \<noteq> runID" for p
    using that unfolding runs set_sql_update by (auto simp: bindKey_def image_image)
  have aids: "map at_ID (db_attempts s') = map at_ID (db_attempts s) @ [ax_ID x]"
    unfolding atts by (simp add: map_sql_update loseAttempt_def newAttemptRow_def)
  have runid: "runID \<in> run_ID ` set (db_runs s)" using find_Some_in [OF r] by auto
  have "at_RunID a \<in> run_ID ` set (db_runs s') \<and> (attemptLive a \<longrightarrow> (at_RunID a, at_ID a) \<in> bindKey ` set (db_runs s'))"
    if "a \<in> set (db_attempts s')" for a
    using that inv here there runid unfolding atts idset binding_inv_def
    by (auto simp: set_sql_update loseAttempt_def newAttemptRow_def attemptLive_def split: if_splits)
  moreover have "ob_RunID m \<in> run_ID ` set (db_runs s') \<and> (outboxOpen m \<longrightarrow> (ob_RunID m, ob_AttemptID m) \<in> bindKey ` set (db_runs s'))"
    if "m \<in> set (db_outbox s')" for m
    using that inv here there runid ms unfolding outs idset binding_inv_def
    by (auto simp: set_sql_update silence_def outboxOpen_def split: if_splits)
  ultimately show "binding_inv s'" using inv fresh unfolding binding_inv_def ids aids by auto
qed

section \<open>Every operation\<close>

lemma openRun_binding: "moves (\<lambda>s s'. binding_inv s \<longrightarrow> binding_inv s') (openRun env now r claw)"
  unfolding moves_def
proof (intro allI impI)
  fix s x s'
  assume run: "openRun env now r claw s = Inr (x, s')" and inv: "binding_inv s"
  from run obtain as where fresh: "run_ID r \<notin> run_ID ` set (db_runs s)" and runs: "db_runs s' = db_runs s @ [r]"
    and outs: "db_outbox s' = db_outbox s" and atts: "db_attempts s' = db_attempts s @ as"
    and as: "as = [] \<or> as = [newAttemptRow (run_CurrentAttemptID r) (run_ID r) claw 1 now] \<and>
      run_CurrentAttemptID r \<notin> at_ID ` set (db_attempts s)"
    unfolding openRun_def insertRunRow_def insertAttemptRow_def insertEvent_def insertEventRow_def insertTransitionRow_def
    by (auto simp: tx_iffs wrapT_iff newAttemptRow_def split: if_splits)
  show "binding_inv s'"
    using inv fresh as unfolding binding_inv_def runs outs atts
    by (elim disjE) (auto simp: newAttemptRow_def bindKey_def)
qed

lemma bound_assignments:
  "moves (\<lambda>s s'. binding_inv s \<longrightarrow> binding_inv s') (MaterializeAgentTask env now e a w heartbeat deadline)"
  "moves (\<lambda>s s'. binding_inv s \<longrightarrow> binding_inv s') (MaterializeCommandTask env now e a w)"
  unfolding MaterializeAgentTask_def MaterializeCommandTask_def case_prod_beta
  by (rule bound_materialise, rule sends_assign)+

interpretation bound: hub_frame "\<lambda>s s'. binding_inv s \<longrightarrow> binding_inv s'" env "\<lambda>_. True"
proof unfold_locales
  fix env now oper
  assume other: "\<not> eventOp oper"
  show "moves (\<lambda>s s'. binding_inv s \<longrightarrow> binding_inv s') (perform env now oper)"
  proof (cases "deliveryOp oper")
    case False
    then show ?thesis using other
      by (cases oper)
       (simp_all add: bound.moves_void bound_plain_ops bound_assignments EnqueueControl_binding StartAttempt_binding
         bound.moves_ClaimEffect bound.moves_CompleteEffect bound.moves_ResolveUnknownEffect)
  qed (rule bound.moves_deliveryOp)
qed (rule openRun_binding)

end
