(* ===== verification/HubRecord.thy ===== *)
theory HubRecord
  imports HubInvariants RuntimeProperties
begin

text \<open>
  Two more relations that every operation of the store respects, beside those of \<open>HubInvariants\<close>: \<open>journal_kept\<close> says that
  no row of the event journal is changed or lost, in any column, and \<open>settled_runs\<close> that a run in a terminal state of its
  workflow keeps its state and version.  Neither is closed under the single updates of a transaction (an event is marked as
  rejected after it was inserted, a transition may not start anywhere), so both are proved for whole events and commands and
  enter the frames through \<open>apply_frame\<close>.
\<close>

section \<open>The event journal\<close>

definition journal_kept :: "store \<Rightarrow> store \<Rightarrow> bool" where
  "journal_kept s s' \<longleftrightarrow> prefix (db_events s) (db_events s')"

text \<open>While the event \<open>x\<close> is being handled only its own row may be marked.\<close>

definition besides :: "string \<Rightarrow> event_row \<Rightarrow> event_row option" where
  "besides x e = (if ev_ID e = x then None else Some e)"

definition own_row :: "string \<Rightarrow> store \<Rightarrow> store \<Rightarrow> bool" where
  "own_row x s s' \<longleftrightarrow> prefix (map (besides x) (db_events s)) (map (besides x) (db_events s'))"

lemma own_row_same: "db_events s' = db_events s @ es \<Longrightarrow> own_row x s s'"
  by (simp add: own_row_def)

interpretation own: dispatch_frame "own_row x" "\<lambda>i. i = x" for x
proof unfold_locales
  show "own_row x s s" for s by (simp add: own_row_def)
  show "own_row x s u" if "own_row x s t" "own_row x t u" for s t u
    using that unfolding own_row_def by (rule prefix_order.trans)
  show "own_row x s (db_events_update (sql_update (\<lambda>e. ev_ID e = i)
      (\<lambda>e. e\<lparr>ev_Disposition := DispRejected, ev_Reason := reason\<rparr>)) s)" if "i = x" for s i reason
    using that by (simp add: own_row_def map_sql_update besides_def)
  show "moves (own_row x) (recordTransition stored destination (newTransition stored i name target writes tid now) now)"
    for stored destination i name target writes tid now
    by (auto simp: moves_def recordTransition_def insertTransitionRow_def newTransition_def tx_ok intro: own_row_same)
qed (auto intro!: own_row_same)

lemma besides_fresh: "x \<notin> ev_ID ` set es \<Longrightarrow> map (besides x) es = map Some es"
  by (auto simp: besides_def)

lemma besides_Some:
  assumes "map Some xs = map (besides x) ys"
  shows "xs = ys"
proof -
  have "\<forall>i < length xs. besides x (ys ! i) = Some (xs ! i)" and "length xs = length ys"
    using assms by (auto simp: list_eq_iff_nth_eq)
  then show ?thesis by (auto simp: list_eq_iff_nth_eq besides_def split: if_splits)
qed

lemma own_row_kept:
  assumes "own_row x s s'" and "x \<notin> ev_ID ` set (db_events s)"
  shows "journal_kept s s'"
proof -
  let ?n = "length (db_events s)"
  have "prefix (map Some (db_events s)) (map (besides x) (db_events s'))"
    using assms by (simp add: own_row_def besides_fresh)
  then have "map Some (db_events s) = map (besides x) (take ?n (db_events s'))"
    by (auto simp: prefix_def take_map [symmetric])
  from besides_Some [OF this] show ?thesis
    unfolding journal_kept_def by (metis take_is_prefix)
qed

text \<open>A transaction that begins with the insertion of its event, whose id must be new.\<close>

lemma insertion_kept:
  assumes "moves (own_row (in_ID i)) m"
  shows "moves journal_kept (thenT (insertEvent runID i v d reason now) m)"
  unfolding moves_def
proof (intro allI impI)
  fix s y s'
  assume run: "thenT (insertEvent runID i v d reason now) m s = Inr (y, s')"
  then have "own_row (in_ID i) s s'"
    using own.moves_then [OF own.moves_insertEvent assms] by (rule movesD [rotated])
  moreover have "in_ID i \<notin> ev_ID ` set (db_events s)"
    using run by (auto simp: insertEvent_def insertEventRow_def wrapT_iff tx_iffs split: if_splits)
  ultimately show "journal_kept s s'" by (rule own_row_kept)
qed

interpretation journal: frame journal_kept
  by unfold_locales (auto simp: journal_kept_def)

lemma acceptEvent_kept:
  assumes "workflowWritesOwned w" and "authorizeEvent i = None"
  shows "moves journal_kept (acceptEvent env now stored w i)"
  unfolding acceptEvent_def
  by (intro insertion_kept own.steps own.moves_dispatch refl)
     (use assms in \<open>auto simp: authorizeEvent_None_iff ownedWrites_def\<close>)

lemma ApplyCommand_kept: "moves journal_kept (ApplyCommand env now runID commandName c)"
  unfolding ApplyCommand_def getRunForUpdate_def loadFacts_def Let_def
  by (intro journal.moves_bind_lift journal.moves_bind journal.moves_then journal.moves_pure journal.moves_cases
        journal.moves_recordOnly insertion_kept own.moves_bind own.moves_pure own.moves_applyTransition refl
        transitionWrites_owned loadPinned_owned) simp_all

interpretation journal: delivery_frame journal_kept env
  by unfold_locales (auto intro: journal.moves_ApplyEvent_by acceptEvent_kept ApplyCommand_kept simp: journal_kept_def)

interpretation journal: plain_frame journal_kept env UNIV
proof unfold_locales
  show "moves journal_kept (openRun env now r claw)" for env now r claw
    by (auto simp: moves_def openRun_def insertRunRow_def insertAttemptRow_def insertEvent_def insertEventRow_def
      insertTransitionRow_def journal_kept_def wrapT_iff tx_iffs split: if_splits)
  show "moves journal_kept (perform env now oper)" if "deliveryOp oper" for env now oper
    using that by (rule journal.moves_deliveryOp)
qed (simp_all add: journal_kept_def)

section \<open>Terminal states\<close>

definition settled_runs :: "rt_env \<Rightarrow> store \<Rightarrow> store \<Rightarrow> bool" where
  "settled_runs env s s' \<longleftrightarrow> extends s s' \<and> (distinct (map run_ID (db_runs s)) \<longrightarrow> distinct (map run_ID (db_runs s')) \<and>
     (\<forall>r \<in> set (db_runs s). inTerminalState env r \<longrightarrow> logKey r \<in> set (absRuns s')))"

lemma inTerminalState_cong:
  assumes "run_WorkflowYAML q = run_WorkflowYAML r" and "run_WorkflowRevision q = run_WorkflowRevision r"
    and "run_State q = run_State r"
  shows "inTerminalState env q \<longleftrightarrow> inTerminalState env r"
proof -
  have "loadPinnedWorkflow env q = loadPinnedWorkflow env r" using assms(1,2) by (simp add: loadPinnedWorkflow_def)
  then show ?thesis using assms(3) by (auto simp: inTerminalState_def split: sum.split)
qed

lemma run_by_ID: "distinct (map run_ID rows) \<Longrightarrow> q \<in> set rows \<Longrightarrow> r \<in> set rows \<Longrightarrow> run_ID q = run_ID r \<Longrightarrow> q = r"
  by (auto simp: distinct_map dest: inj_onD)

text \<open>The row of a run after a history that kept its state and version.\<close>

lemma same_run_later:
  assumes "extends s s'" and "distinct (map run_ID (db_runs s'))" and "r \<in> set (db_runs s)" and "logKey r \<in> set (absRuns s')"
  obtains q where "q \<in> set (db_runs s')" and "run_le r q" and "logKey q = logKey r"
proof -
  obtain q where q: "q \<in> set (db_runs s')" "run_le r q" using assms(1,3) unfolding extends_def by blast
  obtain p where p: "p \<in> set (db_runs s')" "logKey p = logKey r" using assms(4) by (auto simp: absRuns_def)
  have "p = q" using run_by_ID [OF assms(2) p(1) q(1)] p(2) q(2) by (simp add: logKey_def run_le_def)
  with p q that show ?thesis by blast
qed

lemma terminal_later:
  assumes "inTerminalState env r" and "run_le r q" and "logKey q = logKey r"
  shows "inTerminalState env q"
  using assms inTerminalState_cong [of q r] by (simp add: run_le_def logKey_def)

lemma settled_trans:
  assumes st: "settled_runs env s t" and tu: "settled_runs env t u"
  shows "settled_runs env s u"
  unfolding settled_runs_def
proof (intro conjI impI ballI)
  show "extends s u" using st tu unfolding settled_runs_def by (blast intro: hist.R_trans)
next
  assume ids: "distinct (map run_ID (db_runs s))"
  then show "distinct (map run_ID (db_runs u))" using st tu unfolding settled_runs_def by blast
  fix r assume r: "r \<in> set (db_runs s)" "inTerminalState env r"
  have t: "extends s t" "distinct (map run_ID (db_runs t))" "logKey r \<in> set (absRuns t)"
    using st ids r unfolding settled_runs_def by blast+
  then obtain q where q: "q \<in> set (db_runs t)" "run_le r q" "logKey q = logKey r" 
    using same_run_later [OF t(1,2) r(1) t(3)] by blast
  with terminal_later [OF r(2) q(2,3)] tu t(2) show "logKey r \<in> set (absRuns u)"
    unfolding settled_runs_def by metis
qed

lemma absRuns_ids: "map run_ID (db_runs s) = map fst (absRuns s)"
  by (simp add: absRuns_def logKey_def comp_def)

lemma settled_same:
  assumes "extends s s'" and "absRuns s' = absRuns s"
  shows "settled_runs env s s'"
  using assms by (auto simp: settled_runs_def absRuns_ids) (simp add: absRuns_def)

lemma settled_runs_same: "extends s s' \<Longrightarrow> db_runs s' = db_runs s \<Longrightarrow> settled_runs env s s'"
  by (rule settled_same) (simp_all add: absRuns_def)

lemma settled_updates: "(\<And>r. logKey (f r) = logKey r) \<Longrightarrow> extends s (db_runs_update (sql_update P f) s) \<Longrightarrow>
   settled_runs env s (db_runs_update (sql_update P f) s)"
  by (rule settled_same) (simp_all add: absRuns_def map_sql_update)

lemma settled_if: "moves extends m \<Longrightarrow> (\<And>s x s'. m s = Inr (x, s') \<Longrightarrow> absRuns s' = absRuns s) \<Longrightarrow> moves (settled_runs env) m"
  unfolding moves_def by (blast intro: settled_same)

text \<open>A step along an edge for the row that an earlier store held of the run, whose documents are still the pinned ones.\<close>

lemma settled_move:
  assumes move: "graph_move stored w kind s r s'" and w: "loadPinnedWorkflow env stored = Inr w" and ext: "extends s s'"
    and pinned: "\<exists>q \<in> set (db_runs s). run_le stored q"
  shows "settled_runs env s s'"
proof (cases "er_Transition r")
  case None
  then show ?thesis using move ext settled_same by (simp add: graph_move_def)
next
  case (Some t)
  then have one: "sql_count (casMatches stored) (db_runs s) = 1" and abs: "absRuns s' = map (moveRun t) (absRuns s)"
    and t: "tn_RunID t = run_ID stored" and e: "edge w (run_State stored) kind (tn_ToState t)"
    using move by (simp_all add: graph_move_def)
  have "map fst (map (moveRun t) (absRuns s)) = map fst (absRuns s)" by (simp add: moveRun_def)
  then have ids: "map run_ID (db_runs s') = map run_ID (db_runs s)" by (simp add: absRuns_ids abs)
  show ?thesis
    unfolding settled_runs_def ids
  proof (intro conjI ext impI ballI)
    fix x assume d: "distinct (map run_ID (db_runs s))" and x: "x \<in> set (db_runs s)" "inTerminalState env x"
    have "run_ID x \<noteq> run_ID stored"
    proof
      assume id: "run_ID x = run_ID stored"
      obtain q where q: "q \<in> set (db_runs s)" "run_le stored q" using pinned by blast
      have "x = q" using run_by_ID [OF d x(1) q(1)] id q(2) by (simp add: run_le_def)
      with q(2) cas_unique [OF d one x(1) id] have "inTerminalState env stored \<longleftrightarrow> inTerminalState env x"
        by (intro inTerminalState_cong) (simp_all add: run_le_def casMatches_def)
      with x(2) w edge_not_terminal [OF e loadPinned_graph [OF w]] show False by (simp add: inTerminalState_def)
    qed
    then have "moveRun t (logKey x) = logKey x" using t by (simp add: moveRun_def logKey_def)
    moreover have "logKey x \<in> set (absRuns s)" using x(1) by (simp add: absRuns_def)
    ultimately show "logKey x \<in> set (absRuns s')" unfolding abs by (metis image_eqI list.set_map)
  qed simp
qed

lemma settled_unless: "extends s s' \<Longrightarrow> (distinct (map run_ID (db_runs s)) \<Longrightarrow> settled_runs env s s') \<Longrightarrow> settled_runs env s s'"
  unfolding settled_runs_def by blast

interpretation settled: frame "settled_runs env"
proof unfold_locales
  show "settled_runs env s u" if "settled_runs env s t" "settled_runs env t u" for s t u
    using that by (rule settled_trans)
  show "settled_runs env s (db_runs_update (sql_update rp rf) s)" if "\<And>r. runKey (rf r) = runKey r" for s rf rp
    using that by (intro settled_updates hist.runs) (simp_all add: runKey_def logKey_def)
qed (auto intro!: settled_runs_same extends_same_runs)

lemma settled_process:
  assumes run: "processEvent env now mutation stored i s = Inr (r, s')" and stored: "stored \<in> set (db_runs s)"
    and mut: "\<And>f. mutation = Some f \<Longrightarrow> moves (settled_runs env) (f i)"
  shows "settled_runs env s s'"
proof -
  have m: "moves (settled_runs env) (case mutation of None \<Rightarrow> returnT i | Some f \<Rightarrow> f i)"
    using mut by (auto intro: settled.moves_pure split: option.splits)
  obtain j w u where u: "(case mutation of None \<Rightarrow> returnT i | Some f \<Rightarrow> f i) s = Inr (j, u)"
    and w: "loadPinnedWorkflow env stored = Inr w"
    and rest: "(case authorizeEvent j of
       Some dr \<Rightarrow> recordOnly env stored j (fst dr) (snd dr) now
     | None \<Rightarrow> acceptEvent env now stored w j) u = Inr (r, s')"
    using run unfolding processEvent_def tx_iffs(3,5) by blast
  have su: "settled_runs env s u" using m u by (rule movesD)
  have "settled_runs env u s'"
  proof (cases "authorizeEvent j")
    case (Some dr)
    with rest movesD [OF settled.moves_recordOnly] show ?thesis by simp
  next
    case None
    then have acc: "acceptEvent env now stored w j u = Inr (r, s')" using rest by simp
    have ext: "extends u s'" by (rule movesD [OF hist.moves_accept [OF TrueI loadPinned_owned [OF w] None] acc])
    show ?thesis
    proof (rule settled_unless [OF ext])
      assume d: "distinct (map run_ID (db_runs u))"
      have "\<exists>q \<in> set (db_runs u). run_le stored q" using su stored unfolding settled_runs_def extends_def by blast
      with settled_move [OF acceptEvent_step [OF acc loadPinned_owned [OF w] d] w ext] show "settled_runs env u s'" .
    qed
  qed
  with su show ?thesis by (rule settled_trans)
qed

lemma settled_ApplyEvent:
  assumes "\<And>f. mutation = Some f \<Longrightarrow> moves (settled_runs env) (f i)"
  shows "moves (settled_runs env) (ApplyEvent env now mutation runID i)"
  unfolding moves_def
proof (intro allI impI)
  fix s r s'
  assume "ApplyEvent env now mutation runID i s = Inr (r, s')"
  then obtain stored where stored: "find (\<lambda>r. run_ID r = runID) (db_runs s) = Some stored"
    and rest: "(case findDuplicateEvent runID (in_ID i) (in_MessageID i) s of
           Some e \<Rightarrow> recordDuplicate env stored i e now
         | None \<Rightarrow> admitEvent env now mutation stored i) s = Inr (r, s')"
    by (rule ApplyEvent_starts)
  show "settled_runs env s s'"
  proof (cases "findDuplicateEvent runID (in_ID i) (in_MessageID i) s")
    case (Some e)
    have "moves (settled_runs env) (recordDuplicate env stored i e now)"
      unfolding recordDuplicate_def by (intro settled.steps)
    then show ?thesis using rest Some by (auto dest: movesD)
  next
    case None
    then have adm: "admitEvent env now mutation stored i s = Inr (r, s')" using rest by simp
    have kept: "settled_runs env s t" if "recordOnly env stored i d reason now s = Inr (q, t)" for d reason q t
      using settled.moves_recordOnly that by (rule movesD)
    have "authorizeBoundTask stored i s = Inr (x, t) \<Longrightarrow> t = s" for x t
      unfolding authorizeBoundTask_def by (auto simp: tx_iffs split: if_splits option.splits)
    then show ?thesis
      using adm kept settled_process [OF _ _ assms] find_run_ID [OF stored]
      unfolding admitEvent_def tx_iffs(4) by (auto split: option.splits)
  qed
qed

lemma settled_ApplyCommand: "moves (settled_runs env) (ApplyCommand env now runID name c)"
  unfolding moves_def
proof (intro allI impI)
  fix s r s'
  assume run: "ApplyCommand env now runID name c s = Inr (r, s')"
  have ext: "extends s s'" by (rule movesD [OF hist.moves_ApplyCommand run])
  show "settled_runs env s s'"
  proof (rule settled_unless [OF ext])
    assume "distinct (map run_ID (db_runs s))"
    from ApplyCommand_step [OF run this] show "settled_runs env s s'"
    proof
      assume "\<exists>stored w. find (\<lambda>r. run_ID r = runID) (db_runs s) = Some stored \<and> loadPinnedWorkflow env stored = Inr w \<and>
        graph_move stored w (OnCommand name) s r s'"
      then obtain stored w where "find (\<lambda>r. run_ID r = runID) (db_runs s) = Some stored"
        and "loadPinnedWorkflow env stored = Inr w" and "graph_move stored w (OnCommand name) s r s'" by blast
      then show ?thesis using settled_move [OF _ _ ext] find_run_ID run_le_refl by blast
    qed (use ext settled_same in blast)
  qed
qed

interpretation settled: delivery_frame "settled_runs env" env
  by unfold_locales
     (auto intro: settled_ApplyEvent settled_ApplyCommand intro!: settled_runs_same extends_same_runs)

interpretation settled: plain_frame "settled_runs env" env UNIV
proof unfold_locales
  fix r :: run_row and now claw
  assume "run_StateVersion r = 1"
  show "moves (settled_runs env) (openRun env now r claw)"
    unfolding moves_def
  proof (intro allI impI)
    fix s x s'
    assume run: "openRun env now r claw s = Inr (x, s')"
    have "extends s s'" by (rule movesD [OF hist.moves_openRun run])
    moreover have "run_ID r \<notin> run_ID ` set (db_runs s)" and "db_runs s' = db_runs s @ [r]"
      using run by (blast elim: openRun_rows)+
    ultimately show "settled_runs env s s'" by (auto simp: settled_runs_def absRuns_def)
  qed
next
  show "settled_runs env s (db_runs_update (sql_update rp rf) s)" if "\<And>r. stateKey (rf r) = stateKey r" for s rf rp
    using that by (intro settled_updates hist.side_runs) (simp_all add: stateKey_def logKey_def)
  show "deliveryOp oper \<Longrightarrow> moves (settled_runs env) (perform env now oper)" for now oper
    by (rule settled.moves_deliveryOp)
qed (auto intro!: settled_runs_same extends_same_runs)

end
