(* ===== verification/DeliveryInvariants.thy ===== *)
theory DeliveryInvariants
  imports HubFrame
begin

text \<open>
  The invariant of the delivery tables.  Every pull request has heads numbered 1, 2, ... without gaps, the last of which is
  its current head, and every row of evidence names a head of its pull request with its commit.  It is kept by every
  operation of the store, so the evidence of the current generation is evidence for the current commit.
\<close>

definition headList :: "string \<Rightarrow> head_row list \<Rightarrow> head_row list" where
  "headList prID hs = filter (\<lambda>h. hd_PRID h = prID) hs"

definition headed :: "head_row list \<Rightarrow> string \<Rightarrow> string \<Rightarrow> bool" where
  "headed hs prID sha \<longleftrightarrow> headList prID hs \<noteq> [] \<and>
     map hd_Generation (headList prID hs) = [1..<Suc (length (headList prID hs))] \<and> hd_SHA (last (headList prID hs)) = sha"

definition headKey :: "evidence_row \<Rightarrow> string \<times> nat \<times> string" where
  "headKey e = (ed_PRID e, ed_Generation e, ed_HeadSHA e)"

definition headNames :: "head_row list \<Rightarrow> (string \<times> nat \<times> string) set" where
  "headNames hs = (\<lambda>h. (hd_PRID h, hd_Generation h, hd_SHA h)) ` set hs"

definition prKey :: "pr_row \<Rightarrow> string \<times> string \<times> string \<times> int" where
  "prKey p = (pr_ID p, pr_RunID p, pr_Repository p, pr_Number p)"

definition delivery_inv :: "store \<Rightarrow> bool" where
  "delivery_inv s \<longleftrightarrow>
     distinct (map pr_ID (db_prs s)) \<and> distinct (map (\<lambda>p. (pr_RunID p, pr_Repository p, pr_Number p)) (db_prs s)) \<and>
     (\<forall>h \<in> set (db_heads s). hd_PRID h \<in> pr_ID ` set (db_prs s)) \<and>
     (\<forall>p \<in> set (db_prs s). headed (db_heads s) (pr_ID p) (pr_HeadSHA p)) \<and>
     headKey ` set (db_evidence s) \<subseteq> headNames (db_heads s) \<and>
     distinct (map evidenceKey (db_evidence s))"

lemma delivery_inv_empty: "delivery_inv emptyStore"
  by (simp add: delivery_inv_def emptyStore_def)

lemma headList_append: "headList i (hs @ ks) = headList i hs @ headList i ks"
  by (simp add: headList_def)

lemma foldl_max_upt: "foldl max 0 [1..<Suc n] = n"
  by (induction n) auto

lemma headGeneration_headed: "headed (db_heads s) i sha \<Longrightarrow> headGeneration i s = length (headList i (db_heads s))"
  using foldl_max_upt by (simp add: headGeneration_def headed_def flip: headList_def del: upt_Suc)

lemma headList_none: "i \<notin> hd_PRID ` set hs \<Longrightarrow> headList i hs = []"
  unfolding headList_def by (rule filter_False) auto

lemma headGeneration_none: "i \<notin> hd_PRID ` set (db_heads s) \<Longrightarrow> headGeneration i s = 0"
  using headList_none by (simp add: headGeneration_def flip: headList_def)

lemma headed_member: "headed hs i sha \<Longrightarrow> (i, length (headList i hs), sha) \<in> headNames hs"
proof -
  assume h: "headed hs i sha"
  let ?l = "headList i hs"
  have "last ?l \<in> set ?l" using h by (simp add: headed_def)
  then have m: "last ?l \<in> set hs" "hd_PRID (last ?l) = i" by (auto simp: headList_def)
  have "?l \<noteq> []" using h by (simp add: headed_def)
  then have "hd_Generation (last ?l) = last (map hd_Generation ?l)" by (rule last_map [symmetric])
  also have "\<dots> = last [1..<Suc (length ?l)]" using h by (simp add: headed_def del: upt_Suc)
  also have "\<dots> = length ?l" using h by (cases ?l) (simp_all add: headed_def)
  finally show ?thesis using m h by (force simp: headNames_def headed_def)
qed

lemma headed_snoc:
  "headed hs i sha \<or> headList i hs = [] \<Longrightarrow> hd_PRID h = i \<Longrightarrow> hd_Generation h = Suc (length (headList i hs)) \<Longrightarrow>
     headed (hs @ [h]) i (hd_SHA h)"
  by (auto simp: headed_def headList_append) (auto simp: headList_def)

lemma headed_snoc_other: "hd_PRID h \<noteq> i \<Longrightarrow> headed (hs @ [h]) i sha = headed hs i sha"
  by (simp add: headed_def headList_append) (simp add: headList_def)

lemma headNames_snoc: "headNames (hs @ [h]) = insert (hd_PRID h, hd_Generation h, hd_SHA h) (headNames hs)"
  by (simp add: headNames_def)

section \<open>Heads and rows\<close>

text \<open>A pull request row is rewritten without a change of head.\<close>

lemma distinct_prKeys:
  "map prKey ps' = map prKey ps \<Longrightarrow> map pr_ID ps' = map pr_ID ps \<and>
     map (\<lambda>p. (pr_RunID p, pr_Repository p, pr_Number p)) ps' = map (\<lambda>p. (pr_RunID p, pr_Repository p, pr_Number p)) ps"
proof -
  assume eq: "map prKey ps' = map prKey ps"
  have "map pr_ID ps = map (fst \<circ> prKey) ps" "map (\<lambda>p. (pr_RunID p, pr_Repository p, pr_Number p)) ps = map (snd \<circ> prKey) ps" for ps
    by (simp_all add: prKey_def comp_def)
  then show ?thesis using eq by (metis map_map)
qed

definition sameEvidence :: "store \<Rightarrow> store \<Rightarrow> bool" where
  "sameEvidence s s' \<longleftrightarrow> map headKey (db_evidence s') = map headKey (db_evidence s) \<and>
     map evidenceKey (db_evidence s') = map evidenceKey (db_evidence s)"

lemma sameEvidence_set: "sameEvidence s s' \<Longrightarrow> headKey ` set (db_evidence s') = headKey ` set (db_evidence s)"
  unfolding sameEvidence_def by (metis set_map)

lemma inv_rewrite:
  assumes inv: "delivery_inv s" and prs: "map prKey (db_prs s') = map prKey (db_prs s)" and heads: "db_heads s' = db_heads s"
    and same: "map pr_HeadSHA (db_prs s') = map pr_HeadSHA (db_prs s)" and ev: "sameEvidence s s'"
  shows "delivery_inv s'"
proof -
  note ids = distinct_prKeys [OF prs]
  have "headed (db_heads s) (pr_ID p) (pr_HeadSHA p)" if "p \<in> set (db_prs s')" for p
  proof -
    from that obtain k where k: "k < length (db_prs s')" "db_prs s' ! k = p" by (auto simp: in_set_conv_nth)
    have "k < length (db_prs s)" using k(1) map_eq_imp_length_eq [OF prs] by simp
    moreover from this have "pr_ID (db_prs s ! k) = pr_ID p" "pr_HeadSHA (db_prs s ! k) = pr_HeadSHA p"
      using k ids same by (metis nth_map)+
    ultimately show ?thesis using inv by (metis delivery_inv_def nth_mem)
  qed
  then show ?thesis using inv ids ev unfolding delivery_inv_def heads sameEvidence_set [OF ev]
    by (metis (no_types, lifting) sameEvidence_def set_map)
qed

text \<open>The pull request \<open>i\<close> gets a new head.\<close>

lemma inv_new_head:
  assumes inv: "delivery_inv s" and prs: "map prKey (db_prs s') = map prKey (db_prs s)"
    and heads: "db_heads s' = db_heads s @ [h]" and h: "hd_PRID h = i" "hd_Generation h = headGeneration i s + 1"
    and i: "i \<in> pr_ID ` set (db_prs s)"
    and sha: "\<And>p. p \<in> set (db_prs s') \<Longrightarrow> pr_ID p = i \<Longrightarrow> pr_HeadSHA p = hd_SHA h"
    and other: "\<And>p. p \<in> set (db_prs s') \<Longrightarrow> pr_ID p \<noteq> i \<Longrightarrow> p \<in> set (db_prs s)"
    and ev: "sameEvidence s s'"
  shows "delivery_inv s'"
proof -
  note ids = distinct_prKeys [OF prs]
  obtain q where q: "q \<in> set (db_prs s)" "pr_ID q = i" using i by auto
  have hq: "headed (db_heads s) i (pr_HeadSHA q)" using inv q by (auto simp: delivery_inv_def)
  have "headed (db_heads s') (pr_ID p) (pr_HeadSHA p)" if p: "p \<in> set (db_prs s')" for p
  proof (cases "pr_ID p = i")
    case True
    then show ?thesis unfolding heads using headed_snoc [of "db_heads s" i "pr_HeadSHA q" h] hq h
      by (simp add: headGeneration_headed [OF hq] sha [OF p True])
  next
    case False
    then show ?thesis unfolding heads using inv other [OF p False] h(1) by (simp add: headed_snoc_other delivery_inv_def)
  qed
  moreover have "headKey ` set (db_evidence s') \<subseteq> headNames (db_heads s')"
    using inv sameEvidence_set [OF ev] by (auto simp: heads headNames_snoc delivery_inv_def)
  moreover have "\<forall>x \<in> set (db_heads s'). hd_PRID x \<in> pr_ID ` set (db_prs s')"
    using inv ids h(1) i by (auto simp: heads delivery_inv_def simp flip: set_map)
  ultimately show ?thesis using inv ids ev by (simp add: delivery_inv_def sameEvidence_def)
qed

text \<open>A pull request is new.\<close>

lemma inv_new_pr:
  assumes inv: "delivery_inv s" and prs: "db_prs s' = db_prs s @ [p]" and fresh: "pr_ID p \<notin> pr_ID ` set (db_prs s)"
    and name: "(pr_RunID p, pr_Repository p, pr_Number p) \<notin> (\<lambda>p. (pr_RunID p, pr_Repository p, pr_Number p)) ` set (db_prs s)"
    and heads: "db_heads s' = db_heads s @ [h]"
    and h: "hd_PRID h = pr_ID p" "hd_Generation h = headGeneration (pr_ID p) s + 1" "hd_SHA h = pr_HeadSHA p"
    and ev: "db_evidence s' = db_evidence s"
  shows "delivery_inv s'"
proof -
  have none: "pr_ID p \<notin> hd_PRID ` set (db_heads s)" using inv fresh by (auto simp: delivery_inv_def)
  then have l: "headList (pr_ID p) (db_heads s) = []" by (rule headList_none)
  have "headed (db_heads s') (pr_ID p) (pr_HeadSHA p)" unfolding heads
    using headed_snoc [of "db_heads s" "pr_ID p" _ h] l h headGeneration_none [OF none] by simp
  moreover have "headed (db_heads s') (pr_ID q) (pr_HeadSHA q)" if q: "q \<in> set (db_prs s)" for q
  proof -
    have "hd_PRID h \<noteq> pr_ID q" using h(1) q fresh by auto
    then show ?thesis unfolding heads using inv q by (simp add: headed_snoc_other delivery_inv_def)
  qed
  moreover have "headKey ` set (db_evidence s') \<subseteq> headNames (db_heads s')"
    using inv by (auto simp: heads ev headNames_snoc delivery_inv_def)
  ultimately show ?thesis using inv fresh name h(1) by (auto simp: delivery_inv_def prs heads ev)
qed

section \<open>The transactions\<close>

lemma sameEvidence_update:
  assumes "\<And>e. P e \<Longrightarrow> headKey (f e) = headKey e \<and> evidenceKey (f e) = evidenceKey e"
    and "db_evidence s' = sql_update P f (db_evidence s)"
  shows "sameEvidence s s'"
  using assms by (simp add: sameEvidence_def map_sql_update)

lemma supersedeEvidence_rows:
  "supersedeEvidence runID prID at s = Inr (u, s') \<Longrightarrow>
     sameEvidence s s' \<and> db_prs s' = db_prs s \<and> db_heads s' = db_heads s"
  using sameEvidence_update [of "\<lambda>e. ed_RunID e = runID \<and> ed_PRID e = prID \<and> ed_SupersededAt e = 0"
      "\<lambda>e. e\<lparr>ed_SupersededAt := at\<rparr>" s' s]
  by (auto simp: supersedeEvidence_def tx_ok headKey_def evidenceKey_def)

lemma insertHead_rows:
  assumes "insertHead env prID sha at s = Inr (u, s')"
  shows "\<exists>h. db_heads s' = db_heads s @ [h] \<and> hd_PRID h = prID \<and> hd_SHA h = sha \<and>
    hd_Generation h = headGeneration prID s + 1 \<and> db_prs s' = db_prs s \<and> db_evidence s' = db_evidence s"
  using assms by (auto simp: insertHead_def tx_ok)

lemma openHead_rows:
  assumes "openHead env runID prID existing sha at s = Inr (u, s')"
  shows "sameEvidence s s' \<and> db_prs s' = db_prs s \<and>
    (if existing = Some sha then db_heads s' = db_heads s
     else \<exists>h. db_heads s' = db_heads s @ [h] \<and> hd_PRID h = prID \<and> hd_SHA h = sha \<and>
       hd_Generation h = headGeneration prID s + 1)"
proof (cases "existing = Some sha")
  case True
  then show ?thesis using assms by (simp add: openHead_def tx_ok sameEvidence_def)
next
  case False
  with assms obtain v t where t: "insertHead env prID sha at s = Inr (v, t)"
    and rest: "(if existing = None \<or> existing = Some [] then returnT () else supersedeEvidence runID prID at) t = Inr (u, s')"
    by (auto simp: openHead_def tx_ok)
  note h = insertHead_rows [OF t]
  have "sameEvidence t s' \<and> db_prs s' = db_prs t \<and> db_heads s' = db_heads t"
    using rest supersedeEvidence_rows [of runID prID at t u s'] by (auto simp: tx_ok sameEvidence_def split: if_splits)
  with h False show ?thesis by (auto simp: sameEvidence_def)
qed

lemma headGeneration_cong: "db_heads t = db_heads s \<Longrightarrow> headGeneration i t = headGeneration i s"
  by (simp add: headGeneration_def)

lemma replacePRRow_rows:
  assumes "replacePRRow p s = Inr (u, s')"
  shows "db_prs s' = sql_update (prNamed (pr_RunID p) (pr_Repository p) (pr_Number p)) (\<lambda>x. p\<lparr>pr_ID := pr_ID x\<rparr>) (db_prs s) \<and>
    db_heads s' = db_heads s \<and> db_evidence s' = db_evidence s"
  using assms by (auto simp: replacePRRow_def tx_ok Let_def)

lemma prNamed_unique:
  assumes "delivery_inv s" and "p \<in> set (db_prs s)" and "x \<in> set (db_prs s)"
    and "prNamed (pr_RunID p) (pr_Repository p) (pr_Number p) x"
  shows "x = p"
  using assms by (auto simp: delivery_inv_def prNamed_def distinct_map dest: inj_onD)

lemma pr_id_unique:
  assumes "delivery_inv s" and "p \<in> set (db_prs s)" and "x \<in> set (db_prs s)" and "pr_ID x = pr_ID p"
  shows "x = p"
  using assms by (auto simp: delivery_inv_def distinct_map dest: inj_onD)

lemma inv_rewrite_row:
  assumes inv: "delivery_inv s" and p: "p \<in> set (db_prs s)"
    and prs: "db_prs s' = sql_update (\<lambda>x. x = p) (\<lambda>_. p') (db_prs s)" and key: "prKey p' = prKey p"
    and heads: "if pr_HeadSHA p' = pr_HeadSHA p then db_heads s' = db_heads s
      else \<exists>h. db_heads s' = db_heads s @ [h] \<and> hd_PRID h = pr_ID p \<and> hd_SHA h = pr_HeadSHA p' \<and>
        hd_Generation h = headGeneration (pr_ID p) s + 1"
    and ev: "sameEvidence s s'"
  shows "delivery_inv s'"
proof -
  have keys: "map prKey (db_prs s') = map prKey (db_prs s)" 
    unfolding prs by (rule map_sql_update) (simp add: key)
  show ?thesis
  proof (cases "pr_HeadSHA p' = pr_HeadSHA p")
    case True
    have "map pr_HeadSHA (db_prs s') = map pr_HeadSHA (db_prs s)" unfolding prs by (rule map_sql_update) (simp add: True)
    with True show ?thesis using heads by (intro inv_rewrite [OF inv keys _ _ ev]) simp_all
  next
    case False
    then obtain h where h: "db_heads s' = db_heads s @ [h]" "hd_PRID h = pr_ID p" "hd_SHA h = pr_HeadSHA p'"
      "hd_Generation h = headGeneration (pr_ID p) s + 1" using heads by auto
    have id': "pr_ID p' = pr_ID p" using key by (simp add: prKey_def)
    show ?thesis
    proof (rule inv_new_head [OF inv keys h(1,2,4)])
      show "pr_HeadSHA q = hd_SHA h" if "q \<in> set (db_prs s')" "pr_ID q = pr_ID p" for q
        using that h(3) pr_id_unique [OF inv p] by (auto simp: prs set_sql_update split: if_splits)
      show "q \<in> set (db_prs s)" if "q \<in> set (db_prs s')" "pr_ID q \<noteq> pr_ID p" for q
        using that id' by (auto simp: prs set_sql_update split: if_splits)
    qed (use p ev in auto)
  qed
qed

lemma sql_update_cong: "(\<And>x. x \<in> set xs \<Longrightarrow> P x = Q x) \<Longrightarrow> (\<And>x. x \<in> set xs \<Longrightarrow> Q x \<Longrightarrow> f x = g x) \<Longrightarrow> sql_update P f xs = sql_update Q g xs"
  by (simp add: sql_update_def)

lemma upsert_inv: "moves (\<lambda>s s'. delivery_inv s \<longrightarrow> delivery_inv s') (upsertDeliveryPR env runID registeredOnly now pr)"
  unfolding moves_def
proof (intro allI impI)
  fix s x s'
  assume run: "upsertDeliveryPR env runID registeredOnly now pr s = Inr (x, s')" and inv: "delivery_inv s"
  let ?found = "find (prNamed runID (vp_Repository pr) (vp_Number pr)) (db_prs s)"
  show "delivery_inv s'"
  proof (cases ?found)
    case None
    with run obtain prID t u v where ins: "insertPRRow (prRow runID pr prID registeredOnly now) t = Inr (u, v)"
      and t: "db_prs t = db_prs s" "db_heads t = db_heads s" "db_evidence t = db_evidence s"
      and opens: "openHead env runID prID None (vp_HeadSHA pr) (unixMilli now) v = Inr ((), s')"
      by (auto simp: upsertDeliveryPR_def tx_ok)
    let ?p = "prRow runID pr prID registeredOnly now"
    have v: "db_prs v = db_prs s @ [?p]" "db_heads v = db_heads s" "db_evidence v = db_evidence s"
      and fresh: "pr_ID ?p \<notin> pr_ID ` set (db_prs s)"
      using ins t by (auto simp: insertPRRow_def tx_ok)
    obtain h where h: "db_heads s' = db_heads v @ [h]" "hd_PRID h = prID" "hd_SHA h = vp_HeadSHA pr"
      "hd_Generation h = headGeneration prID v + 1" and prs: "db_prs s' = db_prs v"
      using openHead_rows [OF opens] by auto
    have ev: "db_evidence s' = db_evidence v"
      using opens by (auto simp: openHead_def insertHead_def tx_ok)
    show ?thesis
    proof (rule inv_new_pr [OF inv _ fresh])
      show "(pr_RunID ?p, pr_Repository ?p, pr_Number ?p) \<notin> (\<lambda>p. (pr_RunID p, pr_Repository p, pr_Number p)) ` set (db_prs s)"
        using None by (auto simp: find_None_iff prNamed_def prRow_def)
    qed (use h v prs ev headGeneration_cong [of v s] in \<open>auto simp: prRow_def\<close>)
  next
    case (Some p)
    then have p: "p \<in> set (db_prs s)" "prNamed runID (vp_Repository pr) (vp_Number pr) p"
      using find_Some_in [OF Some] by simp_all
    show ?thesis
    proof (cases "registeredOnly \<and> \<not> pr_RegisteredOnly p")
      case True
      then show ?thesis using run Some inv by (auto simp: upsertDeliveryPR_def tx_ok)
    next
      case False
      let ?p = "prRow runID pr (pr_ID p) registeredOnly now"
      from run Some False obtain u t where rep: "replacePRRow ?p s = Inr (u, t)"
        and opens: "openHead env runID (pr_ID p) (Some (pr_HeadSHA p)) (vp_HeadSHA pr) (unixMilli now) t = Inr ((), s')"
        unfolding upsertDeliveryPR_def by (auto simp: tx_ok)
      note r = replacePRRow_rows [OF rep] and o = openHead_rows [OF opens]
      have key: "prKey ?p = prKey p" using p(2) by (simp add: prKey_def prNamed_def prRow_def)
      have same: "prNamed (pr_RunID ?p) (pr_Repository ?p) (pr_Number ?p) x \<longleftrightarrow> x = p" if "x \<in> set (db_prs s)" for x
        using prNamed_unique [OF inv p(1) that] p(2) by (auto simp: prNamed_def prRow_def)
      have "db_prs t = sql_update (\<lambda>x. x = p) (\<lambda>_. ?p) (db_prs s)"
        unfolding conjunct1 [OF r] by (rule sql_update_cong) (use same in \<open>auto simp: prRow_def\<close>)
      then have prs: "db_prs s' = sql_update (\<lambda>x. x = p) (\<lambda>_. ?p) (db_prs s)" using o by simp
      have "sameEvidence s s'" using r o by (simp add: sameEvidence_def)
      moreover have "pr_HeadSHA ?p = vp_HeadSHA pr" by (simp add: prRow_def)
      ultimately show ?thesis using r o headGeneration_cong [of t s "pr_ID p"]
        by (intro inv_rewrite_row [OF inv p(1) prs key]) (auto split: if_splits)
    qed
  qed
qed

interpretation delv: open_frame "\<lambda>s s'. delivery_inv s \<longrightarrow> delivery_inv s'"
  by unfold_locales (simp_all add: delivery_inv_def)

interpretation delv: side_frame "\<lambda>s s'. delivery_inv s \<longrightarrow> delivery_inv s'"
  by unfold_locales (simp_all add: delivery_inv_def)

interpretation delv: lease_frame "\<lambda>s s'. delivery_inv s \<longrightarrow> delivery_inv s'" UNIV
  by unfold_locales (simp_all add: delivery_inv_def)

lemma upsertAll_inv: "moves (\<lambda>s s'. delivery_inv s \<longrightarrow> delivery_inv s') (upsertAll env runID registeredOnly now prs)"
  by (induction prs) (auto intro!: delv.steps upsert_inv)

text \<open>Evidence for a head that exists.\<close>

definition evidence_for :: "string \<times> nat \<times> string \<Rightarrow> store \<Rightarrow> store \<Rightarrow> bool" where
  "evidence_for k s s' \<longleftrightarrow> db_heads s' = db_heads s \<and>
     (delivery_inv s \<and> k \<in> headNames (db_heads s) \<longrightarrow> delivery_inv s')"

interpretation evid: step_order "evidence_for k"
  by unfold_locales (auto simp: evidence_for_def)

lemma inv_same_evidence:
  "delivery_inv s \<Longrightarrow> db_prs s' = db_prs s \<Longrightarrow> db_heads s' = db_heads s \<Longrightarrow> sameEvidence s s' \<Longrightarrow> delivery_inv s'"
  by (rule inv_rewrite) simp_all

lemma evidence_for_update:
  assumes "\<And>e. P e \<Longrightarrow> headKey (f e) = headKey e \<and> evidenceKey (f e) = evidenceKey e"
  shows "evidence_for k s (db_evidence_update (sql_update P f) s)"
  using inv_same_evidence [of s "db_evidence_update (sql_update P f) s"] sameEvidence_update [of P f _ s] assms
  by (simp add: evidence_for_def)

lemma upsertEvidence_for: "moves (evidence_for (headKey new)) (upsertEvidence new)"
  unfolding moves_def
proof (intro allI impI)
  fix s u s' assume run: "upsertEvidence new s = Inr (u, s')"
  show "evidence_for (headKey new) s s'"
  proof (cases "evidenceKey new \<in> evidenceKey ` set (db_evidence s)")
    case True
    then have "s' = db_evidence_update (sql_update
        (\<lambda>old. evidenceKey old = evidenceKey new \<and> ed_ObservedAt old \<le> ed_ObservedAt new) (refreshEvidence new)) s"
      using run by (auto simp: upsertEvidence_def tx_ok)
    then show ?thesis by (simp add: evidence_for_update headKey_def evidenceKey_def refreshEvidence_def)
  next
    case False
    then have "s' = s\<lparr>db_evidence := db_evidence s @ [new]\<rparr>" using run by (auto simp: upsertEvidence_def tx_ok)
    then show ?thesis using False by (auto simp: evidence_for_def delivery_inv_def)
  qed
qed

lemma supersedeScope_for: "moves (evidence_for k) (supersedeScope sj generation observed now sc)"
  unfolding supersedeScope_def
  by (intro evid.moves_bind evid.moves_update evid.moves_pure evidence_for_update) (simp_all add: headKey_def evidenceKey_def)

lemma storeEvidence_inv:
  "moves (\<lambda>s s'. delivery_inv s \<longrightarrow> delivery_inv s') (storeEvidence now sj scopes reconcile observed prepared)"
  unfolding moves_def
proof (intro allI impI)
  fix s u s'
  assume run: "storeEvidence now sj scopes reconcile observed prepared s = Inr (u, s')" and inv: "delivery_inv s"
  then obtain p where p: "find (activeDelivery (sj_PRID sj) (sj_RunID sj)) (db_prs s) = Some p" and sha: "pr_HeadSHA p = sj_HeadSHA sj"
    and "\<exists>t. (if reconcile then forT (supersedeScope sj (headGeneration (pr_ID p) s) observed now) scopes else returnT ()) s =
        Inr ((), t) \<and>
      forT (\<lambda>item. upsertEvidence (evidenceRow sj (headGeneration (pr_ID p) s) item)) prepared t = Inr (u, s')"
    unfolding storeEvidence_def tx_iffs(3,4,8,9) by (auto simp: tx_iffs(4,8))
  then have rest: "thenT (if reconcile then forT (supersedeScope sj (headGeneration (pr_ID p) s) observed now) scopes else returnT ())
      (forT (\<lambda>item. upsertEvidence (evidenceRow sj (headGeneration (pr_ID p) s) item)) prepared) s = Inr (u, s')"
    unfolding tx_iffs(4) by blast
  let ?g = "headGeneration (pr_ID p) s"
  let ?k = "(sj_PRID sj, ?g, sj_HeadSHA sj)"
  have mem: "p \<in> set (db_prs s)" "pr_ID p = sj_PRID sj" using find_Some_in [OF p] by (auto simp: activeDelivery_def)
  have "headed (db_heads s) (pr_ID p) (pr_HeadSHA p)" using inv mem(1) unfolding delivery_inv_def by blast
  then have k: "?k \<in> headNames (db_heads s)" using headed_member headGeneration_headed mem(2) sha by metis
  have "moves (evidence_for ?k) (upsertEvidence (evidenceRow sj ?g item))" for item
    using upsertEvidence_for [of "evidenceRow sj ?g item"] by (simp add: headKey_def evidenceRow_def Let_def)
  then have "moves (evidence_for ?k) (thenT (if reconcile then forT (supersedeScope sj ?g observed now) scopes else returnT ())
      (forT (\<lambda>item. upsertEvidence (evidenceRow sj ?g item)) prepared))"
    by (intro evid.moves_then evid.moves_cases evid.moves_for evid.moves_pure supersedeScope_for)
  from movesD [OF this rest] show "delivery_inv s'" using inv k by (simp add: evidence_for_def)
qed

lemma updatePRRow_rows:
  assumes "updatePRRow target verified observed s = Inr (u, s')"
  shows "db_prs s' = sql_update (\<lambda>p. pr_ID p = dt_PRID target \<and> pr_RunID p = dt_RunID target \<and> pr_Active p \<and> \<not> pr_RegisteredOnly p)
      (observePR verified observed) (db_prs s) \<and> db_heads s' = db_heads s \<and> db_evidence s' = db_evidence s"
  using assms by (auto simp: updatePRRow_def tx_ok)

lemma reconcile_inv: "moves (\<lambda>s s'. delivery_inv s \<longrightarrow> delivery_inv s') (reconcileMutation env target verified observed i)"
  unfolding moves_def
proof (intro allI impI)
  fix s x s'
  assume run: "reconcileMutation env target verified observed i s = Inr (x, s')" and inv: "delivery_inv s"
  then obtain p u t v where p: "find (ownedRow target) (db_prs s) = Some p"
    and upd: "updatePRRow target verified observed s = Inr (u, t)"
    and rest: "(if pr_HeadSHA p = vp_HeadSHA verified then returnT ()
        else thenT (insertHead env (dt_PRID target) (vp_HeadSHA verified) (unixMilli observed))
          (supersedeEvidence (dt_RunID target) (dt_PRID target) (unixMilli observed))) t = Inr (v, s')"
    unfolding reconcileMutation_def tx_iffs(1,3,4,6,8,9) by auto
  have mem: "p \<in> set (db_prs s)" and own: "ownedRow target p" using find_Some_in [OF p] by simp_all
  let ?p = "observePR verified observed p"
  note r = updatePRRow_rows [OF upd]
  have same: "pr_ID x = dt_PRID target \<and> pr_RunID x = dt_RunID target \<and> pr_Active x \<and> \<not> pr_RegisteredOnly x \<longleftrightarrow> x = p"
    if "x \<in> set (db_prs s)" for x
    using pr_id_unique [OF inv mem that] own by (auto simp: ownedRow_def)
  have t: "db_prs t = sql_update (\<lambda>x. x = p) (\<lambda>_. ?p) (db_prs s)"
    unfolding conjunct1 [OF r] by (rule sql_update_cong) (use same in auto)
  have step: "db_prs s' = db_prs t \<and> sameEvidence t s' \<and>
      (if vp_HeadSHA verified = pr_HeadSHA p then db_heads s' = db_heads t
       else \<exists>h. db_heads s' = db_heads t @ [h] \<and> hd_PRID h = dt_PRID target \<and> hd_SHA h = vp_HeadSHA verified \<and>
         hd_Generation h = headGeneration (dt_PRID target) t + 1)"
  proof (cases "pr_HeadSHA p = vp_HeadSHA verified")
    case True
    then show ?thesis using rest by (auto simp: tx_ok sameEvidence_def)
  next
    case False
    with rest obtain w q where ins: "insertHead env (dt_PRID target) (vp_HeadSHA verified) (unixMilli observed) t = Inr (w, q)"
      and sup: "supersedeEvidence (dt_RunID target) (dt_PRID target) (unixMilli observed) q = Inr (v, s')"
      by (auto simp: tx_ok)
    show ?thesis using insertHead_rows [OF ins] supersedeEvidence_rows [OF sup] False by (auto simp: sameEvidence_def)
  qed
  have "sameEvidence s s'" using step r by (simp add: sameEvidence_def)
  moreover have "db_prs s' = sql_update (\<lambda>x. x = p) (\<lambda>_. ?p) (db_prs s)" using step t by simp
  moreover have "if pr_HeadSHA ?p = pr_HeadSHA p then db_heads s' = db_heads s
      else \<exists>h. db_heads s' = db_heads s @ [h] \<and> hd_PRID h = pr_ID p \<and> hd_SHA h = pr_HeadSHA ?p \<and>
        hd_Generation h = headGeneration (pr_ID p) s + 1"
  proof -
    have "pr_HeadSHA ?p = vp_HeadSHA verified" "pr_ID p = dt_PRID target" using own by (simp_all add: observePR_def ownedRow_def)
    then show ?thesis using step conjunct2 [OF r] headGeneration_cong [of t s "dt_PRID target"] by (simp split: if_splits)
  qed
  moreover have "prKey ?p = prKey p" by (simp add: prKey_def observePR_def)
  ultimately show "delivery_inv s'" by (intro inv_rewrite_row [OF inv mem])
qed

interpretation delv: amend_frame "\<lambda>s s'. delivery_inv s \<longrightarrow> delivery_inv s'" env
  by unfold_locales (rule upsertAll_inv storeEvidence_inv reconcile_inv)+

interpretation delv: plain_frame "\<lambda>s s'. delivery_inv s \<longrightarrow> delivery_inv s'" env UNIV
  by unfold_locales (simp, rule delv.moves_openRun, rule delv.moves_deliveryOp)

end
