(* ===== verification/EffectProperties.thy ===== *)
theory EffectProperties
  imports EffectLife RuntimeProperties
begin

text \<open>
  The theorems on claiming and completing effects, and the demo effect their witnesses claim and complete.
\<close>

definition demoEffect :: "string \<Rightarrow> string \<Rightarrow> gval \<Rightarrow> effect_row" where
  "demoEffect eid kind payload =
     \<lparr>ef_ID = eid, ef_RunID = ''run'', ef_OriginType = OriginTransition, ef_OriginID = ''t'', ef_DefinitionPath = ''p'',
      ef_EffectKey = eid, ef_Kind = kind, ef_Payload = payload, ef_Status = EffectPlanned, ef_AttemptCount = 0,
      ef_LeaseOwner = [], ef_LeaseExpiresAt = 0, ef_NextAttemptAt = 0, ef_Receipt = [], ef_LastError = [],
      ef_CreatedAt = 0, ef_UpdatedAt = 0\<rparr>"

definition effectStore :: store where
  "effectStore = demoStore\<lparr>db_effects := [demoEffect ''f2'' ''notify'' (GMap []), demoEffect ''f1'' ''notify'' (GMap [])]\<rparr>"

definition completeF1 :: "string \<Rightarrow> complete_request" where
  "completeF1 attemptID =
     \<lparr>ce_EffectID = ''f1'', ce_AttemptID = attemptID, ce_Worker = ''w'', ce_Status = EffectRetryableFailed, ce_Receipt = [],
      ce_Error = ''later'', ce_RetryAfter = 5000000000\<rparr>"

lemma lease_inv_effectStore: "lease_inv effectStore"
  by (simp add: lease_inv_def effectStore_def demoStore_def emptyStore_def demoEffect_def)

lemma filter_eq_single: "distinct xs \<Longrightarrow> x \<in> set xs \<Longrightarrow> filter (\<lambda>y. y = x) xs = [x]"
  by (induction xs) (auto simp: filter_empty_conv)

section \<open>Claiming\<close>

lemma expire_ok:
  assumes "expireEffectLeases now s = Inr (u, t)"
  shows "db_effects t = sql_update (leaseExpired now) (\<lambda>e. e\<lparr>ef_Status := EffectUnknown, ef_LeaseOwner := [],
      ef_LeaseExpiresAt := 0, ef_LastError := leaseExpiredReason, ef_UpdatedAt := unixMilli now\<rparr>) (db_effects s)"
    and "db_runs t = db_runs s"
  using assms by (auto simp: expireEffectLeases_def tx_ok)

lemma claimNext_cases:
  assumes "claimNext env now w lease s = Inr (Commit r, s')"
  obtains (idle) u where "r = None" "expireEffectLeases now s = Inr (u, s')" "nextEffect now s' = None"
  | (claim) u t e where "expireEffectLeases now s = Inr (u, t)" "nextEffect now t = Some e"
      "takeLease env now w lease e t = Inr (Commit r, s')"
proof -
  obtain u t where ex: "expireEffectLeases now s = Inr (u, t)"
    and rest: "(case nextEffect now t of None \<Rightarrow> returnT (Commit None) | Some e \<Rightarrow> takeLease env now w lease e) t =
      Inr (Commit r, s')"
    using assms unfolding claimNext_def by (auto simp: tx_iffs(3,4,6))
  show thesis
  proof (cases "nextEffect now t")
    case None
    then have "r = None" and "s' = t" using rest by (simp_all add: tx_iffs(1))
    then show thesis using idle [of u] ex None by simp
  next
    case (Some e)
    then show thesis using claim [OF ex Some] rest by simp
  qed
qed

text \<open>An effect of which no row carries the same id, status and count twice is always leased, so nothing is rolled back.\<close>

lemma takeLease_commits:
  assumes "lease_inv t" and "nextEffect now t = Some e" and "takeLease env now w lease e t = Inr (oc, s')"
  shows "\<exists>r. oc = Commit r"
proof -
  note e = nextEffect_Some [OF assms(2)]
  have "filter (claimMatches now e) (db_effects t) = [e]"
  proof -
    have "filter (claimMatches now e) (db_effects t) = filter (\<lambda>x. x = e) (db_effects t)"
      using e lease_inv_unique [OF assms(1) _ e(1)] by (intro filter_cong) (auto simp: claimMatches_def claimable_def)
    moreover have "distinct (db_effects t)" using assms(1) by (simp add: lease_inv_def distinct_map)
    ultimately show ?thesis using e(1) by (simp add: filter_eq_single)
  qed
  then have "sql_count (claimMatches now e) (db_effects t) = 1" by (simp add: sql_count_def)
  then show ?thesis using assms(3) unfolding takeLease_def
    by (auto simp: tx_ok simp del: One_nat_def split: if_splits)
qed

text \<open>The row of a new attempt at an effect, in the store the effect was taken from.\<close>

definition openedAttempt :: "int \<Rightarrow> store \<Rightarrow> effect_row \<Rightarrow> string \<Rightarrow> effect_attempt_row" where
  "openedAttempt now t e aid =
     \<lparr>ea_ID = aid, ea_EffectID = ef_ID e, ea_Number = ef_AttemptCount e + 1, ea_AttemptID = currentAttemptOf (ef_RunID e) t,
      ea_Status = EffectRunning, ea_Request = ef_Payload e, ea_Receipt = [], ea_Error = [], ea_StartedAt = unixMilli now,
      ea_FinishedAt = 0\<rparr>"

lemma takeLease_store:
  assumes "takeLease env now w lease e t = Inr (Commit r, s')"
  obtains payload aid where "effectPayload e = Inr payload" and "r = Some (claimOf now w lease e payload aid)"
    and "aid \<notin> ea_ID ` set (db_effect_attempts t)"
    and "s' = t\<lparr>db_effects := sql_update (claimMatches now e) (leaseEffect now w lease) (db_effects t),
      db_effect_attempts := db_effect_attempts t @ [openedAttempt now t e aid], db_uuids := Suc (db_uuids t)\<rparr>"
  using assms unfolding takeLease_def
  by (auto simp: tx_ok insertEffectAttempt_def openedAttempt_def simp del: One_nat_def split: if_splits)

definition claimed_first :: "int \<Rightarrow> string \<Rightarrow> int \<Rightarrow> store \<Rightarrow> effect_claim \<Rightarrow> store \<Rightarrow> bool" where
  "claimed_first now w lease s c s' \<longleftrightarrow> (\<exists>u t e payload. expireEffectLeases now s = Inr (u, t) \<and> e \<in> set (db_effects t) \<and>
     claimable now (db_runs t) e \<and>
     (\<forall>x \<in> set (db_effects t). claimable now (db_runs t) x \<longrightarrow> effectOrder e \<le> effectOrder x) \<and>
     effectPayload e = Inr payload \<and> c = claimOf now w lease e payload (cm_AttemptID c) \<and>
     cm_AttemptID c \<notin> ea_ID ` set (db_effect_attempts t) \<and>
     s' = t\<lparr>db_effects := map (\<lambda>x. if x = e then leaseEffect now w lease e else x) (db_effects t),
       db_effect_attempts := db_effect_attempts t @ [openedAttempt now t e (cm_AttemptID c)],
       db_uuids := Suc (db_uuids t)\<rparr>)"

lemma claim_outcome:
  assumes "ClaimEffect env now worker lease s = Inr (r, s')" and "lease_inv s"
  shows "case r of
      None \<Rightarrow> (\<exists>u. expireEffectLeases now s = Inr (u, s')) \<and> (\<forall>e \<in> set (db_effects s'). \<not> claimable now (db_runs s') e)
    | Some c \<Rightarrow> claimed_first now (trimSpace worker) lease s c s'"
proof -
  let ?w = "trimSpace worker"
  obtain oc t0 where run: "claimNext env now ?w lease s = Inr (oc, t0)" and oc: "oc = Commit r \<and> s' = t0 \<or> oc = Rollback r"
    using assms(1) unfolding ClaimEffect_def by (auto simp: tx_ok)
  have "\<exists>v. oc = Commit v"
  proof -
    obtain u t where ex: "expireEffectLeases now s = Inr (u, t)"
      and rest: "(case nextEffect now t of None \<Rightarrow> returnT (Commit None) | Some e \<Rightarrow> takeLease env now ?w lease e) t =
        Inr (oc, t0)"
      using run unfolding claimNext_def by (auto simp: tx_iffs(3,4,6))
    have "lease_inv t" using movesD [OF expire_lease_inv ex] assms(2) by blast
    then show ?thesis using rest takeLease_commits by (auto simp: tx_iffs(1) split: option.splits)
  qed
  then have run: "claimNext env now ?w lease s = Inr (Commit r, s')" using run oc by auto
  from run show ?thesis
  proof (cases rule: claimNext_cases)
    case (idle u)
    then show ?thesis using nextEffect_None [OF idle(3)] by auto
  next
    case (claim u t e)
    have t: "lease_inv t" using movesD [OF expire_lease_inv claim(1)] assms(2) by blast
    note e = nextEffect_Some [OF claim(2)]
    have one: "sql_update (claimMatches now e) (leaseEffect now ?w lease) (db_effects t) =
        map (\<lambda>x. if x = e then leaseEffect now ?w lease e else x) (db_effects t)"
      unfolding sql_update_def using e lease_inv_unique [OF t _ e(1)]
      by (intro map_cong) (auto simp: claimMatches_def claimable_def)
    obtain payload aid where "effectPayload e = Inr payload" and r: "r = Some (claimOf now ?w lease e payload aid)"
      and "aid \<notin> ea_ID ` set (db_effect_attempts t)"
      and "s' = t\<lparr>db_effects := map (\<lambda>x. if x = e then leaseEffect now ?w lease e else x) (db_effects t),
        db_effect_attempts := db_effect_attempts t @ [openedAttempt now t e aid], db_uuids := Suc (db_uuids t)\<rparr>"
      using claim(3) unfolding one [symmetric] by (rule takeLease_store)
    moreover have "cm_AttemptID (claimOf now ?w lease e payload aid) = aid" by (simp add: claimOf_def)
    ultimately have "claimed_first now ?w lease s (claimOf now ?w lease e payload aid) s'"
      using claim(1) e unfolding claimed_first_def
      by (intro exI [of _ u] exI [of _ t] exI [of _ e] exI [of _ payload]) simp
    then show ?thesis using r by simp
  qed
qed

text \<open>C18: \<open>ClaimEffect\<close> is a queue: when it answers nothing, the expired leases are given up and no effect is due; otherwise
  the claimed effect was due and first in the order of the queue among those that were due once expired leases were given up,
  and the store is as expiry left it except that this effect is running under the caller's lease, one attempt further, and
  that one row was added to the attempts: that attempt, under the id of the claim, running, with the effect's payload and the
  current attempt of its run.\<close>

theorem claim_is_first_due:
  assumes "ClaimEffect env now worker lease s = Inr (r, s')" and "lease_inv s"
  shows "case r of
      None \<Rightarrow> (\<exists>u. expireEffectLeases now s = Inr (u, s')) \<and> (\<forall>e \<in> set (db_effects s'). \<not> claimable now (db_runs s') e)
    | Some c \<Rightarrow> claimed_first now (trimSpace worker) lease s c s'"
  by (rule claim_outcome [OF assms])

theorem claim_is_first_due_witness:
  "\<exists>c s'. ClaimEffect demoRt 1000000 ''w'' 60000000000 effectStore = Inr (Some c, s') \<and> fx_ID (cm_Effect c) = ''f1'' \<and>
     claimed_first 1000000 ''w'' 60000000000 effectStore c s'"
proof -
  have "afterTx (ClaimEffect demoRt 1000000 ''w'' 60000000000 effectStore)
      (\<lambda>r s'. map_option (\<lambda>c. fx_ID (cm_Effect c)) r = Some ''f1'')" by code_simp
  then obtain r s' where run: "ClaimEffect demoRt 1000000 ''w'' 60000000000 effectStore = Inr (r, s')"
    and r: "map_option (\<lambda>c. fx_ID (cm_Effect c)) r = Some ''f1''" by (rule afterTxE)
  from r obtain c where "r = Some c" and "fx_ID (cm_Effect c) = ''f1''" by (cases r) auto
  moreover have "trimSpace ''w'' = ''w''" by code_simp
  ultimately show ?thesis using claim_is_first_due [OF run lease_inv_effectStore] run by auto
qed

section \<open>Completing\<close>

text \<open>C19: only the holder of a running lease completes an effect: the effect is running, leased to that worker until now or
  later, the attempt named is its one running attempt and carries its count; afterwards the lease is gone, the effect has
  the requested outcome, and no other effect and no other attempt has changed.\<close>

definition completed_by :: "int \<Rightarrow> complete_request \<Rightarrow> store \<Rightarrow> store \<Rightarrow> bool" where
  "completed_by now req s s' \<longleftrightarrow> (\<exists>e \<in> set (db_effects s). \<exists>a \<in> set (db_effect_attempts s).
     ef_ID e = ce_EffectID req \<and> ef_Status e = EffectRunning \<and> ef_LeaseOwner e = ce_Worker req \<and>
     unixMilli now \<le> ef_LeaseExpiresAt e \<and>
     ea_ID a = ce_AttemptID req \<and> ea_EffectID a = ef_ID e \<and> ea_Number a = ef_AttemptCount e \<and>
     {b \<in> set (db_effect_attempts s). ea_EffectID b = ef_ID e \<and> ea_Status b = EffectRunning} = {a} \<and>
     db_effects s' = map (\<lambda>x. if x = e then closeEffect now req e else x) (db_effects s) \<and>
     db_effect_attempts s' = map (\<lambda>b. if b = a then closeAttempt now req a else b) (db_effect_attempts s))"

theorem completion_needs_lease:
  assumes "CompleteEffect now req s = Inr (x, s')" and "lease_inv s"
  shows "completed_by now req s s'"
proof -
  from assms(1) obtain n where n: "leasedAttempt now req s = Some n"
    and s': "db_effect_attempts s' = sql_update (attemptNamed req n) (closeAttempt now req) (db_effect_attempts s)"
      "db_effects s' = sql_update (heldBy req) (closeEffect now req) (db_effects s)"
    by (rule CompleteEffect_ok)
  from n obtain a e where a: "a \<in> set (db_effect_attempts s)" "ea_ID a = ce_AttemptID req" "ea_EffectID a = ce_EffectID req"
      "ea_Status a = EffectRunning" "ea_Number a = n"
    and e: "e \<in> set (db_effects s)" "ef_ID e = ce_EffectID req" "ef_Status e = EffectRunning" "ef_LeaseOwner e = ce_Worker req"
      "unixMilli now \<le> ef_LeaseExpiresAt e"
    by (rule leasedAttempt_ok)
  have ids: "distinct (map ea_ID (db_effect_attempts s))" using assms(2) by (simp add: lease_inv_def)
  have held: "heldBy req x \<longleftrightarrow> x = e" if "x \<in> set (db_effects s)" for x
    using lease_inv_unique [OF assms(2) that e(1)] e by (auto simp: heldBy_def)
  have named: "attemptNamed req n b \<longleftrightarrow> b = a" if "b \<in> set (db_effect_attempts s)" for b
    using inj_onD [OF ids [unfolded distinct_map, THEN conjunct2], of b a] that a by (auto simp: attemptNamed_def)
  have only: "b = a" if "b \<in> set (db_effect_attempts s)" "ea_EffectID b = ef_ID e" "ea_Status b = EffectRunning" for b
    using leased_is_held [OF assms(2) n that e(1,3)] held [OF e(1)] named [OF that(1)] by simp
  have "{b \<in> set (db_effect_attempts s). ea_EffectID b = ef_ID e \<and> ea_Status b = EffectRunning} = {a}" (is "?B = _")
  proof
    show "?B \<subseteq> {a}" using only by blast
    show "{a} \<subseteq> ?B" using a(1,3,4) e(2) by simp
  qed
  moreover have "ea_Number a = ef_AttemptCount e" using lease_inv_running(2) [OF assms(2) a(1,4) e(1)] a e by simp
  moreover have "db_effects s' = map (\<lambda>x. if x = e then closeEffect now req e else x) (db_effects s)"
    unfolding s' sql_update_def by (rule map_cong) (auto simp: held)
  moreover have "db_effect_attempts s' = map (\<lambda>b. if b = a then closeAttempt now req a else b) (db_effect_attempts s)"
    unfolding s' sql_update_def by (rule map_cong) (auto simp: named)
  ultimately show ?thesis unfolding completed_by_def using a e by (intro bexI [of _ e] bexI [of _ a]) auto
qed

theorem completion_needs_lease_witness:
  "\<exists>s s'. CompleteEffect 2000000 (completeF1 ''u0'') s = Inr ((), s') \<and> completed_by 2000000 (completeF1 ''u0'') s s'"
proof -
  have "afterTx (ClaimEffect demoRt 1000000 ''w'' 60000000000 effectStore)
      (\<lambda>r s'. afterTx (CompleteEffect 2000000 (completeF1 ''u0'') s') (\<lambda>u t. True))" by code_simp
  then obtain r s where claim: "ClaimEffect demoRt 1000000 ''w'' 60000000000 effectStore = Inr (r, s)"
    and rest: "afterTx (CompleteEffect 2000000 (completeF1 ''u0'') s) (\<lambda>u t. True)" by (rule afterTxE)
  from rest obtain u s' where fin: "CompleteEffect 2000000 (completeF1 ''u0'') s = Inr (u, s')" by (rule afterTxE)
  have "lease_inv s" using movesD [OF ClaimEffect_lease_inv claim] lease_inv_effectStore by blast
  with completion_needs_lease [OF fin] fin show ?thesis by auto
qed

end
