(* ===== verification/HubHistory.thy ===== *)
theory HubHistory
  imports HubBinding HubRecord DeliveryInvariants EffectProperties
begin

text \<open>
  The stores the hub can reach from the empty one and the invariant they all satisfy, and the history of the demo run that
  the witnesses of the next theory stand in.
\<close>

inductive reachable :: "rt_env \<Rightarrow> store \<Rightarrow> bool" for env where
  start: "reachable env emptyStore"
| oper: "reachable env s \<Longrightarrow> perform env now oper s = Inr (u, s') \<Longrightarrow> reachable env s'"

definition store_inv :: "store \<Rightarrow> bool" where
  "store_inv s \<longleftrightarrow> facts_owned s \<and> effects_unique s \<and> log_inv s \<and> lease_inv s \<and> binding_inv s \<and>
     delivery_inv s"

lemma store_inv_empty: "store_inv emptyStore"
  using delivery_inv_empty
  by (simp add: store_inv_def facts_owned_def effects_unique_def log_inv_def lease_inv_def binding_inv_def emptyStore_def)

lemma store_inv_perform:
  assumes "perform env now oper s = Inr (u, s')" and "store_inv s"
  shows "store_inv s'"
  using assms movesD [OF owned.moves_perform assms(1)] movesD [OF once.moves_perform assms(1)]
    movesD [OF log.moves_perform assms(1)] movesD [OF leases.moves_perform assms(1)] movesD [OF bound.moves_perform assms(1)]
    movesD [OF delv.moves_perform assms(1)]
  by (simp add: store_inv_def)

lemma reachable_inv: "reachable env s \<Longrightarrow> store_inv s"
  by (induction rule: reachable.induct) (auto intro: store_inv_empty store_inv_perform)

lemma reachable_commit: "reachable env s \<Longrightarrow> reachable env (commit (perform env now oper) s)"
  by (auto simp: commit_def split: sum.splits intro: reachable.oper)

lemma reachable_runOps: "reachable env s \<Longrightarrow> reachable env (runOps env ops s)"
  unfolding runOps_def by (induction ops arbitrary: s) (auto intro: reachable_commit)

section \<open>The demo history\<close>

text \<open>A run of the demo workflow with the claw \<^verbatim>\<open>c1\<close>: it is created, an event moves it to \<^verbatim>\<open>check\<close>, a worker claims the two
  effects of that step, and the second one becomes a task of the agent.\<close>

definition demoCreate :: create_request where
  "demoCreate = \<lparr>cq_ID = ''run'', cq_TenantID = ''tenant'', cq_WorkspaceYAML = [], cq_WorkflowYAML = [], cq_TriggerType = [],
     cq_InitialClawID = ''c1'', cq_ActivationPending = False, cq_TaskRunID = [], cq_Timeout = 0\<rparr>"

definition startedEvent :: event_input where
  "startedEvent = (demoInput ''e0'' ProducerEngine (Some 1) [])\<lparr>in_Kind := ''run.started''\<rparr>"

definition demoOps :: "(int \<times> operation) list" where
  "demoOps = [(0, OpCreateRun demoCreate), (1000000, OpEvent ''run'' startedEvent),
     (2000000, OpClaimEffect ''w'' 60000000000), (3000000, OpClaimEffect ''w'' 60000000000),
     (4000000, OpAgentTask ''u6'' ''u9'' ''w'' 0 0)]"

definition lateClaim :: operation where
  "lateClaim = OpClaimEffect ''w'' 60000000000"

definition workStore :: store where
  "workStore = runOps demoRt demoOps emptyStore"

fun runsTo :: "rt_env \<Rightarrow> (int \<times> operation) list \<Rightarrow> store \<Rightarrow> (store \<Rightarrow> bool) \<Rightarrow> bool" where
  "runsTo env [] s P = P s"
| "runsTo env ((now, oper) # ops) s P = afterTx (perform env now oper s) (\<lambda>u t. runsTo env ops t P)"

lemma runOps_simps:
  "runOps env [] s = s" "runOps env ((now, oper) # ops) s = runOps env ops (commit (perform env now oper) s)"
  by (simp_all add: runOps_def)

lemma afterTx_commit: "afterTx (m s) P \<Longrightarrow> P () (commit m s)"
  by (auto simp: afterTx_def commit_def split: sum.splits prod.splits)

lemma runsTo_runOps: "runsTo env ops s P \<Longrightarrow> P (runOps env ops s)"
  by (induction env ops s P rule: runsTo.induct) (auto simp: runOps_simps dest: afterTx_commit)

lemma demo_history: "runsTo demoRt demoOps emptyStore (\<lambda>s.
    map (\<lambda>r. (run_ID r, run_StateVersion r)) (db_runs s) = [(''run'', 2)] \<and>
    map (\<lambda>a. (at_ID a, at_RunID a, at_Status a)) (db_attempts s) = [(''u0'', ''run'', AttActive)] \<and>
    map fc_Key (db_facts s) = [''work.visited'', ''work.last''] \<and>
    map (\<lambda>e. (ef_ID e, ef_Status e)) (db_effects s) = [(''u5'', EffectRunning), (''u6'', EffectSucceeded)] \<and>
    map (\<lambda>m. (ob_MessageID m, ob_RunID m, ob_AttemptID m, ob_Status m)) (db_outbox s) = [(''u11'', ''run'', ''u0'', OutPending)] \<and>
    runsTo demoRt [(100000000000, lateClaim)] s (\<lambda>t.
      map (\<lambda>e. (ef_ID e, ef_Status e)) (db_effects t) = [(''u5'', EffectUnknown), (''u6'', EffectSucceeded)]) \<and>
    afterTx (StartAttempt demoRt 5000000 ''run'' ''c2'' s) (\<lambda>x t. ax_ID x = ''u12''))"
  by code_simp

lemma reachable_workStore: "reachable demoRt workStore"
  unfolding workStore_def by (rule reachable_runOps [OF reachable.start])

lemmas work_rows = runsTo_runOps [OF demo_history, folded workStore_def]

lemma map_member: "map f xs = ys \<Longrightarrow> y \<in> set ys \<Longrightarrow> \<exists>x \<in> set xs. f x = y"
  by auto

text \<open>The rows of \<open>workStore\<close> the witnesses use.\<close>

lemma work_members:
  "\<exists>r \<in> set (db_runs workStore). run_ID r = ''run'' \<and> run_StateVersion r = 2"
  "\<exists>a \<in> set (db_attempts workStore). at_ID a = ''u0'' \<and> at_RunID a = ''run'' \<and> at_Status a = AttActive"
  "\<exists>f \<in> set (db_facts workStore). fc_Key f = ''work.last''"
  "\<exists>e \<in> set (db_effects workStore). ef_ID e = ''u5'' \<and> ef_Status e = EffectRunning"
  "\<exists>e \<in> set (db_effects workStore). ef_ID e = ''u6'' \<and> ef_Status e = EffectSucceeded"
  "\<exists>m \<in> set (db_outbox workStore). ob_MessageID m = ''u11'' \<and> ob_RunID m = ''run'' \<and> ob_AttemptID m = ''u0'' \<and> ob_Status m = OutPending"
  using work_rows [THEN conjunct1] work_rows [THEN conjunct2, THEN conjunct1]
    work_rows [THEN conjunct2, THEN conjunct2, THEN conjunct1]
    work_rows [THEN conjunct2, THEN conjunct2, THEN conjunct2, THEN conjunct1]
    work_rows [THEN conjunct2, THEN conjunct2, THEN conjunct2, THEN conjunct2, THEN conjunct1]
  by (auto dest!: map_member [where y = "(''run'', 2)"] map_member [where y = "(''u0'', ''run'', AttActive)"])

text \<open>Later the first lease has run out, and the claw is replaced.\<close>

definition lateStore :: store where
  "lateStore = runOps demoRt [(100000000000, lateClaim)] workStore"

lemma reachable_lateStore: "reachable demoRt lateStore"
  unfolding lateStore_def by (rule reachable_runOps [OF reachable_workStore])

lemma late_member: "\<exists>e \<in> set (db_effects lateStore). ef_ID e = ''u5'' \<and> ef_Status e = EffectUnknown"
  using runsTo_runOps [OF work_rows [THEN conjunct2, THEN conjunct2, THEN conjunct2, THEN conjunct2, THEN conjunct2, THEN conjunct1]]
  unfolding lateStore_def by auto

lemmas work_restart =
  work_rows [THEN conjunct2, THEN conjunct2, THEN conjunct2, THEN conjunct2, THEN conjunct2, THEN conjunct2]

text \<open>A run that waits for its organization context is released once a bundle is linked to it, and not before.\<close>

lemma activation_history: "runsTo demoRt [(0, OpCreateRun (demoCreate\<lparr>cq_ActivationPending := True\<rparr>))] emptyStore (\<lambda>s.
    CompleteActivation 1000000 ''run'' s = Inl (Errf ''workflow v2 run has no organization context bundle'' []) \<and>
    runsTo demoRt [(1000000, OpLinkContext ''run'' ''b''), (2000000, OpCompleteActivation ''run'')] s (\<lambda>t.
      map run_Status (db_runs s) = [RunSuspended] \<and> map run_Status (db_runs t) = [RunActive]))"
  by code_simp

text \<open>The same run, led to its terminal state: from \<^verbatim>\<open>check\<close> a green build leads to \<^verbatim>\<open>done\<close>.\<close>

definition doneStore :: store where
  "doneStore = runOps demoRt [(0, OpCreateRun demoCreate), (1000000, OpEvent ''run'' startedEvent),
     (2000000, OpEvent ''run'' greenEvent)] emptyStore"

lemma reachable_doneStore: "reachable demoRt doneStore"
  unfolding doneStore_def by (rule reachable_runOps [OF reachable.start])

lemma done_history: "runsTo demoRt [(0, OpCreateRun demoCreate), (1000000, OpEvent ''run'' startedEvent),
     (2000000, OpEvent ''run'' greenEvent)] emptyStore (\<lambda>s.
    map (\<lambda>r. (run_ID r, run_State r, run_StateVersion r, run_WorkflowRevision r)) (db_runs s) =
      [(''run'', ''done'', 3, ''wfrev'')])"
  by code_simp

lemma done_member: "\<exists>r \<in> set (db_runs doneStore). run_ID r = ''run'' \<and> run_State r = ''done'' \<and>
    run_StateVersion r = 3 \<and> inTerminalState demoRt r"
proof -
  from runsTo_runOps [OF done_history, folded doneStore_def]
  obtain r where r: "r \<in> set (db_runs doneStore)" "run_ID r = ''run''" "run_State r = ''done''" "run_StateVersion r = 3"
    "run_WorkflowRevision r = ''wfrev''"
    using map_member [of "\<lambda>r. (run_ID r, run_State r, run_StateVersion r, run_WorkflowRevision r)" "db_runs doneStore" _
      "(''run'', ''done'', 3, ''wfrev'')"] by auto
  moreover have "st_Terminal (stateOf demoWorkflow ''done'')" by code_simp
  ultimately show ?thesis using demo_pinned [OF r(5)] by (auto simp: inTerminalState_def)
qed

end
