(* ===== verification/HubProperties.thy ===== *)
theory HubProperties
  imports HubHistory
begin

text \<open>
  The theorems on the store as a whole: the invariants of every store the hub can reach from the empty one, and what no
  further history can undo.
\<close>

section \<open>Invariants of the reachable stores\<close>

lemma replay_versions: "replay acc ts = Some b \<Longrightarrow> map tn_ToVersion ts = [Suc (fst acc)..<Suc (fst b)]"
proof (induction acc ts rule: replay.induct)
  case (2 v st t ts)
  then have "replay (Suc v, tn_ToState t) ts = Some b" and "tn_ToVersion t = Suc v" by (auto split: if_splits)
  moreover from this have "Suc v \<le> fst b" by (auto dest: replay_version)
  ultimately show ?case using 2 by (auto simp: upt_conv_Cons split: if_splits)
qed simp

lemma same_log:
  assumes "log_inv s" and "log_inv t" and "prefix (db_transitions s) (db_transitions t)"
    and "r \<in> set (db_runs s)" and "q \<in> set (db_runs t)" and "run_ID q = run_ID r" and "run_StateVersion q = run_StateVersion r"
  shows "runLog (run_ID r) t = runLog (run_ID r) s"
proof -
  have "replay (0, []) (runLog (run_ID r) s) = Some (run_StateVersion r, run_State r)"
    and "replay (0, []) (runLog (run_ID r) t) = Some (run_StateVersion q, run_State q)"
    using assms(1,2,4-6) unfolding log_inv_def by metis+
  then have "length (runLog (run_ID r) s) = length (runLog (run_ID r) t)"
    using assms(7) by (auto dest!: replay_version)
  moreover obtain ts where "db_transitions t = db_transitions s @ ts" using assms(3) by (auto simp: prefix_def)
  ultimately show ?thesis by (simp add: runLog_def)
qed

text \<open>C20: the transition log is the history of every run: replaying the transitions of a run from version 0 and no state
  follows them one by one, each starting where the one before ended, and leads to the state and version in the run's row;
  their versions are 1, 2, ..., without gaps or repetitions.\<close>

theorem run_is_replay_of_log:
  assumes "reachable env s" and "r \<in> set (db_runs s)"
  shows "replay (0, []) (runLog (run_ID r) s) = Some (run_StateVersion r, run_State r) \<and>
    map tn_ToVersion (runLog (run_ID r) s) = [1..<Suc (run_StateVersion r)]"
proof -
  have "replay (0, []) (runLog (run_ID r) s) = Some (run_StateVersion r, run_State r)"
    using reachable_inv [OF assms(1)] assms(2) by (simp add: store_inv_def log_inv_def)
  from this replay_versions [OF this] show ?thesis by simp
qed

theorem run_is_replay_of_log_witness:
  "\<exists>r :: run_row. map tn_ToVersion (runLog (run_ID r) workStore) = [1..<3] \<and> run_ID r = ''run''"
proof -
  from work_members(1) obtain r where r: "r \<in> set (db_runs workStore)" "run_ID r = ''run''" "run_StateVersion r = 2" by blast
  have "map tn_ToVersion (runLog (run_ID r) workStore) = [1..<3]"
    using run_is_replay_of_log [OF reachable_workStore r(1)] r(3) by (simp add: numeral_3_eq_3 numeral_2_eq_2)
  with r(2) show ?thesis by (intro exI [of _ r] conjI)
qed

text \<open>C21: whatever happens, a stored fact lies in a namespace that the producer recorded with it owns.\<close>

theorem facts_have_owners:
  assumes "reachable env s" and "f \<in> set (db_facts s)"
  shows "producerOwnsFact (fc_Producer f) (fc_Key f)"
  using reachable_inv [OF assms(1)] assms(2) by (simp add: store_inv_def facts_owned_def)

theorem facts_have_owners_witness: "\<exists>f :: fact_row. fc_Key f = ''work.last'' \<and> producerOwnsFact (fc_Producer f) (fc_Key f)"
proof -
  from work_members(3) obtain f where "f \<in> set (db_facts workStore)" "fc_Key f = ''work.last''" by blast
  with facts_have_owners [OF reachable_workStore this(1)] show ?thesis by (intro exI [of _ f] conjI)
qed

text \<open>C22: a run has at most one live attempt, which is the current one of its row, and every message that is still open is
  addressed to it: no claw but the current one is ever sent anything.\<close>

theorem one_live_attempt:
  assumes "reachable env s" and "a \<in> set (db_attempts s)" and "attemptLive a"
  shows "(at_RunID a, at_ID a) \<in> bindKey ` set (db_runs s) \<and>
    (\<forall>b \<in> set (db_attempts s). attemptLive b \<and> at_RunID b = at_RunID a \<longrightarrow> b = a) \<and>
    (\<forall>m \<in> set (db_outbox s). outboxOpen m \<and> ob_RunID m = at_RunID a \<longrightarrow> ob_AttemptID m = at_ID a)"
proof -
  have inv: "binding_inv s" using reachable_inv [OF assms(1)] by (simp add: store_inv_def)
  have one: "i = j" if "(k, i) \<in> bindKey ` set (db_runs s)" "(k, j) \<in> bindKey ` set (db_runs s)" for k i j
    using that inv unfolding binding_inv_def distinct_map by (auto simp: bindKey_def dest: inj_onD)
  have here: "(at_RunID a, at_ID a) \<in> bindKey ` set (db_runs s)" using inv assms(2,3) by (simp add: binding_inv_def)
  have "b = a" if "b \<in> set (db_attempts s)" "attemptLive b" "at_RunID b = at_RunID a" for b
  proof -
    have "at_ID b = at_ID a" using one [OF _ here] inv that by (metis binding_inv_def)
    then show ?thesis using inv that(1) assms(2) by (auto simp: binding_inv_def distinct_map dest: inj_onD)
  qed
  moreover have "ob_AttemptID m = at_ID a" if "m \<in> set (db_outbox s)" "outboxOpen m" "ob_RunID m = at_RunID a" for m
    using one [OF _ here] inv that by (metis binding_inv_def)
  ultimately show ?thesis using here by blast
qed

theorem one_live_attempt_witness:
  "\<exists>a m. a \<in> set (db_attempts workStore) \<and> attemptLive a \<and> m \<in> set (db_outbox workStore) \<and> outboxOpen m \<and>
    ob_AttemptID m = at_ID a"
proof -
  from work_members(2) obtain a where a: "a \<in> set (db_attempts workStore)" "at_RunID a = ''run''" "at_Status a = AttActive" by blast
  then have live: "attemptLive a" by (simp add: attemptLive_def)
  from work_members(6) obtain m where m: "m \<in> set (db_outbox workStore)" "ob_RunID m = ''run''" "ob_Status m = OutPending" by blast
  then have "outboxOpen m" by (simp add: outboxOpen_def)
  with one_live_attempt [OF reachable_workStore a(1) live] a m live show ?thesis by metis
qed

text \<open>C23: an effect is running exactly while one attempt at it is, there is never a second running attempt, and no two
  effects have the same key: a side effect is in at most one worker's hands.\<close>

theorem effect_lease_exclusive:
  assumes "reachable env s" and "e \<in> set (db_effects s)"
  shows "(ef_Status e = EffectRunning \<longleftrightarrow>
      (\<exists>!a. a \<in> set (db_effect_attempts s) \<and> ea_EffectID a = ef_ID e \<and> ea_Status a = EffectRunning)) \<and>
    (\<forall>x \<in> set (db_effects s). ef_EffectKey x = ef_EffectKey e \<longrightarrow> x = e)"
proof -
  have inv: "lease_inv s" and once: "effects_unique s" using reachable_inv [OF assms(1)] by (simp_all add: store_inv_def)
  have "\<exists>!a. a \<in> set (db_effect_attempts s) \<and> ea_EffectID a = ef_ID e \<and> ea_Status a = EffectRunning"
    if "ef_Status e = EffectRunning"
  proof -
    have "\<exists>a \<in> set (db_effect_attempts s). ea_EffectID a = ef_ID e \<and> ea_Status a = EffectRunning"
      using inv assms(2) that by (simp add: lease_inv_def)
    then show ?thesis using lease_inv_attempt_unique [OF inv] by metis
  qed
  moreover have "ef_Status e = EffectRunning"
    if "a \<in> set (db_effect_attempts s)" "ea_EffectID a = ef_ID e" "ea_Status a = EffectRunning" for a
    using lease_inv_running [OF inv that(1)] that assms(2) lease_inv_unique [OF inv] by metis
  ultimately have "ef_Status e = EffectRunning \<longleftrightarrow>
      (\<exists>!a. a \<in> set (db_effect_attempts s) \<and> ea_EffectID a = ef_ID e \<and> ea_Status a = EffectRunning)" by blast
  moreover have "\<forall>x \<in> set (db_effects s). ef_EffectKey x = ef_EffectKey e \<longrightarrow> x = e"
    using once assms(2) by (auto simp: effects_unique_def distinct_map dest: inj_onD)
  ultimately show ?thesis by blast
qed

theorem effect_lease_exclusive_witness:
  "\<exists>!a. a \<in> set (db_effect_attempts workStore) \<and> ea_EffectID a = ''u5'' \<and> ea_Status a = EffectRunning"
proof -
  from work_members(4) obtain e where "e \<in> set (db_effects workStore)" "ef_ID e = ''u5''" "ef_Status e = EffectRunning" by blast
  with effect_lease_exclusive [OF reachable_workStore this(1)] show ?thesis by metis
qed

section \<open>Histories\<close>

text \<open>C24: no history rewrites the past: a row of the event journal is never changed or lost, in any column (what it was
  received with, and the disposition and reason it got when it was handled); receipts and transitions are only appended;
  runs keep their identity and pinned documents and never go back to an earlier version; and attempts, tasks and messages
  keep their identity, and every column once they are closed.\<close>

theorem history_only_grows:
  "extends s (runOps env ops s) \<and> journal_kept s (runOps env ops s) \<and> closed_stay s (runOps env ops s)"
  by (simp add: hist.R_runOps journal.R_runOps closed.R_runOps)

text \<open>C25: a run whose workflow state is terminal in its pinned workflow never moves again: after any further operations, events,
  commands and deliveries included, it is still in that state at that version, and its transition log is the same.\<close>

theorem terminal_runs_never_move:
  assumes "reachable env s" and "r \<in> set (db_runs s)" and "inTerminalState env r"
  shows "\<exists>r' \<in> set (db_runs (runOps env ops s)). run_le r r' \<and> run_State r' = run_State r \<and>
    run_StateVersion r' = run_StateVersion r \<and> runLog (run_ID r) (runOps env ops s) = runLog (run_ID r) s"
proof -
  let ?t = "runOps env ops s"
  have inv: "log_inv s" "log_inv ?t"
    using reachable_inv [OF assms(1)] reachable_inv [OF reachable_runOps [OF assms(1)]] by (simp_all add: store_inv_def)
  have st: "settled_runs env s ?t" by (rule settled.R_runOps) simp
  have "extends s ?t" "distinct (map run_ID (db_runs ?t))" "logKey r \<in> set (absRuns ?t)"
    using st assms(2,3) inv unfolding settled_runs_def log_inv_def by blast+
  then obtain q where q: "q \<in> set (db_runs ?t)" "run_le r q" "logKey q = logKey r"
    using same_run_later [OF _ _ assms(2)] by blast
  have "runLog (run_ID r) ?t = runLog (run_ID r) s"
    using same_log [OF inv _ assms(2) q(1)] st q(3) unfolding settled_runs_def extends_def by (simp add: logKey_def)
  with q show ?thesis by (intro bexI [of _ q]) (simp_all add: logKey_def)
qed

theorem terminal_runs_never_move_witness:
  "\<exists>r' \<in> set (db_runs (runOps demoRt [(3000000, OpCommand ''run'' ''restart'' demoCommand)] doneStore)).
    run_ID r' = ''run'' \<and> run_State r' = ''done'' \<and> run_StateVersion r' = 3"
proof -
  from done_member obtain r where r: "r \<in> set (db_runs doneStore)" "inTerminalState demoRt r" and
    k: "run_ID r = ''run''" "run_State r = ''done''" "run_StateVersion r = 3" by blast
  from terminal_runs_never_move [OF reachable_doneStore r, of "[(3000000, OpCommand ''run'' ''restart'' demoCommand)]"] k
  show ?thesis by (auto simp: run_le_def)
qed

text \<open>C26: no history loses an effect or repeats a finished one: it keeps its identity, its count of attempts never goes
  down, and once it succeeded, failed permanently or was cancelled neither its status nor its count ever changes again.\<close>

theorem effect_outcomes_final:
  assumes "e \<in> set (db_effects s)"
  shows "\<exists>e' \<in> set (db_effects (runOps env ops s)). effectIdentity e' = effectIdentity e \<and>
    ef_AttemptCount e \<le> ef_AttemptCount e' \<and>
    (ef_Status e \<in> {EffectSucceeded, EffectPermanentFailed, EffectCancelled} \<longrightarrow> lifeOf e' = lifeOf e)"
proof -
  have "effects_live UNIV s (runOps env ops s)" by (rule lived.R_runOps) simp
  then obtain e' where "e' \<in> set (db_effects (runOps env ops s))" "effectIdentity e' = effectIdentity e"
    and l: "lives UNIV (lifeOf e) (lifeOf e')"
    using assms unfolding effects_live_def by blast
  then show ?thesis
    using lives_count [OF l] lives_final [OF l [unfolded lifeOf_def [of e]]] by (intro bexI [of _ e']) (auto simp: lifeOf_def)
qed

theorem effect_outcomes_final_witness:
  "\<exists>e'. ef_ID e' = ''u6'' \<and> ef_Status e' = EffectSucceeded \<and> e' \<in> set (db_effects lateStore)"
proof -
  from work_members(5) obtain e where e: "e \<in> set (db_effects workStore)" "ef_ID e = ''u6''" "ef_Status e = EffectSucceeded" by blast
  obtain e' where "e' \<in> set (db_effects lateStore)" "effectIdentity e' = effectIdentity e" "lifeOf e' = lifeOf e"
    using effect_outcomes_final [OF e(1), of demoRt "[(100000000000, lateClaim)]"] e(3) unfolding lateStore_def by blast
  with e(2,3) show ?thesis by (intro exI [of _ e']) (simp add: effectIdentity_def lifeOf_def)
qed

text \<open>C27: an uncertain side effect is never replayed because time passed: in every history without a reconciliation, an
  effect whose outcome is unknown is never attempted again; it stays unknown, or is cancelled with its run.\<close>

theorem unknown_effect_waits:
  assumes "e \<in> set (db_effects s)" and "ef_Status e = EffectUnknown" and "\<forall>(now, oper) \<in> set ops. \<not> resolveOp oper"
  shows "\<exists>e' \<in> set (db_effects (runOps env ops s)). effectIdentity e' = effectIdentity e \<and>
    ef_AttemptCount e' = ef_AttemptCount e \<and> (ef_Status e' = EffectUnknown \<or> ef_Status e' = EffectCancelled)"
proof -
  have "effects_live (- {LResolve}) s (runOps env ops s)" by (rule waits.R_runOps) (use assms(3) in auto)
  then obtain e' where "e' \<in> set (db_effects (runOps env ops s))" "effectIdentity e' = effectIdentity e"
    and l: "lives (- {LResolve}) (EffectUnknown, ef_AttemptCount e) (lifeOf e')"
    using assms(1,2) unfolding effects_live_def lifeOf_def by metis
  then show ?thesis using lives_unknown [OF l] by (intro bexI [of _ e']) (auto simp: lifeOf_def)
qed

theorem unknown_effect_waits_witness:
  "\<exists>e' \<in> set (db_effects (runOps demoRt [(200000000000, lateClaim), (300000000000, lateClaim)] lateStore)).
    ef_ID e' = ''u5'' \<and> (ef_Status e' = EffectUnknown \<or> ef_Status e' = EffectCancelled)"
proof -
  from late_member obtain e where e: "e \<in> set (db_effects lateStore)" "ef_ID e = ''u5''" "ef_Status e = EffectUnknown" by blast
  have "\<forall>(now, oper) \<in> set [(200000000000, lateClaim), (300000000000, lateClaim)]. \<not> resolveOp oper"
    by (simp add: lateClaim_def)
  from unknown_effect_waits [OF e(1,3) this, of demoRt] e(2) show ?thesis by (auto simp: effectIdentity_def)
qed

section \<open>Claws and their messages\<close>

lemma later_attempt:
  assumes "reachable env s" and "a \<in> set (db_attempts s)" and "\<not> attemptLive a" and "x \<in> set (db_attempts (runOps env ops s))"
    and "at_ID x = at_ID a"
  shows "at_Status x = at_Status a"
proof -
  let ?t = "runOps env ops s"
  have "rows_follow attempt_le (db_attempts s) (db_attempts ?t)" using closed.R_runOps [of ops s env] by (simp add: closed_stay_def)
  from rows_follow_in [OF this assms(2)] obtain y where y: "y \<in> set (db_attempts ?t)" "attempt_le a y" by blast
  have "distinct (map at_ID (db_attempts ?t))"
    using reachable_inv [OF reachable_runOps [OF assms(1)]] by (simp add: store_inv_def binding_inv_def)
  moreover have "at_ID y = at_ID a" using y(2) by (simp add: attempt_le_def attemptName_def)
  ultimately have "x = y" using y(1) assms(4,5) by (metis distinct_map inj_onD)
  with y(2) assms(3) show ?thesis by (simp add: attempt_le_def)
qed

text \<open>C28: starting an attempt fences off the claw it replaces for good: in every later history no attempt that was live
  before is authorised for any claw, and none of its messages is offered for delivery.\<close>

theorem superseded_attempt_fenced:
  assumes "reachable env s" and "StartAttempt env now runID clawID s = Inr (x, s')"
    and "a \<in> set (db_attempts s)" and "at_RunID a = runID" and "attemptLive a"
  shows "\<not> attemptAuthorized runID (at_ID a) claw tenant (runOps env ops s') \<and>
    ReadyControl later runID (at_ID a) limit (runOps env ops s') = Inr ([], runOps env ops s')"
proof -
  let ?t = "runOps env ops s'"
  from assms(2) obtain ax where atts: "db_attempts s' = sql_update (\<lambda>a. at_RunID a = runID \<and> attemptLive a) (loseAttempt now) (db_attempts s) @ [ax]"
    by (rule StartAttempt_ok)
  have lost: "loseAttempt now a \<in> set (db_attempts s')"
    using assms(3-5) unfolding atts set_append set_sql_update by (auto intro!: image_eqI [of _ _ a])
  have "perform env now (OpStartAttempt runID clawID) s = Inr ((), s')" using assms(2) by (auto simp: void_def tx_iffs)
  then have "reachable env s'" using assms(1) by (rule reachable.oper [rotated])
  then have "at_Status y = AttLost" if "y \<in> set (db_attempts ?t)" "at_ID y = at_ID a" for y
    using later_attempt [OF _ lost _ that(1)] that(2) by (simp add: loseAttempt_def attemptLive_def)
  then have "\<not> (at_ID y = at_ID a \<and> at_Status y = AttActive)" if "y \<in> set (db_attempts ?t)" for y using that by force
  then have none: "\<not> list_ex (\<lambda>y. at_ID y = at_ID a \<and> at_Status y = AttActive) (db_attempts ?t)" by (auto simp: list_ex_iff)
  then have "\<not> attemptAuthorized runID (at_ID a) claw tenant ?t"
    by (auto simp: attemptAuthorized_def attemptActive_def list_ex_iff)
  moreover have "filter (controlReady runID (at_ID a) later ?t) (db_outbox ?t) = []"
    using none by (auto simp: filter_empty_conv controlReady_def)
  ultimately show ?thesis by (simp add: ReadyControl_def getsT_def Let_def)
qed

theorem superseded_attempt_fenced_witness:
  "\<exists>x s'. StartAttempt demoRt 5000000 ''run'' ''c2'' workStore = Inr (x, s') \<and>
    \<not> attemptAuthorized ''run'' ''u0'' ''c1'' ''tenant'' (runOps demoRt [(6000000, OpMarkSent ''u11'')] s')"
proof -
  from work_restart obtain x s' where run: "StartAttempt demoRt 5000000 ''run'' ''c2'' workStore = Inr (x, s')"
    by (rule afterTxE)
  from work_members(2) obtain a where a: "a \<in> set (db_attempts workStore)" "at_ID a = ''u0''" "at_RunID a = ''run''"
    "at_Status a = AttActive" by blast
  then have "attemptLive a" by (simp add: attemptLive_def)
  from superseded_attempt_fenced [OF reachable_workStore run a(1,3) this] a(2) run show ?thesis by auto
qed

lemma in_first: "x \<in> set xs \<Longrightarrow> x \<in> set (take n xs) \<or> length (take n xs) = n"
  by (cases "length xs \<le> n") auto

text \<open>C29: delivery of control messages is at least once: a message sent to the current claw and not yet answered is offered
  again five seconds after it was sent, unless a hundred other messages are due before it.\<close>

theorem unanswered_message_offered_again:
  assumes "reachable env s" and "m \<in> set (db_outbox s)" and "outboxOpen m"
    and "a \<in> set (db_attempts s)" and "at_ID a = ob_AttemptID m" and "at_Status a = AttActive"
    and "MarkControlSent now (ob_MessageID m) s = Inr (u, s')" and "now + 5000000000 \<le> later"
  shows "\<exists>ens. ReadyControl later (ob_RunID m) (ob_AttemptID m) 0 s' = Inr (ens, s') \<and>
    (ob_Envelope m \<in> set ens \<or> length ens = 100)"
proof -
  let ?m = "m\<lparr>ob_Status := OutSent, ob_AttemptCount := ob_AttemptCount m + 1,
      ob_NextAttemptAt := unixMilli (now + 5000000000), ob_UpdatedAt := unixMilli now\<rparr>"
  have s': "db_outbox s' = sql_update (\<lambda>x. ob_MessageID x = ob_MessageID m \<and> outboxOpen x)
      (\<lambda>m. m\<lparr>ob_Status := OutSent, ob_AttemptCount := ob_AttemptCount m + 1,
        ob_NextAttemptAt := unixMilli (now + 5000000000), ob_UpdatedAt := unixMilli now\<rparr>) (db_outbox s) \<and>
      db_runs s' = db_runs s \<and> db_attempts s' = db_attempts s"
    using assms(7) by (auto simp: MarkControlSent_def tx_iffs)
  then have m: "?m \<in> set (db_outbox s')" using assms(2,3) by (auto simp: set_sql_update intro!: image_eqI [of _ _ m])
  have "(ob_RunID m, ob_AttemptID m) \<in> bindKey ` set (db_runs s)"
    using reachable_inv [OF assms(1)] assms(2,3) by (simp add: store_inv_def binding_inv_def)
  then have "list_ex (\<lambda>r. run_ID r = ob_RunID m \<and> run_CurrentAttemptID r = ob_AttemptID m) (db_runs s)"
    by (auto simp: list_ex_iff bindKey_def)
  moreover have "list_ex (\<lambda>a. at_ID a = ob_AttemptID m \<and> at_Status a = AttActive) (db_attempts s)"
    using assms(4-6) by (auto simp: list_ex_iff)
  moreover have "unixMilli (now + 5000000000) \<le> unixMilli later" using assms(8) by (simp add: unixMilli_def zdiv_mono1)
  ultimately have "controlReady (ob_RunID m) (ob_AttemptID m) later s' ?m"
    using s' by (simp add: controlReady_def outboxOpen_def)
  with m have "?m \<in> set (sort_key (\<lambda>m. (ob_CreatedAt m, ob_MessageID m))
      (filter (controlReady (ob_RunID m) (ob_AttemptID m) later s') (db_outbox s')))" by simp
  from in_first [OF this, of 100] show ?thesis
    by (auto simp: ReadyControl_def getsT_def Let_def intro: image_eqI [of _ _ ?m])
qed

theorem unanswered_message_offered_again_witness:
  "\<exists>(m :: outbox_row) s' ens. ob_MessageID m = ''u11'' \<and> MarkControlSent 5000000 ''u11'' workStore = Inr ((), s') \<and>
    ReadyControl 6000000000 ''run'' ''u0'' 0 s' = Inr (ens, s') \<and> (ob_Envelope m \<in> set ens \<or> length ens = 100)"
proof -
  from work_members(2) obtain a where a: "a \<in> set (db_attempts workStore)" "at_ID a = ''u0''" "at_Status a = AttActive" by blast
  from work_members(6) obtain m where m: "m \<in> set (db_outbox workStore)" "ob_MessageID m = ''u11''" "ob_RunID m = ''run''"
    "ob_AttemptID m = ''u0''" "ob_Status m = OutPending" by blast
  then have pending: "outboxOpen m" by (simp add: outboxOpen_def)
  have at: "at_ID a = ob_AttemptID m" using a m by simp
  obtain s' where sent: "MarkControlSent 5000000 (ob_MessageID m) workStore = Inr ((), s')"
    by (auto simp: MarkControlSent_def bindT_def updateT_def returnT_def)
  from unanswered_message_offered_again [OF reachable_workStore m(1) pending a(1) at a(3) sent, of 6000000000] m sent
  show ?thesis by (intro exI [of _ m]) auto
qed

end
