(* ===== verification/GoText.thy ===== *)
theory GoText
  imports Prelude
begin

text \<open>
  Go text: the rendering of an error by \<^verbatim>\<open>err.Error()\<close>, and the runes of a UTF-8 byte string.

  \<open>errText\<close> interprets the verbs the sources use: \<^verbatim>\<open>%w\<close> is the wrapped error, \<^verbatim>\<open>%q\<close> quotes, every other verb prints the
  rendered argument.  \<open>goQuote\<close> is \<^verbatim>\<open>strconv.Quote\<close> on strings whose characters beyond ASCII are printable.
\<close>

section \<open>Errors as text\<close>

definition lowHex :: "nat \<Rightarrow> char" where
  "lowHex n = char_of (if n < 10 then 48 + n else 87 + n)"

definition quoteChar :: "char \<Rightarrow> string" where
  "quoteChar c =
     (let n = of_char c :: nat; esc = \<lambda>x. [CHR 0x5C, x] in
      if n = 34 \<or> n = 92 then esc c
      else if n = 7 then esc (CHR ''a'') else if n = 8 then esc (CHR ''b'') else if n = 12 then esc (CHR ''f'')
      else if n = 10 then esc (CHR ''n'') else if n = 13 then esc (CHR ''r'') else if n = 9 then esc (CHR ''t'')
      else if n = 11 then esc (CHR ''v'')
      else if n < 32 \<or> n = 127 then esc (CHR ''x'') @ [lowHex (n div 16), lowHex (n mod 16)]
      else [c])"

definition goQuote :: "string \<Rightarrow> string" where
  "goQuote s = [CHR 0x22] @ concat (map quoteChar s) @ [CHR 0x22]"

fun fmtText :: "string \<Rightarrow> string list \<Rightarrow> string \<Rightarrow> string" where
  "fmtText [] args inner = []"
| "fmtText [c] args inner = [c]"
| "fmtText (c # v # cs) args inner =
     (if c \<noteq> CHR ''%'' then c # fmtText (v # cs) args inner
      else if v = CHR ''w'' then inner @ fmtText cs args inner
      else case args of
        [] \<Rightarrow> ''%!'' @ v # ''(MISSING)'' @ fmtText cs [] inner
      | a # as \<Rightarrow> (if v = CHR ''q'' then goQuote a else a) @ fmtText cs as inner)"

fun errText :: "gerr \<Rightarrow> string" where
  "errText (Errf f args) = fmtText f args []"
| "errText (Wrapf f args e) = fmtText f args (errText e)"

section \<open>Runes\<close>

text \<open>
  \<^verbatim>\<open>[]rune(s)\<close>, each rune as the bytes \<^verbatim>\<open>string(r)\<close> gives back: the longest valid UTF-8 sequence at the head of the string, or
  \<^verbatim>\<open>U+FFFD\<close> for a single byte that starts none.
\<close>

definition byte :: "char \<Rightarrow> nat" where
  "byte c = of_char c"

definition contByte :: "char \<Rightarrow> bool" where
  "contByte c \<longleftrightarrow> 128 \<le> byte c \<and> byte c \<le> 191"

definition within :: "nat \<Rightarrow> nat \<Rightarrow> char \<Rightarrow> bool" where
  "within lo hi c \<longleftrightarrow> lo \<le> byte c \<and> byte c \<le> hi"

text \<open>The range of the second byte, by the first (\<^verbatim>\<open>acceptRanges\<close> of \<^verbatim>\<open>unicode/utf8\<close>).\<close>

definition secondByte :: "char \<Rightarrow> char \<Rightarrow> bool" where
  "secondByte a b =
     (if byte a = 224 then within 160 191 b
      else if byte a = 237 then within 128 159 b
      else if byte a = 240 then within 144 191 b
      else if byte a = 244 then within 128 143 b
      else contByte b)"

fun runeLen :: "string \<Rightarrow> nat" where
  "runeLen [] = 0"
| "runeLen (a # cs) =
     (if byte a < 128 then 1
      else if within 194 223 a then (case cs of b # _ \<Rightarrow> if contByte b then 2 else 0 | _ \<Rightarrow> 0)
      else if within 224 239 a then
        (case cs of b # c # _ \<Rightarrow> if secondByte a b \<and> contByte c then 3 else 0 | _ \<Rightarrow> 0)
      else if within 240 244 a then
        (case cs of b # c # d # _ \<Rightarrow> if secondByte a b \<and> contByte c \<and> contByte d then 4 else 0 | _ \<Rightarrow> 0)
      else 0)"

definition runeError :: string where
  "runeError = [CHR 0xEF, CHR 0xBF, CHR 0xBD]"

function runes :: "string \<Rightarrow> string list" where
  "runes [] = []"
| "runes (a # cs) =
     (let n = runeLen (a # cs) in
      if n = 0 then runeError # runes cs else take n (a # cs) # runes (drop n (a # cs)))"
  by pat_completeness auto
termination by (relation "measure length") auto

lemma runeLen_le: "runeLen s \<le> 4"
  by (cases s) (auto split: list.split)

declare runeLen.simps [simp del]

lemma runes_size: "r \<in> set (runes s) \<Longrightarrow> length r \<le> 4"
proof (induction s rule: runes.induct)
  case (2 a cs)
  have "length (take (runeLen (a # cs)) (a # cs)) \<le> 4" using runeLen_le [of "a # cs"] by (simp only: length_take)
  with 2 show ?case by (auto simp: Let_def runeError_def split: if_splits)
qed simp

lemma concat_runes_size: "length (concat (runes s)) \<le> 4 * length (runes s)"
proof -
  have "length (concat rs) \<le> 4 * length rs" if "\<forall>r \<in> set rs. length r \<le> 4" for rs :: "string list"
    using that by (induction rs) auto
  then show ?thesis using runes_size by blast
qed

end
