(* ===== verification/Worker.thy ===== *)
theory Worker
  imports HubProperties GoText
begin

text \<open>
  The effect worker of the hub: \<^verbatim>\<open>pkg/hub/workflow_v2_worker.go\<close>.

  Each operation it calls is a transaction of its own with its own clock reading; an effect that cannot be carried out is
  completed as failed.  \<open>drain\<close> is the loop of at most 100 claims per poll: it keeps what was committed before an error.
  \<^verbatim>\<open>ctx.Err()\<close>, read before the iteration with \<open>n\<close> iterations left and once after the loop, is the argument \<open>cancelled\<close>.
\<close>

definition effectLease :: int where
  "effectLease = 60000000000"

definition effectRetry :: int where
  "effectRetry = 5000000000"

definition failRequest :: "string \<Rightarrow> effect_claim \<Rightarrow> effect_status \<Rightarrow> string \<Rightarrow> int \<Rightarrow> complete_request" where
  "failRequest worker c status reason retryAfter =
     \<lparr>ce_EffectID = fx_ID (cm_Effect c), ce_AttemptID = cm_AttemptID c, ce_Worker = worker, ce_Status = status,
      ce_Receipt = [], ce_Error = reason, ce_RetryAfter = retryAfter\<rparr>"

text \<open>One operation, and another one when it fails.\<close>

definition orElse :: "'a tx \<Rightarrow> (gerr \<Rightarrow> unit tx) \<Rightarrow> unit tx" where
  "orElse m h = (\<lambda>s. case m s of Inl e \<Rightarrow> h e s | Inr (x, s') \<Rightarrow> Inr ((), s'))"

definition executeWorkflowV2Effect :: "rt_env \<Rightarrow> int \<Rightarrow> int \<Rightarrow> string \<Rightarrow> effect_claim \<Rightarrow> unit tx" where
  "executeWorkflowV2Effect env now later worker c =
     (let kind = fx_Kind (cm_Effect c); effectID = fx_ID (cm_Effect c); attemptID = cm_AttemptID c in
      if kind = ''agent.task'' then
        orElse (MaterializeAgentTask env now effectID attemptID worker twoMinutes twoHours)
          (\<lambda>err. CompleteEffect later (failRequest worker c EffectRetryableFailed (errText err) effectRetry))
      else if kind = ''exec.run'' \<or> kind = ''dependency.update'' then
        orElse (MaterializeCommandTask env now effectID attemptID worker)
          (\<lambda>err. CompleteEffect later (failRequest worker c EffectPermanentFailed (errText err) 0))
      else CompleteEffect later (failRequest worker c EffectPermanentFailed
        (''hub has no workflow v2 executor for effect kind '' @ goQuote kind) 0))"

record clock =
  claimAt :: "nat \<Rightarrow> int"
  executeAt :: "nat \<Rightarrow> int"
  completeAt :: "nat \<Rightarrow> int"

fun drainEffects :: "rt_env \<Rightarrow> clock \<Rightarrow> (nat \<Rightarrow> gerr option) \<Rightarrow> string \<Rightarrow> nat \<Rightarrow> store \<Rightarrow> gerr option \<times> store" where
  "drainEffects env cl cancelled worker 0 s = (cancelled 0, s)"
| "drainEffects env cl cancelled worker (Suc n) s =
     (if cancelled (Suc n) \<noteq> None then (cancelled (Suc n), s)
      else case ClaimEffect env (claimAt cl n) worker effectLease s of
        Inl e \<Rightarrow> (Some e, s)
      | Inr (None, s1) \<Rightarrow> (None, s1)
      | Inr (Some c, s1) \<Rightarrow>
          (case executeWorkflowV2Effect env (executeAt cl n) (completeAt cl n) worker c s1 of
             Inl e \<Rightarrow> (Some e, s1)
           | Inr (u, s2) \<Rightarrow> drainEffects env cl cancelled worker n s2))"

definition drainWorkflowV2Effects :: "rt_env \<Rightarrow> clock \<Rightarrow> (nat \<Rightarrow> gerr option) \<Rightarrow> string \<Rightarrow> store \<Rightarrow> gerr option \<times> store" where
  "drainWorkflowV2Effects env cl cancelled worker s = drainEffects env cl cancelled worker 100 s"

section \<open>Executing a claimed effect\<close>

lemma ClaimEffect_claims:
  assumes "ClaimEffect env now worker lease s = Inr (Some c, s1)" and "lease_inv s"
  obtains u t e a where "expireEffectLeases now s = Inr (u, t)" and "lease_inv t" and "nextEffect now t = Some e"
    and "db_effects s1 = sql_update (claimMatches now e) (leaseEffect now (trimSpace worker) lease) (db_effects t)"
    and "db_effect_attempts s1 = db_effect_attempts t @ [a]" and "ea_ID a = cm_AttemptID c"
    and "ea_EffectID a = ef_ID e" and "ea_Status a = EffectRunning"
    and "fx_ID (cm_Effect c) = ef_ID e" and "fx_AttemptCount (cm_Effect c) = ef_AttemptCount e + 1"
    and "fx_Kind (cm_Effect c) = ef_Kind e" and "trimSpace worker \<noteq> []"
proof -
  let ?w = "trimSpace worker"
  obtain oc t0 where run: "claimNext env now ?w lease s = Inr (oc, t0)" and w: "?w \<noteq> []"
    and oc: "oc = Commit (Some c) \<and> s1 = t0 \<or> oc = Rollback (Some c)"
    using assms(1) unfolding ClaimEffect_def by (auto simp: tx_ok)
  obtain u t where ex: "expireEffectLeases now s = Inr (u, t)"
    and rest: "(case nextEffect now t of None \<Rightarrow> returnT (Commit None) | Some e \<Rightarrow> takeLease env now ?w lease e) t =
      Inr (oc, t0)"
    using run unfolding claimNext_def by (auto simp: tx_iffs(3,4,6))
  have t: "lease_inv t" using movesD [OF expire_lease_inv ex] assms(2) by blast
  obtain e where e: "nextEffect now t = Some e" and take: "takeLease env now ?w lease e t = Inr (oc, t0)"
    using rest oc by (cases "nextEffect now t") (auto simp: tx_iffs(1))
  obtain r where r: "oc = Commit r" using takeLease_commits [OF t e take] by blast
  with oc have r: "oc = Commit (Some c)" "s1 = t0" by auto
  obtain a where "db_effects s1 = sql_update (claimMatches now e) (leaseEffect now ?w lease) (db_effects t)"
    and "db_effect_attempts s1 = db_effect_attempts t @ [a]" and "ea_EffectID a = ef_ID e" "ea_Status a = EffectRunning"
    and "\<exists>payload. effectPayload e = Inr payload \<and> Some c = Some (claimOf now ?w lease e payload (ea_ID a))"
    using take [unfolded r(1), folded r(2)] by (rule takeLease_ok)
  then show thesis using that [OF ex t e] w by (auto simp: claimOf_def)
qed

text \<open>What a claim leaves behind: the effect is leased to the worker, and the attempt of the claim runs.\<close>

definition leasedFor :: "effect_claim \<Rightarrow> string \<Rightarrow> int \<Rightarrow> store \<Rightarrow> bool" where
  "leasedFor c worker expires s \<longleftrightarrow> lease_inv s \<and>
     (\<exists>e \<in> set (db_effects s). ef_ID e = fx_ID (cm_Effect c) \<and> ef_Status e = EffectRunning \<and> ef_LeaseOwner e = worker \<and>
        ef_LeaseExpiresAt e = unixMilli expires \<and> ef_AttemptCount e = fx_AttemptCount (cm_Effect c)) \<and>
     (\<exists>a \<in> set (db_effect_attempts s). ea_ID a = cm_AttemptID c \<and> ea_EffectID a = fx_ID (cm_Effect c) \<and>
        ea_Status a = EffectRunning)"

lemma claim_leases:
  assumes "ClaimEffect env now worker lease s = Inr (Some c, s1)" and "lease_inv s"
  shows "leasedFor c (trimSpace worker) (now + lease) s1"
proof -
  from assms obtain u t e a where t: "lease_inv t" and e: "nextEffect now t = Some e"
    and s1: "db_effects s1 = sql_update (claimMatches now e) (leaseEffect now (trimSpace worker) lease) (db_effects t)"
      "db_effect_attempts s1 = db_effect_attempts t @ [a]"
    and a: "ea_ID a = cm_AttemptID c" "ea_EffectID a = ef_ID e" "ea_Status a = EffectRunning"
    and c: "fx_ID (cm_Effect c) = ef_ID e" "fx_AttemptCount (cm_Effect c) = ef_AttemptCount e + 1"
    by (rule ClaimEffect_claims)
  note n = nextEffect_Some [OF e]
  have "claimMatches now e e" using n(2) by (simp add: claimMatches_def claimable_def)
  then have "leaseEffect now (trimSpace worker) lease e \<in> set (db_effects s1)"
    using n(1) unfolding s1 set_sql_update by (auto intro!: image_eqI [of _ _ e])
  moreover have "lease_inv s1" using movesD [OF ClaimEffect_lease_inv assms(1)] assms(2) by blast
  ultimately show ?thesis using a c s1 unfolding leasedFor_def
    by (auto simp: leaseEffect_def intro!: bexI [of _ "leaseEffect now (trimSpace worker) lease e"])
qed

definition settledAs :: "effect_claim \<Rightarrow> effect_status set \<Rightarrow> store \<Rightarrow> bool" where
  "settledAs c sts s \<longleftrightarrow> (\<exists>e \<in> set (db_effects s). ef_ID e = fx_ID (cm_Effect c) \<and>
     ef_AttemptCount e = fx_AttemptCount (cm_Effect c) \<and> ef_Status e \<in> sts)"

lemma find_exists: "x \<in> set xs \<Longrightarrow> P x \<Longrightarrow> \<exists>y. find P xs = Some y"
  by (cases "find P xs") (auto simp: find_None_iff)

lemma complete_settles:
  assumes "leasedFor c worker expires s" and "\<not> blank (fx_ID (cm_Effect c))" and "\<not> blank (cm_AttemptID c)"
    and "\<not> blank worker" and "now \<le> expires" and "status \<notin> {EffectPlanned, EffectRunning}" and "0 \<le> retryAfter"
  shows "\<exists>s'. CompleteEffect now (failRequest worker c status reason retryAfter) s = Inr ((), s') \<and>
    settledAs c {status} s' \<and> db_effect_attempts s' = map (\<lambda>a. if ea_ID a = cm_AttemptID c then
      closeAttempt now (failRequest worker c status reason retryAfter) a else a) (db_effect_attempts s)"
proof -
  let ?req = "failRequest worker c status reason retryAfter"
  note req [simp] = failRequest_def
  from assms(1) obtain e a where inv: "lease_inv s" and e: "e \<in> set (db_effects s)" "ef_ID e = fx_ID (cm_Effect c)"
      "ef_Status e = EffectRunning" "ef_LeaseOwner e = worker" "ef_LeaseExpiresAt e = unixMilli expires"
      "ef_AttemptCount e = fx_AttemptCount (cm_Effect c)"
    and a: "a \<in> set (db_effect_attempts s)" "ea_ID a = cm_AttemptID c" "ea_EffectID a = fx_ID (cm_Effect c)"
      "ea_Status a = EffectRunning"
    unfolding leasedFor_def by blast
  have "unixMilli now \<le> unixMilli expires" using assms(5) by (simp add: unixMilli_def zdiv_mono1)
  then have "list_ex (\<lambda>e. ef_ID e = ea_EffectID a \<and> ef_Status e = EffectRunning \<and> ef_LeaseOwner e = ce_Worker ?req \<and>
      unixMilli now \<le> ef_LeaseExpiresAt e) (db_effects s)"
    unfolding list_ex_iff using a(3) e by (intro bexI [of _ e]) simp_all
  then obtain b where b: "find (\<lambda>a. ea_ID a = ce_AttemptID ?req \<and> ea_EffectID a = ce_EffectID ?req \<and>
       ea_Status a = EffectRunning \<and>
       list_ex (\<lambda>e. ef_ID e = ea_EffectID a \<and> ef_Status e = EffectRunning \<and> ef_LeaseOwner e = ce_Worker ?req \<and>
         unixMilli now \<le> ef_LeaseExpiresAt e) (db_effects s)) (db_effect_attempts s) = Some b"
    using find_exists [OF a(1), of "\<lambda>a. ea_ID a = ce_AttemptID ?req \<and> ea_EffectID a = ce_EffectID ?req \<and>
       ea_Status a = EffectRunning \<and>
       list_ex (\<lambda>e. ef_ID e = ea_EffectID a \<and> ef_Status e = EffectRunning \<and> ef_LeaseOwner e = ce_Worker ?req \<and>
         unixMilli now \<le> ef_LeaseExpiresAt e) (db_effects s)"] a(2-4) by auto
  then have n: "leasedAttempt now ?req s = Some (ea_Number b)" by (simp add: leasedAttempt_def)
  have ids: "inj_on ea_ID (set (db_effect_attempts s))" using inv by (simp add: lease_inv_def distinct_map)
  have same: "x = a" if "x \<in> set (db_effect_attempts s)" "ea_ID x = cm_AttemptID c" for x
    using inj_onD [OF ids, of x a] that a by simp
  then have "b = a" using find_Some_in [OF b] by simp
  have held: "heldBy ?req x \<longleftrightarrow> x = e" if "x \<in> set (db_effects s)" for x
    using lease_inv_unique [OF inv that e(1)] e by (auto simp: heldBy_def)
  have "filter (heldBy ?req) (db_effects s) = filter (\<lambda>x. x = e) (db_effects s)" using held by (rule filter_cong [OF refl])
  moreover have "distinct (db_effects s)" using inv by (simp add: lease_inv_def distinct_map)
  ultimately have one: "sql_count (heldBy ?req) (db_effects s) = 1" using e(1) by (simp add: sql_count_def filter_eq_single)
  let ?s' = "s\<lparr>db_effect_attempts := sql_update (attemptNamed ?req (ea_Number b)) (closeAttempt now ?req) (db_effect_attempts s),
    db_effects := sql_update (heldBy ?req) (closeEffect now ?req) (db_effects s)\<rparr>"
  have "CompleteEffect now ?req s = Inr ((), ?s')"
    unfolding CompleteEffect_def using assms(2-4,6,7) n one
    by (simp add: tx_iffs whenT_def returnT_def thenT_def bindT_def scanT_def updateT_def)
  moreover have "settledAs c {status} ?s'"
  proof -
    have "closeEffect now ?req e \<in> set (db_effects ?s')"
      using e(1) held [OF e(1)] by (auto simp: set_sql_update intro: image_eqI [of _ _ e])
    then show ?thesis unfolding settledAs_def
      by (rule bexI [rotated]) (use e in \<open>simp add: closeEffect_def finishEffect_def\<close>)
  qed
  moreover have "db_effect_attempts ?s' = map (\<lambda>a. if ea_ID a = cm_AttemptID c then closeAttempt now ?req a else a) (db_effect_attempts s)"
  proof -
    have "attemptNamed ?req (ea_Number b) x \<longleftrightarrow> ea_ID x = cm_AttemptID c" if "x \<in> set (db_effect_attempts s)" for x
    proof (cases "ea_ID x = cm_AttemptID c")
      case True
      then show ?thesis using same [OF that True] a(3) \<open>b = a\<close> by (simp add: attemptNamed_def)
    next
      case False
      then show ?thesis by (simp add: attemptNamed_def)
    qed
    then have "sql_update (attemptNamed ?req (ea_Number b)) (closeAttempt now ?req) (db_effect_attempts s) =
        map (\<lambda>a. if ea_ID a = cm_AttemptID c then closeAttempt now ?req a else a) (db_effect_attempts s)"
      unfolding sql_update_def by (intro map_cong [OF refl]) (simp only:)
    then show ?thesis by simp
  qed
  ultimately show ?thesis by blast
qed

lemma materialise_settles:
  assumes "leasedFor c worker expires s" and t: "db_effects t = db_effects s \<and> db_effect_attempts t = db_effect_attempts s"
    and run: "succeedLeased now (fx_ID (cm_Effect c)) (cm_AttemptID c) worker aid receipt err t = Inr (u, s')"
  shows "settledAs c {EffectSucceeded} s' \<and> length (db_effect_attempts s') = length (db_effect_attempts s)"
proof -
  from assms(1) obtain e where e: "e \<in> set (db_effects s)" "ef_ID e = fx_ID (cm_Effect c)"
      "ef_Status e = EffectRunning" "ef_LeaseOwner e = worker" "ef_AttemptCount e = fx_AttemptCount (cm_Effect c)"
    unfolding leasedFor_def by blast
  have "db_effects s' = sql_update (\<lambda>e. ef_ID e = fx_ID (cm_Effect c) \<and> ef_Status e = EffectRunning \<and> ef_LeaseOwner e = worker)
      (succeedEffect now receipt) (db_effects s)" and "length (db_effect_attempts s') = length (db_effect_attempts s)"
    using run t by (auto simp: succeedLeased_def tx_ok sql_update_def)
  then show ?thesis using e unfolding settledAs_def
    by (auto simp: set_sql_update succeedEffect_def intro!: bexI [of _ "succeedEffect now receipt e"] image_eqI [of _ _ e])
qed

lemma assignment_settles:
  assumes "leasedFor c worker expires s"
    and "\<And>l. moves (\<lambda>s s'. db_effects s' = db_effects s \<and> db_effect_attempts s' = db_effect_attempts s) (prepare l)"
    and "thenT (whenT b err) (bindT (scanT err' (findLeased now (fx_ID (cm_Effect c)) (cm_AttemptID c) worker)) (\<lambda>l.
      bindT (prepare l) (\<lambda>p. thenT (succeedLeased now (fx_ID (cm_Effect c)) (cm_AttemptID c) worker (aid l) (receipt p) msg)
        (returnT (result p))))) s = Inr (x, s')"
  shows "settledAs c {EffectSucceeded} s' \<and> length (db_effect_attempts s') = length (db_effect_attempts s)"
proof -
  from assms(3) obtain l p t u where prep: "prepare l s = Inr (p, t)"
    and fin: "succeedLeased now (fx_ID (cm_Effect c)) (cm_AttemptID c) worker (aid l) (receipt p) msg t = Inr (u, s')"
    unfolding tx_iffs(1,3,4,8,9) by blast
  from materialise_settles [OF assms(1) movesD [OF assms(2) prep] fin] show ?thesis .
qed

lemma execute_settles:
  assumes "leasedFor c worker expires s" and "\<not> blank (fx_ID (cm_Effect c))" and "\<not> blank (cm_AttemptID c)"
    and "\<not> blank worker" and "later \<le> expires"
  shows "\<exists>s'. executeWorkflowV2Effect env now later worker c s = Inr ((), s') \<and>
    settledAs c {EffectSucceeded, EffectRetryableFailed, EffectPermanentFailed} s' \<and>
    length (db_effect_attempts s') = length (db_effect_attempts s)"
proof -
  have either: "\<exists>s'. orElse m (\<lambda>err. CompleteEffect later (failRequest worker c status (errText err) d)) s = Inr ((), s') \<and>
      settledAs c {EffectSucceeded, EffectRetryableFailed, EffectPermanentFailed} s' \<and>
      length (db_effect_attempts s') = length (db_effect_attempts s)"
    if "status \<in> {EffectRetryableFailed, EffectPermanentFailed}" "0 \<le> d"
      "\<And>x s'. m s = Inr (x, s') \<Longrightarrow> settledAs c {EffectSucceeded} s' \<and> length (db_effect_attempts s') = length (db_effect_attempts s)"
    for m :: "'b tx" and status d
  proof (cases "m s")
    case (Inl err)
    have "status \<notin> {EffectPlanned, EffectRunning}" using that(1) by auto
    from complete_settles [OF assms this that(2), of "errText err"] Inl that(1) show ?thesis
      by (auto simp: orElse_def settledAs_def)
  next
    case (Inr r)
    then show ?thesis using that(3) [of "fst r" "snd r"] by (auto simp: orElse_def settledAs_def split: prod.split)
  qed
  have agent: "settledAs c {EffectSucceeded} s' \<and> length (db_effect_attempts s') = length (db_effect_attempts s)"
    if "MaterializeAgentTask env now (fx_ID (cm_Effect c)) (cm_AttemptID c) worker h d s = Inr (x, s')" for h d x s'
    using that unfolding MaterializeAgentTask_def case_prod_beta
    by (rule assignment_settles [OF assms(1), rotated]) (rule kept.moves_assignAgentTask)
  have command: "settledAs c {EffectSucceeded} s' \<and> length (db_effect_attempts s') = length (db_effect_attempts s)"
    if "MaterializeCommandTask env now (fx_ID (cm_Effect c)) (cm_AttemptID c) worker s = Inr (x, s')" for x s'
    using that unfolding MaterializeCommandTask_def
    by (rule assignment_settles [OF assms(1), rotated]) (rule kept.moves_assignCommandTask)
  have other: "\<exists>s'. CompleteEffect later (failRequest worker c EffectPermanentFailed reason 0) s = Inr ((), s') \<and>
      settledAs c {EffectSucceeded, EffectRetryableFailed, EffectPermanentFailed} s' \<and>
      length (db_effect_attempts s') = length (db_effect_attempts s)" for reason
    using complete_settles [OF assms, of EffectPermanentFailed 0 reason] by (auto simp: settledAs_def)
  show ?thesis
    unfolding executeWorkflowV2Effect_def Let_def using agent command
    by (auto intro!: either other simp: effectRetry_def)
qed

lemma execute_lease_inv: "moves (\<lambda>s s'. lease_inv s \<longrightarrow> lease_inv s') (executeWorkflowV2Effect env now later worker c)"
proof -
  have either: "moves (\<lambda>s s'. lease_inv s \<longrightarrow> lease_inv s') (orElse m h)"
    if "moves (\<lambda>s s'. lease_inv s \<longrightarrow> lease_inv s') (void m)" "\<And>e. moves (\<lambda>s s'. lease_inv s \<longrightarrow> lease_inv s') (h e)"
    for m :: "'b tx" and h
    unfolding moves_def orElse_def
  proof (intro allI impI)
    fix s u s'
    assume run: "(case m s of Inl e \<Rightarrow> h e s | Inr (x, s') \<Rightarrow> Inr ((), s')) = Inr (u, s')" and inv: "lease_inv s"
    show "lease_inv s'"
    proof (cases "m s")
      case (Inl e)
      then show ?thesis using run movesD [OF that(2)] inv by simp
    next
      case (Inr r)
      then have "void m s = Inr ((), s')" using run by (auto simp: void_def tx_iffs split: prod.splits)
      then show ?thesis using movesD [OF that(1)] inv by blast
    qed
  qed
  have "moves (\<lambda>s s'. lease_inv s \<longrightarrow> lease_inv s') (void (MaterializeAgentTask env now e a w h d))" for e a w h d
    using leases.moves_perform [of env now "OpAgentTask e a w h d"] by simp
  moreover have "moves (\<lambda>s s'. lease_inv s \<longrightarrow> lease_inv s') (void (MaterializeCommandTask env now e a w))" for e a w
    using leases.moves_perform [of env now "OpCommandTask e a w"] by simp
  ultimately show ?thesis
    unfolding executeWorkflowV2Effect_def Let_def
    by (intro leases.moves_cases either CompleteEffect_lease_inv)
qed

lemma succeed_length:
  assumes "\<And>l. moves (\<lambda>s s'. db_effects s' = db_effects s \<and> db_effect_attempts s' = db_effect_attempts s) (prepare l)"
    and "thenT (whenT b err) (bindT (scanT err' (findLeased now e a worker)) (\<lambda>l.
      bindT (prepare l) (\<lambda>p. thenT (succeedLeased now e a worker (aid l) (receipt p) msg) (returnT (result p))))) s = Inr (x, s')"
  shows "length (db_effect_attempts s') = length (db_effect_attempts s)"
proof -
  from assms(2) obtain l p t u where "prepare l s = Inr (p, t)"
    and "succeedLeased now e a worker (aid l) (receipt p) msg t = Inr (u, s')"
    unfolding tx_iffs(1,3,4,8,9) by blast
  with movesD [OF assms(1), of l s p t] show ?thesis by (auto simp: succeedLeased_def tx_ok sql_update_def)
qed

lemma execute_length:
  assumes "executeWorkflowV2Effect env now later worker c s = Inr (u, s')"
  shows "length (db_effect_attempts s') = length (db_effect_attempts s)"
proof -
  have complete: "length (db_effect_attempts s') = length (db_effect_attempts s)" if "CompleteEffect later req s = Inr (x, s')" for req x
    using that by (rule CompleteEffect_ok) (simp add: sql_update_def)
  have agent: "length (db_effect_attempts s') = length (db_effect_attempts s)"
    if "MaterializeAgentTask env now e a w h d s = Inr (x, s')" for e a w h d x
    using that unfolding MaterializeAgentTask_def case_prod_beta by (rule succeed_length [rotated]) (rule kept.moves_assignAgentTask)
  have command: "length (db_effect_attempts s') = length (db_effect_attempts s)"
    if "MaterializeCommandTask env now e a w s = Inr (x, s')" for e a w x
    using that unfolding MaterializeCommandTask_def by (rule succeed_length [rotated]) (rule kept.moves_assignCommandTask)
  from assms show ?thesis
    unfolding executeWorkflowV2Effect_def Let_def orElse_def
    by (auto split: if_splits sum.splits prod.splits dest: complete agent command)
qed

lemma claim_length:
  assumes "ClaimEffect env now worker lease s = Inr (Some c, s1)" and "lease_inv s"
  shows "length (db_effect_attempts s1) = length (db_effect_attempts s) + 1"
proof -
  from assms obtain u t a where ex: "expireEffectLeases now s = Inr (u, t)" and s1: "db_effect_attempts s1 = db_effect_attempts t @ [a]"
    by (rule ClaimEffect_claims)
  from ex have "length (db_effect_attempts t) = length (db_effect_attempts s)"
    by (auto simp: expireEffectLeases_def tx_ok sql_update_def)
  with s1 show ?thesis by simp
qed

section \<open>What the worker does with a claim\<close>

text \<open>C30: the worker never leaves a claimed effect hanging: carrying it out within the lease never fails, and afterwards the
  effect has succeeded, waits for its next try, or has failed for good; the attempt it counts is the claimed one.\<close>

theorem claimed_effect_is_settled:
  assumes "ClaimEffect env now worker effectLease s = Inr (Some c, s1)" and "lease_inv s"
    and "trimSpace worker = worker" and "\<not> blank (fx_ID (cm_Effect c))" and "\<not> blank (cm_AttemptID c)"
    and "later \<le> now + effectLease"
  shows "\<exists>s2. executeWorkflowV2Effect env start later worker c s1 = Inr ((), s2) \<and>
    settledAs c {EffectSucceeded, EffectRetryableFailed, EffectPermanentFailed} s2 \<and> lease_inv s2"
proof -
  have w: "trimSpace worker \<noteq> []" using assms(1,2) by (rule ClaimEffect_claims)
  have l: "leasedFor c worker (now + effectLease) s1" using claim_leases [OF assms(1,2)] assms(3) by simp
  from execute_settles [OF l assms(4,5) w assms(6)] obtain s2 where
    s2: "executeWorkflowV2Effect env start later worker c s1 = Inr ((), s2)"
    "settledAs c {EffectSucceeded, EffectRetryableFailed, EffectPermanentFailed} s2" by blast
  moreover have "lease_inv s2" using movesD [OF execute_lease_inv s2(1)] l by (simp add: leasedFor_def)
  ultimately show ?thesis by blast
qed

theorem claimed_effect_is_settled_witness:
  "\<exists>c s1 s2. ClaimEffect demoRt 1000000 ''w'' effectLease effectStore = Inr (Some c, s1) \<and>
    executeWorkflowV2Effect demoRt 2000000 3000000 ''w'' c s1 = Inr ((), s2) \<and>
    settledAs c {EffectSucceeded, EffectRetryableFailed, EffectPermanentFailed} s2"
proof -
  have "afterTx (ClaimEffect demoRt 1000000 ''w'' effectLease effectStore) (\<lambda>r s1. case r of None \<Rightarrow> False | Some c \<Rightarrow>
      \<not> blank (fx_ID (cm_Effect c)) \<and> \<not> blank (cm_AttemptID c))" by code_simp
  then obtain r s1 where run: "ClaimEffect demoRt 1000000 ''w'' effectLease effectStore = Inr (r, s1)"
    and r: "case r of None \<Rightarrow> False | Some c \<Rightarrow> \<not> blank (fx_ID (cm_Effect c)) \<and> \<not> blank (cm_AttemptID c)" by (rule afterTxE)
  from r obtain c where c: "r = Some c" "\<not> blank (fx_ID (cm_Effect c))" "\<not> blank (cm_AttemptID c)" by (cases r) auto
  have w: "trimSpace ''w'' = ''w''" by code_simp
  have t: "3000000 \<le> 1000000 + effectLease" by (simp add: effectLease_def)
  from claimed_effect_is_settled [OF run [unfolded c(1)] lease_inv_effectStore w c(2,3) t, of 2000000] run c(1)
  show ?thesis by auto
qed

text \<open>
  Validation against a workspace authorises \<^verbatim>\<open>ci.trigger\<close>, \<^verbatim>\<open>ci.retry\<close>, \<^verbatim>\<open>ci.cancel\<close> and \<^verbatim>\<open>issue.comment\<close> effects, but the worker has
  no executor for them: they fail for good, and neither the run nor its journal is told.
\<close>

lemma authorised_effects_never_run:
  assumes "leasedFor c worker expires s" and "fx_Kind (cm_Effect c) \<notin> {''agent.task'', ''exec.run'', ''dependency.update''}"
    and "\<not> blank (fx_ID (cm_Effect c))" and "\<not> blank (cm_AttemptID c)" and "\<not> blank worker" and "later \<le> expires"
  shows "\<exists>s'. executeWorkflowV2Effect env now later worker c s = Inr ((), s') \<and> settledAs c {EffectPermanentFailed} s' \<and>
    db_runs s' = db_runs s \<and> db_events s' = db_events s"
proof -
  let ?reason = "''hub has no workflow v2 executor for effect kind '' @ goQuote (fx_Kind (cm_Effect c))"
  obtain s' where s': "CompleteEffect later (failRequest worker c EffectPermanentFailed ?reason 0) s = Inr ((), s')"
    "settledAs c {EffectPermanentFailed} s'"
    using complete_settles [OF assms(1,3-6), of EffectPermanentFailed 0 ?reason] by auto
  have "s'\<lparr>db_effect_attempts := db_effect_attempts s, db_effects := db_effects s\<rparr> = s" using s'(1) by (rule CompleteEffect_ok)
  then have "db_runs s' = db_runs s \<and> db_events s' = db_events s"
    by (metis (no_types, lifting) store.select_convs(1,3) store.surjective store.update_convs(7,8))
  then show ?thesis using s' assms(2) by (auto simp: executeWorkflowV2Effect_def Let_def)
qed

section \<open>A poll\<close>

lemma ClaimEffect_idle:
  assumes "ClaimEffect env now worker lease s = Inr (None, s1)" and "lease_inv s"
  shows "length (db_effect_attempts s1) = length (db_effect_attempts s)"
proof -
  let ?w = "trimSpace worker"
  obtain oc t0 where run: "claimNext env now ?w lease s = Inr (oc, t0)" and oc: "oc = Commit None \<and> s1 = t0 \<or> oc = Rollback None \<and> s1 = s"
    using assms(1) unfolding ClaimEffect_def by (auto simp: tx_ok)
  show ?thesis
  proof (cases "oc = Commit None")
    case True
    then show ?thesis using run oc
      by (auto simp: claimNext_def takeLease_def expireEffectLeases_def tx_ok sql_update_def split: option.splits if_splits)
  next
    case False
    then show ?thesis using oc by auto
  qed
qed

lemma drainEffects_bounded:
  assumes "drainEffects env cl (\<lambda>_. None) worker n s = (None, s')" and "lease_inv s"
  shows "\<exists>k \<le> n. length (db_effect_attempts s') = length (db_effect_attempts s) + k \<and>
    (k < n \<longrightarrow> (\<exists>i < n. \<forall>e \<in> set (db_effects s'). \<not> claimable (claimAt cl i) (db_runs s') e))"
  using assms
proof (induction n arbitrary: s)
  case (Suc n)
  let ?claim = "ClaimEffect env (claimAt cl n) worker effectLease s"
  from Suc.prems(1) obtain r s1 where r: "?claim = Inr (r, s1)" by (cases ?claim) auto
  show ?case
  proof (cases r)
    case None
    then have "s' = s1" using Suc.prems(1) r by simp
    moreover have "\<forall>e \<in> set (db_effects s1). \<not> claimable (claimAt cl n) (db_runs s1) e"
      using claim_outcome [OF r Suc.prems(2)] None by simp
    ultimately show ?thesis using ClaimEffect_idle [OF r [unfolded None] Suc.prems(2)] by (intro exI [of _ 0]) auto
  next
    case (Some c)
    let ?exec = "executeWorkflowV2Effect env (executeAt cl n) (completeAt cl n) worker c s1"
    from Suc.prems(1) r Some obtain u s2 where s2: "?exec = Inr (u, s2)"
      and rest: "drainEffects env cl (\<lambda>_. None) worker n s2 = (None, s')" by (cases ?exec) auto
    have inv: "lease_inv s1" using movesD [OF ClaimEffect_lease_inv r] Suc.prems(2) by blast
    have "lease_inv s2" using movesD [OF execute_lease_inv s2] inv by blast
    from Suc.IH [OF rest this] obtain k where k: "k \<le> n" "length (db_effect_attempts s') = length (db_effect_attempts s2) + k"
      "k < n \<longrightarrow> (\<exists>i < n. \<forall>e \<in> set (db_effects s'). \<not> claimable (claimAt cl i) (db_runs s') e)" by blast
    have "length (db_effect_attempts s2) = length (db_effect_attempts s1)" using execute_length [OF s2] .
    moreover have "length (db_effect_attempts s1) = length (db_effect_attempts s) + 1"
      using claim_length [OF r [unfolded Some] Suc.prems(2)] .
    ultimately show ?thesis using k by (intro exI [of _ "Suc k"]) (auto intro: less_SucI)
  qed
qed simp

text \<open>C31: a poll ends after at most 100 attempts, and one that ends earlier without an error has left no effect behind that
  was due when it looked last.\<close>

theorem poll_bounded_and_exhaustive:
  assumes "drainWorkflowV2Effects env cl (\<lambda>_. None) worker s = (None, s')" and "lease_inv s"
  shows "length (db_effect_attempts s') \<le> length (db_effect_attempts s) + 100 \<and>
    (length (db_effect_attempts s') < length (db_effect_attempts s) + 100 \<longrightarrow>
      (\<exists>i < 100. \<forall>e \<in> set (db_effects s'). \<not> claimable (claimAt cl i) (db_runs s') e))"
  using drainEffects_bounded [OF assms(1) [unfolded drainWorkflowV2Effects_def] assms(2)] by auto

definition demoClock :: clock where
  "demoClock = \<lparr>claimAt = (\<lambda>n. 1000000 * int (101 - n)), executeAt = (\<lambda>n. 1000000 * int (101 - n)),
     completeAt = (\<lambda>n. 1000000 * int (101 - n))\<rparr>"

theorem poll_bounded_and_exhaustive_witness:
  "\<exists>s'. drainWorkflowV2Effects demoRt demoClock (\<lambda>_. None) ''w'' effectStore = (None, s') \<and>
    length (db_effect_attempts s') = 2 \<and>
    (\<exists>i < 100. \<forall>e \<in> set (db_effects s'). \<not> claimable (claimAt demoClock i) (db_runs s') e)"
proof -
  have "(case drainWorkflowV2Effects demoRt demoClock (\<lambda>_. None) ''w'' effectStore of (e, s') \<Rightarrow>
      (case e of None \<Rightarrow> True | Some x \<Rightarrow> False) \<and> length (db_effect_attempts s') = 2) \<and> length (db_effect_attempts effectStore) = 0" by code_simp
  then obtain s' where run: "drainWorkflowV2Effects demoRt demoClock (\<lambda>_. None) ''w'' effectStore = (None, s')"
    and n: "length (db_effect_attempts s') = 2" "length (db_effect_attempts effectStore) = 0"
    by (auto split: prod.splits option.splits)
  from poll_bounded_and_exhaustive [OF run lease_inv_effectStore] n run show ?thesis by auto
qed

end
