(* ===== verification/Bridge.thy ===== *)
theory Bridge
  imports Tasks GoText
begin

text \<open>
  The claw's end of the control channel: \<^verbatim>\<open>cmd/claw-bridge/control_v2.go\<close> and \<^verbatim>\<open>cmd/claw-bridge/exec_tasks.go\<close>.

  The bridge keeps an inbox, an outbox and the last workflow snapshot in a database that survives a restart, and in memory
  the binding to a run attempt, the snapshot, the cancellable tasks and the goroutines that carry them out.  \<open>bridge\<close> is
  all of it.  Stored JSON is the value it encodes; the database is taken not to fail.  A \<^verbatim>\<open>context.CancelFunc\<close> is a
  handle, calling it puts the handle into \<open>bg_cancelled\<close>.  A goroutine is a \<open>proc\<close>; its code between two blocking
  calls is one definition.  \<open>bg_turns\<close> and \<open>bg_commands\<close> record the calls of the agent gateway and of the shell.
\<close>

section \<open>State\<close>

record claw_binding =
  wb_RunID :: string
  wb_AttemptID :: string

definition equalBinding :: "claw_binding \<Rightarrow> claw_binding \<Rightarrow> bool" where
  "equalBinding b other \<longleftrightarrow> wb_RunID b = wb_RunID other \<and> wb_AttemptID b = wb_AttemptID other"

record workflow_snapshot =
  ws_RunID :: string
  ws_AttemptID :: string
  ws_State :: string
  ws_DisplayPhase :: string
  ws_StateVersion :: nat
  ws_CurrentTask :: "agent_task option"
  ws_AllowedActions :: "string list"
  ws_RequiredArtifacts :: "string list"
  ws_ContextBundle :: gval
  ws_Delivery :: gval

datatype in_status = InAccepted | InRunning | InCompleted | InFailed

datatype sent_status = BrPending | BrSent | BrAcknowledged

record inbox_row =
  bi_MessageID :: string
  bi_RunID :: string
  bi_AttemptID :: string
  bi_Kind :: string
  bi_Envelope :: envelope
  bi_Status :: in_status
  bi_CreatedAt :: int
  bi_UpdatedAt :: int

record sent_row =
  bo_MessageID :: string
  bo_RunID :: string
  bo_AttemptID :: string
  bo_Kind :: string
  bo_Envelope :: envelope
  bo_Status :: sent_status
  bo_NextAttemptAt :: int
  bo_Receipt :: "control_receipt option"
  bo_CreatedAt :: int
  bo_UpdatedAt :: int

text \<open>A task being carried out: the assignment it came with, its cancellation handle, and how far it is.\<close>

datatype work = AgentWork agent_task | CommandWork string string "gval option"

datatype phase = Launched | Working

record proc =
  pr_Binding :: claw_binding
  pr_Message :: string
  pr_Work :: work
  pr_Handle :: nat
  pr_Deadline :: "int option"
  pr_Phase :: phase

record bridge =
  bg_inbox :: "inbox_row list"
  bg_outbox :: "sent_row list"
  bg_snapshots :: "(claw_binding \<times> workflow_snapshot) list"
  bg_binding :: "claw_binding option"
  bg_connected :: bool
  bg_snapshot :: "workflow_snapshot option"
  bg_gatewayReady :: bool
  bg_activeTasks :: "(string \<times> nat) list"
  bg_recovered :: "claw_binding list"
  bg_cancelled :: "nat list"
  bg_handles :: nat
  bg_uuids :: nat
  bg_procs :: "proc list"
  bg_turns :: "(string \<times> string) list"
  bg_commands :: "(string \<times> string) list"

definition newBridge :: bridge where
  "newBridge =
     \<lparr>bg_inbox = [], bg_outbox = [], bg_snapshots = [], bg_binding = None, bg_connected = False, bg_snapshot = None,
      bg_gatewayReady = False, bg_activeTasks = [], bg_recovered = [], bg_cancelled = [], bg_handles = 0, bg_uuids = 0,
      bg_procs = [], bg_turns = [], bg_commands = []\<rparr>"

text \<open>
  What the bridge calls outside the repository: UUIDs, SHA-256 in hexadecimal, \<^verbatim>\<open>time.ParseDuration\<close>,
  whether the workspace has a \<^verbatim>\<open>flake.nix\<close>, the decoding of a JSON object, and the Python script of dependency updates before and after its configuration.
\<close>

record bridge_env =
  bridgeUUID :: "nat \<Rightarrow> string"
  digestHex :: "string \<Rightarrow> string"
  parseDuration :: "string \<Rightarrow> int option"
  hasFlake :: bool
  decodeObject :: "string \<Rightarrow> gmap option"
  dependencyScript :: "string \<times> string"

section \<open>The durable store\<close>

definition bindingOf :: "workflow_snapshot \<Rightarrow> claw_binding" where
  "bindingOf ws = \<lparr>wb_RunID = ws_RunID ws, wb_AttemptID = ws_AttemptID ws\<rparr>"

definition saveSnapshot :: "workflow_snapshot \<Rightarrow> bridge \<Rightarrow> bridge" where
  "saveSnapshot ws b = b\<lparr>bg_snapshots := AList.update (bindingOf ws) ws (bg_snapshots b)\<rparr>"

definition storedSnapshot :: "claw_binding \<Rightarrow> bridge \<Rightarrow> workflow_snapshot option" where
  "storedSnapshot bd b = map_of (bg_snapshots b) bd"

definition incomingRow :: "int \<Rightarrow> envelope \<Rightarrow> inbox_row" where
  "incomingRow now en =
     \<lparr>bi_MessageID = en_MessageID en, bi_RunID = en_RunID en, bi_AttemptID = en_AttemptID en, bi_Kind = en_Kind en,
      bi_Envelope = en, bi_Status = InAccepted, bi_CreatedAt = unixMilli now, bi_UpdatedAt = unixMilli now\<rparr>"

definition recordIncoming :: "int \<Rightarrow> envelope \<Rightarrow> bridge \<Rightarrow> bool \<times> bridge" where
  "recordIncoming now en b =
     (if en_MessageID en \<in> bi_MessageID ` set (bg_inbox b) then (True, b)
      else (False, b\<lparr>bg_inbox := bg_inbox b @ [incomingRow now en]\<rparr>))"

definition setIncomingStatus :: "int \<Rightarrow> string \<Rightarrow> in_status \<Rightarrow> in_status \<Rightarrow> bridge \<Rightarrow> bool \<times> bridge" where
  "setIncomingStatus now messageID old new b =
     (let P = (\<lambda>r. bi_MessageID r = messageID \<and> bi_Status r = old) in
      (sql_count P (bg_inbox b) = 1,
       b\<lparr>bg_inbox := sql_update P (\<lambda>r. r\<lparr>bi_Status := new, bi_UpdatedAt := unixMilli now\<rparr>) (bg_inbox b)\<rparr>))"

definition incomingByStatus :: "claw_binding \<Rightarrow> in_status \<Rightarrow> bridge \<Rightarrow> envelope list" where
  "incomingByStatus bd status b =
     map bi_Envelope (sort_key (\<lambda>r. (bi_CreatedAt r, bi_MessageID r))
       (filter (\<lambda>r. bi_RunID r = wb_RunID bd \<and> bi_AttemptID r = wb_AttemptID bd \<and> bi_Status r = status) (bg_inbox b)))"

definition sentRow :: "int \<Rightarrow> envelope \<Rightarrow> sent_row" where
  "sentRow now en =
     \<lparr>bo_MessageID = en_MessageID en, bo_RunID = en_RunID en, bo_AttemptID = en_AttemptID en, bo_Kind = en_Kind en,
      bo_Envelope = en, bo_Status = BrPending, bo_NextAttemptAt = 0, bo_Receipt = None, bo_CreatedAt = unixMilli now,
      bo_UpdatedAt = unixMilli now\<rparr>"

definition enqueue :: "int \<Rightarrow> envelope \<Rightarrow> bridge \<Rightarrow> bridge" where
  "enqueue now en b =
     (if en_MessageID en \<in> bo_MessageID ` set (bg_outbox b) then b
      else b\<lparr>bg_outbox := bg_outbox b @ [sentRow now en]\<rparr>)"

definition unanswered :: "sent_row \<Rightarrow> bool" where
  "unanswered r \<longleftrightarrow> bo_Status r = BrPending \<or> bo_Status r = BrSent"

definition readyToSend :: "int \<Rightarrow> claw_binding \<Rightarrow> int \<Rightarrow> bridge \<Rightarrow> envelope list" where
  "readyToSend now bd limit b =
     (let n = (if limit \<le> 0 \<or> 100 < limit then 100 else limit) in
      map bo_Envelope (take (nat n) (sort_key (\<lambda>r. (bo_CreatedAt r, bo_MessageID r))
        (filter (\<lambda>r. bo_RunID r = wb_RunID bd \<and> bo_AttemptID r = wb_AttemptID bd \<and> unanswered r \<and>
           bo_NextAttemptAt r \<le> unixMilli now) (bg_outbox b)))))"

definition markSent :: "int \<Rightarrow> string \<Rightarrow> bridge \<Rightarrow> bridge" where
  "markSent now messageID b =
     b\<lparr>bg_outbox := sql_update (\<lambda>r. bo_MessageID r = messageID \<and> unanswered r)
       (\<lambda>r. r\<lparr>bo_Status := BrSent, bo_NextAttemptAt := unixMilli (now + 5000000000), bo_UpdatedAt := unixMilli now\<rparr>)
       (bg_outbox b)\<rparr>"

definition acknowledge :: "int \<Rightarrow> control_receipt \<Rightarrow> bridge \<Rightarrow> gerr + bridge" where
  "acknowledge now receipt b =
     (let P = (\<lambda>r. bo_MessageID r = cr_MessageID receipt \<and> unanswered r) in
      bindE (whenE (sql_count P (bg_outbox b) \<noteq> 1) (Errf ''control receipt does not match a pending bridge message'' [])) (\<lambda>_.
      Inr (b\<lparr>bg_outbox := sql_update P
        (\<lambda>r. r\<lparr>bo_Status := BrAcknowledged, bo_Receipt := Some receipt, bo_UpdatedAt := unixMilli now\<rparr>) (bg_outbox b)\<rparr>)))"

definition storedReceipt :: "string \<Rightarrow> bridge \<Rightarrow> control_receipt option" where
  "storedReceipt messageID b =
     (case find (\<lambda>r. bo_MessageID r = messageID \<and> bo_Status r = BrAcknowledged) (bg_outbox b) of
        None \<Rightarrow> None | Some r \<Rightarrow> bo_Receipt r)"

section \<open>The supervisor\<close>

definition bindingIs :: "claw_binding \<Rightarrow> bridge \<Rightarrow> bool" where
  "bindingIs bd b \<longleftrightarrow> (case bg_binding b of None \<Rightarrow> False | Some c \<Rightarrow> equalBinding c bd)"

text \<open>Stopping a binding cancels the context every task of it was started under.\<close>

definition stopBinding :: "bridge \<Rightarrow> bridge" where
  "stopBinding b = b\<lparr>bg_cancelled := map pr_Handle (bg_procs b) @ bg_cancelled b\<rparr>"

definition updateBinding :: "claw_binding option \<Rightarrow> bridge \<Rightarrow> bridge" where
  "updateBinding binding b =
     (case binding of
        None \<Rightarrow> (stopBinding b)\<lparr>bg_binding := None, bg_connected := False, bg_snapshot := None\<rparr>
      | Some bd \<Rightarrow>
          if bindingIs bd b then b
          else (stopBinding b)\<lparr>bg_binding := Some bd, bg_connected := False, bg_snapshot := storedSnapshot bd b\<rparr>)"

definition setConnected :: "claw_binding \<Rightarrow> bool \<Rightarrow> bridge \<Rightarrow> bridge" where
  "setConnected bd connected b = (if bindingIs bd b then b\<lparr>bg_connected := connected\<rparr> else b)"

definition setSnapshot :: "claw_binding \<Rightarrow> workflow_snapshot \<Rightarrow> bridge \<Rightarrow> bridge" where
  "setSnapshot bd ws b = (if bindingIs bd b then b\<lparr>bg_snapshot := Some ws\<rparr> else b)"

definition emptySnapshot :: "claw_binding \<Rightarrow> workflow_snapshot" where
  "emptySnapshot bd =
     \<lparr>ws_RunID = wb_RunID bd, ws_AttemptID = wb_AttemptID bd, ws_State = [], ws_DisplayPhase = [], ws_StateVersion = 0,
      ws_CurrentTask = None, ws_AllowedActions = [], ws_RequiredArtifacts = [], ws_ContextBundle = GNil, ws_Delivery = GNil\<rparr>"

definition keepSnapshot :: "workflow_snapshot \<Rightarrow> bridge \<Rightarrow> bridge" where
  "keepSnapshot ws b = saveSnapshot ws (b\<lparr>bg_snapshot := Some ws\<rparr>)"

definition updateTaskSnapshot :: "claw_binding \<Rightarrow> agent_task \<Rightarrow> bridge \<Rightarrow> bridge" where
  "updateTaskSnapshot bd task b =
     (if \<not> bindingIs bd b then b
      else let ws = (case bg_snapshot b of None \<Rightarrow> emptySnapshot bd | Some ws \<Rightarrow> ws) in
        keepSnapshot (ws\<lparr>ws_CurrentTask := Some task, ws_State := gt_State task, ws_StateVersion := gt_StateVersion task\<rparr>) b)"

definition clearTaskSnapshot :: "claw_binding \<Rightarrow> string \<Rightarrow> bridge \<Rightarrow> bridge" where
  "clearTaskSnapshot bd taskID b =
     (case bg_snapshot b of
        None \<Rightarrow> b
      | Some ws \<Rightarrow>
          (case ws_CurrentTask ws of
             None \<Rightarrow> b
           | Some t \<Rightarrow>
               if bindingIs bd b \<and> gt_ID t = taskID then keepSnapshot (ws\<lparr>ws_CurrentTask := None\<rparr>) b else b))"

definition updateReceiptVersion :: "claw_binding \<Rightarrow> control_receipt \<Rightarrow> bridge \<Rightarrow> bridge" where
  "updateReceiptVersion bd receipt b =
     (case bg_snapshot b of
        None \<Rightarrow> b
      | Some ws \<Rightarrow>
          if bindingIs bd b \<and> ws_StateVersion ws < cr_StateVersion receipt
          then keepSnapshot (ws\<lparr>ws_StateVersion := cr_StateVersion receipt\<rparr>) b else b)"

definition stateVersion :: "claw_binding \<Rightarrow> bridge \<Rightarrow> nat" where
  "stateVersion bd b =
     (case bg_snapshot b of None \<Rightarrow> 0 | Some ws \<Rightarrow> if bindingIs bd b then ws_StateVersion ws else 0)"

definition cancelTask :: "string \<Rightarrow> bridge \<Rightarrow> bridge" where
  "cancelTask taskID b =
     (case map_of (bg_activeTasks b) taskID of None \<Rightarrow> b | Some h \<Rightarrow> b\<lparr>bg_cancelled := h # bg_cancelled b\<rparr>)"

definition registerTaskCancellation :: "string \<Rightarrow> nat \<Rightarrow> bridge \<Rightarrow> bridge" where
  "registerTaskCancellation taskID h b = b\<lparr>bg_activeTasks := AList.update taskID h (bg_activeTasks b)\<rparr>"

definition unregisterTaskCancellation :: "string \<Rightarrow> nat \<Rightarrow> bridge \<Rightarrow> bridge" where
  "unregisterTaskCancellation taskID h b =
     (if map_of (bg_activeTasks b) taskID = Some h then b\<lparr>bg_activeTasks := AList.delete taskID (bg_activeTasks b)\<rparr> else b)"

definition cancelAllTasks :: "bridge \<Rightarrow> bridge" where
  "cancelAllTasks b = b\<lparr>bg_cancelled := map snd (bg_activeTasks b) @ bg_cancelled b\<rparr>"

definition claimRecovery :: "claw_binding \<Rightarrow> bridge \<Rightarrow> bool \<times> bridge" where
  "claimRecovery bd b =
     (if bd \<in> set (bg_recovered b) then (False, b) else (True, b\<lparr>bg_recovered := bd # bg_recovered b\<rparr>))"

section \<open>Launching goroutines\<close>

text \<open>The goroutine gets a context of its own, derived from the one of its binding.\<close>

definition launch :: "claw_binding \<Rightarrow> string \<Rightarrow> work \<Rightarrow> int option \<Rightarrow> bridge \<Rightarrow> bridge" where
  "launch bd messageID w deadline b =
     b\<lparr>bg_handles := Suc (bg_handles b),
       bg_procs := bg_procs b @ [\<lparr>pr_Binding = bd, pr_Message = messageID, pr_Work = w, pr_Handle = bg_handles b,
         pr_Deadline = deadline, pr_Phase = Launched\<rparr>]\<rparr>"

definition startTask :: "int \<Rightarrow> claw_binding \<Rightarrow> string \<Rightarrow> agent_task \<Rightarrow> bridge \<Rightarrow> bridge" where
  "startTask now bd assignmentMessageID task b =
     (let deadline = (if gt_Deadline task = zeroTime then now + twoHours else gt_Deadline task) in
      launch bd assignmentMessageID (AgentWork task) (Some deadline) (registerTaskCancellation (gt_ID task) (bg_handles b) b))"

definition startCommandTask :: "claw_binding \<Rightarrow> string \<Rightarrow> string \<Rightarrow> string \<Rightarrow> gval option \<Rightarrow> bridge \<Rightarrow> bridge" where
  "startCommandTask bd assignmentMessageID kind taskID payload b =
     launch bd assignmentMessageID (CommandWork kind taskID payload) None b"

section \<open>Messages of the hub\<close>

definition taskFields :: "(string \<times> field_type) list" where
  "taskFields = [(''id'', FStr), (''run_id'', FStr), (''attempt_id'', FStr), (''state'', FStr), (''state_version'', FUint),
     (''status'', FStr), (''instructions'', FStr), (''allowed_actions'', FStrs), (''required_artifacts'', FStrs),
     (''heartbeat_deadline'', FTime), (''deadline'', FTime)]"

definition snapshotFields :: "(string \<times> field_type) list" where
  "snapshotFields = [(''run_id'', FStr), (''attempt_id'', FStr), (''state'', FStr), (''display_phase'', FStr),
     (''state_version'', FUint), (''allowed_actions'', FStrs), (''required_artifacts'', FStrs)]"

definition taskStatusOf :: "string \<Rightarrow> agent_task_status" where
  "taskStatusOf s = (case find (\<lambda>st. taskStatusName st = s) [TaskRunning, TaskCompleted, TaskFailed, TaskCancelled, TaskTimedOut] of
     None \<Rightarrow> TaskAssigned | Some st \<Rightarrow> st)"

definition taskOf :: "gmap \<Rightarrow> agent_task" where
  "taskOf m =
     \<lparr>gt_ID = strField m ''id'', gt_RunID = strField m ''run_id'', gt_AttemptID = strField m ''attempt_id'',
      gt_State = strField m ''state'', gt_StateVersion = uintField m ''state_version'',
      gt_Status = taskStatusOf (strField m ''status''), gt_Instructions = strField m ''instructions'',
      gt_AllowedActions = strsField m ''allowed_actions'', gt_RequiredArtifacts = strsField m ''required_artifacts'',
      gt_HeartbeatDeadline = timeField m ''heartbeat_deadline'', gt_Deadline = timeField m ''deadline''\<rparr>"

text \<open>\<^verbatim>\<open>json.Unmarshal\<close> of an envelope's payload, which may be absent; the bridge does not read the status of a task.\<close>

definition decodePayload :: "(string \<times> field_type) list \<Rightarrow> gval option \<Rightarrow> gerr + gmap" where
  "decodePayload fs p =
     (case p of None \<Rightarrow> Inl (Errf ''unexpected end of JSON input'' []) | Some v \<Rightarrow> decodeFields fs v)"

definition decodeTask :: "gval option \<Rightarrow> gerr + agent_task" where
  "decodeTask p = bindE (decodePayload taskFields p) (\<lambda>m. Inr (taskOf m))"

definition decodeSnapshot :: "gval option \<Rightarrow> gerr + workflow_snapshot" where
  "decodeSnapshot p =
     bindE (decodePayload snapshotFields p) (\<lambda>m.
     bindE (case map_of m ''current_task'' of None \<Rightarrow> Inr None | Some GNil \<Rightarrow> Inr None
            | Some v \<Rightarrow> bindE (decodeTask (Some v)) (\<lambda>t. Inr (Some t))) (\<lambda>t.
     Inr \<lparr>ws_RunID = strField m ''run_id'', ws_AttemptID = strField m ''attempt_id'', ws_State = strField m ''state'',
        ws_DisplayPhase = strField m ''display_phase'', ws_StateVersion = uintField m ''state_version'',
        ws_CurrentTask = t, ws_AllowedActions = strsField m ''allowed_actions'',
        ws_RequiredArtifacts = strsField m ''required_artifacts'',
        ws_ContextBundle = (case map_of m ''context_bundle'' of None \<Rightarrow> GNil | Some v \<Rightarrow> v),
        ws_Delivery = (case map_of m ''delivery'' of None \<Rightarrow> GNil | Some v \<Rightarrow> v)\<rparr>))"

definition acceptTask :: "claw_binding \<Rightarrow> envelope \<Rightarrow> nat \<Rightarrow> gerr + agent_task" where
  "acceptTask bd en currentVersion =
     bindE (wrapE ''decode agent task: %w'' [] (decodeTask (en_Payload en))) (\<lambda>task.
     bindE (whenE (gt_ID task \<noteq> en_TaskID en \<or> gt_RunID task \<noteq> wb_RunID bd \<or> gt_AttemptID task \<noteq> wb_AttemptID bd)
       (Errf ''agent task identity mismatch'' [])) (\<lambda>_.
     bindE (whenE (gt_StateVersion task < currentVersion)
       (Errf ''agent task state version %d is older than snapshot version %d''
         [utoa (gt_StateVersion task), utoa currentVersion])) (\<lambda>_.
     bindE (whenE (case en_ExpectedStateVersion en of None \<Rightarrow> False | Some v \<Rightarrow> v \<noteq> gt_StateVersion task)
       (Errf ''agent task envelope and payload state versions differ'' [])) (\<lambda>_.
     Inr task))))"

definition commandAssignKinds :: "string list" where
  "commandAssignKinds = [''exec.run.assign'', ''dependency.update.assign'']"

text \<open>The switch over the kind: the task of an assignment, and the snapshot a sync replaces.\<close>

definition acceptKind :: "claw_binding \<Rightarrow> envelope \<Rightarrow> bridge \<Rightarrow> gerr + (agent_task option \<times> bridge)" where
  "acceptKind bd en b =
     (let k = en_Kind en in
      if k = ''agent.task.assign'' then bindE (acceptTask bd en (stateVersion bd b)) (\<lambda>task. Inr (Some task, b))
      else if k = ''agent.task.cancel'' \<or> k = ''run.suspend'' \<or> k = ''run.terminate'' then Inr (None, b)
      else if k = ''workflow.sync'' then
        bindE (wrapE ''decode workflow snapshot: %w'' [] (decodeSnapshot (en_Payload en))) (\<lambda>ws.
        bindE (whenE (ws_RunID ws \<noteq> wb_RunID bd \<or> ws_AttemptID ws \<noteq> wb_AttemptID bd)
          (Errf ''workflow snapshot identity mismatch'' [])) (\<lambda>_.
        Inr (None, setSnapshot bd ws (saveSnapshot ws b))))
      else if k \<in> set commandAssignKinds \<or> k = ''run.resume'' then Inr (None, b)
      else Inl (Errf ''bridge does not support control kind %q'' [k]))"

definition bridgeReceipt :: "envelope \<Rightarrow> disposition \<Rightarrow> nat \<Rightarrow> control_receipt" where
  "bridgeReceipt en d version = \<lparr>cr_MessageID = en_MessageID en, cr_Disposition = d, cr_StateVersion = version, cr_Reason = []\<rparr>"

text \<open>What a message recorded for the first time does.\<close>

definition applyAccepted :: "claw_binding \<Rightarrow> envelope \<Rightarrow> agent_task option \<Rightarrow> bridge \<Rightarrow> bridge" where
  "applyAccepted bd en task b =
     (let k = en_Kind en;
          b1 = (case task of None \<Rightarrow> b | Some t \<Rightarrow> updateTaskSnapshot bd t b);
          b2 = (if k = ''agent.task.cancel'' then cancelTask (en_TaskID en) b1 else b1);
          b3 = (if k = ''run.suspend'' \<or> k = ''run.terminate'' then cancelAllTasks b2 else b2)
      in if k \<in> set commandAssignKinds then startCommandTask bd (en_MessageID en) k (en_TaskID en) (en_Payload en) b3
         else b3)"

definition acceptHubEnvelope ::
    "int \<Rightarrow> claw_binding \<Rightarrow> envelope \<Rightarrow> bridge \<Rightarrow> gerr + (control_receipt \<times> agent_task option \<times> bridge)" where
  "acceptHubEnvelope now bd en b =
     bindE (whenE (en_RunID en \<noteq> wb_RunID bd \<or> en_AttemptID en \<noteq> wb_AttemptID bd)
       (Errf ''control envelope identity mismatch'' [])) (\<lambda>_.
     bindE (ValidateControlEnvelope en ''hub_to_claw'') (\<lambda>_.
     bindE (acceptKind bd en b) (\<lambda>(task, b1).
     case recordIncoming now en b1 of
       (True, b2) \<Rightarrow> Inr (bridgeReceipt en DispDuplicate (stateVersion bd b2), None, b2)
     | (False, b2) \<Rightarrow>
         let b3 = applyAccepted bd en task b2 in
         Inr (bridgeReceipt en DispAccepted (stateVersion bd b3), task, b3))))"

text \<open>
  A frame read from the channel: the receipt is written back, and the task starts once it is.  \<open>written\<close> tells whether the
  write succeeds; when it does not, the connection ends.
\<close>

definition rejection :: "envelope \<Rightarrow> gerr \<Rightarrow> control_receipt" where
  "rejection en e = \<lparr>cr_MessageID = en_MessageID en, cr_Disposition = DispRejected, cr_StateVersion = 0, cr_Reason = errText e\<rparr>"

definition receiveEnvelope :: "int \<Rightarrow> claw_binding \<Rightarrow> envelope \<Rightarrow> bool \<Rightarrow> bridge \<Rightarrow> control_receipt option \<times> bridge" where
  "receiveEnvelope now bd en written b =
     (case acceptHubEnvelope now bd en b of
        Inl e \<Rightarrow> if written then (Some (rejection en e), b) else (None, setConnected bd False b)
      | Inr (receipt, task, b1) \<Rightarrow>
          if \<not> written then (None, setConnected bd False b1)
          else (Some receipt,
            case task of
              None \<Rightarrow> b1
            | Some t \<Rightarrow> if cr_Disposition receipt = DispAccepted then startTask now bd (en_MessageID en) t b1 else b1))"

definition receiveReceipt :: "int \<Rightarrow> claw_binding \<Rightarrow> control_receipt \<Rightarrow> bridge \<Rightarrow> gerr option \<times> bridge" where
  "receiveReceipt now bd receipt b =
     (case acknowledge now receipt b of
        Inl e \<Rightarrow> (Some e, setConnected bd False b)
      | Inr b1 \<Rightarrow> (None, updateReceiptVersion bd receipt b1))"

section \<open>Events of a task\<close>

definition taskLifecyclePayload :: "gmap \<Rightarrow> gval" where
  "taskLifecyclePayload values = GMap [(''task'', GMap values)]"

definition clawEvent :: "string \<Rightarrow> string \<Rightarrow> claw_binding \<Rightarrow> string \<Rightarrow> nat option \<Rightarrow> int \<Rightarrow> gval option \<Rightarrow> envelope" where
  "clawEvent messageID kind bd taskID expected now payload =
     \<lparr>en_ProtocolVersion = 2, en_MessageID = messageID, en_Kind = kind, en_RunID = wb_RunID bd,
      en_AttemptID = wb_AttemptID bd, en_TaskID = taskID, en_ExpectedStateVersion = expected, en_CausationID = [],
      en_SentAt = now, en_Payload = payload\<rparr>"

definition enqueueEvent ::
    "bridge_env \<Rightarrow> int \<Rightarrow> claw_binding \<Rightarrow> string \<Rightarrow> string \<Rightarrow> nat option \<Rightarrow> gval option \<Rightarrow> bridge \<Rightarrow> gerr + (string \<times> bridge)" where
  "enqueueEvent env now bd taskID kind expected payload b =
     (let messageID = bridgeUUID env (bg_uuids b);
          en = clawEvent messageID kind bd taskID expected now payload in
      bindE (ValidateControlEnvelope en ''claw_to_hub'') (\<lambda>_.
      Inr (messageID, enqueue now en (b\<lparr>bg_uuids := Suc (bg_uuids b)\<rparr>))))"

definition enqueueTaskEvent ::
    "bridge_env \<Rightarrow> int \<Rightarrow> claw_binding \<Rightarrow> agent_task \<Rightarrow> string \<Rightarrow> gval \<Rightarrow> bridge \<Rightarrow> gerr + bridge" where
  "enqueueTaskEvent env now bd task kind payload b =
     bindE (enqueueEvent env now bd (gt_ID task) kind
       (if kind = ''agent.task.heartbeat'' then None else Some (gt_StateVersion task)) (Some payload) b) (\<lambda>(_, b1). Inr b1)"

definition finishTask ::
    "bridge_env \<Rightarrow> int \<Rightarrow> claw_binding \<Rightarrow> string \<Rightarrow> agent_task \<Rightarrow> string \<Rightarrow> string \<Rightarrow> bridge \<Rightarrow> bridge" where
  "finishTask env now bd assignmentMessageID task kind reason b =
     (case enqueueTaskEvent env now bd task kind (taskLifecyclePayload [(''error'', GStr reason)]) b of
        Inl _ \<Rightarrow> b
      | Inr b1 \<Rightarrow> snd (setIncomingStatus now assignmentMessageID InRunning InFailed b1))"

definition workflowV2TaskPrompt :: "agent_task \<Rightarrow> string" where
  "workflowV2TaskPrompt task =
     (let nl = [CHR 0x0A]; json = [CHR 0x27] @ ''<json>'' @ [CHR 0x27] in
      ''You are executing ElasticClaw workflow v2 task '' @ gt_ID task @ '' in state '' @ gt_State task @ ''.'' @ nl @ nl @
      gt_Instructions task @ nl @ nl @
      ''Workflow execution is controlled only through typed messages, never through phrases in your response. Use:'' @ nl @
      ''  claw-bridge control status'' @ nl @
      ''  claw-bridge control plan --payload '' @ json @ nl @
      ''  claw-bridge control delivery <pull-request-url> [more URLs...]'' @ nl @
      ''  claw-bridge control help --payload '' @ json @ nl @ nl @
      ''The bridge reports task start, heartbeat, and terminal execution status automatically.'')"

section \<open>Carrying out an agent task\<close>

definition dropProc :: "proc \<Rightarrow> bridge \<Rightarrow> bridge" where
  "dropProc p b = b\<lparr>bg_procs := filter (\<lambda>q. pr_Handle q \<noteq> pr_Handle p) (bg_procs b)\<rparr>"

text \<open>The deferred calls at the end of \<open>executeTask\<close> and \<open>executeCommandTask\<close>.\<close>

definition endTask :: "proc \<Rightarrow> string \<Rightarrow> bridge \<Rightarrow> bridge" where
  "endTask p taskID b =
     dropProc p (unregisterTaskCancellation taskID (pr_Handle p)
       (clearTaskSnapshot (pr_Binding p) taskID (b\<lparr>bg_cancelled := pr_Handle p # bg_cancelled b\<rparr>)))"

definition endCommand :: "proc \<Rightarrow> string \<Rightarrow> bridge \<Rightarrow> bridge" where
  "endCommand p taskID b =
     dropProc p (unregisterTaskCancellation taskID (pr_Handle p) (b\<lparr>bg_cancelled := pr_Handle p # bg_cancelled b\<rparr>))"

definition beginWork :: "proc \<Rightarrow> bridge \<Rightarrow> bridge" where
  "beginWork p b = b\<lparr>bg_procs := map (\<lambda>q. if pr_Handle q = pr_Handle p then q\<lparr>pr_Phase := Working\<rparr> else q) (bg_procs b)\<rparr>"

text \<open>\<open>executeTask\<close> up to the call of the gateway.\<close>

definition beginTask :: "bridge_env \<Rightarrow> int \<Rightarrow> proc \<Rightarrow> agent_task \<Rightarrow> bridge \<Rightarrow> bridge" where
  "beginTask env now p task b =
     (let bd = pr_Binding p; m = pr_Message p; taskID = gt_ID task in
      case setIncomingStatus now m InAccepted InRunning b of
        (False, b1) \<Rightarrow> endTask p taskID b1
      | (True, b1) \<Rightarrow>
          if \<not> bg_gatewayReady b1 then
            endTask p taskID (finishTask env now bd m task ''agent.task.failed'' ''gateway is not ready'' b1)
          else
            (case enqueueTaskEvent env now bd task ''agent.task.started''
                (taskLifecyclePayload [(''bridge_started_at'', GStr (jsonTime now))]) b1 of
               Inl e \<Rightarrow> endTask p taskID (finishTask env now bd m task ''agent.task.failed'' (errText e) b1)
             | Inr b2 \<Rightarrow> beginWork p (b2\<lparr>bg_turns := bg_turns b2 @ [(m, workflowV2TaskPrompt task)]\<rparr>)))"

definition taskHeartbeat :: "bridge_env \<Rightarrow> int \<Rightarrow> proc \<Rightarrow> agent_task \<Rightarrow> bridge \<Rightarrow> bridge" where
  "taskHeartbeat env now p task b =
     (case enqueueTaskEvent env now (pr_Binding p) task ''agent.task.heartbeat''
         (taskLifecyclePayload [(''heartbeat_at'', GStr (jsonTime now))]) b of
        Inl _ \<Rightarrow> b | Inr b1 \<Rightarrow> b1)"

datatype turn_result = TurnFailed string | TurnDone string

text \<open>\<open>executeTask\<close> after the gateway has answered.\<close>

definition endTurn :: "bridge_env \<Rightarrow> int \<Rightarrow> proc \<Rightarrow> agent_task \<Rightarrow> turn_result \<Rightarrow> bridge \<Rightarrow> bridge" where
  "endTurn env now p task result b =
     (let bd = pr_Binding p; m = pr_Message p in
      endTask p (gt_ID task)
        (case result of
           TurnFailed reason \<Rightarrow> finishTask env now bd m task ''agent.task.failed'' reason b
         | TurnDone response \<Rightarrow>
             (case enqueueTaskEvent env now bd task ''agent.task.completed''
                 (taskLifecyclePayload [(''gateway_turn_completed'', GBool True),
                   (''response_bytes'', GInt (int (length response))), (''response_sha256'', GStr (digestHex env response))]) b of
                Inl _ \<Rightarrow> b
              | Inr b1 \<Rightarrow> snd (setIncomingStatus now m InRunning InCompleted b1))))"

section \<open>Recovery, registration, sending\<close>

definition failInterrupted :: "bridge_env \<Rightarrow> int \<Rightarrow> claw_binding \<Rightarrow> bridge \<Rightarrow> envelope \<Rightarrow> bridge" where
  "failInterrupted env now bd b en =
     (if en_Kind en \<noteq> ''agent.task.assign'' then b
      else case decodeTask (en_Payload en) of
        Inl _ \<Rightarrow> b
      | Inr task \<Rightarrow> finishTask env now bd (en_MessageID en) task ''agent.task.failed''
          ''bridge restarted while task execution outcome was unknown'' b)"

definition startAccepted :: "int \<Rightarrow> claw_binding \<Rightarrow> bridge \<Rightarrow> envelope \<Rightarrow> bridge" where
  "startAccepted now bd b en =
     (if en_Kind en \<noteq> ''agent.task.assign'' then b
      else case decodeTask (en_Payload en) of Inl _ \<Rightarrow> b | Inr task \<Rightarrow> startTask now bd (en_MessageID en) task b)"

definition recoverInterrupted :: "bridge_env \<Rightarrow> int \<Rightarrow> claw_binding \<Rightarrow> bridge \<Rightarrow> bridge" where
  "recoverInterrupted env now bd b =
     (let b1 = foldl (failInterrupted env now bd) b (incomingByStatus bd InRunning b) in
      foldl (startAccepted now bd) b1 (incomingByStatus bd InAccepted b1))"

text \<open>\<open>runConnection\<close> from the answer to the registration to the first frame.\<close>

definition registered :: "bridge_env \<Rightarrow> int \<Rightarrow> claw_binding \<Rightarrow> string \<Rightarrow> workflow_snapshot option \<Rightarrow> bridge \<Rightarrow> gerr + bridge" where
  "registered env now bd frameType snapshot b =
     (case snapshot of
        None \<Rightarrow> Inl (Errf ''invalid registration snapshot'' [])
      | Some ws \<Rightarrow>
          bindE (whenE (frameType \<noteq> ''registered'' \<or> ws_RunID ws \<noteq> wb_RunID bd \<or> ws_AttemptID ws \<noteq> wb_AttemptID bd)
            (Errf ''invalid registration snapshot'' [])) (\<lambda>_.
          case claimRecovery bd (setConnected bd True (setSnapshot bd ws (saveSnapshot ws b))) of
            (claimed, b1) \<Rightarrow> Inr (if claimed then recoverInterrupted env now bd b1 else b1)))"

text \<open>One round of \<open>sendOutbox\<close>; the channel takes the first \<open>writes\<close> frames.\<close>

definition sendOutbox :: "int \<Rightarrow> claw_binding \<Rightarrow> nat \<Rightarrow> bridge \<Rightarrow> envelope list \<times> bridge" where
  "sendOutbox now bd writes b =
     (let due = readyToSend now bd 100 b; sent = take writes due;
          b1 = foldl (\<lambda>b en. markSent now (en_MessageID en) b) b sent
      in (sent, if writes < length due then setConnected bd False b1 else b1))"

definition nextBackoff :: "int \<Rightarrow> int" where
  "nextBackoff backoff = (if backoff < 30000000000 then backoff * 2 else backoff)"

end
