(* ===== verification/GoJson.thy ===== *)
theory GoJson
  imports GoTime
begin

text \<open>
  The texts \<^verbatim>\<open>json.Unmarshal\<close> decodes into an \<^verbatim>\<open>any\<close>: the scanner of \<^verbatim>\<open>encoding/json\<close>, a pushdown automaton over the
  bytes, with its nesting limit, and the range check of a number that becomes a \<^verbatim>\<open>float64\<close> (for numbers of fewer than
  100000 digits).  A configuration is the state, the stack of open composites, and the number being read, reversed.

  \<open>lastJSONObject\<close> of \<^verbatim>\<open>cmd/claw-bridge/exec_tasks.go\<close> searches the output of a script for its report.
\<close>

section \<open>The scanner\<close>

datatype frame = ObjectKey | ObjectValue | ArrayValue

datatype jstate =
    BeginValue | BeginValueOrEmpty | BeginStringOrEmpty | BeginString | EndValue | EndTop
  | InString | InEsc | InEscU nat
  | NumNeg | NumInt | NumZero | NumDot | NumFrac | NumExp | NumSign | NumExpDigits
  | InLiteral string

definition jsonSpace :: "char \<Rightarrow> bool" where
  "jsonSpace c \<longleftrightarrow> c \<in> {CHR '' '', CHR 0x09, CHR 0x0D, CHR 0x0A}"

definition hexChar :: "char \<Rightarrow> bool" where
  "hexChar c \<longleftrightarrow> isDigit c \<or> (let n = of_char c :: nat in 97 \<le> n \<and> n \<le> 102 \<or> 65 \<le> n \<and> n \<le> 70)"

definition pushFrame :: "jstate \<Rightarrow> frame \<Rightarrow> frame list \<Rightarrow> (jstate \<times> frame list) option" where
  "pushFrame st f stk = (if Suc (length stk) \<le> 10000 then Some (st, f # stk) else None)"

definition popFrame :: "frame list \<Rightarrow> (jstate \<times> frame list) option" where
  "popFrame stk = Some (if tl stk = [] then EndTop else EndValue, tl stk)"

fun endValue :: "frame list \<Rightarrow> char \<Rightarrow> (jstate \<times> frame list) option" where
  "endValue [] c = (if jsonSpace c then Some (EndTop, []) else None)"
| "endValue (f # stk) c =
     (if jsonSpace c then Some (EndValue, f # stk)
      else case f of
        ObjectKey \<Rightarrow> if c = CHR '':'' then Some (BeginValue, ObjectValue # stk) else None
      | ObjectValue \<Rightarrow>
          if c = CHR '','' then Some (BeginString, ObjectKey # stk)
          else if c = CHR 0x7D then popFrame (f # stk) else None
      | ArrayValue \<Rightarrow>
          if c = CHR '','' then Some (BeginValue, f # stk)
          else if c = CHR '']'' then popFrame (f # stk) else None)"

definition beginValue :: "frame list \<Rightarrow> char \<Rightarrow> (jstate \<times> frame list) option" where
  "beginValue stk c =
     (if jsonSpace c then Some (BeginValue, stk)
      else if c = CHR 0x7B then pushFrame BeginStringOrEmpty ObjectKey stk
      else if c = CHR ''['' then pushFrame BeginValueOrEmpty ArrayValue stk
      else if c = CHR 0x22 then Some (InString, stk)
      else if c = CHR ''-'' then Some (NumNeg, stk)
      else if c = CHR ''0'' then Some (NumZero, stk)
      else if isDigit c then Some (NumInt, stk)
      else if c = CHR ''t'' then Some (InLiteral ''rue'', stk)
      else if c = CHR ''f'' then Some (InLiteral ''alse'', stk)
      else if c = CHR ''n'' then Some (InLiteral ''ull'', stk)
      else None)"

definition beginString :: "frame list \<Rightarrow> char \<Rightarrow> (jstate \<times> frame list) option" where
  "beginString stk c =
     (if jsonSpace c then Some (BeginString, stk) else if c = CHR 0x22 then Some (InString, stk) else None)"

definition afterZero :: "frame list \<Rightarrow> char \<Rightarrow> (jstate \<times> frame list) option" where
  "afterZero stk c =
     (if c = CHR ''.'' then Some (NumDot, stk) else if c = CHR ''e'' \<or> c = CHR ''E'' then Some (NumExp, stk)
      else endValue stk c)"

definition inSign :: "frame list \<Rightarrow> char \<Rightarrow> (jstate \<times> frame list) option" where
  "inSign stk c = (if isDigit c then Some (NumExpDigits, stk) else None)"

fun scanStep :: "jstate \<Rightarrow> frame list \<Rightarrow> char \<Rightarrow> (jstate \<times> frame list) option" where
  "scanStep BeginValue stk c = beginValue stk c"
| "scanStep BeginValueOrEmpty stk c =
     (if jsonSpace c then Some (BeginValueOrEmpty, stk) else if c = CHR '']'' then endValue stk c else beginValue stk c)"
| "scanStep BeginStringOrEmpty stk c =
     (if jsonSpace c then Some (BeginStringOrEmpty, stk)
      else if c = CHR 0x7D then endValue (ObjectValue # tl stk) c else beginString stk c)"
| "scanStep BeginString stk c = beginString stk c"
| "scanStep EndValue stk c = endValue stk c"
| "scanStep EndTop stk c = (if jsonSpace c then Some (EndTop, stk) else None)"
| "scanStep InString stk c =
     (if c = CHR 0x22 then Some (EndValue, stk)
      else if c = CHR 0x5C then Some (InEsc, stk)
      else if (of_char c :: nat) < 32 then None else Some (InString, stk))"
| "scanStep InEsc stk c =
     (if c \<in> {CHR ''b'', CHR ''f'', CHR ''n'', CHR ''r'', CHR ''t'', CHR 0x5C, CHR ''/'', CHR 0x22} then Some (InString, stk)
      else if c = CHR ''u'' then Some (InEscU 3, stk) else None)"
| "scanStep (InEscU n) stk c =
     (if hexChar c then Some (case n of 0 \<Rightarrow> InString | Suc m \<Rightarrow> InEscU m, stk) else None)"
| "scanStep NumNeg stk c =
     (if c = CHR ''0'' then Some (NumZero, stk) else if isDigit c then Some (NumInt, stk) else None)"
| "scanStep NumInt stk c = (if isDigit c then Some (NumInt, stk) else afterZero stk c)"
| "scanStep NumZero stk c = afterZero stk c"
| "scanStep NumDot stk c = (if isDigit c then Some (NumFrac, stk) else None)"
| "scanStep NumFrac stk c =
     (if isDigit c then Some (NumFrac, stk) else if c = CHR ''e'' \<or> c = CHR ''E'' then Some (NumExp, stk)
      else endValue stk c)"
| "scanStep NumExp stk c = (if c = CHR ''+'' \<or> c = CHR ''-'' then Some (NumSign, stk) else inSign stk c)"
| "scanStep NumSign stk c = inSign stk c"
| "scanStep NumExpDigits stk c = (if isDigit c then Some (NumExpDigits, stk) else endValue stk c)"
| "scanStep (InLiteral cs) stk c =
     (case cs of [] \<Rightarrow> endValue stk c
      | d # ds \<Rightarrow> if c = d then Some (if ds = [] then EndValue else InLiteral ds, stk) else None)"

section \<open>Numbers in range\<close>

fun inNumber :: "jstate \<Rightarrow> bool" where
  "inNumber NumNeg = True"
| "inNumber NumInt = True"
| "inNumber NumZero = True"
| "inNumber NumDot = True"
| "inNumber NumFrac = True"
| "inNumber NumExp = True"
| "inNumber NumSign = True"
| "inNumber NumExpDigits = True"
| "inNumber _ = False"

text \<open>\<^verbatim>\<open>strconv.ParseFloat\<close> fails on a decimal that rounds beyond the largest finite double.\<close>

definition floatInRange :: "string \<Rightarrow> bool" where
  "floatInRange s =
     (let t = (if hasPrefix s ''-'' then drop 1 s else s);
          whole = takeWhile isDigit t; r = dropWhile isDigit t;
          frac = (if hasPrefix r ''.'' then takeWhile isDigit (drop 1 r) else []);
          r = (if hasPrefix r ''.'' then dropWhile isDigit (drop 1 r) else r);
          e = drop 1 r;
          ex = (if hasPrefix e ''-'' then - digitsVal (drop 1 e) else if hasPrefix e ''+'' then digitsVal (drop 1 e) else digitsVal e);
          m = digitsVal (whole @ frac); k = ex - int (length frac); limit = 2 ^ 1024 - 2 ^ 970
      in m = 0 \<or> k < 400 \<and> (if 0 \<le> k then m * 10 ^ nat k < limit else m < limit * 10 ^ nat (- k)))"

type_synonym jconf = "jstate \<times> frame list \<times> string"

definition jsonStep :: "jconf \<Rightarrow> char \<Rightarrow> jconf option" where
  "jsonStep conf c =
     (case conf of (st, stk, num) \<Rightarrow>
        (case scanStep st stk c of
           None \<Rightarrow> None
         | Some (st', stk') \<Rightarrow>
             if inNumber st' then Some (st', stk', c # num)
             else if inNumber st \<and> \<not> floatInRange (rev num) then None
             else Some (st', stk', [])))"

fun jsonRun :: "jconf \<Rightarrow> string \<Rightarrow> jconf option" where
  "jsonRun conf [] = Some conf"
| "jsonRun conf (c # cs) = (case jsonStep conf c of None \<Rightarrow> None | Some conf' \<Rightarrow> jsonRun conf' cs)"

text \<open>At the end of the text the scanner reads one blank.\<close>

definition jsonEnd :: "jconf \<Rightarrow> bool" where
  "jsonEnd conf \<longleftrightarrow> (case jsonStep conf (CHR '' '') of Some (EndTop, _) \<Rightarrow> True | _ \<Rightarrow> False)"

definition validJSON :: "string \<Rightarrow> bool" where
  "validJSON s \<longleftrightarrow> (case jsonRun (BeginValue, [], []) s of None \<Rightarrow> False | Some conf \<Rightarrow> jsonEnd conf)"

section \<open>The report in a script's output\<close>

definition lastIndex :: "char \<Rightarrow> string \<Rightarrow> nat option" where
  "lastIndex c s = find (\<lambda>i. s ! i = c) (rev [0..<length s])"

lemma lastIndex_Some: "lastIndex c s = Some i \<Longrightarrow> i < length s \<and> s ! i = c"
proof -
  assume "lastIndex c s = Some i"
  then have "s ! i = c" and "i \<in> set (rev [0..<length s])" by (auto simp: lastIndex_def find_Some_iff simp del: set_rev)
  then show ?thesis by simp
qed

lemma lastIndex_take: "lastIndex c (take n s) = Some i \<Longrightarrow> i < n \<and> i < length s \<and> s ! i = c"
  using lastIndex_Some [of c "take n s" i] by auto

function tryOpens :: "string \<Rightarrow> nat \<Rightarrow> nat \<Rightarrow> string option" where
  "tryOpens s close bound =
     (case lastIndex (CHR 0x7B) (take bound s) of
        None \<Rightarrow> None
      | Some i \<Rightarrow>
          let candidate = take (Suc close - i) (drop i s) in
          if validJSON candidate then Some candidate else tryOpens s close i)"
  by pat_completeness auto
termination by (relation "measure (\<lambda>(s, close, bound). bound)") (auto dest: lastIndex_take)

function tryCloses :: "string \<Rightarrow> nat \<Rightarrow> string option" where
  "tryCloses s bound =
     (case lastIndex (CHR 0x7D) (take bound s) of
        None \<Rightarrow> None
      | Some i \<Rightarrow> (case tryOpens s i i of Some d \<Rightarrow> Some d | None \<Rightarrow> tryCloses s i))"
  by pat_completeness auto
termination by (relation "measure (\<lambda>(s, bound). bound)") (auto dest: lastIndex_take)

declare tryOpens.simps [simp del] tryCloses.simps [simp del]

definition lastJSONObject :: "string \<Rightarrow> string option" where
  "lastJSONObject s = tryCloses s (length s)"

section \<open>What the search finds\<close>

lemma lastIndex_None: "lastIndex c s = None \<longleftrightarrow> c \<notin> set s"
  by (auto simp: lastIndex_def find_None_iff in_set_conv_nth)

lemma lastIndex_last: "lastIndex c s = Some i \<Longrightarrow> i < j \<Longrightarrow> j < length s \<Longrightarrow> s ! j \<noteq> c"
proof
  assume "lastIndex c s = Some i" and j: "i < j" "j < length s" "s ! j = c"
  then obtain k where k: "k < length s" "i = rev [0..<length s] ! k" "\<forall>l < k. s ! (rev [0..<length s] ! l) \<noteq> c"
    unfolding lastIndex_def find_Some_iff by auto
  have r: "rev [0..<length s] ! l = length s - Suc l" if "l < length s" for l using that by (simp add: rev_nth)
  have "length s - Suc j < k" using j k(1,2) r [of k] by simp
  from k(3) [rule_format, OF this] r [of "length s - Suc j"] j show False by simp
qed

text \<open>The substrings in braces that are valid JSON, by the positions of their braces.\<close>

definition braced :: "string \<Rightarrow> nat \<Rightarrow> nat \<Rightarrow> string" where
  "braced s i j = take (Suc j - i) (drop i s)"

definition isReport :: "string \<Rightarrow> nat \<Rightarrow> nat \<Rightarrow> bool" where
  "isReport s i j \<longleftrightarrow> i < j \<and> j < length s \<and> s ! i = CHR 0x7B \<and> s ! j = CHR 0x7D \<and> validJSON (braced s i j)"

lemma tryOpens_spec:
  assumes "bound \<le> close" and "close < length s" and "s ! close = CHR 0x7D"
  shows "case tryOpens s close bound of
      None \<Rightarrow> \<forall>i < bound. \<not> isReport s i close
    | Some d \<Rightarrow> \<exists>i < bound. d = braced s i close \<and> isReport s i close \<and> (\<forall>k < bound. isReport s k close \<longrightarrow> k \<le> i)"
  using assms
proof (induction s close bound rule: tryOpens.induct)
  case (1 s close bound)
  show ?case
  proof (cases "lastIndex (CHR 0x7B) (take bound s)")
    case None
    then have "\<not> isReport s i close" if "i < bound" for i
      using that 1(2,3) unfolding lastIndex_None isReport_def by (auto simp: in_set_conv_nth)
    then show ?thesis using None by (simp add: tryOpens.simps [of s close bound])
  next
    case (Some i)
    note i = lastIndex_take [OF Some]
    have above: "\<not> isReport s k close" if "i < k" "k < bound" for k
      using lastIndex_last [OF Some that(1)] that(2) 1(2,3) by (auto simp: isReport_def)
    show ?thesis
    proof (cases "validJSON (braced s i close)")
      case True
      then have "isReport s i close" using i 1(2-4) by (simp add: isReport_def)
      moreover have "tryOpens s close bound = Some (braced s i close)"
        using Some True by (simp add: tryOpens.simps [of s close bound] braced_def)
      ultimately show ?thesis using i above by (auto simp: not_less [symmetric])
    next
      case False
      then have step: "tryOpens s close bound = tryOpens s close i"
        using Some by (simp add: tryOpens.simps [of s close bound] braced_def)
      have "\<not> isReport s i close" using False by (simp add: isReport_def)
      then have up: "k < i" if "isReport s k close" "k < bound" for k
        using above that by (cases k i rule: linorder_cases) auto
      have rest: "case tryOpens s close i of
          None \<Rightarrow> \<forall>k < i. \<not> isReport s k close
        | Some d \<Rightarrow> \<exists>k < i. d = braced s k close \<and> isReport s k close \<and> (\<forall>l < i. isReport s l close \<longrightarrow> l \<le> k)"
        using 1(1) [OF Some refl] False i 1(2-4) by (simp add: braced_def)
      show ?thesis
      proof (cases "tryOpens s close i")
        case None
        then show ?thesis using rest up unfolding step by auto
      next
        case found: (Some d)
        with rest obtain k where "k < i" "d = braced s k close" "isReport s k close" "\<forall>l < i. isReport s l close \<longrightarrow> l \<le> k"
          by auto
        then show ?thesis using up i unfolding step found option.case by (intro exI [of _ k]) auto
      qed
    qed
  qed
qed

text \<open>The order in which the code looks at them: the last closing brace first, then the last opening one.\<close>

definition lastReport :: "string \<Rightarrow> nat \<Rightarrow> nat \<Rightarrow> bool" where
  "lastReport s i j \<longleftrightarrow> isReport s i j \<and> (\<forall>k l. isReport s k l \<longrightarrow> l < j \<or> l = j \<and> k \<le> i)"

lemma tryCloses_spec:
  "case tryCloses s bound of
      None \<Rightarrow> \<forall>i j. j < bound \<longrightarrow> \<not> isReport s i j
    | Some d \<Rightarrow> \<exists>i j. j < bound \<and> d = braced s i j \<and> isReport s i j \<and>
        (\<forall>k l. l < bound \<longrightarrow> isReport s k l \<longrightarrow> l < j \<or> l = j \<and> k \<le> i)"
proof (induction s bound rule: tryCloses.induct)
  case (1 s bound)
  show ?case
  proof (cases "lastIndex (CHR 0x7D) (take bound s)")
    case None
    then have "\<not> isReport s i j" if "j < bound" for i j
      using that unfolding lastIndex_None isReport_def by (auto simp: in_set_conv_nth)
    then show ?thesis using None by (simp add: tryCloses.simps [of s bound])
  next
    case (Some j)
    note j = lastIndex_take [OF Some]
    have above: "\<not> isReport s k l" if "j < l" "l < bound" for k l
      using lastIndex_last [OF Some that(1)] that(2) by (auto simp: isReport_def)
    have opens: "case tryOpens s j j of
        None \<Rightarrow> \<forall>i < j. \<not> isReport s i j
      | Some d \<Rightarrow> \<exists>i < j. d = braced s i j \<and> isReport s i j \<and> (\<forall>k < j. isReport s k j \<longrightarrow> k \<le> i)"
      using j by (intro tryOpens_spec) auto
    have inside: "k < j" if "isReport s k j" for k using that by (simp add: isReport_def)
    show ?thesis
    proof (cases "tryOpens s j j")
      case None
      then have "\<not> isReport s k j" for k using opens inside by auto
      then have up: "l < j" if "isReport s k l" "l < bound" for k l
        using above that by (cases l j rule: linorder_cases) auto
      have step: "tryCloses s bound = tryCloses s j" using Some None by (simp add: tryCloses.simps [of s bound])
      show ?thesis
      proof (cases "tryCloses s j")
        case none: None
        then show ?thesis using 1 [OF Some None] up unfolding step by auto
      next
        case found: (Some d)
        with 1 [OF Some None] obtain i m where "m < j" "d = braced s i m" "isReport s i m"
          "\<forall>k l. l < j \<longrightarrow> isReport s k l \<longrightarrow> l < m \<or> l = m \<and> k \<le> i" by auto
        then show ?thesis using up j unfolding step found option.case by (intro exI [of _ i] exI [of _ m]) auto
      qed
    next
      case found: (Some d)
      then obtain i where i: "d = braced s i j" "isReport s i j" "\<forall>k < j. isReport s k j \<longrightarrow> k \<le> i" using opens by auto
      have "l < j \<or> l = j \<and> k \<le> i" if "isReport s k l" "l < bound" for k l
        using above [of l k] i(3) inside [of k] that by (cases l j rule: linorder_cases) auto
      then show ?thesis using i(1,2) j Some found by (auto simp: tryCloses.simps [of s bound])
    qed
  qed
qed

lemma lastReport_unique: "lastReport s i j \<Longrightarrow> lastReport s k l \<Longrightarrow> i = k \<and> j = l"
proof -
  assume "lastReport s i j" and "lastReport s k l"
  then have "l < j \<or> l = j \<and> k \<le> i" and "j < l \<or> j = l \<and> i \<le> k" unfolding lastReport_def by blast+
  then show ?thesis by auto
qed

lemma lastJSONObject_spec: "lastJSONObject s = Some d \<longleftrightarrow> (\<exists>i j. lastReport s i j \<and> d = braced s i j)"
proof -
  have bound: "j < length s" if "isReport s i j" for i j using that by (simp add: isReport_def)
  show ?thesis
  proof (cases "tryCloses s (length s)")
    case None
    then have "\<not> isReport s i j" for i j
      using tryCloses_spec [where s = s and bound = "length s"] bound [of i j] by auto
    then show ?thesis using None by (simp add: lastReport_def lastJSONObject_def)
  next
    case (Some d')
    then obtain i j where r: "isReport s i j" "d' = braced s i j"
      "\<forall>k l. l < length s \<longrightarrow> isReport s k l \<longrightarrow> l < j \<or> l = j \<and> k \<le> i"
      using tryCloses_spec [where s = s and bound = "length s"] by auto
    then have last: "lastReport s i j" using bound unfolding lastReport_def by blast
    have "lastReport s k l \<and> d = braced s k l \<longrightarrow> d = d'" for k l using lastReport_unique [OF last, of k l] r(2) by auto
    then show ?thesis using last r(2) unfolding lastJSONObject_def Some option.inject by metis
  qed
qed

section \<open>A suffix of an object is no object\<close>

fun inString :: "jstate \<Rightarrow> bool" where
  "inString InString = True"
| "inString InEsc = True"
| "inString (InEscU n) = True"
| "inString _ = False"

fun literalOK :: "jstate \<Rightarrow> bool" where
  "literalOK (InLiteral cs) = (set cs \<subseteq> set ''rueals'')"
| "literalOK _ = True"

lemmas scan_defs = beginValue_def beginString_def afterZero_def inSign_def pushFrame_def popFrame_def

lemma endValue_cases:
  assumes "endValue stk c = Some (st', stk')"
  shows "st' \<in> {EndTop, EndValue, BeginValue, BeginString}" and "c \<noteq> CHR 0x22" and "c \<noteq> CHR 0x5C" and "c \<noteq> CHR 0x7B"
  using assms by (cases stk; auto simp: popFrame_def jsonSpace_def split: if_splits frame.splits)+

text \<open>Reading \<open>c\<close> outside a string leads to \<open>st\<close>.\<close>

definition outside :: "char \<Rightarrow> jstate \<Rightarrow> bool" where
  "outside c st \<longleftrightarrow> c \<noteq> CHR 0x5C \<and> literalOK st \<and> (c = CHR 0x22 \<and> st = InString \<or> c \<noteq> CHR 0x22 \<and> \<not> inString st)"

lemma plain_chars:
  "isDigit c \<Longrightarrow> c \<noteq> CHR 0x5C \<and> c \<noteq> CHR 0x22 \<and> c \<noteq> CHR 0x7B"
  "jsonSpace c \<Longrightarrow> c \<noteq> CHR 0x5C \<and> c \<noteq> CHR 0x22 \<and> c \<noteq> CHR 0x7B"
  by (auto simp: isDigit_def jsonSpace_def)

lemma endValue_outside: "endValue stk c = Some (st, stk') \<Longrightarrow> outside c st"
  using endValue_cases [of stk c st stk'] by (auto simp: outside_def)

lemma stays_outside: "isDigit c \<or> jsonSpace c \<or> c \<in> set ''eE+-0.'' \<Longrightarrow> literalOK st \<Longrightarrow> \<not> inString st \<Longrightarrow> outside c st"
  unfolding outside_def by (auto dest: plain_chars)

lemma beginValue_outside: "beginValue stk c = Some (st, stk') \<Longrightarrow> outside c st"
proof -
  assume step: "beginValue stk c = Some (st, stk')"
  show ?thesis
  proof (cases "isDigit c \<or> jsonSpace c \<or> c \<in> set ''eE+-0.''")
    case True
    then show ?thesis using step stays_outside [OF True, of st]
      unfolding beginValue_def pushFrame_def by (simp split: if_split_asm) (auto simp: jsonSpace_def isDigit_def)
  next
    case False
    then show ?thesis using step unfolding beginValue_def pushFrame_def outside_def
      by (simp split: if_split_asm) auto
  qed
qed

lemma beginString_outside: "beginString stk c = Some (st, stk') \<Longrightarrow> outside c st"
  unfolding beginString_def outside_def by (auto dest: plain_chars split: if_splits)

lemma afterZero_outside: "afterZero stk c = Some (st, stk') \<Longrightarrow> outside c st"
  unfolding afterZero_def by (auto simp: outside_def dest: endValue_outside [unfolded outside_def] split: if_splits)

lemma inSign_outside: "inSign stk c = Some (st, stk') \<Longrightarrow> outside c st"
  unfolding inSign_def outside_def by (auto dest: plain_chars split: if_splits)

lemmas outside_rules = endValue_outside beginValue_outside beginString_outside afterZero_outside inSign_outside

lemma literal_outside: "literalOK (InLiteral (c # ds)) \<Longrightarrow> outside c (if ds = [] then EndValue else InLiteral ds)"
  by (auto simp: outside_def)

lemma scan_outside:
  assumes "scanStep st stk c = Some (st', stk')" and "\<not> inString st" and "literalOK st"
  shows "outside c st'"
proof (cases st)
  case (InLiteral cs)
  show ?thesis
  proof (cases cs)
    case Nil
    then show ?thesis using assms(1) InLiteral by (auto dest: endValue_outside)
  next
    case (Cons d ds)
    then have "c = d \<and> st' = (if ds = [] then EndValue else InLiteral ds)"
      using assms(1) InLiteral by (simp split: if_split_asm)
    moreover have "literalOK (InLiteral (d # ds))" using assms(3) InLiteral Cons by (simp only:)
    ultimately show ?thesis using literal_outside by (simp only:)
  qed
qed (use assms in \<open>auto intro: stays_outside outside_rules split: if_splits simp del: endValue.simps\<close>)

lemma scan_inside: "scanStep InString stk c = Some (st', stk') \<Longrightarrow>
    if c = CHR 0x22 then st' = EndValue else if c = CHR 0x5C then st' = InEsc else st' = InString"
  by (auto split: if_splits)

lemma jsonStep_scan: "jsonStep (st, stk, num) c = Some (st', stk', num') \<Longrightarrow> scanStep st stk c = Some (st', stk')"
  by (auto simp: jsonStep_def split: option.splits if_splits)

text \<open>Two runs over the same text, one in a string where the other is not, stay that way.\<close>

definition opposite :: "jstate \<Rightarrow> jstate \<Rightarrow> bool" where
  "opposite a b \<longleftrightarrow> a = InString \<and> \<not> inString b \<and> literalOK b \<or> \<not> inString a \<and> literalOK a \<and> b = InString"

lemma opposite_step:
  assumes "opposite a b" and "scanStep a s c = Some (a', s')" and "scanStep b t c = Some (b', t')"
  shows "opposite a' b'"
proof -
  have half: "x' = InString \<and> \<not> inString y' \<and> literalOK y' \<or> \<not> inString x' \<and> literalOK x' \<and> y' = InString"
    if "x = InString" "\<not> inString y" "literalOK y" "scanStep x u c = Some (x', u')" "scanStep y v c = Some (y', v')"
    for x y x' y' u v u' v'
    using scan_outside [OF that(5,2,3)] scan_inside [of u c x' u'] that(1,4) by (auto simp: outside_def split: if_splits)
  from assms(1) show ?thesis unfolding opposite_def
    using half [OF _ _ _ assms(2,3)] half [OF _ _ _ assms(3,2)] by blast
qed

lemma opposite_run:
  assumes "jsonRun (a, s, m) cs = Some (a', s', m')" and "jsonRun (b, t, n) cs = Some (b', t', n')" and "opposite a b"
  shows "opposite a' b'"
  using assms
proof (induction cs arbitrary: a s m b t n)
  case (Cons c cs)
  from Cons.prems(1) obtain a1 s1 m1 where a: "jsonStep (a, s, m) c = Some (a1, s1, m1)" "jsonRun (a1, s1, m1) cs = Some (a', s', m')"
    by (auto split: option.splits)
  from Cons.prems(2) obtain b1 t1 n1 where b: "jsonStep (b, t, n) c = Some (b1, t1, n1)" "jsonRun (b1, t1, n1) cs = Some (b', t', n')"
    by (auto split: option.splits)
  have "opposite a1 b1" using Cons.prems(3) jsonStep_scan [OF a(1)] jsonStep_scan [OF b(1)] by (rule opposite_step)
  with a(2) b(2) show ?case by (rule Cons.IH)
qed simp

lemma jsonEnd_state: "jsonEnd (st, stk, num) \<Longrightarrow> st \<noteq> InString"
  by (auto simp: jsonEnd_def jsonStep_def split: option.splits)

text \<open>Two runs in the same state, one inside more open composites: the inner run is through before the outer one.\<close>

definition innerRun :: "frame list \<Rightarrow> jconf \<Rightarrow> jconf \<Rightarrow> bool" where
  "innerRun outer a b \<longleftrightarrow> outer \<noteq> [] \<and>
     ((\<exists>st stk num. stk \<noteq> [] \<and> st \<noteq> EndTop \<and> a = (st, stk @ outer, num) \<and> b = (st, stk, num)) \<or>
      a = (EndValue, outer, []) \<and> b = (EndTop, [], []))"

lemma endValue_within:
  assumes "endValue (f # stk @ outer) c = Some (a', s')" and "endValue (f # stk) c = Some (b', t')" and "outer \<noteq> []"
  shows "a' = b' \<and> s' = t' @ outer \<and> t' \<noteq> [] \<or> a' = EndValue \<and> s' = outer \<and> b' = EndTop \<and> t' = []"
  using assms by (auto simp: popFrame_def split: if_splits frame.splits)

lemma scan_within:
  assumes "scanStep st (f # stk @ outer) c = Some (a', s')" and "scanStep st (f # stk) c = Some (b', t')" and "outer \<noteq> []"
  shows "a' = b' \<and> s' = t' @ outer \<and> t' \<noteq> [] \<or> a' = EndValue \<and> s' = outer \<and> b' = EndTop \<and> t' = []"
  using assms
  by (cases st)
    (auto simp: beginValue_def beginString_def afterZero_def inSign_def pushFrame_def simp del: endValue.simps
      dest: endValue_within split: if_split_asm list.splits)

text \<open>The top state is the one with no open composite, once the text has begun with one.\<close>

lemma endValue_top: "endValue stk c = Some (st', stk') \<Longrightarrow> (st' = EndTop \<longleftrightarrow> stk' = [])"
  by (cases stk) (auto simp: popFrame_def split: if_splits frame.splits)

lemma scan_top: "scanStep st stk c = Some (st', stk') \<Longrightarrow> (st = EndTop \<longleftrightarrow> stk = []) \<Longrightarrow> (st' = EndTop \<longleftrightarrow> stk' = [])"
  by (cases st)
    (auto simp: beginValue_def beginString_def afterZero_def inSign_def pushFrame_def simp del: endValue.simps
      dest: endValue_top split: if_split_asm list.splits nat.splits)

lemma scan_literal: "scanStep st stk c = Some (st', stk') \<Longrightarrow> literalOK st \<Longrightarrow> literalOK st'"
  using scan_outside [of st stk c st' stk']
  by (cases "inString st") (auto simp: outside_def elim!: inString.elims split: if_splits nat.splits)

lemma innerRun_step:
  assumes "innerRun outer a b" and "jsonStep a c = Some a'" and "jsonStep b c = Some b'"
  shows "innerRun outer a' b'"
proof (cases "a = (EndValue, outer, []) \<and> b = (EndTop, [], [])")
  case True
  then show ?thesis using assms by (cases outer) (auto simp: jsonStep_def innerRun_def split: if_splits)
next
  case False
  then obtain st f stk num where o: "outer \<noteq> []" and st: "st \<noteq> EndTop"
    and a: "a = (st, (f # stk) @ outer, num)" and b: "b = (st, f # stk, num)"
    using assms(1) unfolding innerRun_def by (metis list.exhaust)
  obtain st1 s1 n1 where a1: "a' = (st1, s1, n1)" by (cases a') auto
  obtain st2 s2 n2 where b1: "b' = (st2, s2, n2)" by (cases b') auto
  have sa: "scanStep st (f # stk @ outer) c = Some (st1, s1)" and sb: "scanStep st (f # stk) c = Some (st2, s2)"
    using assms(2,3) jsonStep_scan unfolding a b a1 b1 by (auto dest: jsonStep_scan)
  have top: "st2 = EndTop \<longleftrightarrow> s2 = []" using scan_top [OF sb] st by simp
  have nums: "n1 = (if inNumber st1 then c # num else [])" "n2 = (if inNumber st2 then c # num else [])"
    using assms(2,3) sa sb unfolding a b a1 b1 by (auto simp: jsonStep_def split: if_splits)
  show ?thesis using scan_within [OF sa sb o] top nums o unfolding innerRun_def a1 b1 by auto
qed

lemma innerRun_run:
  "jsonRun a cs = Some a' \<Longrightarrow> jsonRun b cs = Some b' \<Longrightarrow> innerRun outer a b \<Longrightarrow> innerRun outer a' b'"
  by (induction cs arbitrary: a b) (auto split: option.splits dest: innerRun_step)

lemma innerRun_end: "innerRun outer a b \<Longrightarrow> jsonEnd a \<Longrightarrow> \<not> jsonEnd b"
proof
  assume i: "innerRun outer a b" and ends: "jsonEnd a" "jsonEnd b"
  from ends obtain s n t m where a: "jsonStep a (CHR '' '') = Some (EndTop, s, n)" and b: "jsonStep b (CHR '' '') = Some (EndTop, t, m)"
    unfolding jsonEnd_def by (auto split: option.splits prod.splits jstate.splits)
  from innerRun_step [OF i a b] show False unfolding innerRun_def by simp
qed

lemma jsonRun_append: "jsonRun conf (xs @ ys) = (case jsonRun conf xs of None \<Rightarrow> None | Some conf' \<Rightarrow> jsonRun conf' ys)"
  by (induction xs arbitrary: conf) (auto split: option.splits)

lemma run_top:
  assumes "jsonRun (st, stk, num) cs = Some (st', stk', num')" and "st = EndTop \<longleftrightarrow> stk = []" and "literalOK st"
  shows "(st' = EndTop \<longleftrightarrow> stk' = []) \<and> literalOK st'"
  using assms
proof (induction cs arbitrary: st stk num)
  case (Cons c cs)
  then obtain st1 stk1 num1 where step: "jsonStep (st, stk, num) c = Some (st1, stk1, num1)"
    and rest: "jsonRun (st1, stk1, num1) cs = Some (st', stk', num')" by (auto split: option.splits)
  note s = jsonStep_scan [OF step]
  from rest scan_top [OF s Cons.prems(2)] scan_literal [OF s Cons.prems(3)] show ?case by (rule Cons.IH)
qed simp

lemma endValue_brace: "endValue stk (CHR 0x7B) = None"
  by (cases stk) (auto simp: jsonSpace_def split: frame.split)

lemma scan_brace:
  assumes "scanStep st stk (CHR 0x7B) = Some (st', stk')" and "literalOK st"
  shows "st = InString \<and> st' = InString \<or> \<not> inString st \<and> st' = BeginStringOrEmpty \<and> stk' = ObjectKey # stk"
  using assms
  by (cases st)
    (auto simp: beginValue_def beginString_def afterZero_def inSign_def pushFrame_def isDigit_def jsonSpace_def hexChar_def
      endValue_brace simp del: endValue.simps split: if_split_asm list.splits)

theorem object_suffix_invalid:
  assumes "validJSON (CHR 0x7B # p @ CHR 0x7B # q)"
  shows "\<not> validJSON (CHR 0x7B # q)"
proof
  assume "validJSON (CHR 0x7B # q)"
  have first: "jsonStep (BeginValue, [], []) (CHR 0x7B) = Some (BeginStringOrEmpty, [ObjectKey], [])" by code_simp
  with \<open>validJSON (CHR 0x7B # q)\<close> obtain b where b: "jsonRun (BeginStringOrEmpty, [ObjectKey], []) q = Some b" "jsonEnd b"
    by (auto simp: validJSON_def split: option.splits)
  from assms first obtain st stk num st' stk' num' a where
    p: "jsonRun (BeginStringOrEmpty, [ObjectKey], []) p = Some (st, stk, num)"
    and brace: "jsonStep (st, stk, num) (CHR 0x7B) = Some (st', stk', num')"
    and a: "jsonRun (st', stk', num') q = Some a" "jsonEnd a"
    by (auto simp: validJSON_def jsonRun_append split: option.splits)
  have ok: "st = EndTop \<longleftrightarrow> stk = []" "literalOK st" using run_top [OF p] by auto
  have "st \<noteq> EndTop" using jsonStep_scan [OF brace] by (auto simp: jsonSpace_def)
  from scan_brace [OF jsonStep_scan [OF brace] ok(2)] show False
  proof (elim disjE conjE)
    assume "st = InString" and "st' = InString"
    then have "opposite st' BeginStringOrEmpty" by (simp add: opposite_def)
    obtain a1 a2 a3 b1 b2 b3 where ab: "a = (a1, a2, a3)" "b = (b1, b2, b3)" by (cases a, cases b) auto
    have "opposite a1 b1" using a(1) b(1) \<open>opposite st' BeginStringOrEmpty\<close> unfolding ab by (rule opposite_run)
    then show False using jsonEnd_state a(2) b(2) unfolding ab opposite_def by blast
  next
    assume "st' = BeginStringOrEmpty" and "stk' = ObjectKey # stk"
    moreover from this have "num' = []" using brace by (auto simp: jsonStep_def split: option.splits if_splits)
    ultimately have "innerRun stk (st', stk', num') (BeginStringOrEmpty, [ObjectKey], [])"
      using ok \<open>st \<noteq> EndTop\<close> by (simp add: innerRun_def)
    from innerRun_end [OF innerRun_run [OF a(1) b(1) this]] a(2) b(2) show False by blast
  qed
qed

text \<open>A report at the end of the output is found, whatever the log in front of it, if what follows closes no brace.\<close>

lemma lastReport_end:
  assumes r: "report = CHR 0x7B # q @ [CHR 0x7D]" and "validJSON report" and "CHR 0x7D \<notin> set tail"
  shows "lastReport (noise @ report @ tail) (length noise) (length noise + Suc (length q))"
    and "braced (noise @ report @ tail) (length noise) (length noise + Suc (length q)) = report"
proof -
  let ?s = "noise @ report @ tail"
  let ?i = "length noise"
  let ?j = "length noise + Suc (length q)"
  have part: "braced ?s (?i + k) ?j = drop k report" if "k < length report" for k
  proof -
    have len: "length report = Suc (Suc (length q))" using r by simp
    show ?thesis using that unfolding braced_def by (simp add: len)
  qed
  show whole: "braced ?s ?i ?j = report" using part [of 0] r by simp
  have "isReport ?s ?i ?j" unfolding isReport_def using assms(2) whole r by (simp add: nth_append)
  moreover have "l < ?j \<or> l = ?j \<and> k \<le> ?i" if rep: "isReport ?s k l" for k l
  proof -
    have l: "l < length ?s" "?s ! l = CHR 0x7D" "k < l" "?s ! k = CHR 0x7B" "validJSON (braced ?s k l)"
      using rep by (simp_all add: isReport_def)
    have "l \<le> ?j"
    proof (rule ccontr)
      assume "\<not> l \<le> ?j"
      then have "?s ! l = tail ! (l - length noise - length report)" and "l - length noise - length report < length tail"
        using l(1) r by (auto simp: nth_append)
      then show False using l(2) assms(3) nth_mem by metis
    qed
    moreover have "k \<le> ?i" if "l = ?j"
    proof (rule ccontr)
      assume "\<not> k \<le> ?i"
      then have n: "k = ?i + Suc (k - Suc ?i)" by simp
      define n where "n = k - Suc ?i"
      note n = n [folded n_def]
      then have m: "Suc n < length report" using l(3) that r by simp
      have at: "report ! Suc n = CHR 0x7B" using l(4) m n by (simp add: nth_append)
      have d: "drop (Suc n) report = CHR 0x7B # drop (Suc (Suc n)) report"
        using Cons_nth_drop_Suc [OF m] unfolding at by (rule sym)
      have t: "take (Suc n) report = CHR 0x7B # take n (q @ [CHR 0x7D])" unfolding r by simp
      have "report = take (Suc n) report @ drop (Suc n) report" by (rule append_take_drop_id [symmetric])
      then have "validJSON (take (Suc n) report @ drop (Suc n) report)" using assms(2) by (rule subst)
      then have "\<not> validJSON (drop (Suc n) report)" unfolding d t append_Cons by (rule object_suffix_invalid)
      then show False using l(5) part [OF m] that n by simp
    qed
    ultimately show ?thesis by auto
  qed
  ultimately show "lastReport ?s ?i ?j" unfolding lastReport_def by blast
qed

end
