(* ===== verification/DependencyCommand.thy ===== *)
theory DependencyCommand
  imports Tasks
begin

text \<open>
  The command of a \<^verbatim>\<open>dependency.update\<close> effect: \<^verbatim>\<open>pkg/types/v2/dependency_update_command.go\<close> and the configuration of
  \<^verbatim>\<open>exec_effects.go\<close>.  The Python script is given by its text before and after the place of the configuration.
\<close>

record dependency_config =
  dc_Ecosystems :: "string list"
  dc_Paths :: "string list"
  dc_ExcludePaths :: "string list"
  dc_Grouping :: string
  dc_IncludeMajor :: bool
  dc_SeparateMajor :: "bool option"
  dc_SeparateSecurity :: "bool option"
  dc_SeparateRuntime :: "bool option"
  dc_Allow :: "string list"
  dc_Ignore :: "string list"
  dc_Timeout :: string

definition boolField :: "gmap \<Rightarrow> string \<Rightarrow> bool option" where
  "boolField m k = (case map_of m k of Some (GBool b) \<Rightarrow> Some b | _ \<Rightarrow> None)"

definition dependencyConfigOf :: "gmap \<Rightarrow> dependency_config" where
  "dependencyConfigOf m =
     \<lparr>dc_Ecosystems = strsField m ''ecosystems'', dc_Paths = strsField m ''paths'',
      dc_ExcludePaths = strsField m ''exclude_paths'', dc_Grouping = strField m ''grouping'',
      dc_IncludeMajor = (boolField m ''include_major'' = Some True), dc_SeparateMajor = boolField m ''separate_major'',
      dc_SeparateSecurity = boolField m ''separate_security'', dc_SeparateRuntime = boolField m ''separate_runtime'',
      dc_Allow = strsField m ''allow'', dc_Ignore = strsField m ''ignore'', dc_Timeout = strField m ''timeout''\<rparr>"

definition cleanStringList :: "string list \<Rightarrow> string list" where
  "cleanStringList values = filter (\<lambda>v. v \<noteq> []) (map trimSpace values)"

definition orDefault :: "'a list \<Rightarrow> 'a list \<Rightarrow> 'a list" where
  "orDefault d xs = (if xs = [] then d else xs)"

definition orTrue :: "bool option \<Rightarrow> bool option" where
  "orTrue b = (case b of None \<Rightarrow> Some True | Some x \<Rightarrow> Some x)"

definition normalizeDependencyUpdateConfig :: "dependency_config \<Rightarrow> dependency_config" where
  "normalizeDependencyUpdateConfig cfg =
     \<lparr>dc_Ecosystems = orDefault [''auto''] (cleanStringList (dc_Ecosystems cfg)),
      dc_Paths = orDefault [''.''] (cleanStringList (dc_Paths cfg)),
      dc_ExcludePaths = cleanStringList (dc_ExcludePaths cfg),
      dc_Grouping = orDefault ''all'' (trimSpace (dc_Grouping cfg)),
      dc_IncludeMajor = dc_IncludeMajor cfg,
      dc_SeparateMajor = orTrue (dc_SeparateMajor cfg), dc_SeparateSecurity = orTrue (dc_SeparateSecurity cfg),
      dc_SeparateRuntime = orTrue (dc_SeparateRuntime cfg),
      dc_Allow = orDefault [''*''] (cleanStringList (dc_Allow cfg)), dc_Ignore = cleanStringList (dc_Ignore cfg),
      dc_Timeout = []\<rparr>"

text \<open>The JSON of a configuration, in the order of the struct; empty optional fields are left out.\<close>

definition listMember :: "string \<Rightarrow> string list \<Rightarrow> (string \<times> jtext) list" where
  "listMember k xs = (if xs = [] then [] else [(k, JArr (map JStr xs))])"

definition textMember :: "string \<Rightarrow> string \<Rightarrow> (string \<times> jtext) list" where
  "textMember k s = (if s = [] then [] else [(k, JStr s)])"

definition boolMember :: "string \<Rightarrow> bool option \<Rightarrow> (string \<times> jtext) list" where
  "boolMember k b = (case b of None \<Rightarrow> [] | Some x \<Rightarrow> [(k, JBool x)])"

definition dependencyConfigJSON :: "dependency_config \<Rightarrow> string" where
  "dependencyConfigJSON cfg = jsonText (JObj (
     [(''ecosystems'', JArr (map JStr (dc_Ecosystems cfg)))] @ listMember ''paths'' (dc_Paths cfg) @
     listMember ''exclude_paths'' (dc_ExcludePaths cfg) @ textMember ''grouping'' (dc_Grouping cfg) @
     (if dc_IncludeMajor cfg then [(''include_major'', JBool True)] else []) @
     boolMember ''separate_major'' (dc_SeparateMajor cfg) @ boolMember ''separate_security'' (dc_SeparateSecurity cfg) @
     boolMember ''separate_runtime'' (dc_SeparateRuntime cfg) @ listMember ''allow'' (dc_Allow cfg) @
     listMember ''ignore'' (dc_Ignore cfg) @ textMember ''timeout'' (dc_Timeout cfg)))"

text \<open>\<^verbatim>\<open>base64.StdEncoding\<close>.\<close>

definition base64Char :: "nat \<Rightarrow> char" where
  "base64Char n = char_of (if n < 26 then 65 + n else if n < 52 then 71 + n else if n < 62 then n - 4
     else if n = 62 then 43 else 47)"

fun base64 :: "string \<Rightarrow> string" where
  "base64 [] = []"
| "base64 [a] = (let x = of_char a :: nat in [base64Char (x div 4), base64Char (x mod 4 * 16), CHR ''='', CHR ''=''])"
| "base64 [a, b] =
     (let x = of_char a :: nat; y = of_char b :: nat in
      [base64Char (x div 4), base64Char (x mod 4 * 16 + y div 16), base64Char (y mod 16 * 4), CHR ''=''])"
| "base64 (a # b # c # cs) =
     (let x = of_char a :: nat; y = of_char b :: nat; z = of_char c :: nat in
      base64Char (x div 4) # base64Char (x mod 4 * 16 + y div 16) # base64Char (y mod 16 * 4 + z div 64) #
      base64Char (z mod 64) # base64 cs)"

definition BuildDependencyUpdateCommand :: "string \<times> string \<Rightarrow> dependency_config \<Rightarrow> string" where
  "BuildDependencyUpdateCommand script cfg =
     (let encoded = base64 (dependencyConfigJSON (normalizeDependencyUpdateConfig cfg)); q = [CHR 0x27] in
      ''python3 - <<'' @ q @ ''PY'' @ q @ [CHR 0x0A] @ fst script @ encoded @ snd script @ [CHR 0x0A] @ ''PY'')"

section \<open>The normal form\<close>

lemma cleanStringList_idem: "cleanStringList (cleanStringList xs) = cleanStringList xs"
  by (simp add: cleanStringList_def filter_map comp_def cong: filter_cong)

lemma normalize_idem: "normalizeDependencyUpdateConfig (normalizeDependencyUpdateConfig cfg) = normalizeDependencyUpdateConfig cfg"
proof -
  have "cleanStringList (orDefault [c # cs] (cleanStringList xs)) = orDefault [c # cs] (cleanStringList xs)"
    if "trimSpace (c # cs) = c # cs" for c cs and xs
    using that by (simp add: orDefault_def cleanStringList_idem) (simp add: cleanStringList_def)
  moreover have "trimSpace (orDefault ''all'' (trimSpace g)) = orDefault ''all'' (trimSpace g)" for g
    by (simp add: orDefault_def) code_simp
  moreover have "orTrue (orTrue b) = orTrue b" for b by (simp add: orTrue_def split: option.split)
  moreover have "trimSpace ''auto'' = ''auto''" "trimSpace ''.'' = ''.''" "trimSpace ''*'' = ''*''" by code_simp+
  moreover have "orDefault d (orDefault d xs) = orDefault d xs" for d :: "'c list" and xs by (simp add: orDefault_def)
  ultimately show ?thesis
    by (simp add: normalizeDependencyUpdateConfig_def cleanStringList_idem) (simp add: orDefault_def)
qed

section \<open>No configuration breaks out of the script\<close>

definition base64Text :: "char \<Rightarrow> bool" where
  "base64Text c \<longleftrightarrow> (let n = of_char c :: nat in 65 \<le> n \<and> n \<le> 90 \<or> 97 \<le> n \<and> n \<le> 122 \<or> 47 \<le> n \<and> n \<le> 57 \<or> n = 43 \<or> n = 61)"

lemma base64Char_text: "base64Text (base64Char n)"
  by (auto simp: base64Text_def base64Char_def Let_def)

lemma base64_text: "list_all base64Text (base64 s)"
  by (induction s rule: base64.induct) (auto simp: Let_def base64Char_text, simp_all add: base64Text_def)

text \<open>The command is the fixed text around the configuration, which is free of quotes and line ends.\<close>

lemma command_shape:
  obtains encoded where "list_all base64Text encoded"
    and "BuildDependencyUpdateCommand script cfg =
      ''python3 - <<'' @ [CHR 0x27] @ ''PY'' @ [CHR 0x27, CHR 0x0A] @ fst script @ encoded @ snd script @ [CHR 0x0A] @ ''PY''"
  using base64_text [of "dependencyConfigJSON (normalizeDependencyUpdateConfig cfg)"]
  by (simp add: BuildDependencyUpdateCommand_def Let_def)

end
