(* ===== verification/CommandTasks.thy ===== *)
theory CommandTasks
  imports Bridge GoJson DependencyCommand
begin

text \<open>
  Command tasks on the claw: \<^verbatim>\<open>cmd/claw-bridge/exec_tasks.go\<close>.  The shell is outside the model: \<open>run_output\<close> is what a
  run of the command returns, an argument of the steps.
\<close>

section \<open>Durations as text\<close>

text \<open>\<^verbatim>\<open>Duration.String\<close>.\<close>

definition fractionText :: "int \<Rightarrow> nat \<Rightarrow> string" where
  "fractionText v digits =
     (let ds = rev (dropWhile (\<lambda>c. c = CHR ''0'') (rev (pad digits (v mod 10 ^ digits)))) in
      natDigits (v div 10 ^ digits) @ (if ds = [] then [] else CHR ''.'' # ds))"

definition durationText :: "int \<Rightarrow> string" where
  "durationText d =
     (let u = \<bar>d\<bar>; secs = u div 1000000000; minutes = secs div 60; hours = minutes div 60 in
      (if d < 0 then ''-'' else []) @
      (if u = 0 then ''0s''
       else if u < 1000 then natDigits u @ ''ns''
       else if u < 1000000 then fractionText u 3 @ [CHR 0xC2, CHR 0xB5, CHR ''s'']
       else if u < 1000000000 then fractionText u 6 @ ''ms''
       else (if 0 < hours then natDigits hours @ ''h'' else []) @
         (if 0 < minutes then natDigits (minutes mod 60) @ ''m'' else []) @
         fractionText (u mod 60000000000) 9 @ ''s''))"

section \<open>Commands and their receipts\<close>

definition defaultExecRunTimeout :: int where
  "defaultExecRunTimeout = 600000000000"

definition defaultDependencyUpdateTimeout :: int where
  "defaultDependencyUpdateTimeout = 1800000000000"

definition maxExecOutputBytes :: nat where
  "maxExecOutputBytes = 8000"

definition shellQuote :: "string \<Rightarrow> string" where
  "shellQuote s =
     (let q = CHR 0x27 in
      [q] @ concat (map (\<lambda>c. if c = q then [q, CHR 0x22, q, CHR 0x22, q] else [c]) s) @ [q])"

definition bridgeWorkspaceCommand :: "bridge_env \<Rightarrow> string \<Rightarrow> string" where
  "bridgeWorkspaceCommand env command =
     (let q = [CHR 0x22]; inner = ''cd '' @ q @ ''$HOME/.openclaw/workspace'' @ q @ '' && '' @ command in
      if hasFlake env then ''~/.elasticclaw/flake-run bash -lc '' @ shellQuote inner else inner)"

definition truncateOutput :: "string \<Rightarrow> nat \<Rightarrow> string" where
  "truncateOutput output limit =
     (let v = trimSpace output; rs = runes v; half = limit div 2 in
      if length rs \<le> limit then v
      else concat (take half rs) @ [CHR 0x0A] @ ''...[truncated]'' @ [CHR 0x0A] @ concat (drop (length rs - half) rs))"

datatype run_error = DeadlineExceeded | ExitCode int | OtherError string

record run_output =
  ro_Error :: "run_error option"
  ro_Stdout :: string
  ro_Stderr :: string

definition commandTimeout :: "bridge_env \<Rightarrow> int \<Rightarrow> string \<Rightarrow> int" where
  "commandTimeout env fallback timeout =
     (if timeout = [] then fallback
      else case parseDuration env timeout of None \<Rightarrow> fallback | Some d \<Rightarrow> if 0 < d then d else fallback)"

text \<open>The exit code and the error message of a run.\<close>

definition runFailure :: "string \<Rightarrow> int \<Rightarrow> run_error option \<Rightarrow> int \<times> string" where
  "runFailure timeoutText timeout err =
     (case err of
        None \<Rightarrow> (0, [])
      | Some DeadlineExceeded \<Rightarrow> (124, timeoutText @ '' timed out after '' @ durationText timeout)
      | Some (ExitCode n) \<Rightarrow> (n, ''exit code '' @ itoa n)
      | Some (OtherError msg) \<Rightarrow> (1, if msg = [] then ''exit code 1'' else msg))"

definition errorEntry :: "string \<Rightarrow> gmap" where
  "errorEntry msg = (if msg = [] then [] else [(''error'', GStr msg)])"

definition runExecCommand :: "bridge_env \<Rightarrow> string \<Rightarrow> run_output \<Rightarrow> gmap \<times> string" where
  "runExecCommand env timeoutText out =
     (let timeout = commandTimeout env defaultExecRunTimeout timeoutText;
          (code, msg) = runFailure ''command'' timeout (ro_Error out); ok = (ro_Error out = None) in
      ([(''exit_code'', GInt code), (''succeeded'', GBool ok),
        (''stdout'', GStr (truncateOutput (ro_Stdout out) maxExecOutputBytes)),
        (''stderr'', GStr (truncateOutput (ro_Stderr out) maxExecOutputBytes))] @ errorEntry msg,
       if ok then ''exec.run.completed'' else ''exec.run.failed''))"

definition scriptReport :: "bridge_env \<Rightarrow> string \<Rightarrow> gmap" where
  "scriptReport env output =
     (case lastJSONObject output of
        None \<Rightarrow> []
      | Some doc \<Rightarrow> (case decodeObject env doc of None \<Rightarrow> [] | Some parsed \<Rightarrow> parsed))"

definition runDependencyUpdateCommand :: "bridge_env \<Rightarrow> string \<Rightarrow> run_output \<Rightarrow> gmap \<times> string" where
  "runDependencyUpdateCommand env timeoutText out =
     (let timeout = commandTimeout env defaultDependencyUpdateTimeout timeoutText;
          (code, msg) = runFailure ''dependency update'' timeout (ro_Error out); ok = (ro_Error out = None);
          r = AList.update ''succeeded'' (GBool ok) (scriptReport env (ro_Stdout out)) in
      (if msg = [] then r else AList.update ''error'' (GStr msg) r,
       if ok then ''dependency.update.completed'' else ''dependency.update.failed''))"

section \<open>Carrying out a command task\<close>

definition enqueueCommandEvent ::
    "bridge_env \<Rightarrow> int \<Rightarrow> claw_binding \<Rightarrow> string \<Rightarrow> string \<Rightarrow> gmap \<Rightarrow> bridge \<Rightarrow> gerr + bridge" where
  "enqueueCommandEvent env now bd taskID kind payload b =
     bindE (enqueueEvent env now bd taskID kind (Some (stateVersion bd b)) (Some (GMap payload)) b) (\<lambda>(_, b1). Inr b1)"

definition finishCommandTask ::
    "bridge_env \<Rightarrow> int \<Rightarrow> claw_binding \<Rightarrow> string \<Rightarrow> string \<Rightarrow> string \<Rightarrow> gerr \<Rightarrow> bridge \<Rightarrow> bridge" where
  "finishCommandTask env now bd taskID assignmentMessageID kind reason b =
     (case enqueueCommandEvent env now bd taskID kind [(''succeeded'', GBool False), (''error'', GStr (errText reason))] b of
        Inl _ \<Rightarrow> b
      | Inr b1 \<Rightarrow> snd (setIncomingStatus now assignmentMessageID InRunning InFailed b1))"

text \<open>The command line of an assignment, and the event that reports a failure to decode it.\<close>

definition commandLine :: "bridge_env \<Rightarrow> string \<Rightarrow> gval option \<Rightarrow> (string \<times> gerr) + string" where
  "commandLine env kind payload =
     (if kind = ''exec.run.assign'' then
        (case decodePayload execRunFields payload of
           Inl e \<Rightarrow> Inl (''exec.run.failed'', Wrapf ''decode exec.run config: %w'' [] e)
         | Inr m \<Rightarrow> Inr (strField m ''command''))
      else if kind = ''dependency.update.assign'' then
        (case decodePayload dependencyUpdateFields payload of
           Inl e \<Rightarrow> Inl (''dependency.update.failed'', Wrapf ''decode dependency.update config: %w'' [] e)
         | Inr m \<Rightarrow> Inr (BuildDependencyUpdateCommand (dependencyScript env) (dependencyConfigOf m)))
      else Inl (''exec.run.failed'', Errf ''unsupported command task kind %q'' [kind]))"

text \<open>\<open>executeCommandTask\<close> up to the run of the shell.\<close>

definition beginCommand :: "bridge_env \<Rightarrow> int \<Rightarrow> proc \<Rightarrow> string \<Rightarrow> string \<Rightarrow> gval option \<Rightarrow> bridge \<Rightarrow> bridge" where
  "beginCommand env now p kind taskID payload b =
     (let bd = pr_Binding p; m = pr_Message p in
      case setIncomingStatus now m InAccepted InRunning b of
        (False, b1) \<Rightarrow> dropProc p b1
      | (True, b1) \<Rightarrow>
          let b2 = registerTaskCancellation taskID (pr_Handle p) b1 in
          (case commandLine env kind payload of
             Inl (failed, e) \<Rightarrow> endCommand p taskID (finishCommandTask env now bd taskID m failed e b2)
           | Inr command \<Rightarrow>
               beginWork p (b2\<lparr>bg_commands := bg_commands b2 @ [(m, bridgeWorkspaceCommand env command)]\<rparr>)))"

definition commandReceipt :: "bridge_env \<Rightarrow> string \<Rightarrow> gval option \<Rightarrow> run_output \<Rightarrow> gmap \<times> string" where
  "commandReceipt env kind payload out =
     (let timeout = (case payload of Some (GMap m) \<Rightarrow> strField m ''timeout'' | _ \<Rightarrow> []) in
      if kind = ''exec.run.assign'' then runExecCommand env timeout out else runDependencyUpdateCommand env timeout out)"

text \<open>\<open>executeCommandTask\<close> after it.\<close>

definition endRun :: "bridge_env \<Rightarrow> int \<Rightarrow> proc \<Rightarrow> string \<Rightarrow> string \<Rightarrow> gval option \<Rightarrow> run_output \<Rightarrow> bridge \<Rightarrow> bridge" where
  "endRun env now p kind taskID payload out b =
     (case commandReceipt env kind payload out of
        (receipt, completedKind) \<Rightarrow>
          endCommand p taskID
            (case enqueueCommandEvent env now (pr_Binding p) taskID completedKind receipt b of
               Inl _ \<Rightarrow> b
             | Inr b1 \<Rightarrow> snd (setIncomingStatus now (pr_Message p) InRunning InCompleted b1)))"

end
