(* ===== verification/LocalControl.thy ===== *)
theory LocalControl
  imports CommandTasks
begin

text \<open>
  The local end point of the bridge and the \<^verbatim>\<open>claw-bridge control\<close> command line: \<^verbatim>\<open>ServeHTTP\<close>, \<^verbatim>\<open>bridgeRegistration\<close>,
  \<^verbatim>\<open>runControlCLI\<close> and \<^verbatim>\<open>controlCLIRequest\<close> of \<^verbatim>\<open>cmd/claw-bridge/control_v2.go\<close>.  A request is given decoded.
\<close>

section \<open>The end point\<close>

record local_request =
  lr_Kind :: string
  lr_TaskID :: string
  lr_ExpectedStateVersion :: "nat option"
  lr_Payload :: "gval option"

datatype http_reply =
    HttpError nat string
  | HttpStatus bool "claw_binding option" "workflow_snapshot option"
  | HttpReceipt nat control_receipt
  | HttpPending string

definition localStatus :: "bridge \<Rightarrow> http_reply" where
  "localStatus b = HttpStatus (bg_connected b) (bg_binding b) (bg_snapshot b)"

text \<open>A request takes the current task and the state version of the snapshot where it names none.\<close>

definition completeRequest :: "workflow_snapshot option \<Rightarrow> local_request \<Rightarrow> local_request" where
  "completeRequest snapshot r =
     (case snapshot of
        None \<Rightarrow> r
      | Some ws \<Rightarrow>
          r\<lparr>lr_TaskID := (if lr_TaskID r = [] then (case ws_CurrentTask ws of None \<Rightarrow> [] | Some t \<Rightarrow> gt_ID t) else lr_TaskID r),
            lr_ExpectedStateVersion := (if lr_ExpectedStateVersion r = None then Some (ws_StateVersion ws)
              else lr_ExpectedStateVersion r)\<rparr>)"

definition localPost :: "bridge_env \<Rightarrow> int \<Rightarrow> local_request \<Rightarrow> bridge \<Rightarrow> (http_reply + string) \<times> bridge" where
  "localPost env now request b =
     (case bg_binding b of
        None \<Rightarrow> (Inl (HttpError 409 ''no active workflow v2 binding''), b)
      | Some bd \<Rightarrow>
          let r = completeRequest (bg_snapshot b) request;
              expected = (if lr_Kind r = ''agent.task.heartbeat'' \<or> lr_Kind r = ''help.requested'' then None
                else lr_ExpectedStateVersion r) in
          (case enqueueEvent env now bd (lr_TaskID r) (lr_Kind r) expected (lr_Payload r) b of
             Inl e \<Rightarrow> (Inl (HttpError 400 (errText e)), b)
           | Inr (messageID, b1) \<Rightarrow> (Inr messageID, b1)))"

text \<open>What a request waiting for its receipt is answered, \<open>b\<close> being the state when the wait ends.\<close>

definition localAnswer :: "bool \<Rightarrow> string \<Rightarrow> bridge \<Rightarrow> http_reply" where
  "localAnswer connected messageID b =
     (if \<not> connected then HttpPending messageID
      else case storedReceipt messageID b of
        None \<Rightarrow> HttpPending messageID
      | Some r \<Rightarrow>
          HttpReceipt (if cr_Disposition r \<noteq> DispAccepted \<and> cr_Disposition r \<noteq> DispDuplicate then 409 else 200) r)"

fun httpStatus :: "http_reply \<Rightarrow> nat" where
  "httpStatus (HttpError n msg) = n"
| "httpStatus (HttpStatus c bd ws) = 200"
| "httpStatus (HttpReceipt n r) = n"
| "httpStatus (HttpPending m) = 202"

definition bridgeRegistration :: "string \<Rightarrow> bool \<Rightarrow> bridge_registration" where
  "bridgeRegistration version controlAvailable =
     \<lparr>br_BridgeVersion = version,
      br_Protocols = ''conversation.v1'' # (if controlAvailable then [''control.v2''] else []),
      br_Capabilities = (if controlAvailable then [''workflow.snapshot'', ''agent.task'', ''delivery.manifest'', ''local.control'']
        else [])\<rparr>"

definition registrationOf :: "string \<Rightarrow> string \<Rightarrow> bridge_registration \<Rightarrow> claw_binding \<Rightarrow> control_registration" where
  "registrationOf token clawID reg bd =
     \<lparr>cg_Token = token, cg_ClawID = clawID, cg_RunID = wb_RunID bd, cg_AttemptID = wb_AttemptID bd, cg_Bridge = reg\<rparr>"

section \<open>The command line\<close>

record cli_request =
  lq_Kind :: string
  lq_TaskID :: string
  lq_StateVersion :: "nat option"
  lq_Payload :: string

datatype cli_action = CliExit nat | CliGet | CliPost cli_request

definition parseUint :: "string \<Rightarrow> nat option" where
  "parseUint s = (if s \<noteq> [] \<and> list_all isDigit s \<and> digitsVal s < 2 ^ 64 then Some (nat (digitsVal s)) else None)"

definition trimPrefix :: "string \<Rightarrow> string \<Rightarrow> string" where
  "trimPrefix s p = (if hasPrefix s p then drop (length p) s else s)"

definition withVersion :: "string \<Rightarrow> cli_request \<Rightarrow> cli_request option" where
  "withVersion s r = (case parseUint s of None \<Rightarrow> None | Some v \<Rightarrow> Some (r\<lparr>lq_StateVersion := Some v\<rparr>))"

fun cliOptions :: "string list \<Rightarrow> cli_request \<Rightarrow> cli_request option" where
  "cliOptions [] r = Some r"
| "cliOptions (a # args) r =
     (if hasPrefix a ''--task-id='' then cliOptions args (r\<lparr>lq_TaskID := trimPrefix a ''--task-id=''\<rparr>)
      else if a = ''--task-id'' \<and> args \<noteq> [] then
        (case args of v # others \<Rightarrow> cliOptions others (r\<lparr>lq_TaskID := v\<rparr>) | [] \<Rightarrow> None)
      else if hasPrefix a ''--state-version='' then
        (case withVersion (trimPrefix a ''--state-version='') r of None \<Rightarrow> None | Some r' \<Rightarrow> cliOptions args r')
      else if a = ''--state-version'' \<and> args \<noteq> [] then
        (case args of
           v # others \<Rightarrow> (case withVersion v r of None \<Rightarrow> None | Some r' \<Rightarrow> cliOptions others r')
         | [] \<Rightarrow> None)
      else if hasPrefix a ''--payload='' then cliOptions args (r\<lparr>lq_Payload := trimPrefix a ''--payload=''\<rparr>)
      else if a = ''--payload'' \<and> args \<noteq> [] then
        (case args of v # others \<Rightarrow> cliOptions others (r\<lparr>lq_Payload := v\<rparr>) | [] \<Rightarrow> None)
      else None)"

text \<open>\<^verbatim>\<open>json.Marshal\<close> of a request fails on a raw payload the scanner does not accept.\<close>

fun scanRun :: "jstate \<Rightarrow> frame list \<Rightarrow> string \<Rightarrow> bool" where
  "scanRun st stk [] = (case scanStep st stk (CHR '' '') of Some (EndTop, _) \<Rightarrow> True | _ \<Rightarrow> False)"
| "scanRun st stk (c # cs) = (case scanStep st stk c of None \<Rightarrow> False | Some (st', stk') \<Rightarrow> scanRun st' stk' cs)"

definition manifestJSON :: "string list \<Rightarrow> string" where
  "manifestJSON urls = jsonText (JObj [(''pull_requests'', JArr (map (\<lambda>u. JObj [(''url'', JStr u)]) urls))])"

definition emptyRequest :: "string \<Rightarrow> cli_request" where
  "emptyRequest kind = \<lparr>lq_Kind = kind, lq_TaskID = [], lq_StateVersion = None, lq_Payload = []\<rparr>"

definition cliSend :: "string list \<Rightarrow> cli_request \<Rightarrow> cli_action" where
  "cliSend args r =
     (case cliOptions args r of
        None \<Rightarrow> CliExit 2
      | Some r' \<Rightarrow> if lq_Payload r' \<noteq> [] \<and> \<not> scanRun BeginValue [] (lq_Payload r') then CliExit 1 else CliPost r')"

definition runControlCLI :: "string list \<Rightarrow> cli_action" where
  "runControlCLI args =
     (case args of
        [] \<Rightarrow> CliExit 2
      | command # rest \<Rightarrow>
          if command = ''status'' then CliGet
          else if command = ''send'' then
            (case rest of [] \<Rightarrow> CliExit 2 | kind # others \<Rightarrow> cliSend others (emptyRequest kind))
          else if command = ''plan'' then cliSend rest (emptyRequest ''plan.submitted'')
          else if command = ''help'' then cliSend rest (emptyRequest ''help.requested'')
          else if command = ''delivery'' then
            (if rest = [] then CliExit 2
             else cliSend [] ((emptyRequest ''delivery.submitted'')\<lparr>lq_Payload := manifestJSON rest\<rparr>))
          else CliExit 2)"

definition cliExitCode :: "http_reply \<Rightarrow> nat" where
  "cliExitCode reply = (if httpStatus reply < 200 \<or> 300 \<le> httpStatus reply then 1 else 0)"

section \<open>Facts\<close>

text \<open>The bridge registers for workflow schema 2 exactly when it has its store.\<close>

lemma registration_supports_v2: "ValidateBridgeForWorkflow ''2'' (bridgeRegistration v c) = Inr () \<longleftrightarrow> c"
proof -
  have "IsV2 ''2''" by code_simp
  then show ?thesis by (simp add: ValidateBridgeForWorkflow_def bridgeRegistration_def SupportsProtocol_def)
qed

text \<open>An unanswered request exits with success: the message is queued, and the hub's refusal comes later.\<close>

lemma pending_exit_code: "cliExitCode (HttpPending m) = 0"
  by (simp add: cliExitCode_def)

end
