(* ===== verification/BridgeSteps.thy ===== *)
theory BridgeSteps
  imports LocalControl "HOL-Library.Multiset"
begin

text \<open>
  The bridge as a transition system: every event that changes its state is a \<open>bridge_op\<close>, \<open>performOp\<close> carries it out, and
  \<open>runBridge\<close> is any history, restarts included.  \<open>bridge_frame\<close> collects what follows for every step from the
  operations on the tables; \<open>bridge_log\<close> extends it to the calls of the gateway and the shell.
\<close>

section \<open>Steps\<close>

datatype bridge_op =
    BindTo "claw_binding option"
  | Registered int claw_binding string "workflow_snapshot option"
  | Disconnected claw_binding
  | FromHub int claw_binding envelope bool
  | HubReceipt int claw_binding control_receipt
  | SendTick int claw_binding nat
  | GatewayReady bool
  | Begin int nat
  | Heartbeat int nat
  | TurnEnded int nat turn_result
  | RunEnded int nat run_output
  | LocalRequest int local_request
  | Restart

text \<open>A step of the goroutine with the given handle, if it is in the given phase.\<close>

definition procStep :: "nat \<Rightarrow> phase \<Rightarrow> (proc \<Rightarrow> bridge \<Rightarrow> bridge) \<Rightarrow> bridge \<Rightarrow> bridge" where
  "procStep h ph f b =
     (case find (\<lambda>p. pr_Handle p = h \<and> pr_Phase p = ph) (bg_procs b) of None \<Rightarrow> b | Some p \<Rightarrow> f p b)"

definition beginProc :: "bridge_env \<Rightarrow> int \<Rightarrow> proc \<Rightarrow> bridge \<Rightarrow> bridge" where
  "beginProc env now p b =
     (case pr_Work p of
        AgentWork task \<Rightarrow> beginTask env now p task b
      | CommandWork kind taskID payload \<Rightarrow> beginCommand env now p kind taskID payload b)"

definition heartbeatProc :: "bridge_env \<Rightarrow> int \<Rightarrow> proc \<Rightarrow> bridge \<Rightarrow> bridge" where
  "heartbeatProc env now p b =
     (case pr_Work p of AgentWork task \<Rightarrow> taskHeartbeat env now p task b | CommandWork _ _ _ \<Rightarrow> b)"

definition turnProc :: "bridge_env \<Rightarrow> int \<Rightarrow> turn_result \<Rightarrow> proc \<Rightarrow> bridge \<Rightarrow> bridge" where
  "turnProc env now result p b =
     (case pr_Work p of AgentWork task \<Rightarrow> endTurn env now p task result b | CommandWork _ _ _ \<Rightarrow> b)"

definition runProc :: "bridge_env \<Rightarrow> int \<Rightarrow> run_output \<Rightarrow> proc \<Rightarrow> bridge \<Rightarrow> bridge" where
  "runProc env now out p b =
     (case pr_Work p of
        AgentWork _ \<Rightarrow> b
      | CommandWork kind taskID payload \<Rightarrow> endRun env now p kind taskID payload out b)"

text \<open>The process dies and a new one opens the database.\<close>

definition restart :: "bridge \<Rightarrow> bridge" where
  "restart b = b\<lparr>bg_binding := None, bg_connected := False, bg_snapshot := None, bg_gatewayReady := False,
     bg_activeTasks := [], bg_recovered := [], bg_procs := []\<rparr>"

fun performOp :: "bridge_env \<Rightarrow> bridge_op \<Rightarrow> bridge \<Rightarrow> bridge" where
  "performOp env (BindTo bd) b = updateBinding bd b"
| "performOp env (Registered now bd frameType ws) b =
     (case registered env now bd frameType ws b of Inl _ \<Rightarrow> setConnected bd False b | Inr b1 \<Rightarrow> b1)"
| "performOp env (Disconnected bd) b = setConnected bd False b"
| "performOp env (FromHub now bd en written) b = snd (receiveEnvelope now bd en written b)"
| "performOp env (HubReceipt now bd receipt) b = snd (receiveReceipt now bd receipt b)"
| "performOp env (SendTick now bd writes) b = snd (sendOutbox now bd writes b)"
| "performOp env (GatewayReady ready) b = b\<lparr>bg_gatewayReady := ready\<rparr>"
| "performOp env (Begin now h) b = procStep h Launched (beginProc env now) b"
| "performOp env (Heartbeat now h) b = procStep h Working (heartbeatProc env now) b"
| "performOp env (TurnEnded now h result) b = procStep h Working (turnProc env now result) b"
| "performOp env (RunEnded now h out) b = procStep h Working (runProc env now out) b"
| "performOp env (LocalRequest now request) b = snd (localPost env now request b)"
| "performOp env Restart b = restart b"

definition runBridge :: "bridge_env \<Rightarrow> bridge_op list \<Rightarrow> bridge" where
  "runBridge env ops = foldl (\<lambda>b op. performOp env op b) newBridge ops"

lemma runBridge_Nil [simp]: "runBridge env [] = newBridge"
  by (simp add: runBridge_def)

lemma runBridge_snoc: "runBridge env (ops @ [op]) = performOp env op (runBridge env ops)"
  by (simp add: runBridge_def)

section \<open>Frames\<close>

definition sameTables :: "bridge \<Rightarrow> bridge \<Rightarrow> bool" where
  "sameTables b b' \<longleftrightarrow> bg_inbox b' = bg_inbox b \<and> bg_outbox b' = bg_outbox b \<and> bg_turns b' = bg_turns b \<and>
     bg_commands b' = bg_commands b"

lemma same_memory:
  "sameTables b (stopBinding b)" "sameTables b (setConnected bd c b)" "sameTables b (setSnapshot bd ws b)"
  "sameTables b (saveSnapshot ws b)" "sameTables b (keepSnapshot ws b)" "sameTables b (updateTaskSnapshot bd t b)"
  "sameTables b (clearTaskSnapshot bd i b)" "sameTables b (updateReceiptVersion bd r b)" "sameTables b (cancelTask i b)"
  "sameTables b (registerTaskCancellation i h b)" "sameTables b (unregisterTaskCancellation i h b)"
  "sameTables b (cancelAllTasks b)" "sameTables b (snd (claimRecovery bd b))" "sameTables b (launch bd m w d b)"
  "sameTables b (dropProc p b)" "sameTables b (beginWork p b)" "sameTables b (restart b)" "sameTables b (updateBinding x b)"
  by (simp_all add: sameTables_def stopBinding_def setConnected_def setSnapshot_def saveSnapshot_def keepSnapshot_def
      updateTaskSnapshot_def clearTaskSnapshot_def updateReceiptVersion_def cancelTask_def registerTaskCancellation_def
      unregisterTaskCancellation_def cancelAllTasks_def claimRecovery_def launch_def dropProc_def beginWork_def restart_def
      updateBinding_def Let_def split: option.split)

locale bridge_frame =
  fixes R :: "bridge \<Rightarrow> bridge \<Rightarrow> bool"
  assumes memory: "sameTables b b' \<Longrightarrow> R b b'"
    and trans: "R a b \<Longrightarrow> R b c \<Longrightarrow> R a c"
    and enqueue: "R b (enqueue now en b)"
    and sent: "R b (markSent now m b)"
    and acked: "acknowledge now r b = Inr b' \<Longrightarrow> R b b'"
    and incoming: "R b (snd (recordIncoming now en b))"
    and status: "new \<noteq> InAccepted \<Longrightarrow> R b (snd (setIncomingStatus now m old new b))"
begin

lemma refl: "R b b"
  by (rule memory) (simp add: sameTables_def)

lemma after: "R a b \<Longrightarrow> sameTables b c \<Longrightarrow> R a c"
  using trans memory by blast

lemma enqueueEvent:
  assumes "enqueueEvent env now bd t k v p b = Inr (m, b')"
  shows "R b b'"
proof -
  have "b' = enqueue now (clawEvent m k bd t v now p) (b\<lparr>bg_uuids := Suc (bg_uuids b)\<rparr>)"
    using assms by (auto simp: enqueueEvent_def Let_def bindE_Inr_iff)
  moreover have "sameTables b (b\<lparr>bg_uuids := Suc (bg_uuids b)\<rparr>)" by (simp add: sameTables_def)
  ultimately show ?thesis using trans memory enqueue by metis
qed

lemma enqueueTaskEvent: "enqueueTaskEvent env now bd task kind payload b = Inr b' \<Longrightarrow> R b b'"
  by (auto simp: enqueueTaskEvent_def bindE_Inr_iff dest: enqueueEvent)

lemma enqueueCommandEvent: "enqueueCommandEvent env now bd t kind payload b = Inr b' \<Longrightarrow> R b b'"
  by (auto simp: enqueueCommandEvent_def bindE_Inr_iff dest: enqueueEvent)

lemma finishTask: "R b (finishTask env now bd m task kind reason b)"
  unfolding finishTask_def by (auto intro: refl trans [OF enqueueTaskEvent status] split: sum.split)

lemma finishCommandTask: "R b (finishCommandTask env now bd t m kind reason b)"
  unfolding finishCommandTask_def by (auto intro: refl trans [OF enqueueCommandEvent status] split: sum.split)

lemma endTask: "R b (endTask p t b)" and endCommand: "R b (endCommand p t b)"
  unfolding endTask_def endCommand_def
  by (rule after [OF after [OF after [OF memory same_memory(7)] same_memory(11)] same_memory(15)];
      simp add: sameTables_def; fail)
    (rule after [OF after [OF memory same_memory(11)] same_memory(15)]; simp add: sameTables_def)

lemma foldl_steps: "(\<And>b x. R b (f b x)) \<Longrightarrow> R b (foldl f b xs)"
  by (induction xs arbitrary: b) (auto intro: refl trans)

lemma startTask: "R b (startTask now bd m t b)"
  unfolding startTask_def Let_def by (rule after [OF memory [OF same_memory(10)] same_memory(14)])

lemma recoverInterrupted: "R b (recoverInterrupted env now bd b)"
proof -
  have "R b (failInterrupted env now bd b en)" for b en
    unfolding failInterrupted_def by (auto intro: refl finishTask split: sum.split)
  moreover have "R b (startAccepted now bd b en)" for b en
    unfolding startAccepted_def by (auto intro: refl startTask split: sum.split)
  ultimately show ?thesis unfolding recoverInterrupted_def Let_def by (intro trans [OF foldl_steps foldl_steps])
qed

lemma registered: "registered env now bd frameType ws b = Inr b' \<Longrightarrow> R b b'"
proof -
  assume run: "registered env now bd frameType ws b = Inr b'"
  then obtain s where s: "ws = Some s" by (cases ws) (auto simp: registered_def)
  let ?b = "setConnected bd True (setSnapshot bd s (saveSnapshot s b))"
  have "R b ?b" by (rule after [OF after [OF memory [OF same_memory(4)] same_memory(3)] same_memory(2)])
  then have c: "R b (snd (claimRecovery bd ?b))" using after same_memory(13) by blast
  have "b' = snd (claimRecovery bd ?b) \<or> b' = recoverInterrupted env now bd (snd (claimRecovery bd ?b))"
    using run s by (auto simp: registered_def bindE_Inr_iff split: prod.splits if_splits)
  with c show ?thesis using trans recoverInterrupted by blast
qed

lemma applyAccepted: "R b (applyAccepted bd en task b)"
proof -
  let ?k = "en_Kind en"
  define b1 where "b1 = (case task of None \<Rightarrow> b | Some t \<Rightarrow> updateTaskSnapshot bd t b)"
  define b2 where "b2 = (if ?k = ''agent.task.cancel'' then cancelTask (en_TaskID en) b1 else b1)"
  define b3 where "b3 = (if ?k = ''run.suspend'' \<or> ?k = ''run.terminate'' then cancelAllTasks b2 else b2)"
  have "R b b1" unfolding b1_def by (auto intro: refl memory same_memory split: option.split)
  then have "R b b2" unfolding b2_def by (auto intro: after same_memory(9))
  then have "R b b3" unfolding b3_def by (auto intro: after same_memory(12))
  then show ?thesis
    unfolding applyAccepted_def Let_def b1_def [symmetric] b2_def [symmetric] b3_def [symmetric] startCommandTask_def
    by (auto intro: after same_memory(14))
qed

lemma acceptKind: "acceptKind bd en b = Inr (task, b') \<Longrightarrow> R b b'"
  using after [OF memory [OF same_memory(4)] same_memory(3)]
  by (auto simp: acceptKind_def Let_def bindE_Inr_iff intro: refl split: if_splits)

lemma acceptHubEnvelope: "acceptHubEnvelope now bd en b = Inr (receipt, task, b') \<Longrightarrow> R b b'"
proof -
  assume "acceptHubEnvelope now bd en b = Inr (receipt, task, b')"
  then obtain t b1 where k: "acceptKind bd en b = Inr (t, b1)"
    and b': "b' = snd (recordIncoming now en b1) \<or> b' = applyAccepted bd en t (snd (recordIncoming now en b1))"
    by (cases "recordIncoming now en (snd (projr (acceptKind bd en b)))")
      (auto simp: acceptHubEnvelope_def bindE_Inr_iff Let_def split: bool.splits)
  have "R b (snd (recordIncoming now en b1))" using acceptKind [OF k] incoming trans by blast
  then show ?thesis using b' applyAccepted trans by blast
qed

lemma receiveEnvelope: "R b (snd (receiveEnvelope now bd en written b))"
proof (cases "acceptHubEnvelope now bd en b")
  case (Inl e)
  then show ?thesis by (auto simp: receiveEnvelope_def intro: refl memory same_memory)
next
  case (Inr r)
  obtain receipt task b1 where r: "r = (receipt, task, b1)" by (cases r) auto
  have "R b b1" using acceptHubEnvelope Inr r by simp
  then show ?thesis using Inr r
    by (auto simp: receiveEnvelope_def intro: after same_memory trans startTask split: option.split)
qed

lemma receiveReceipt: "R b (snd (receiveReceipt now bd receipt b))"
  unfolding receiveReceipt_def by (auto intro: memory same_memory after acked split: sum.split)

lemma sendOutbox: "R b (snd (sendOutbox now bd writes b))"
  unfolding sendOutbox_def Let_def by (auto intro: after [OF foldl_steps] foldl_steps sent same_memory)

lemma localPost: "R b (snd (localPost env now request b))"
  unfolding localPost_def Let_def by (auto intro: refl enqueueEvent split: option.split sum.split prod.split)

lemma heartbeatProc: "R b (heartbeatProc env now p b)"
  unfolding heartbeatProc_def taskHeartbeat_def by (auto intro: refl enqueueTaskEvent split: work.split sum.split)

lemma turnProc: "R b (turnProc env now result p b)"
  unfolding turnProc_def endTurn_def Let_def
  by (auto intro!: trans [OF _ endTask] intro: refl finishTask trans [OF enqueueTaskEvent status]
      split: work.split turn_result.split sum.split)

lemma runProc: "R b (runProc env now out p b)"
  unfolding runProc_def endRun_def
  by (auto intro!: trans [OF _ endCommand] intro: refl trans [OF enqueueCommandEvent status] split: work.split sum.split prod.split)

lemma procStep: "(\<And>p. R b (f p b)) \<Longrightarrow> R b (procStep h ph f b)"
  unfolding procStep_def by (auto intro: refl split: option.split)

text \<open>Every step but the beginning of a task, which also makes a call.\<close>

lemma perform:
  assumes "\<And>now h. op \<noteq> Begin now h"
  shows "R b (performOp env op b)"
proof (cases op)
  case (Registered now bd frameType ws)
  then show ?thesis by (auto intro: memory same_memory registered split: sum.split)
qed (use assms in \<open>auto intro: memory same_memory receiveEnvelope receiveReceipt sendOutbox localPost heartbeatProc turnProc
  runProc procStep simp: sameTables_def\<close>)

text \<open>The beginning of a task: it is refused or fails, or it is claimed and its call is the only one added.\<close>

lemma beginTask_cases:
  obtains "R b (beginTask env now p task b)"
  | b1 b2 where "setIncomingStatus now (pr_Message p) InAccepted InRunning b = (True, b1)"
      and "R b1 b2" and "beginTask env now p task b =
        beginWork p (b2\<lparr>bg_turns := bg_turns b2 @ [(pr_Message p, workflowV2TaskPrompt task)]\<rparr>)"
proof -
  let ?set = "setIncomingStatus now (pr_Message p) InAccepted InRunning b"
  obtain c b1 where s: "?set = (c, b1)" by (cases ?set) auto
  have r: "R b b1" using status [of InRunning b now "pr_Message p" InAccepted] s by simp
  show thesis
  proof (cases "c \<and> bg_gatewayReady b1 \<and>
      (\<exists>b2. enqueueTaskEvent env now (pr_Binding p) task ''agent.task.started''
        (taskLifecyclePayload [(''bridge_started_at'', GStr (jsonTime now))]) b1 = Inr b2)")
    case True
    then obtain b2 where "enqueueTaskEvent env now (pr_Binding p) task ''agent.task.started''
        (taskLifecyclePayload [(''bridge_started_at'', GStr (jsonTime now))]) b1 = Inr b2" by blast
    then show ?thesis using True s that(2) [of b1 b2] by (auto simp: beginTask_def Let_def dest: enqueueTaskEvent)
  next
    case False
    then have "R b1 (beginTask env now p task b)"
      using s by (cases c) (auto simp: beginTask_def Let_def intro: endTask trans [OF finishTask endTask] split: sum.split)
    then show ?thesis using that(1) r trans by blast
  qed
qed

lemma beginCommand_cases:
  obtains "R b (beginCommand env now p kind t payload b)"
  | b1 b2 command where "setIncomingStatus now (pr_Message p) InAccepted InRunning b = (True, b1)"
      and "R b1 b2" and "beginCommand env now p kind t payload b =
        beginWork p (b2\<lparr>bg_commands := bg_commands b2 @ [(pr_Message p, command)]\<rparr>)"
proof -
  let ?set = "setIncomingStatus now (pr_Message p) InAccepted InRunning b"
  obtain c b1 where s: "?set = (c, b1)" by (cases ?set) auto
  let ?b = "registerTaskCancellation t (pr_Handle p) b1"
  have r: "R b b1" using status [of InRunning b now "pr_Message p" InAccepted] s by simp
  have reg: "R b1 ?b" by (rule memory [OF same_memory(10)])
  show thesis
  proof (cases "c \<and> (\<exists>command. commandLine env kind payload = Inr command)")
    case True
    then obtain command where "commandLine env kind payload = Inr command" by blast
    then show ?thesis using True s reg that(2) [of b1 ?b "bridgeWorkspaceCommand env command"]
      by (simp add: beginCommand_def Let_def)
  next
    case False
    then have "R b1 (beginCommand env now p kind t payload b)"
      using s by (cases c) (auto simp: beginCommand_def Let_def
        intro: memory same_memory trans [OF reg trans [OF finishCommandTask endCommand]] split: sum.split)
    then show ?thesis using that(1) r trans by blast
  qed
qed

end

text \<open>A relation that does not look at the calls holds for every step, and so for every history.\<close>

locale bridge_log = bridge_frame +
  assumes turns: "R b (b\<lparr>bg_turns := ts\<rparr>)" and commands: "R b (b\<lparr>bg_commands := cs\<rparr>)"
begin

lemma claimed: "setIncomingStatus now m InAccepted InRunning b = (True, b1) \<Longrightarrow> R b b1"
  using status [of InRunning b now m InAccepted] by simp

lemma beginProc: "R b (beginProc env now p b)"
proof (cases "pr_Work p")
  case (AgentWork task)
  have "R b (beginTask env now p task b)"
  proof (rule beginTask_cases [where env = env and now = now and p = p and task = task and b = b])
    fix b1 b2
    assume c: "setIncomingStatus now (pr_Message p) InAccepted InRunning b = (True, b1)" and r: "R b1 b2"
      and e: "beginTask env now p task b = beginWork p (b2\<lparr>bg_turns := bg_turns b2 @ [(pr_Message p, workflowV2TaskPrompt task)]\<rparr>)"
    show ?thesis unfolding e by (rule after [OF trans [OF trans [OF claimed [OF c] r] turns] same_memory(16)])
  qed
  then show ?thesis by (simp add: beginProc_def AgentWork)
next
  case (CommandWork kind t payload)
  have "R b (beginCommand env now p kind t payload b)"
  proof (rule beginCommand_cases [where env = env and now = now and p = p and kind = kind and t = t and payload = payload and b = b])
    fix b1 b2 command
    assume c: "setIncomingStatus now (pr_Message p) InAccepted InRunning b = (True, b1)" and r: "R b1 b2"
      and e: "beginCommand env now p kind t payload b = beginWork p (b2\<lparr>bg_commands := bg_commands b2 @ [(pr_Message p, command)]\<rparr>)"
    show ?thesis unfolding e by (rule after [OF trans [OF trans [OF claimed [OF c] r] commands] same_memory(16)])
  qed
  then show ?thesis by (simp add: beginProc_def CommandWork)
qed

lemma perform_any: "R b (performOp env op b)"
proof (cases "\<exists>now h. op = Begin now h")
  case True
  then obtain now h where op: "op = Begin now h" by blast
  show ?thesis unfolding op performOp.simps by (intro procStep beginProc)
next
  case False
  then show ?thesis by (intro perform) blast
qed

lemma history: "R (runBridge env ops) (runBridge env (ops @ later))"
proof (induction later rule: rev_induct)
  case (snoc op later)
  have "R (runBridge env (ops @ later)) (runBridge env ((ops @ later) @ [op]))" unfolding runBridge_snoc by (rule perform_any)
  with snoc show ?case using trans by (metis append_assoc)
qed (simp add: refl)

end

section \<open>The outbox\<close>

text \<open>A queued message stays queued as it is; once answered it keeps its answer.\<close>

definition keepsQueued :: "bridge \<Rightarrow> bridge \<Rightarrow> bool" where
  "keepsQueued b b' \<longleftrightarrow> (\<forall>r \<in> set (bg_outbox b). \<exists>r' \<in> set (bg_outbox b'). bo_MessageID r' = bo_MessageID r \<and>
     bo_Envelope r' = bo_Envelope r \<and>
     (bo_Status r = BrAcknowledged \<longrightarrow> bo_Status r' = BrAcknowledged \<and> bo_Receipt r' = bo_Receipt r))"

lemma keepsQueued_update:
  assumes "\<And>r. P r \<Longrightarrow> bo_Status r \<noteq> BrAcknowledged \<and> bo_MessageID (f r) = bo_MessageID r \<and> bo_Envelope (f r) = bo_Envelope r"
    and "bg_outbox b' = sql_update P f (bg_outbox b)"
  shows "keepsQueued b b'"
  unfolding keepsQueued_def assms(2)
proof
  fix r
  assume "r \<in> set (bg_outbox b)"
  then show "\<exists>r' \<in> set (sql_update P f (bg_outbox b)). bo_MessageID r' = bo_MessageID r \<and> bo_Envelope r' = bo_Envelope r \<and>
      (bo_Status r = BrAcknowledged \<longrightarrow> bo_Status r' = BrAcknowledged \<and> bo_Receipt r' = bo_Receipt r)"
    using assms(1) [of r] by (intro bexI [of _ "if P r then f r else r"]) (auto simp: set_sql_update)
qed

lemma keepsQueued_trans: "keepsQueued a b \<Longrightarrow> keepsQueued b c \<Longrightarrow> keepsQueued a c"
  unfolding keepsQueued_def by (metis (no_types, lifting))

interpretation outbox: bridge_log keepsQueued
proof
  show "keepsQueued a b \<Longrightarrow> keepsQueued b c \<Longrightarrow> keepsQueued a c" for a b c by (rule keepsQueued_trans)
  show "keepsQueued b (markSent now m b)" for b now m
    by (rule keepsQueued_update [where b = b and P = "\<lambda>r. bo_MessageID r = m \<and> unanswered r"])
      (auto simp: markSent_def unanswered_def)
  show "keepsQueued b b'" if "acknowledge now r b = Inr b'" for b now r b'
  proof (rule keepsQueued_update)
    show "bg_outbox b' = sql_update (\<lambda>q. bo_MessageID q = cr_MessageID r \<and> unanswered q)
        (\<lambda>q. q\<lparr>bo_Status := BrAcknowledged, bo_Receipt := Some r, bo_UpdatedAt := unixMilli now\<rparr>) (bg_outbox b)"
      using that by (auto simp: acknowledge_def Let_def bindE_Inr_iff)
  qed (auto simp: unanswered_def)
qed (auto simp: keepsQueued_def sameTables_def enqueue_def recordIncoming_def setIncomingStatus_def Let_def)

lemma queued_messages_kept: "keepsQueued (runBridge env ops) (runBridge env (ops @ later))"
  by (rule outbox.history)

section \<open>The inbox\<close>

definition begun :: "bridge \<Rightarrow> string set" where
  "begun b = bi_MessageID ` {r \<in> set (bg_inbox b). bi_Status r \<noteq> InAccepted}"

definition calls :: "bridge \<Rightarrow> string list" where
  "calls b = map fst (bg_turns b @ bg_commands b)"

text \<open>Messages are recorded once, one begun stays begun, and no call is made.\<close>

definition calm :: "bridge \<Rightarrow> bridge \<Rightarrow> bool" where
  "calm b b' \<longleftrightarrow> (distinct (map bi_MessageID (bg_inbox b)) \<longrightarrow> distinct (map bi_MessageID (bg_inbox b'))) \<and>
     begun b \<subseteq> begun b' \<and> calls b' = calls b"

lemma set_status:
  "bg_inbox (snd (setIncomingStatus now m old new b)) =
    map (\<lambda>r. if bi_MessageID r = m \<and> bi_Status r = old then r\<lparr>bi_Status := new, bi_UpdatedAt := unixMilli now\<rparr> else r) (bg_inbox b)"
  by (simp add: setIncomingStatus_def Let_def sql_update_def)

lemma calm_status: "new \<noteq> InAccepted \<Longrightarrow> calm b (snd (setIncomingStatus now m old new b))"
proof -
  assume new: "new \<noteq> InAccepted"
  let ?b = "snd (setIncomingStatus now m old new b)"
  have "begun b \<subseteq> begun ?b"
  proof
    fix i
    assume "i \<in> begun b"
    then obtain r where r: "r \<in> set (bg_inbox b)" "bi_MessageID r = i" "bi_Status r \<noteq> InAccepted" by (auto simp: begun_def)
    let ?r = "if bi_MessageID r = m \<and> bi_Status r = old then r\<lparr>bi_Status := new, bi_UpdatedAt := unixMilli now\<rparr> else r"
    have "?r \<in> set (bg_inbox ?b)" "bi_MessageID ?r = i" "bi_Status ?r \<noteq> InAccepted" using r new by (auto simp: set_status)
    then show "i \<in> begun ?b" unfolding begun_def by blast
  qed
  moreover have "map bi_MessageID (bg_inbox ?b) = map bi_MessageID (bg_inbox b)" by (simp add: set_status)
  moreover have "calls ?b = calls b" by (simp add: calls_def setIncomingStatus_def Let_def)
  ultimately show ?thesis by (simp add: calm_def)
qed

interpretation inbox: bridge_frame calm
proof
  show "calm b (snd (recordIncoming now en b))" for b now en
    by (auto simp: calm_def begun_def calls_def recordIncoming_def incomingRow_def)
  show "calm b (snd (setIncomingStatus now m old new b))" if "new \<noteq> InAccepted" for new b now m old
    using that by (rule calm_status)
qed (auto simp: calm_def begun_def calls_def sameTables_def enqueue_def markSent_def acknowledge_def Let_def bindE_Inr_iff)

definition onceInv :: "bridge \<Rightarrow> bool" where
  "onceInv b \<longleftrightarrow> distinct (map bi_MessageID (bg_inbox b)) \<and> distinct (calls b) \<and> set (calls b) \<subseteq> begun b"

lemma calm_once: "calm b b' \<Longrightarrow> onceInv b \<Longrightarrow> onceInv b'"
  by (auto simp: calm_def onceInv_def)

text \<open>A message that is claimed has not been begun before, and is now.\<close>

lemma claim_fresh:
  assumes "setIncomingStatus now m InAccepted InRunning b = (True, b1)" and "distinct (map bi_MessageID (bg_inbox b))"
  shows "m \<notin> begun b" and "m \<in> begun b1"
proof -
  let ?P = "\<lambda>r. bi_MessageID r = m \<and> bi_Status r = InAccepted"
  have n: "sql_count ?P (bg_inbox b) = 1"
    and b1: "bg_inbox b1 = sql_update ?P (\<lambda>r. r\<lparr>bi_Status := InRunning, bi_UpdatedAt := unixMilli now\<rparr>) (bg_inbox b)"
    using assms(1) by (auto simp: setIncomingStatus_def Let_def)
  from n obtain r where r: "r \<in> set (bg_inbox b)" "?P r"
    unfolding sql_count_def by (metis (mono_tags, lifting) filter_False length_0_conv zero_neq_one)
  have "q = r" if "q \<in> set (bg_inbox b)" "bi_MessageID q = m" for q
    using assms(2) that r by (auto simp: distinct_map dest: inj_onD)
  then show "m \<notin> begun b" using r by (auto simp: begun_def)
  have "r\<lparr>bi_Status := InRunning, bi_UpdatedAt := unixMilli now\<rparr> \<in> set (bg_inbox b1)"
    using r unfolding b1 by (auto simp: sql_update_def)
  then show "m \<in> begun b1" using r unfolding begun_def by (intro image_eqI [rotated]) auto
qed

lemma claim_once:
  assumes claim: "setIncomingStatus now m InAccepted InRunning b = (True, b1)" and "calm b1 b2" and inv: "onceInv b"
    and b': "bg_inbox b' = bg_inbox b2" "mset (calls b') = mset (calls b2) + {#m#}"
  shows "onceInv b'"
proof -
  have "calm b b1" using calm_status [of InRunning b now m InAccepted] claim by simp
  then have c: "calm b b2" using assms(2) inbox.trans by blast
  then have i2: "onceInv b2" and same: "calls b2 = calls b" using calm_once inv by (auto simp: calm_def)
  have fresh: "m \<notin> begun b" and m: "m \<in> begun b1" using claim_fresh [OF claim] inv by (auto simp: onceInv_def)
  have "m \<notin> set (calls b2)" using fresh inv same by (auto simp: onceInv_def)
  moreover have "m \<in> begun b2" using m assms(2) by (auto simp: calm_def)
  moreover have "begun b' = begun b2" using b'(1) by (simp add: begun_def)
  moreover have "distinct (calls b') \<longleftrightarrow> distinct (m # calls b2)" using b'(2) by (metis (no_types) add_mset_add_single mset.simps(2) mset_eq_imp_distinct_iff)
  moreover have "set (calls b') = insert m (set (calls b2))" using b'(2) by (metis add_mset_add_single set_mset_add_mset_insert set_mset_mset)
  ultimately show ?thesis using i2 b'(1) by (auto simp: onceInv_def)
qed

lemma begin_once: "onceInv b \<Longrightarrow> onceInv (beginProc env now p b)"
proof (cases "pr_Work p")
  case (AgentWork task)
  assume inv: "onceInv b"
  show ?thesis
  proof (rule inbox.beginTask_cases [where env = env and now = now and p = p and task = task and b = b])
    assume "calm b (beginTask env now p task b)"
    then show ?thesis using inv calm_once by (simp add: beginProc_def AgentWork)
  next
    fix b1 b2
    assume c: "setIncomingStatus now (pr_Message p) InAccepted InRunning b = (True, b1)" "calm b1 b2"
      and e: "beginTask env now p task b = beginWork p (b2\<lparr>bg_turns := bg_turns b2 @ [(pr_Message p, workflowV2TaskPrompt task)]\<rparr>)"
    show ?thesis unfolding beginProc_def AgentWork work.case e
      by (rule claim_once [OF c inv]) (simp_all add: beginWork_def calls_def)
  qed
next
  case (CommandWork kind t payload)
  assume inv: "onceInv b"
  show ?thesis
  proof (rule inbox.beginCommand_cases [where env = env and now = now and p = p and kind = kind and t = t and payload = payload and b = b])
    assume "calm b (beginCommand env now p kind t payload b)"
    then show ?thesis using inv calm_once by (simp add: beginProc_def CommandWork)
  next
    fix b1 b2 command
    assume c: "setIncomingStatus now (pr_Message p) InAccepted InRunning b = (True, b1)" "calm b1 b2"
      and e: "beginCommand env now p kind t payload b = beginWork p (b2\<lparr>bg_commands := bg_commands b2 @ [(pr_Message p, command)]\<rparr>)"
    show ?thesis unfolding beginProc_def CommandWork work.case e
      by (rule claim_once [OF c inv]) (simp_all add: beginWork_def calls_def)
  qed
qed

lemma perform_once: "onceInv b \<Longrightarrow> onceInv (performOp env op b)"
proof (cases "\<exists>now h. op = Begin now h")
  case True
  assume "onceInv b"
  with True show ?thesis by (auto simp: procStep_def intro: begin_once split: option.split)
next
  case False
  assume "onceInv b"
  with False show ?thesis using calm_once inbox.perform by blast
qed

lemma run_once: "onceInv (runBridge env ops)"
proof (induction ops rule: rev_induct)
  case Nil
  show ?case by (simp add: onceInv_def newBridge_def calls_def)
next
  case (snoc op ops)
  then show ?case by (simp add: runBridge_snoc perform_once)
qed

end
