(* ===== verification/BridgeProperties.thy ===== *)
theory BridgeProperties
  imports BridgeSteps HubProperties
begin

text \<open>What the bridge guarantees to the hub and to the agent, and where the two ends of the channel fit together.\<close>

section \<open>The wire format of a task\<close>

definition wireTime :: "int \<Rightarrow> bool" where
  "wireTime t \<longleftrightarrow> 0 \<le> fst (civil (t div 86400000000000)) \<and> fst (civil (t div 86400000000000)) < 10000"

lemma taskStatusOf_name: "taskStatusOf (taskStatusName st) = st"
  by (cases st) (simp_all add: taskStatusOf_def)

lemma strs_typed: "hasFieldType FStrs (GList (map GStr xs))"
  by (simp add: list_all_iff)

lemma uint_typed: "n < 2 ^ 64 \<Longrightarrow> hasFieldType FUint (GInt (int n))"
  by simp

lemma time_typed: "parseTime s = Some t \<Longrightarrow> hasFieldType FTime (GStr s)"
  by simp

text \<open>The bridge decodes the task the hub encoded.\<close>

lemma decode_taskJSON:
  assumes "gt_StateVersion t < 2 ^ 64" and "wireTime (gt_HeartbeatDeadline t)" and "wireTime (gt_Deadline t)"
  shows "decodeTask (Some (taskJSON t)) = Inr t"
proof -
  have p: "parseTime (jsonTime (gt_HeartbeatDeadline t)) = Some (gt_HeartbeatDeadline t)"
    "parseTime (jsonTime (gt_Deadline t)) = Some (gt_Deadline t)"
    using assms(2,3) parse_jsonTime by (auto simp: wireTime_def)
  let ?m = "[(''id'', GStr (gt_ID t)), (''run_id'', GStr (gt_RunID t)), (''attempt_id'', GStr (gt_AttemptID t)),
      (''state'', GStr (gt_State t)), (''state_version'', GInt (int (gt_StateVersion t))),
      (''status'', GStr (taskStatusName (gt_Status t))), (''instructions'', GStr (gt_Instructions t))] @
     omitEmptyList ''allowed_actions'' (gt_AllowedActions t) @
     omitEmptyList ''required_artifacts'' (gt_RequiredArtifacts t) @
     [(''heartbeat_deadline'', GStr (jsonTime (gt_HeartbeatDeadline t))), (''deadline'', GStr (jsonTime (gt_Deadline t)))]"
  have "list_all (\<lambda>(k, x). case map_of taskFields k of None \<Rightarrow> True | Some ty \<Rightarrow> hasFieldType ty x) (omitEmptyList k xs)"
    if "k = ''allowed_actions'' \<or> k = ''required_artifacts''" for k xs
    using that strs_typed [of xs] unfolding omitEmptyList_def taskFields_def by (elim disjE) (simp_all del: hasFieldType.simps)
  then have "decodePayload taskFields (Some (taskJSON t)) = Inr ?m"
    using uint_typed [OF assms(1)] time_typed [OF p(1)] time_typed [OF p(2)]
    unfolding decodePayload_def decodeFields_def taskJSON_def option.case gval.case list_all_append
    by (simp add: taskFields_def)
  moreover have "taskOf ?m = t"
    using p by (cases t)
      (simp add: taskOf_def strField_def uintField_def strsField_def timeField_def taskStatusOf_name omitEmptyList_def map_of_append comp_def)
  ultimately show ?thesis by (simp add: decodeTask_def)
qed

section \<open>From the hub to the agent\<close>

lemma succeedLeased_outbox: "succeedLeased now e a w aid receipt msg s = Inr (u, s') \<Longrightarrow> db_outbox s' = db_outbox s"
  by (auto simp: succeedLeased_def tx_iffs)

lemma queueAssignment_ok:
  "queueAssignment env now e kind l taskID payload s = Inr (en, s') \<Longrightarrow>
    (\<exists>mid. en = assignment mid kind (le_RunID l) (le_AttemptID l) taskID (le_StateVersion l) e now payload) \<and>
    ValidateControlEnvelope en ''hub_to_claw'' = Inr () \<and> newOutbox en now \<in> set (db_outbox s')"
  by (auto simp: queueAssignment_def insertOutbox_def tx_iffs Let_def)

lemma assignAgentTask_ok:
  assumes "assignAgentTask env now e hb tt l s = Inr ((task, en), s')"
  shows "gt_RunID task = le_RunID l \<and> gt_AttemptID task = le_AttemptID l \<and> gt_StateVersion task = le_StateVersion l \<and>
    (\<exists>mid. en = assignment mid ''agent.task.assign'' (gt_RunID task) (gt_AttemptID task) (gt_ID task) (gt_StateVersion task) e now
      (taskJSON task)) \<and>
    ValidateControlEnvelope en ''hub_to_claw'' = Inr () \<and> newOutbox en now \<in> set (db_outbox s')"
  using assms unfolding assignAgentTask_def Let_def tx_iffs(1,2,3,4,5,8,11)
  by (auto simp: agentTaskOf_def dest!: queueAssignment_ok)

lemma MaterializeAgentTask_ok:
  assumes "MaterializeAgentTask env now e a w hb tt s = Inr (task, s')"
  obtains en mid where "newOutbox en now \<in> set (db_outbox s')" and "ValidateControlEnvelope en ''hub_to_claw'' = Inr ()"
    and "en = assignment mid ''agent.task.assign'' (gt_RunID task) (gt_AttemptID task) (gt_ID task) (gt_StateVersion task) e now (taskJSON task)"
proof -
  from assms obtain l en t u where "assignAgentTask env now e hb tt l t = Inr ((task, en), u)"
    and "newOutbox en now \<in> set (db_outbox s') \<longleftrightarrow> newOutbox en now \<in> set (db_outbox u)"
    by (auto simp: MaterializeAgentTask_def tx_iffs dest: succeedLeased_outbox split: prod.splits)
  with assignAgentTask_ok [of env now e hb tt l t task en u] show thesis using that by auto
qed

text \<open>A valid assignment of the bound attempt that is new and not outdated starts its task.\<close>

definition boundTo :: "agent_task \<Rightarrow> claw_binding" where
  "boundTo t = \<lparr>wb_RunID = gt_RunID t, wb_AttemptID = gt_AttemptID t\<rparr>"

lemma bindingIs_frames [simp]:
  "bindingIs bd (keepSnapshot ws b) = bindingIs bd b" "bindingIs bd (launch x m w d b) = bindingIs bd b"
  "bindingIs bd (registerTaskCancellation i h b) = bindingIs bd b"
  by (simp_all add: bindingIs_def keepSnapshot_def saveSnapshot_def launch_def registerTaskCancellation_def)

lemma assignment_accepted:
  assumes "ValidateControlEnvelope en ''hub_to_claw'' = Inr ()"
    and en: "en = assignment mid ''agent.task.assign'' (gt_RunID t) (gt_AttemptID t) (gt_ID t) (gt_StateVersion t) e at (taskJSON t)"
    and wire: "gt_StateVersion t < 2 ^ 64" "wireTime (gt_HeartbeatDeadline t)" "wireTime (gt_Deadline t)"
    and bound: "bindingIs (boundTo t) b" and fresh: "mid \<notin> bi_MessageID ` set (bg_inbox b)"
    and version: "stateVersion (boundTo t) b \<le> gt_StateVersion t"
  shows "\<exists>b'. receiveEnvelope now (boundTo t) en True b =
      (Some (bridgeReceipt en DispAccepted (gt_StateVersion t)), startTask now (boundTo t) mid t b') \<and>
    bg_inbox b' = bg_inbox b @ [incomingRow now en] \<and> bg_handles b' = bg_handles b \<and> bg_procs b' = bg_procs b \<and>
    bg_turns b' = bg_turns b \<and> bg_gatewayReady b' = bg_gatewayReady b \<and> bg_outbox b' = bg_outbox b \<and> bg_uuids b' = bg_uuids b"
proof -
  let ?b1 = "b\<lparr>bg_inbox := bg_inbox b @ [incomingRow now en]\<rparr>"
  let ?b2 = "updateTaskSnapshot (boundTo t) t ?b1"
  have ids: "en_RunID en = wb_RunID (boundTo t)" "en_AttemptID en = wb_AttemptID (boundTo t)" "en_MessageID en = mid"
    "en_TaskID en = gt_ID t" "en_Kind en = ''agent.task.assign''" "en_ExpectedStateVersion en = Some (gt_StateVersion t)"
    "en_Payload en = Some (taskJSON t)"
    by (simp_all add: en assignment_def boundTo_def)
  have "acceptTask (boundTo t) en (stateVersion (boundTo t) b) = Inr t"
    using version by (simp add: acceptTask_def ids decode_taskJSON [OF wire]) (simp add: boundTo_def)
  then have kind: "acceptKind (boundTo t) en b = Inr (Some t, b)" by (simp add: acceptKind_def ids Let_def)
  have recd: "recordIncoming now en b = (False, ?b1)" using fresh by (simp add: recordIncoming_def ids)
  have applied: "applyAccepted (boundTo t) en (Some t) ?b1 = ?b2"
    by (simp add: applyAccepted_def ids Let_def commandAssignKinds_def)
  have bd: "bindingIs (boundTo t) ?b1" using bound by (simp add: bindingIs_def)
  then have "stateVersion (boundTo t) ?b2 = gt_StateVersion t"
    by (simp add: updateTaskSnapshot_def Let_def stateVersion_def keepSnapshot_def saveSnapshot_def bindingIs_def)
  then have "acceptHubEnvelope now (boundTo t) en b = Inr (bridgeReceipt en DispAccepted (gt_StateVersion t), Some t, ?b2)"
    using assms(1) by (simp add: acceptHubEnvelope_def ids(1,2) kind recd applied Let_def)
  then have "receiveEnvelope now (boundTo t) en True b =
      (Some (bridgeReceipt en DispAccepted (gt_StateVersion t)), startTask now (boundTo t) mid t ?b2)"
    by (simp add: receiveEnvelope_def bridgeReceipt_def ids)
  then show ?thesis using bd
    by (intro exI [of _ ?b2]) (simp add: updateTaskSnapshot_def Let_def keepSnapshot_def saveSnapshot_def)
qed

lemma claim_appended:
  assumes "bg_inbox b = rows @ [incomingRow now en]" and "en_MessageID en \<notin> bi_MessageID ` set rows"
  shows "fst (setIncomingStatus later (en_MessageID en) InAccepted InRunning b)"
proof -
  have "bi_MessageID r \<noteq> en_MessageID en" if "r \<in> set rows" for r using assms(2) that by (metis imageI)
  then have "filter (\<lambda>r. bi_MessageID r = en_MessageID en \<and> bi_Status r = InAccepted) rows = []"
    by (simp add: filter_empty_conv)
  then show ?thesis using assms(1) by (simp add: setIncomingStatus_def Let_def sql_count_def incomingRow_def)
qed

lemma started_valid:
  assumes "\<And>n. \<not> blank (bridgeUUID env n)" and "\<not> blank (wb_RunID bd)" and "\<not> blank (wb_AttemptID bd)" and "\<not> blank (gt_ID task)"
  shows "\<exists>b'. enqueueTaskEvent env now bd task ''agent.task.started'' payload b = Inr b' \<and> bg_turns b' = bg_turns b"
proof -
  have "''agent.task.started'' \<in> set clawToHubKinds" by (simp add: clawToHubKinds_def)
  then have "ValidateControlEnvelope (clawEvent (bridgeUUID env (bg_uuids b)) ''agent.task.started'' bd (gt_ID task)
      (Some (gt_StateVersion task)) now (Some payload)) ''claw_to_hub'' = Inr ()"
    using assms by (simp add: ValidateControlEnvelope_def clawEvent_def)
  then show ?thesis by (simp add: enqueueTaskEvent_def enqueueEvent_def Let_def enqueue_def)
qed

text \<open>C32: every assignment is carried out at most once: in any history of the bridge (redeliveries, reconnections, changes of
  the binding, crashes and restarts included) no message makes two calls of the agent or the shell, and one that made a call
  is in the inbox, marked as begun.\<close>

theorem assignment_carried_out_once:
  "distinct (map fst (bg_turns (runBridge env ops) @ bg_commands (runBridge env ops))) \<and>
   fst ` set (bg_turns (runBridge env ops) @ bg_commands (runBridge env ops)) \<subseteq> begun (runBridge env ops)"
  using run_once [of env ops] unfolding onceInv_def calls_def set_map by blast

definition demoBridgeEnv :: bridge_env where
  "demoBridgeEnv = \<lparr>bridgeUUID = (\<lambda>n. CHR ''b'' # utoa n), digestHex = id, parseDuration = (\<lambda>s. None), hasFlake = False,
     decodeObject = (\<lambda>s. if s = [CHR 0x7B, CHR 0x7D] then Some [(''updates'', GList [])] else None), dependencyScript = ([], [])\<rparr>"

definition demoBinding :: claw_binding where
  "demoBinding = \<lparr>wb_RunID = ''run'', wb_AttemptID = ''a1''\<rparr>"

text \<open>C33: the task the hub materialises is the task the agent gets: the transaction leaves a pending message for the current
  attempt, and a bridge bound to that attempt which has not seen the message and knows no later state accepts it, answers
  with the task's state version, and, its gateway ready, hands the agent the prompt of this very task.\<close>

theorem hub_task_reaches_agent:
  assumes hub: "MaterializeAgentTask env now effectID effectAttemptID worker heartbeat limit s = Inr (task, s')"
    and wire: "gt_StateVersion task < 2 ^ 64" "wireTime (gt_HeartbeatDeadline task)" "wireTime (gt_Deadline task)"
    and bound: "bindingIs (boundTo task) b" and version: "stateVersion (boundTo task) b \<le> gt_StateVersion task"
    and ready: "bg_gatewayReady b" and uuids: "\<And>n. \<not> blank (bridgeUUID benv n)" and attempt: "\<not> blank (gt_AttemptID task)"
  shows "\<exists>m \<in> set (db_outbox s'). ob_Status m = OutPending \<and> ob_RunID m = gt_RunID task \<and> ob_AttemptID m = gt_AttemptID task \<and>
    (ob_MessageID m \<notin> bi_MessageID ` set (bg_inbox b) \<longrightarrow>
      (case receiveEnvelope received (boundTo task) (ob_Envelope m) True b of (receipt, b') \<Rightarrow>
         receipt = Some (bridgeReceipt (ob_Envelope m) DispAccepted (gt_StateVersion task)) \<and>
         bg_turns (beginProc benv later (last (bg_procs b')) b') = bg_turns b @ [(ob_MessageID m, workflowV2TaskPrompt task)]))"
proof -
  obtain en mid where out: "newOutbox en now \<in> set (db_outbox s')" and valid: "ValidateControlEnvelope en ''hub_to_claw'' = Inr ()"
    and en: "en = assignment mid ''agent.task.assign'' (gt_RunID task) (gt_AttemptID task) (gt_ID task) (gt_StateVersion task) effectID now (taskJSON task)"
    using hub by (rule MaterializeAgentTask_ok)
  have ids: "en_MessageID en = mid" "en_RunID en = gt_RunID task" "en_AttemptID en = gt_AttemptID task" "en_TaskID en = gt_ID task"
    by (simp_all add: en assignment_def)
  have "en_Kind en \<in> set taskKinds" by (simp add: en assignment_def taskKinds_def)
  then have nonblank: "\<not> blank (gt_RunID task)" "\<not> blank (gt_ID task)"
    using ValidateControlEnvelope_ok(3,5) [OF valid] ids by auto
  have delivered: "bg_turns (beginProc benv later (last (bg_procs b')) b') = bg_turns b @ [(mid, workflowV2TaskPrompt task)] \<and>
      receipt = Some (bridgeReceipt en DispAccepted (gt_StateVersion task))"
    if fresh: "mid \<notin> bi_MessageID ` set (bg_inbox b)" and r: "receiveEnvelope received (boundTo task) en True b = (receipt, b')" for receipt b'
  proof -
    obtain b0 where got: "receiveEnvelope received (boundTo task) en True b =
        (Some (bridgeReceipt en DispAccepted (gt_StateVersion task)), startTask received (boundTo task) mid task b0)"
      and b0: "bg_inbox b0 = bg_inbox b @ [incomingRow received en]" "bg_turns b0 = bg_turns b" "bg_gatewayReady b0 = bg_gatewayReady b"
      using assignment_accepted [OF valid en wire bound fresh version, of received] by blast
    have b': "b' = startTask received (boundTo task) mid task b0"
      and receipt: "receipt = Some (bridgeReceipt en DispAccepted (gt_StateVersion task))" using got r by simp_all
    define p where "p = last (bg_procs b')"
    have p: "pr_Binding p = boundTo task" "pr_Message p = mid" "pr_Work p = AgentWork task"
      by (simp_all add: p_def b' startTask_def launch_def Let_def)
    have same: "bg_inbox b' = bg_inbox b @ [incomingRow received en]" "bg_turns b' = bg_turns b" "bg_gatewayReady b'"
      using b0 ready by (simp_all add: b' startTask_def launch_def registerTaskCancellation_def Let_def)
    obtain b1 where claim: "setIncomingStatus later mid InAccepted InRunning b' = (True, b1)"
      using claim_appended [OF same(1), of later] fresh ids by (cases "setIncomingStatus later mid InAccepted InRunning b'") auto
    have b1: "bg_turns b1 = bg_turns b" "bg_gatewayReady b1" using claim same(2,3) by (auto simp: setIncomingStatus_def Let_def)
    obtain b2 where "enqueueTaskEvent benv later (boundTo task) task ''agent.task.started''
        (taskLifecyclePayload [(''bridge_started_at'', GStr (jsonTime later))]) b1 = Inr b2" "bg_turns b2 = bg_turns b1"
      using started_valid [OF uuids, of "boundTo task" task later
          "taskLifecyclePayload [(''bridge_started_at'', GStr (jsonTime later))]" b1] nonblank attempt
      by (simp add: boundTo_def) blast
    then have "beginProc benv later p b' = beginWork p (b2\<lparr>bg_turns := bg_turns b @ [(mid, workflowV2TaskPrompt task)]\<rparr>)"
      using claim b1 by (simp add: beginProc_def beginTask_def p Let_def)
    then show ?thesis using receipt by (simp add: p_def beginWork_def)
  qed
  have row: "ob_MessageID (newOutbox en now) = mid" "ob_Envelope (newOutbox en now) = en" "ob_Status (newOutbox en now) = OutPending"
    "ob_RunID (newOutbox en now) = gt_RunID task" "ob_AttemptID (newOutbox en now) = gt_AttemptID task"
    by (simp_all add: newOutbox_def ids)
  show ?thesis
    by (rule bexI [OF _ out]) (use delivered in \<open>auto simp: row split: prod.split\<close>)
qed

definition taskStore :: store where
  "taskStore = demoStore\<lparr>db_runs := [demoRun\<lparr>run_CurrentAttemptID := ''a1''\<rparr>],
     db_attempts := [\<lparr>at_ID = ''a1'', at_RunID = ''run'', at_ClawID = ''c1'', at_Number = 1, at_Status = AttActive, at_StartedAt = 0,
       at_HeartbeatAt = 0, at_FinishedAt = 0, at_Reason = []\<rparr>],
     db_effects := [(demoEffect ''f1'' ''agent.task'' (GMap [(''instructions'', GStr ''fix the build'')]))
       \<lparr>ef_Status := EffectRunning, ef_LeaseOwner := ''w'', ef_LeaseExpiresAt := 60000\<rparr>],
     db_effect_attempts := [\<lparr>ea_ID = ''x1'', ea_EffectID = ''f1'', ea_Number = 1, ea_AttemptID = [], ea_Status = EffectRunning,
       ea_Request = GNil, ea_Receipt = [], ea_Error = [], ea_StartedAt = 0, ea_FinishedAt = 0\<rparr>]\<rparr>"

definition demoBridge :: bridge where
  "demoBridge = newBridge\<lparr>bg_binding := Some demoBinding, bg_gatewayReady := True\<rparr>"

theorem hub_task_reaches_agent_witness:
  "\<exists>task s' m. MaterializeAgentTask demoRt 4000000 ''f1'' ''x1'' ''w'' 0 0 taskStore = Inr (task, s') \<and> m \<in> set (db_outbox s') \<and>
    bg_turns (beginProc demoBridgeEnv 6000000 (last (bg_procs (snd (receiveEnvelope 5000000 demoBinding (ob_Envelope m) True demoBridge))))
      (snd (receiveEnvelope 5000000 demoBinding (ob_Envelope m) True demoBridge))) = [(ob_MessageID m, workflowV2TaskPrompt task)]"
proof -
  have "afterTx (MaterializeAgentTask demoRt 4000000 ''f1'' ''x1'' ''w'' 0 0 taskStore) (\<lambda>t s. gt_StateVersion t = 2 \<and>
      wireTime (gt_HeartbeatDeadline t) \<and> wireTime (gt_Deadline t) \<and> gt_RunID t = ''run'' \<and> gt_AttemptID t = ''a1'')" by code_simp
  then obtain t s' where run: "MaterializeAgentTask demoRt 4000000 ''f1'' ''x1'' ''w'' 0 0 taskStore = Inr (t, s')"
    and t: "gt_StateVersion t = 2 \<and> wireTime (gt_HeartbeatDeadline t) \<and> wireTime (gt_Deadline t) \<and> gt_RunID t = ''run'' \<and> gt_AttemptID t = ''a1''"
    by (rule afterTxE)
  have bd: "boundTo t = demoBinding" using t by (simp add: boundTo_def demoBinding_def)
  have blanks: "\<not> blank (gt_AttemptID t)" "\<not> blank (bridgeUUID demoBridgeEnv n)" for n
    using t by (simp_all add: demoBridgeEnv_def trimSpace_eq_Nil_iff is_space_def)
  have h: "bindingIs (boundTo t) demoBridge" "stateVersion (boundTo t) demoBridge \<le> gt_StateVersion t" "bg_gatewayReady demoBridge"
    "gt_StateVersion t < 2 ^ 64" "wireTime (gt_HeartbeatDeadline t)" "wireTime (gt_Deadline t)"
    using t by (simp_all add: bd demoBridge_def newBridge_def bindingIs_def equalBinding_def stateVersion_def)
  from hub_task_reaches_agent [OF run h(4-6,1-3) blanks(2,1), where received = 5000000 and later = 6000000] obtain m
    where m: "m \<in> set (db_outbox s')" and reach: "ob_MessageID m \<notin> bi_MessageID ` set (bg_inbox demoBridge) \<longrightarrow>
      (case receiveEnvelope 5000000 (boundTo t) (ob_Envelope m) True demoBridge of (receipt, b') \<Rightarrow>
         receipt = Some (bridgeReceipt (ob_Envelope m) DispAccepted (gt_StateVersion t)) \<and>
         bg_turns (beginProc demoBridgeEnv 6000000 (last (bg_procs b')) b') = bg_turns demoBridge @ [(ob_MessageID m, workflowV2TaskPrompt t)])"
    by (elim bexE conjE) (rule that)
  have "bg_inbox demoBridge = []" "bg_turns demoBridge = []" by (simp_all add: demoBridge_def newBridge_def)
  with reach have "bg_turns (beginProc demoBridgeEnv 6000000 (last (bg_procs (snd (receiveEnvelope 5000000 demoBinding (ob_Envelope m) True demoBridge))))
      (snd (receiveEnvelope 5000000 demoBinding (ob_Envelope m) True demoBridge))) = [(ob_MessageID m, workflowV2TaskPrompt t)]"
    by (simp add: bd case_prod_beta)
  with run m show ?thesis by blast
qed

section \<open>Where the two ends disagree\<close>

text \<open>The task \<^verbatim>\<open>StartAttempt\<close> hands to a replacement claw carries no run, and the bridge rejects it.\<close>

lemma replacement_task_rejected:
  assumes "en_Payload en = Some (taskJSON (replacementTask now attemptID taskID t))" and "wb_RunID bd \<noteq> []"
    and "tk_StateVersion t < 2 ^ 64" and "wireTime (now + twoMinutes)" and "wireTime (tk_Deadline t * 1000000)"
  shows "acceptTask bd en version = Inl (Errf ''agent task identity mismatch'' [])"
proof -
  have "decodeTask (Some (taskJSON (replacementTask now attemptID taskID t))) = Inr (replacementTask now attemptID taskID t)"
    using assms(3-5) by (intro decode_taskJSON) (simp_all add: replacementTask_def)
  then show ?thesis using assms(1,2) by (simp add: acceptTask_def) (simp add: replacementTask_def)
qed

text \<open>An assignment whose receipt cannot be written is recorded but not started, and neither its redelivery nor a reconnection
  of the same process starts it.\<close>

lemma redelivery_starts_nothing:
  assumes "en_MessageID en \<in> bi_MessageID ` set (bg_inbox b)"
  shows "bg_procs (snd (receiveEnvelope now bd en written b)) = bg_procs b"
proof -
  have same: "bg_procs (setConnected bd c b) = bg_procs b" for b c by (simp add: setConnected_def)
  have "bg_procs b1 = bg_procs b \<and> bg_inbox b1 = bg_inbox b" if "acceptKind bd en b = Inr (t, b1)" for t b1
    using that by (auto simp: acceptKind_def Let_def bindE_Inr_iff setSnapshot_def saveSnapshot_def split: if_splits)
  then have "task = None \<and> bg_procs b1 = bg_procs b" if "acceptHubEnvelope now bd en b = Inr (receipt, task, b1)" for receipt task b1
    using that assms by (auto simp: acceptHubEnvelope_def bindE_Inr_iff recordIncoming_def)
  then show ?thesis by (auto simp: receiveEnvelope_def same split: sum.split option.split)
qed

lemma unwritten_receipt_starts_nothing:
  assumes "en_Kind en = ''agent.task.assign''"
  shows "bg_procs (snd (receiveEnvelope now bd en False b)) = bg_procs b"
proof -
  have same: "bg_procs (setConnected bd c b) = bg_procs b" for b c by (simp add: setConnected_def)
  have frame: "bg_procs (updateTaskSnapshot bd t b) = bg_procs b" for t b
    by (simp add: updateTaskSnapshot_def Let_def keepSnapshot_def saveSnapshot_def)
  have "bg_procs b1 = bg_procs b" if "acceptHubEnvelope now bd en b = Inr (receipt, task, b1)" for receipt task b1
    using that assms
    by (auto simp: acceptHubEnvelope_def acceptKind_def bindE_Inr_iff recordIncoming_def applyAccepted_def commandAssignKinds_def
        frame Let_def split: if_splits)
  then show ?thesis by (auto simp: receiveEnvelope_def same split: sum.split)
qed

lemma reconnection_starts_nothing:
  assumes "bd \<in> set (bg_recovered b)" and "registered env now bd frameType ws b = Inr b'"
  shows "bg_procs b' = bg_procs b"
  using assms by (auto simp: registered_def bindE_Inr_iff claimRecovery_def setConnected_def setSnapshot_def saveSnapshot_def
      split: option.splits if_splits)

text \<open>After a restart a command task is not recovered.\<close>

lemma commands_not_recovered:
  assumes "\<And>r. r \<in> set (bg_inbox b) \<Longrightarrow> en_Kind (bi_Envelope r) \<in> set commandAssignKinds"
  shows "recoverInterrupted env now bd b = b"
proof -
  have kinds: "en_Kind en \<noteq> ''agent.task.assign''" if "en \<in> set (incomingByStatus bd st b)" for en st
  proof -
    from that obtain r where "r \<in> set (bg_inbox b)" "en = bi_Envelope r" by (auto simp: incomingByStatus_def)
    then have "en_Kind en \<in> set commandAssignKinds" using assms by simp
    then show ?thesis by (auto simp: commandAssignKinds_def)
  qed
  have fold: "foldl f b ens = b" if "\<And>en. en \<in> set ens \<Longrightarrow> f b en = b" for f and ens :: "envelope list"
    using that by (induction ens) auto
  have "foldl (failInterrupted env now bd) b (incomingByStatus bd InRunning b) = b"
    by (rule fold) (simp add: failInterrupted_def kinds)
  moreover have "foldl (startAccepted now bd) b (incomingByStatus bd InAccepted b) = b"
    by (rule fold) (simp add: startAccepted_def kinds)
  ultimately show ?thesis by (simp add: recoverInterrupted_def Let_def)
qed

text \<open>A cancellation that follows an assignment finds an agent task, but not a command task that has not begun.\<close>

lemma early_cancel_finds_task: "bg_handles b \<in> set (bg_cancelled (cancelTask (gt_ID t) (startTask now bd m t b)))"
  by (simp add: cancelTask_def startTask_def launch_def registerTaskCancellation_def Let_def update_conv')

lemma early_cancel_misses_command:
  assumes "map_of (bg_activeTasks b) taskID = None"
  shows "cancelTask taskID (startCommandTask bd m kind taskID payload b) = startCommandTask bd m kind taskID payload b"
  using assms by (simp add: cancelTask_def startCommandTask_def launch_def)

text \<open>Accepting a command does not tell the bridge the state version the assignment carries, and the completion expects the
  version of the last snapshot; the hub answers it as stale once the run has moved on since.\<close>

lemma command_completion_version:
  assumes "en_Kind en \<in> set commandAssignKinds" and "acceptHubEnvelope now bd en b = Inr (receipt, task, b')"
  shows "stateVersion bd b' = stateVersion bd b"
proof -
  have "acceptKind bd en b = Inr (None, b)" using assms(1) by (auto simp: acceptKind_def commandAssignKinds_def)
  then have "b' = b \<or> b' = startCommandTask bd (en_MessageID en) (en_Kind en) (en_TaskID en) (en_Payload en)
      (b\<lparr>bg_inbox := bg_inbox b @ [incomingRow now en]\<rparr>)"
    using assms by (auto simp: acceptHubEnvelope_def bindE_Inr_iff recordIncoming_def applyAccepted_def commandAssignKinds_def Let_def
        split: if_splits)
  then show ?thesis by (auto simp: startCommandTask_def launch_def stateVersion_def bindingIs_def split: option.split)
qed

end
