(* ===== verification/CommandProperties.thy ===== *)
theory CommandProperties
  imports CommandTasks
begin

text \<open>The reports of command tasks: the search for a script's report, and the size of an \<^verbatim>\<open>exec.run\<close> receipt.\<close>

section \<open>The size of JSON\<close>

lemma jsonString_size: "length (jsonString s) \<le> 6 * length s + 2"
proof -
  have "length (jsonChar c) \<le> 6" for c by (simp add: jsonChar_def Let_def)
  then have "length (concat (map jsonChar s)) \<le> 6 * length s" by (induction s) (auto intro: add_mono simp: le_diff_conv)
  then show ?thesis by (simp add: jsonString_def)
qed

lemma joinWith_size: "length (joinWith c ps) \<le> sum_list (map (\<lambda>p. Suc (length p)) ps)"
  by (induction c ps rule: joinWith.induct) simp_all

lemma sum_sort_keys: "sum_list (map f (sort_keys m)) = sum_list (map f m)" for f :: "string \<times> 'a \<Rightarrow> nat"
proof -
  have "sum_list (map f (insert_key kv m)) = f kv + sum_list (map f m)" for kv m by (induction m) auto
  then show ?thesis by (induction m) (simp_all add: sort_keys_def)
qed

lemma marshal_object_size:
  "length (marshalJSON (GMap m)) \<le> 2 + sum_list (map (\<lambda>(k, v). 6 * length k + 4 + length (marshalJSON v)) m)"
proof -
  let ?f = "\<lambda>(k, v). jsonString k @ CHR '':'' # jsonText v"
  let ?n = "map (\<lambda>(k, v). (k, json_norm v)) m"
  have "length (marshalJSON (GMap m)) = 2 + length (joinWith (CHR '','') (map ?f (sort_keys ?n)))"
    by (simp add: marshalJSON_def)
  also have "\<dots> \<le> 2 + sum_list (map (\<lambda>p. Suc (length p)) (map ?f (sort_keys ?n)))" using joinWith_size by (simp only: add_le_cancel_left)
  also have "\<dots> = 2 + sum_list (map (\<lambda>kv. Suc (length (?f kv))) ?n)" using sum_sort_keys [of "\<lambda>kv. Suc (length (?f kv))" ?n]
    by (simp only: map_map comp_def)
  also have "\<dots> \<le> 2 + sum_list (map (\<lambda>(k, v). 6 * length k + 4 + length (marshalJSON v)) m)"
    unfolding map_map comp_def
  proof (intro add_left_mono sum_list_mono)
    show "Suc (length (case case kv of (k, v) \<Rightarrow> (k, json_norm v) of (k, v) \<Rightarrow> jsonString k @ CHR '':'' # jsonText v)) \<le>
        (case kv of (k, v) \<Rightarrow> 6 * length k + 4 + length (marshalJSON v))" for kv
      using jsonString_size [of "fst kv"] by (simp add: case_prod_beta marshalJSON_def)
  qed
  finally show ?thesis .
qed

section \<open>Truncation\<close>

lemma runes_bytes: "length s \<le> length (concat (runes s))"
proof (induction s rule: runes.induct)
  case (2 a cs)
  show ?case
  proof (cases "runeLen (a # cs) = 0")
    case True
    then show ?thesis using 2(1) [OF refl] by (simp add: runeError_def)
  next
    case False
    have "length (a # cs) = length (take (runeLen (a # cs)) (a # cs)) + length (drop (runeLen (a # cs)) (a # cs))"
      by (metis append_take_drop_id length_append)
    then show ?thesis using False 2(2) [OF refl] by (simp add: Let_def)
  qed
qed simp

lemma take_runes_size: "length (concat (take n (runes s))) \<le> 4 * n" "length (concat (drop (length (runes s) - n) (runes s))) \<le> 4 * n"
proof -
  have size: "length (concat rs) \<le> 4 * length rs" if "set rs \<subseteq> set (runes s)" for rs
    using that runes_size by (induction rs) (auto intro: add_mono)
  show "length (concat (take n (runes s))) \<le> 4 * n"
    using size [OF set_take_subset, of n] by (auto intro: order_trans)
  show "length (concat (drop (length (runes s) - n) (runes s))) \<le> 4 * n"
    using size [OF set_drop_subset, of "length (runes s) - n"] by (auto intro: order_trans)
qed

lemma truncateOutput_size: "length (truncateOutput s n) \<le> 4 * n + 16"
proof (cases "length (runes (trimSpace s)) \<le> n")
  case True
  then show ?thesis using runes_bytes [of "trimSpace s"] concat_runes_size [of "trimSpace s"]
    by (simp add: truncateOutput_def Let_def)
next
  case False
  have "2 * (n div 2) \<le> n" by simp
  then show ?thesis using False take_runes_size [where n = "n div 2" and s = "trimSpace s"]
    by (simp add: truncateOutput_def Let_def)
qed

section \<open>Durations\<close>

lemma fractionText_size:
  assumes "0 \<le> v" and "v < 10 ^ Suc n * 10 ^ digits" and "digits \<noteq> 0"
  shows "length (fractionText v digits) \<le> n + digits + 2"
proof -
  have "v div 10 ^ digits < 10 ^ Suc n" 
  proof (rule ccontr)
    assume "\<not> v div 10 ^ digits < 10 ^ Suc n"
    then have "10 ^ Suc n * 10 ^ digits \<le> v div 10 ^ digits * 10 ^ digits" by (intro mult_right_mono) simp_all
    moreover have "v div 10 ^ digits * 10 ^ digits \<le> v" by (simp add: minus_mod_eq_div_mult [symmetric])
    ultimately show False using assms(2) by linarith
  qed
  then have "length (natDigits (v div 10 ^ digits)) \<le> Suc n"
    using assms(1) by (intro natDigits_length) (simp_all add: pos_imp_zdiv_nonneg_iff)
  moreover have "length (pad digits (v mod 10 ^ digits)) = digits" using assms(3) by (intro pad_ok) simp_all
  then have "length (rev (dropWhile (\<lambda>c. c = CHR ''0'') (rev (pad digits (v mod 10 ^ digits))))) \<le> digits"
    by (metis length_dropWhile_le length_rev)
  ultimately show ?thesis by (simp add: fractionText_def Let_def)
qed

lemma pieces_size:
  assumes "length x \<le> 1" "length p \<le> 10" "b \<Longrightarrow> length q \<le> 10" "c \<Longrightarrow> length r \<le> 10" "e \<Longrightarrow> length t \<le> 12"
    "length h \<le> 20" "length m \<le> 3" "length s \<le> 13"
  shows "length (x @ (if a then p else if b then q else if c then r else if e then t
    else (if f then h else []) @ (if g then m else []) @ s)) \<le> 60"
  using assms by auto

lemma durationText_size:
  assumes "\<bar>d\<bar> < 2 ^ 63"
  shows "length (durationText d) \<le> 60"
proof -
  let ?u = "\<bar>d\<bar>"
  have digits: "length (natDigits n) \<le> Suc w" if "0 \<le> n" "n < 10 ^ Suc w" for n :: int and w using that by (rule natDigits_length)
  have h: "length (natDigits (?u div 1000000000 div 60 div 60)) \<le> 19"
    using assms digits [of "?u div 1000000000 div 60 div 60" 18] by (simp add: div_less_iff_less_mult pos_imp_zdiv_nonneg_iff)
  have m: "length (natDigits (?u div 1000000000 div 60 mod 60)) \<le> 2"
  proof -
    have "?u div 1000000000 div 60 mod 60 < 60" by simp
    then have "?u div 1000000000 div 60 mod 60 < 10 ^ Suc 1" by (rule less_trans) simp
    then show ?thesis using digits [of "?u div 1000000000 div 60 mod 60" 1] by simp
  qed
  have s: "length (fractionText (?u mod 60000000000) 9) \<le> 12"
  proof -
    have "?u mod 60000000000 < 60000000000" by simp
    then have "?u mod 60000000000 < 10 ^ Suc 1 * 10 ^ 9" by (rule less_trans) simp
    then show ?thesis using fractionText_size [of "?u mod 60000000000" 1 9] by simp
  qed
  have small: "length (natDigits ?u) \<le> 3" if "?u < 1000" using digits [of ?u 2] that by simp
  have micro: "length (fractionText ?u 3) \<le> 7" if "?u < 1000000" using fractionText_size [of ?u 2 3] that by simp
  have milli: "length (fractionText ?u 6) \<le> 10" if "?u < 1000000000" using fractionText_size [of ?u 2 6] that by simp
  have app: "length (x @ y) \<le> l" if "length x \<le> n" "n + length y \<le> l" for x y :: string and n l using that by simp
  have neg: "length (if d < 0 then ''-'' else []) \<le> 1" by simp
  show ?thesis unfolding durationText_def Let_def
  proof (rule pieces_size [OF neg])
    show "length ''0s'' \<le> 10" by simp
    show "length (natDigits ?u @ ''ns'') \<le> 10" if "?u < 1000" by (rule app [OF small [OF that]]) simp
    show "length (fractionText ?u 3 @ [CHR 0xC2, CHR 0xB5, CHR ''s'']) \<le> 10" if "?u < 1000000"
      by (rule app [OF micro [OF that]]) simp
    show "length (fractionText ?u 6 @ ''ms'') \<le> 12" if "?u < 1000000000" by (rule app [OF milli [OF that]]) simp
    show "length (natDigits (?u div 1000000000 div 60 div 60) @ ''h'') \<le> 20" by (rule app [OF h]) simp
    show "length (natDigits (?u div 1000000000 div 60 mod 60) @ ''m'') \<le> 3" by (rule app [OF m]) simp
    show "length (fractionText (?u mod 60000000000) 9 @ ''s'') \<le> 13" by (rule app [OF s]) simp
  qed
qed

section \<open>The report of a dependency update\<close>

text \<open>C34: the double search over braces is exactly a search for the last valid JSON object (the last closing brace of any, and
  for it the last opening one); so the report a script prints at the end of its output is the receipt, whatever it logged
  before, as long as it closes no brace afterwards; and the bridge, not the script, says that it succeeded.\<close>

theorem dependency_report_found:
  assumes "report = CHR 0x7B # inner @ [CHR 0x7D]" and "validJSON report" and "CHR 0x7D \<notin> set after"
    and "decodeObject env report = Some m" and "ro_Error out = None" and "ro_Stdout out = log @ report @ after"
  shows "(lastJSONObject s = Some d \<longleftrightarrow> (\<exists>i j. lastReport s i j \<and> d = braced s i j)) \<and>
    runDependencyUpdateCommand env timeout out = (AList.update ''succeeded'' (GBool True) m, ''dependency.update.completed'')"
proof
  show "lastJSONObject s = Some d \<longleftrightarrow> (\<exists>i j. lastReport s i j \<and> d = braced s i j)" by (rule lastJSONObject_spec)
  have "lastJSONObject (log @ report @ after) = Some report"
    unfolding lastJSONObject_spec using lastReport_end [OF assms(1-3), of log] by metis
  then show "runDependencyUpdateCommand env timeout out = (AList.update ''succeeded'' (GBool True) m, ''dependency.update.completed'')"
    using assms(4-6) by (simp add: runDependencyUpdateCommand_def scriptReport_def runFailure_def Let_def)
qed

definition demoCommandEnv :: bridge_env where
  "demoCommandEnv = \<lparr>bridgeUUID = (\<lambda>n. CHR ''b'' # utoa n), digestHex = id, parseDuration = (\<lambda>s. None), hasFlake = False,
     decodeObject = (\<lambda>s. Some [(''updates'', GList [])]), dependencyScript = ([], [])\<rparr>"

theorem dependency_report_found_witness:
  "runDependencyUpdateCommand demoCommandEnv [] \<lparr>ro_Error = None,
     ro_Stdout = ''scanning {npm} '' @ (CHR 0x7B # [CHR 0x22, CHR ''a'', CHR 0x22] @ '':[1]'' @ [CHR 0x7D]) @ '' done'', ro_Stderr = []\<rparr> =
   ([(''updates'', GList []), (''succeeded'', GBool True)], ''dependency.update.completed'')"
proof -
  let ?inner = "[CHR 0x22, CHR ''a'', CHR 0x22] @ '':[1]''"
  have valid: "validJSON (CHR 0x7B # ?inner @ [CHR 0x7D])" by code_simp
  have after: "CHR 0x7D \<notin> set '' done''" by simp
  show ?thesis
    using dependency_report_found [OF refl valid after, of demoCommandEnv "[(''updates'', GList [])]"
        "\<lparr>ro_Error = None, ro_Stdout = ''scanning {npm} '' @ (CHR 0x7B # ?inner @ [CHR 0x7D]) @ '' done'', ro_Stderr = []\<rparr>"
        "''scanning {npm} ''" "[]" "[]" "[]"]
    by (simp add: demoCommandEnv_def)
qed

section \<open>The receipt of a command\<close>

text \<open>The text of an error other than a timeout or an exit code (the shell cannot be started, its output cannot be copied):
  unlike the two streams it is not cut.\<close>

definition uncutError :: "run_output \<Rightarrow> nat" where
  "uncutError out = (case ro_Error out of Some (OtherError msg) \<Rightarrow> length msg | _ \<Rightarrow> 0)"

text \<open>C35: the receipt of an \<^verbatim>\<open>exec.run\<close> stays below 400000 bytes, far below the 2 MiB the hub reads from a frame, however much
  the command writes: each stream is cut to 8000 runes, at most 32016 bytes, and JSON escapes a byte with at most six.  The
  text of an error other than a timeout or an exit code is not cut, so it is counted on top, six bytes for each of its own.
  Timeouts are of 64 bits and exit codes of 32, as Go has them.\<close>

theorem exec_receipt_bounded:
  assumes "\<And>d. parseDuration env timeoutText = Some d \<Longrightarrow> \<bar>d\<bar> < 2 ^ 63"
    and "\<And>n. ro_Error out = Some (ExitCode n) \<Longrightarrow> \<bar>n\<bar> < 2 ^ 31"
  shows "length (marshalJSON (GMap (fst (runExecCommand env timeoutText out)))) \<le> 400000 + 6 * uncutError out"
proof -
  let ?t = "commandTimeout env defaultExecRunTimeout timeoutText"
  have "\<bar>?t\<bar> < 2 ^ 63" using assms(1) by (auto simp: commandTimeout_def defaultExecRunTimeout_def split: option.split)
  then have duration: "length (durationText ?t) \<le> 60" by (rule durationText_size)
  have itoa: "length (itoa n) \<le> 11" if "\<bar>n\<bar> < 2 ^ 31" for n
    using that natDigits_length [of n 9] natDigits_length [of "- n" 9] by (auto simp: itoa_def)
  obtain code msg where f: "runFailure ''command'' ?t (ro_Error out) = (code, msg)" by force
  have code: "length (itoa code) \<le> 11" and msg: "length msg \<le> 100 + uncutError out"
    using f duration itoa [of code] assms(2) by (auto simp: runFailure_def uncutError_def split: option.splits run_error.splits)
  have stream: "length (marshalJSON (GStr (truncateOutput s maxExecOutputBytes))) \<le> 192098" for s
    using jsonString_size [of "truncateOutput s maxExecOutputBytes"] truncateOutput_size [of s maxExecOutputBytes]
    by (simp add: marshalJSON_def maxExecOutputBytes_def)
  have err: "length (marshalJSON (GStr msg)) \<le> 602 + 6 * uncutError out" using jsonString_size [of msg] msg by (simp add: marshalJSON_def)
  have num: "length (marshalJSON (GInt code)) \<le> 11" using code by (simp add: marshalJSON_def)
  have bool: "length (marshalJSON (GBool b)) \<le> 5" for b by (simp add: marshalJSON_def)
  have receipt: "fst (runExecCommand env timeoutText out) =
      [(''exit_code'', GInt code), (''succeeded'', GBool (ro_Error out = None)),
       (''stdout'', GStr (truncateOutput (ro_Stdout out) maxExecOutputBytes)),
       (''stderr'', GStr (truncateOutput (ro_Stderr out) maxExecOutputBytes))] @ errorEntry msg"
    by (simp add: runExecCommand_def f Let_def)
  have sum: "sum_list (map (\<lambda>(k, v). 6 * length k + 4 + length (marshalJSON v)) (errorEntry msg)) \<le> 636 + 6 * uncutError out"
    using err by (simp add: errorEntry_def)
  show ?thesis
    using marshal_object_size [of "fst (runExecCommand env timeoutText out)"] sum num bool [of "ro_Error out = None"]
      stream [of "ro_Stdout out"] stream [of "ro_Stderr out"]
    unfolding receipt map_append sum_list_append by simp
qed

theorem exec_receipt_bounded_witness:
  "length (marshalJSON (GMap (fst (runExecCommand demoCommandEnv ''10m''
      \<lparr>ro_Error = Some (OtherError ''fork/exec: no such file''), ro_Stdout = ''ok'', ro_Stderr = []\<rparr>)))) \<le> 400138"
  using exec_receipt_bounded [of demoCommandEnv "''10m''"
    "\<lparr>ro_Error = Some (OtherError ''fork/exec: no such file''), ro_Stdout = ''ok'', ro_Stderr = []\<rparr>"]
  by (simp add: demoCommandEnv_def uncutError_def)

end
