(* ===== verification/DeliveryHistory.thy ===== *)
theory DeliveryHistory
  imports HubHistory
begin

text \<open>
  The delivery actions as histories.  Whatever the other goroutines commit between the transactions of an action, the store
  it leaves is one that a sequence of store operations leaves, so it is reachable and satisfies the invariants.
\<close>

datatype delivery_action =
    ActSubmit string string delivery_manifest "pr_verifier option"
  | ActControl envelope "pr_verifier option"
  | ActRegister string string pr_claim "pr_verifier option"
  | ActRecord evidence_input producer
  | ActReconcileSet "evidence_input list" producer
  | ActSnapshot "evidence_scope list" "evidence_input list" producer
  | ActReconcilePR delivery_target string string verified_pr
  | ActFeedback delivery_target string gmap provenance
  | ActReconcileFeedback delivery_target string gmap provenance

definition voidA :: "'a act \<Rightarrow> unit act" where
  "voidA m = bindA m (\<lambda>_. returnA ())"

fun performAction :: "rt_env \<Rightarrow> url_parser \<Rightarrow> delivery_action \<Rightarrow> unit act" where
  "performAction env parse (ActSubmit runID attemptID manifest verifier) =
     voidA (SubmitDelivery env parse runID attemptID manifest verifier)"
| "performAction env parse (ActControl en verifier) = voidA (ApplyDeliveryControl env parse en verifier)"
| "performAction env parse (ActRegister runID attemptID claim verifier) =
     voidA (RegisterPullRequest env parse runID attemptID claim verifier)"
| "performAction env parse (ActRecord i p) = voidA (RecordEvidence env i p)"
| "performAction env parse (ActReconcileSet inputs p) = voidA (ReconcileEvidenceSet env inputs p)"
| "performAction env parse (ActSnapshot scopes inputs p) = voidA (ReconcileEvidenceSnapshot env scopes inputs p)"
| "performAction env parse (ActReconcilePR target eventID kind verified) =
     voidA (ReconcilePullRequest env target eventID kind verified)"
| "performAction env parse (ActFeedback target eventID feedback prov) =
     voidA (ApplyReviewFeedback env target eventID feedback prov)"
| "performAction env parse (ActReconcileFeedback target eventID feedback prov) =
     voidA (ReconcileReviewFeedback env target eventID feedback prov)"

text \<open>The transactions of the actions, for any relation that covers them.\<close>

locale action_frame = step_order +
  fixes env :: rt_env
  assumes covers: "moves R (perform env now oper)"
begin

lemma moves_unvoid: "perform env now oper = void m \<Longrightarrow> moves R m"
  using covers [of now oper] unfolding void_def moves_def by (auto simp: tx_ok)

lemma moves_txs:
  "moves R (submitTx env runID attemptID eventID messageID expectedVersion verified now)"
  "moves R (preflightDeliveryControl env now en)"
  "moves R (registerVerified env runID attemptID oen verified now)"
  "moves R (recordEvidenceTx env scopes inputs p reconcile now)"
  "moves R (applyDeliveryPolicyEvent env runID expected
     (\<lambda>eventID. policyEvent eventID p kind attemptID payload facts observed) now)"
  "moves R (reconcileTx env target eventID' eventKind pr now)"
  "moves R (applyReviewFeedbackEvent env target eventID' eventKind feedback prov now)"
  by (rule moves_unvoid [OF perform.simps(19)] moves_unvoid [OF perform.simps(20)] moves_unvoid [OF perform.simps(21)]
    moves_unvoid [OF perform.simps(22)] moves_unvoid [OF perform.simps(23)] moves_unvoid [OF perform.simps(24)]
    moves_unvoid [OF perform.simps(25)])+

lemmas action_steps = does_bind does_pure does_catch does_atomic moves_txs moves_verifyDeliveryClaims
  moves_evaluateDeliveryPolicy moves_policyRevisionMatches moves_loadRunWorkflow moves_currentReviewFeedback

lemma does_cases:
  "does R m \<Longrightarrow> does R k \<Longrightarrow> does R (if b then m else k)"
  "does R m \<Longrightarrow> (\<And>x. does R (f x)) \<Longrightarrow> does R (case v of None \<Rightarrow> m | Some x \<Rightarrow> f x)"
  "(\<And>a c. does R (h a c)) \<Longrightarrow> does R (case q of (a, c) \<Rightarrow> h a c)"
  by (simp_all split: option.split prod.split)

lemma does_publishUnlessKnown:
  "does R (publishUnlessKnown env runID label factKey result
     (\<lambda>eventID. policyEvent eventID p kind attemptID payload facts observed))"
  unfolding publishUnlessKnown_def by (intro action_steps does_cases)

lemma does_publishEvents: "does R (publishEvidencePolicyEvents env runID attemptID domain result observed)"
  unfolding publishEvidencePolicyEvents_def publishStatus_def publishResult_def
  by (intro action_steps does_cases does_publishUnlessKnown)

lemma does_publishLoop: "does R (publishLoop n env runID attemptID domain observed)"
  by (induction n) (auto intro!: action_steps does_cases does_publishEvents)

lemma does_evaluateAndPublish: "does R (evaluateAndPublishDeliveryPolicy env runID attemptID domain observed)"
  unfolding evaluateAndPublishDeliveryPolicy_def by (rule does_publishLoop)

lemma does_recordEvidenceSet: "does R (recordEvidenceSet env scopes inputs p reconcile)"
  unfolding recordEvidenceSet_def by (intro action_steps does_cases does_evaluateAndPublish)

lemma does_submitDelivery: "does R (submitDelivery env parse runID attemptID eventID messageID expected manifest verifier)"
  unfolding submitDelivery_def by (intro action_steps does_cases does_evaluateAndPublish)

lemma does_registerPullRequests: "does R (registerPullRequests env parse runID attemptID manifest verifier oen)"
  unfolding registerPullRequests_def by (intro action_steps)

lemma does_void: "does R m \<Longrightarrow> does R (voidA m)"
  unfolding voidA_def by (intro action_steps)

lemma does_performAction: "does R (performAction env parse a)"
  by (cases a; simp only: performAction.simps SubmitDelivery_def ApplyDeliveryControl_def RegisterPullRequest_def
        RecordEvidence_def ReconcileEvidenceSet_def ReconcileEvidenceSnapshot_def ReconcilePullRequest_def
        ApplyReviewFeedback_def ReconcileReviewFeedback_def;
      intro does_void action_steps does_cases does_recordEvidenceSet does_submitDelivery does_registerPullRequests
        does_evaluateAndPublish)

end

section \<open>Histories\<close>

definition historyOf :: "rt_env \<Rightarrow> store \<Rightarrow> store \<Rightarrow> bool" where
  "historyOf env s t \<longleftrightarrow> (\<exists>ops. t = runOps env ops s)"

lemma runOps_append: "runOps env (ops @ ops') s = runOps env ops' (runOps env ops s)"
  by (simp add: runOps_def)

interpretation history: step_order "historyOf env"
proof
  show "historyOf env s s" for s by (auto simp: historyOf_def runOps_simps(1) intro: exI [of _ "[]"])
  show "historyOf env s u" if "historyOf env s t" "historyOf env t u" for s t u
    using that by (auto simp: historyOf_def simp flip: runOps_append)
qed

interpretation history: action_frame "historyOf env" env
proof
  show "moves (historyOf env) (perform env now oper)" for now oper
    unfolding moves_def historyOf_def
    by (auto simp: runOps_simps commit_def intro!: exI [of _ "[(now, oper)]"])
qed

lemma reachable_history: "reachable env s \<Longrightarrow> historyOf env s t \<Longrightarrow> reachable env t"
  by (auto simp: historyOf_def reachable_runOps)

end
