(* ===== verification/PolicyProperties.thy ===== *)
theory PolicyProperties
  imports Evidence WorkflowSound
begin

text \<open>
  What the delivery policy of a validated workflow decides: it is always evaluated, the result says what the workflow asks
  for, and a decided verdict about the checks does not change when a check reports that had not reported before.
\<close>

section \<open>The policies of a validated workflow\<close>

definition integerPolicies :: "(string \<times> gmap) list option \<Rightarrow> bool" where
  "integerPolicies block \<longleftrightarrow> (case block of None \<Rightarrow> True | Some ps \<Rightarrow> list_all (\<lambda>(name, p). goIntegers (GMap p)) ps)"

lemma validatePolicies_ok:
  assumes "validatePolicies w sect mode block = Inr ()" and "checkPolicyRef entry mode block name = Inr ()" and "name \<noteq> []"
  obtains p where "policyNamed block name = p" and "block \<noteq> None" and "(name, p) \<in> set (the block)"
    and "validateEvidencePolicy (sect @ CHR ''.'' # name) p mode = Inr ()"
proof -
  obtain ps where ps: "block = Some ps" "hasKey ps name"
    using assms(2,3) by (auto simp: checkPolicyRef_def split: option.splits)
  then obtain p where p: "map_of ps name = Some p" by auto
  then have "(name, p) \<in> set ps" by (rule map_of_SomeD)
  moreover from this have "validateEvidencePolicy (sect @ CHR ''.'' # name) p mode = Inr ()"
    using assms(1) ps(1) by (auto simp: validatePolicies_def optE_def bindE_Inr_iff dest!: bspec)
  ultimately show thesis using that ps(1) p by (simp add: policyNamed_def)
qed

lemma named_policy_evaluates:
  assumes "validatePolicies w sect mode block = Inr ()" and "checkPolicyRef entry mode block name = Inr ()" and "name \<noteq> []"
    and "integerPolicies block"
  shows "\<exists>v. evaluateEvidencePolicyStatus (policyNamed block name) mode evidence = Inr v"
proof -
  obtain p where p: "policyNamed block name = p" "block \<noteq> None" "(name, p) \<in> set (the block)"
    "validateEvidencePolicy (sect @ CHR ''.'' # name) p mode = Inr ()"
    using validatePolicies_ok [OF assms(1-3)] by metis
  then obtain ps where "block = Some ps" "(name, p) \<in> set ps" by auto
  then have "goIntegers (GMap p)" using assms(4) by (auto simp only: integerPolicies_def list_all_iff option.case)
  then show ?thesis using p(1,4) validateEvidencePolicyNode_evaluates(1)
    unfolding evaluateEvidencePolicyStatus_def validateEvidencePolicy_def by blast
qed

text \<open>The verdicts of one policy over all subjects, as a relation to the single ones.\<close>

definition policyVerdict :: "(string \<times> gmap) list option \<Rightarrow> string \<Rightarrow> string \<Rightarrow> policy_subject \<Rightarrow> gerr + policy_status" where
  "policyVerdict block mode name x =
     (if name = [] then Inr PolicySatisfied else evaluateEvidencePolicyStatus (policyNamed block name) mode (ps_Evidence x))"

lemma combineAll_satisfied_iff:
  "combineAllPolicyStatus a b = PolicySatisfied \<longleftrightarrow> a = PolicySatisfied \<and> b = PolicySatisfied"
  by (cases a; cases b) (simp_all add: combineAllPolicyStatus_def)

lemma combineAll_satisfied_right [simp]: "combineAllPolicyStatus a PolicySatisfied = a"
  by (cases a) (simp_all add: combineAllPolicyStatus_def)

lemma combineSubjects_verdicts:
  "combineSubjects w req (x # xs) (ci, review) =
     bindE (wrapE ''evaluate CI policy %s: %w'' [pd_CIPolicy req] (policyVerdict (wf_CI w) ''ci'' (pd_CIPolicy req) x)) (\<lambda>c.
     bindE (wrapE ''evaluate review policy %s: %w'' [pd_ReviewPolicy req]
       (policyVerdict (wf_Review w) ''review'' (pd_ReviewPolicy req) x)) (\<lambda>r.
     combineSubjects w req xs (combineAllPolicyStatus ci c, combineAllPolicyStatus review r)))"
  by (simp add: policyVerdict_def wrapE_def bindE_def split: sum.splits)

lemma combineSubjects_total:
  assumes "\<And>x. \<exists>v. policyVerdict (wf_CI w) ''ci'' (pd_CIPolicy req) x = Inr v"
    and "\<And>x. \<exists>v. policyVerdict (wf_Review w) ''review'' (pd_ReviewPolicy req) x = Inr v"
  shows "\<exists>v. combineSubjects w req xs st = Inr v"
proof (induction xs arbitrary: st)
  case Nil
  show ?case by (cases st) simp
next
  case (Cons x xs)
  obtain ci review where st: "st = (ci, review)" by (cases st)
  obtain c r where "policyVerdict (wf_CI w) ''ci'' (pd_CIPolicy req) x = Inr c"
    "policyVerdict (wf_Review w) ''review'' (pd_ReviewPolicy req) x = Inr r" using assms by blast
  then show ?case using Cons by (simp add: st combineSubjects_verdicts wrapE_def del: combineSubjects.simps)
qed

lemma combineSubjects_satisfied:
  "combineSubjects w req xs (ci, review) = Inr (ci', review') \<Longrightarrow>
    (ci' = PolicySatisfied \<longleftrightarrow> ci = PolicySatisfied \<and>
       (\<forall>x \<in> set xs. policyVerdict (wf_CI w) ''ci'' (pd_CIPolicy req) x = Inr PolicySatisfied)) \<and>
    (review' = PolicySatisfied \<longleftrightarrow> review = PolicySatisfied \<and>
       (\<forall>x \<in> set xs. policyVerdict (wf_Review w) ''review'' (pd_ReviewPolicy req) x = Inr PolicySatisfied))"
proof (induction xs arbitrary: ci review)
  case (Cons x xs)
  then obtain c r where "policyVerdict (wf_CI w) ''ci'' (pd_CIPolicy req) x = Inr c"
    "policyVerdict (wf_Review w) ''review'' (pd_ReviewPolicy req) x = Inr r"
    "combineSubjects w req xs (combineAllPolicyStatus ci c, combineAllPolicyStatus review r) = Inr (ci', review')"
    by (auto simp: combineSubjects_verdicts bindE_Inr_iff wrapE_def simp del: combineSubjects.simps split: sum.splits)
  then show ?case using Cons.IH by (auto simp: combineAll_satisfied_iff)
qed simp

lemma all_merged_iff: "length xs = length (filter P xs) \<longleftrightarrow> (\<forall>x \<in> set xs. P x)"
proof -
  have "length (filter P xs) < length xs" if "x \<in> set xs" "\<not> P x" for x using that by (rule length_filter_less)
  moreover have "filter P xs = xs" if "\<forall>x \<in> set xs. P x" using that by (simp add: filter_id_conv)
  ultimately show ?thesis by (metis less_irrefl)
qed

lemma evaluatePolicy_satisfied:
  assumes "pullRequestPolicy w = Some req"
    and "combineSubjects w req subjects (PolicySatisfied, PolicySatisfied) = Inr (ci, review)"
    and "evaluatePolicy w revision subjects = Inr result"
  shows "dr_Satisfied result \<longleftrightarrow>
    (pd_Minimum req \<le> int (length subjects) \<and> (\<not> pd_Required req \<or> subjects \<noteq> [])) \<and> ci = PolicySatisfied \<and>
    review = PolicySatisfied \<and> (pd_Completion req = ''all_merged'' \<longrightarrow> (\<forall>x \<in> set subjects. ps_State x = ''merged''))"
  using assms unfolding all_merged_iff [symmetric] by (clarsimp simp: evaluatePolicy_def Let_def)

section \<open>Properties\<close>

text \<open>The delivery policy of a validated workflow is evaluated without error on whatever evidence there is, as long as
  the integers of its policies are those a document can hold: what validation accepts the evaluator understands.\<close>

lemma validated_delivery_evaluates:
  assumes "ValidateWorkflow env w = Inr rwf" and "integerPolicies (wf_CI w)" and "integerPolicies (wf_Review w)"
  shows "\<exists>result. evaluatePolicy w revision subjects = Inr result \<and> dr_Revision result = revision \<and>
    dr_PullRequestCount result = length subjects"
proof (cases "pullRequestPolicy w")
  case (Some req)
  then have refs: "checkPolicyRef ''ci_policy'' ''ci'' (wf_CI w) (pd_CIPolicy req) = Inr ()"
    "checkPolicyRef ''review_policy'' ''review'' (wf_Review w) (pd_ReviewPolicy req) = Inr ()"
    using ValidateWorkflow_steps(9) [OF assms(1)]
    by (auto simp: validateDelivery_def pullRequestPolicy_def bindE_Inr_iff split: option.splits)
  have "\<exists>v. policyVerdict (wf_CI w) ''ci'' (pd_CIPolicy req) x = Inr v"
    "\<exists>v. policyVerdict (wf_Review w) ''review'' (pd_ReviewPolicy req) x = Inr v" for x
    using named_policy_evaluates [OF ValidateWorkflow_steps(7) [OF assms(1)] refs(1) _ assms(2)]
      named_policy_evaluates [OF ValidateWorkflow_steps(8) [OF assms(1)] refs(2) _ assms(3)]
    unfolding policyVerdict_def by auto
  then obtain v where "combineSubjects w req subjects (PolicySatisfied, PolicySatisfied) = Inr v"
    using combineSubjects_total by blast
  then show ?thesis using Some by (simp add: evaluatePolicy_def Let_def split: prod.split)
qed (simp add: evaluatePolicy_def Let_def)

definition demoCheck :: "string \<Rightarrow> string \<Rightarrow> int \<Rightarrow> stored_evidence" where
  "demoCheck kind status observed =
     \<lparr>se_Domain = ''ci'', se_Connection = ''github'', se_ExternalID = ''x'' @ kind, se_Kind = kind, se_Status = status,
      se_Payload = [(''pipeline'', GStr ''build'')], se_ObservedAt = observed\<rparr>"

definition demoSubject :: policy_subject where
  "demoSubject = \<lparr>ps_ID = ''p'', ps_Repository = ''o/r'', ps_Number = 7, ps_State = ''merged'', ps_HeadSHA = ''abc'',
     ps_Generation = 1, ps_Evidence = [demoCheck ''unit'' ''success'' 5,
       \<lparr>se_Domain = ''review'', se_Connection = ''bot'', se_ExternalID = ''alice'', se_Kind = ''approval'',
        se_Status = ''approved'', se_Payload = [], se_ObservedAt = 6\<rparr>]\<rparr>"

lemma demo_integerPolicies: "integerPolicies (wf_CI demoWorkflow) \<and> integerPolicies (wf_Review demoWorkflow)"
  by code_simp

lemma validated_delivery_evaluates_witness:
  "\<exists>result. evaluatePolicy demoWorkflow ''rev'' [demoSubject] = Inr result \<and> dr_PullRequestCount result = 1"
  using validated_delivery_evaluates [OF demoWorkflow_valid, of "''rev''" "[demoSubject]"] demo_integerPolicies by auto

text \<open>C36: a delivery is satisfied exactly when there are enough pull requests, every one of them satisfies the CI policy and
  the review policy the workflow names, and, if the workflow asks for it, all are merged.\<close>

theorem delivery_satisfied_iff:
  assumes "pullRequestPolicy w = Some req" and "evaluatePolicy w revision subjects = Inr result"
  shows "dr_Satisfied result \<longleftrightarrow>
    pd_Minimum req \<le> int (length subjects) \<and> \<not> (pd_Required req \<and> subjects = []) \<and>
    (\<forall>x \<in> set subjects.
       (pd_CIPolicy req = [] \<or>
          evaluateEvidencePolicyStatus (policyNamed (wf_CI w) (pd_CIPolicy req)) ''ci'' (ps_Evidence x) = Inr PolicySatisfied) \<and>
       (pd_ReviewPolicy req = [] \<or>
          evaluateEvidencePolicyStatus (policyNamed (wf_Review w) (pd_ReviewPolicy req)) ''review'' (ps_Evidence x) =
            Inr PolicySatisfied) \<and>
       (pd_Completion req = ''all_merged'' \<longrightarrow> ps_State x = ''merged''))"
proof -
  obtain ci review where c: "combineSubjects w req subjects (PolicySatisfied, PolicySatisfied) = Inr (ci, review)"
    using assms by (auto simp: evaluatePolicy_def Let_def bindE_Inr_iff)
  note result = evaluatePolicy_satisfied [OF assms(1) c assms(2)]
  show ?thesis
    unfolding result using combineSubjects_satisfied [OF c] by (simp add: policyVerdict_def) blast
qed

theorem delivery_satisfied_witness:
  "\<exists>result. evaluatePolicy demoWorkflow ''rev'' [demoSubject] = Inr result \<and> dr_Satisfied result"
proof -
  obtain result where r: "evaluatePolicy demoWorkflow ''rev'' [demoSubject] = Inr result"
    using validated_delivery_evaluates_witness by blast
  have req: "pullRequestPolicy demoWorkflow = Some \<lparr>pd_Required = True, pd_Minimum = 1, pd_CIPolicy = ''checks'',
      pd_ReviewPolicy = ''approved'', pd_Completion = ''all_merged''\<rparr>"
    by (simp add: pullRequestPolicy_def demoWorkflow_def)
  have "evaluateEvidencePolicyStatus (policyNamed (wf_CI demoWorkflow) ''checks'') ''ci'' (ps_Evidence demoSubject) = Inr PolicySatisfied"
    "evaluateEvidencePolicyStatus (policyNamed (wf_Review demoWorkflow) ''approved'') ''review'' (ps_Evidence demoSubject) =
       Inr PolicySatisfied" "ps_State demoSubject = ''merged''"
    by code_simp+
  then have "dr_Satisfied result" using delivery_satisfied_iff [OF req r] by simp
  with r show ?thesis by blast
qed

section \<open>Stability\<close>

lemma latestCheck_filter: "latestCheck pipeline check (filter (checkMatches pipeline check) E) = latestCheck pipeline check E"
  by (induction E rule: rev_induct) (auto simp: latestCheck_snoc split: option.splits)

lemma extendsChecks_filter:
  assumes "\<And>pipeline check. filter (checkMatches pipeline check) E \<noteq> [] \<Longrightarrow>
     filter (checkMatches pipeline check) E' = filter (checkMatches pipeline check) E"
  shows "extendsChecks E E'"
  unfolding extendsChecks_def
proof (intro allI)
  fix pipeline check
  show "latestCheck pipeline check E = None \<or> latestCheck pipeline check E' = latestCheck pipeline check E"
  proof (cases "filter (checkMatches pipeline check) E = []")
    case True
    then show ?thesis by (simp add: latestCheck_None_iff filter_empty_conv)
  next
    case False
    from assms [OF this] show ?thesis by (metis latestCheck_filter)
  qed
qed

text \<open>C37: a CI policy that is satisfied or unsatisfied stays so as long as no check that had reported reports again: new
  evidence, of other checks, pipelines or domains, settles what was pending but overturns nothing.\<close>

theorem decided_ci_verdict_stable:
  assumes "evaluateEvidencePolicyStatus policy ''ci'' E = Inr verdict" and "verdict \<noteq> PolicyPending"
    and "\<And>pipeline check. filter (checkMatches pipeline check) E \<noteq> [] \<Longrightarrow>
      filter (checkMatches pipeline check) E' = filter (checkMatches pipeline check) E"
  shows "evaluateEvidencePolicyStatus policy ''ci'' E' = Inr verdict"
proof -
  have "settles (evaluateEvidencePolicyStatus policy ''ci'' E) (evaluateEvidencePolicyStatus policy ''ci'' E')"
    unfolding evaluateEvidencePolicyStatus_def
    by (intro evaluateEvidenceNode_settles(1) ci_leaf_settles extendsChecks_filter assms(3))
  then obtain w where "evaluateEvidencePolicyStatus policy ''ci'' E' = Inr w" "verdict = PolicyPending \<or> w = verdict"
    using assms(1) by (rule settlesE)
  with assms(2) show ?thesis by simp
qed

text \<open>An \<^verbatim>\<open>any\<close> over two checks: a failure of the second does not take back what the first has decided.\<close>

definition anyPolicy :: gmap where
  "anyPolicy = [(''any'', GList [GMap [(''pipeline'', GStr ''build''), (''checks'', GList [GStr ''unit''])],
     GMap [(''pipeline'', GStr ''build''), (''checks'', GList [GStr ''lint''])]])]"

theorem decided_ci_verdict_witness:
  "evaluateEvidencePolicyStatus anyPolicy ''ci'' [demoCheck ''lint'' ''failure'' 9, demoCheck ''unit'' ''success'' 5] =
     Inr PolicySatisfied"
proof (rule decided_ci_verdict_stable)
  show "evaluateEvidencePolicyStatus anyPolicy ''ci'' [demoCheck ''unit'' ''success'' 5] = Inr PolicySatisfied"
    by code_simp
qed (auto simp: checkMatches_def demoCheck_def split: if_splits)

end
