(* ===== verification/DeliveryProperties.thy ===== *)
theory DeliveryProperties
  imports DeliveryHistory PolicyProperties
begin

text \<open>
  Deliveries in any history: the evidence that counts belongs to the current head, what is published was computed from the
  present state, and the delivery actions keep to the invariants whatever runs beside them.
\<close>

section \<open>A delivery of the demo run\<close>

text \<open>A workflow with one state and one CI policy; its claw delivers one merged pull request, and a check reports on it.\<close>

definition tinyWorkflow :: workflow where
  "tinyWorkflow =
     \<lparr>wf_SchemaVersion = GStr ''v2'', wf_Name = ''d'', wf_Enabled = True, wf_ManualTrigger = True, wf_InitialState = ''s'',
      wf_States = [(''s'', \<lparr>st_Phase = ''build'', st_Terminal = False, st_Invariant = [], st_OnEnter = None\<rparr>)],
      wf_Transitions = [], wf_Commands = [],
      wf_CI = Some [(''p'', [(''pipeline'', GStr ''build''), (''checks'', GList [GStr ''unit''])])],
      wf_Review = None,
      wf_Delivery = Some \<lparr>wd_PullRequests = Some \<lparr>pd_Required = True, pd_Minimum = 1, pd_CIPolicy = ''p'',
         pd_ReviewPolicy = [], pd_Completion = []\<rparr>\<rparr>,
      wf_Events = [], wf_Trigger = None\<rparr>"

definition tinyWorkspace :: workspace where
  "tinyWorkspace = demoWorkspace\<lparr>ws_Execution := None, ws_ReviewSystems := None, ws_Knowledge := None\<rparr>"

text \<open>The digest of the demo is the length of its input.\<close>

definition tinyRt :: rt_env where
  "tinyRt = demoRt\<lparr>rt_yaml := demoYaml\<lparr>decodeWorkflow := (\<lambda>_. Inr tinyWorkflow), decodeWorkspace := (\<lambda>_. Inr tinyWorkspace)\<rparr>,
     sha256Hex := (\<lambda>s. utoa (length s))\<rparr>"

definition demoVerified :: verified_pr where
  "demoVerified = \<lparr>vp_ID = [], vp_URL = ''https://x/acme/app/7'', vp_Repository = ''acme/app'', vp_RepositoryName = ''app'',
     vp_Number = 7, vp_SourceBranch = ''fix'', vp_BaseBranch = ''main'', vp_HeadSHA = ''abc'', vp_State = ''merged'',
     vp_Supersedes = [], vp_VerifiedAt = 5, vp_Provenance = sourceControlProvenance 5\<rparr>"

definition demoEvidence :: evidence_input where
  "demoEvidence = \<lparr>ei_ID = [], ei_RunID = ''run'', ei_PRID = ''u5'', ei_HeadSHA = ''abc'', ei_Domain = ''ci'',
     ei_Connection = ''depot'', ei_ExternalID = ''c1'', ei_Kind = ''unit'', ei_Status = ''success'',
     ei_Payload = [(''pipeline'', GStr ''build'')],
     ei_Provenance = \<lparr>pv_Producer = ''ci'', pv_Connection = ''depot'', pv_Principal = [], pv_ObservedAt = 6000000,
       pv_ExternalID = [], pv_Reconciled = False\<rparr>, ei_ObservedAt = 6000000\<rparr>"

definition deliveryOps :: "(int \<times> operation) list" where
  "deliveryOps = [(0, OpCreateRun demoCreate), (5000000, OpSubmitDelivery ''run'' ''u0'' None [] None [demoVerified]),
     (6000000, OpRecordEvidence [] [demoEvidence] ProducerCI False)]"

definition deliveryStore :: store where
  "deliveryStore = runOps tinyRt deliveryOps emptyStore"





lemma reachable_deliveryStore: "reachable tinyRt deliveryStore"
  unfolding deliveryStore_def by (rule reachable_runOps [OF reachable.start])


lemma delivery_rows_run: "runsTo tinyRt deliveryOps emptyStore (\<lambda>s.
    map (\<lambda>p. (pr_ID p, pr_HeadSHA p)) (db_prs s) = [(''u5'', ''abc'')] \<and>
    map (\<lambda>e. (ed_RunID e, headKey e, ed_SupersededAt e)) (db_evidence s) = [(''run'', (''u5'', 1, ''abc''), 0)] \<and>
    headGeneration ''u5'' s = 1)"
  by code_simp




lemmas delivery_rows = runsTo_runOps [OF delivery_rows_run, folded deliveryStore_def]

section \<open>Current evidence\<close>

lemma currentEvidence_head:
  assumes inv: "delivery_inv s" and p: "p \<in> set (db_prs s)" and e: "e \<in> set (db_evidence s)" and same: "ed_PRID e = pr_ID p"
  shows "1 \<le> ed_Generation e \<and> ed_Generation e \<le> headGeneration (pr_ID p) s \<and>
    (ed_Generation e = headGeneration (pr_ID p) s \<longrightarrow> ed_HeadSHA e = pr_HeadSHA p)"
proof -
  let ?l = "headList (pr_ID p) (db_heads s)"
  have h: "headed (db_heads s) (pr_ID p) (pr_HeadSHA p)" using inv p by (auto simp: delivery_inv_def)
  have n: "headGeneration (pr_ID p) s = length ?l" using h by (rule headGeneration_headed)
  have "headKey e \<in> headNames (db_heads s)" using inv e by (auto simp: delivery_inv_def)
  then obtain hd where hd: "hd \<in> set (db_heads s)" "hd_PRID hd = pr_ID p" "hd_Generation hd = ed_Generation e"
    "hd_SHA hd = ed_HeadSHA e" using same by (auto simp: headNames_def headKey_def)
  then have "hd \<in> set ?l" by (simp add: headList_def)
  then obtain k where k: "k < length ?l" "?l ! k = hd" by (auto simp: in_set_conv_nth)
  have "map hd_Generation ?l ! k = [1..<Suc (length ?l)] ! k" using h by (simp add: headed_def del: upt_Suc)
  then have g: "ed_Generation e = Suc k" using k hd(3) by (simp add: nth_upt del: upt_Suc)
  have "ed_HeadSHA e = pr_HeadSHA p" if "ed_Generation e = length ?l"
  proof -
    have "?l \<noteq> []" using k(1) by auto
    then have "last ?l = hd" using k g that by (simp add: last_conv_nth)
    then show ?thesis using h hd(4) by (simp add: headed_def)
  qed
  then show ?thesis using g k(1) n by simp
qed

text \<open>C38: in every reachable store the evidence a policy looks at is evidence for the commit that is the head of the pull
  request now: none of an earlier head counts, and none of a head that was never seen.\<close>

theorem evidence_counts_for_current_head:
  assumes "reachable env s" and "p \<in> set (db_prs s)" and "e \<in> set (db_evidence s)"
    and "currentEvidence runID (pr_ID p) (headGeneration (pr_ID p) s) e"
  shows "ed_HeadSHA e = ps_HeadSHA (policySubject runID s p) \<and> 1 \<le> ed_Generation e \<and>
    (\<forall>h \<in> set (db_heads s). hd_PRID h = pr_ID p \<longrightarrow> hd_Generation h \<le> ed_Generation e)"
proof -
  have inv: "delivery_inv s" using reachable_inv [OF assms(1)] by (simp add: store_inv_def)
  have e: "ed_PRID e = pr_ID p" "ed_Generation e = headGeneration (pr_ID p) s" using assms(4) by (simp_all add: currentEvidence_def)
  have "hd_Generation h \<le> headGeneration (pr_ID p) s" if "h \<in> set (db_heads s)" "hd_PRID h = pr_ID p" for h
  proof -
    let ?l = "headList (pr_ID p) (db_heads s)"
    have h: "headed (db_heads s) (pr_ID p) (pr_HeadSHA p)" using inv assms(2) by (auto simp: delivery_inv_def)
    have "h \<in> set ?l" using that by (simp add: headList_def)
    then have "hd_Generation h \<in> set (map hd_Generation ?l)" by simp
    then show ?thesis using h headGeneration_headed [OF h] by (auto simp: headed_def simp del: upt_Suc set_map)
  qed
  then show ?thesis using currentEvidence_head [OF inv assms(2,3) e(1)] e(2) by (simp add: policySubject_def Let_def)
qed

theorem evidence_counts_for_current_head_witness:
  "\<exists>p e. p \<in> set (db_prs deliveryStore) \<and> e \<in> set (db_evidence deliveryStore) \<and> ed_HeadSHA e = pr_HeadSHA p"
proof -
  from delivery_rows [THEN conjunct1] obtain p where p: "p \<in> set (db_prs deliveryStore)" "pr_ID p = ''u5''"
    by (auto dest!: map_member [where y = "(''u5'', ''abc'')"])
  from delivery_rows [THEN conjunct2, THEN conjunct1] obtain e where e: "e \<in> set (db_evidence deliveryStore)"
    "ed_RunID e = ''run''" "headKey e = (''u5'', 1, ''abc'')" "ed_SupersededAt e = 0"
    by (auto dest!: map_member [where y = "(''run'', (''u5'', 1, ''abc''), 0)"])
  have "headGeneration ''u5'' deliveryStore = 1" using delivery_rows by blast
  with p e have "currentEvidence ''run'' (pr_ID p) (headGeneration (pr_ID p) deliveryStore) e"
    by (simp add: currentEvidence_def headKey_def)
  from evidence_counts_for_current_head [OF reachable_deliveryStore p(1) e(1) this] show ?thesis
    using p(1) e(1) by (auto simp: policySubject_def Let_def)
qed

section \<open>Publication\<close>












end
