(* ===== verification/Spec2Isabelle.thy ===== *)
theory Spec2Isabelle
  imports PredicateTotality RuntimeProperties Worker BridgeProperties CommandProperties DeliveryProperties
begin

text \<open>
  \<^bold>\<open>Workflow v2 of elasticclaw\<close>: the documents, the hub's runtime, deliveries, and the control channel to the agent.

  \<^bold>\<open>The parts and how they interact.\<close>  A workspace and a workflow are YAML documents that are validated once
  (\<^verbatim>\<open>pkg/types/v2\<close>) and pinned by every run.  The hub keeps a run in SQLite (\<^verbatim>\<open>pkg/hub/workflowv2\<close>): events, commands
  and agent messages are journalled, checked for their producer, matched against the transitions of the pinned workflow, and
  move the run along the graph; the effects of a state or transition are queued.  A worker of the hub
  (\<^verbatim>\<open>pkg/hub/workflow_v2_worker.go\<close>) claims effects under a lease and carries them out: agent tasks and commands become
  assignments in the control outbox.  The claw's bridge (\<^verbatim>\<open>cmd/claw-bridge\<close>) receives the outbox over a socket, keeps its
  own inbox and outbox on disk, hands tasks to the agent or the shell and sends the receipts back.  Pull requests the agent
  delivers are verified through the source-control connection, adapters record evidence for their heads, and the delivery
  policy of the workflow is evaluated over it and published as events.

  \<^bold>\<open>Theories.\<close>
  \<^item> \<open>Prelude\<close>, \<open>GoText\<close>, \<open>GoTime\<close>, \<open>GoValue\<close>, \<open>GoJson\<close>: errors as sums, the string functions of Go, RFC 3339 times, dynamic
    values with \<^verbatim>\<open>encoding/json\<close>'s numbers, and JSON texts.
  \<^item> \<open>PredicateEval\<close>, \<open>Predicates\<close>, \<open>PredicateSoundness\<close>, \<open>PredicateTotality\<close>: the guards
    (\<^verbatim>\<open>predicate_eval.go\<close>, \<^verbatim>\<open>predicates.go\<close>), their static validation and the overlap analysis; guards that are called
    disjoint never match together, validated guards do not fail.
  \<^item> \<open>Capabilities\<close>, \<open>Workspace\<close>, \<open>Workflow\<close>, \<open>WorkflowPair\<close>, \<open>WorkflowSound\<close>: connection capabilities, repository
    permissions, the validation of the documents alone and together, and what a validated document guarantees: closed graphs,
    writable namespaces, unambiguous dispatch, authorised effects.
  \<^item> \<open>Control\<close>, \<open>Bindings\<close>: envelopes and registrations (\<^verbatim>\<open>control.go\<close> of the types), and the values a task or command
    takes out of a step.
  \<^item> \<open>Store\<close>: the tables of \<^verbatim>\<open>schema.go\<close> as lists of records in a record \<open>store\<close>, and transactions
    \<open>store \<Rightarrow> gerr + 'a \<times> store\<close>, in which a violated key is an error and an error rolls back.
  \<^item> \<open>Facts\<close>, \<open>Journal\<close>, \<open>Runtime\<close>, with \<open>RuntimeFrame\<close>, \<open>RuntimeSound\<close>, \<open>RuntimeRefinement\<close>, \<open>RuntimeProperties\<close>:
    \<^verbatim>\<open>runtime.go\<close>, that is facts and who may supply them, the journal, creation, events, commands and the end of a run; the
    abstract specification is the workflow graph, which \<open>ApplyEvent\<close> and \<open>ApplyCommand\<close> refine.
  \<^item> \<open>Effects\<close>, \<open>Tasks\<close>, \<open>EffectLife\<close>, \<open>EffectProperties\<close>, \<open>Attempts\<close>: \<^verbatim>\<open>effects.go\<close>, \<^verbatim>\<open>tasks.go\<close>, \<^verbatim>\<open>exec_tasks.go\<close>,
    \<^verbatim>\<open>exec_receipts.go\<close> and \<^verbatim>\<open>control.go\<close>: leases, assignments, attempts and the outbox.
  \<^item> \<open>Actions\<close>, \<open>EvidencePolicy\<close>, \<open>Delivery\<close>, \<open>Evidence\<close>, \<open>Reconcile\<close>, \<open>PolicyProperties\<close>, \<open>DeliveryProperties\<close>:
    \<^verbatim>\<open>delivery.go\<close>, \<^verbatim>\<open>pr_registration.go\<close>, \<^verbatim>\<open>evidence.go\<close> and \<^verbatim>\<open>reconciliation.go\<close>.  Their operations are several
    transactions; an \<open>'a act\<close> runs in a \<open>world\<close> that says what is committed between them.
  \<^item> \<open>DeliveryFrame\<close>, \<open>HubFrame\<close>, \<open>HubInvariants\<close>, \<open>HubBinding\<close>, \<open>HubRecord\<close>, \<open>DeliveryInvariants\<close>, \<open>HubHistory\<close>, \<open>DeliveryHistory\<close>,
    \<open>HubProperties\<close>: all operations of the store as one data type \<open>operation\<close>, histories of them (\<open>runOps\<close>), the stores
    reachable from the empty one, and the invariants every history keeps.
  \<^item> \<open>Worker\<close>: the polling loop of the effect worker over the store.
  \<^item> \<open>Bridge\<close>, \<open>BridgeSteps\<close>, \<open>BridgeProperties\<close>, \<open>LocalControl\<close>, \<open>CommandTasks\<close>, \<open>DependencyCommand\<close>,
    \<open>CommandProperties\<close>: \<^verbatim>\<open>control_v2.go\<close>, \<^verbatim>\<open>exec_tasks.go\<close>, the dependency update command (\<^verbatim>\<open>dependency_update_command.go\<close>) and the local control endpoint of the
    bridge, as a durable state and steps between blocking calls.

  \<^bold>\<open>How properties of histories are proved.\<close>  The locales \<open>step_order\<close>, \<open>run_frame\<close>, \<open>dispatch_frame\<close>, \<open>event_frame\<close>,
  \<open>apply_frame\<close>, \<open>amend_frame\<close>, \<open>delivery_frame\<close>, \<open>lease_frame\<close>, \<open>side_frame\<close>, \<open>open_frame\<close> and \<open>plain_frame\<close> state what a reflexive and transitive
  relation between stores must allow (a table grows, a status moves on); their lemmas lift it to every transaction,
  operation and history.  Each invariant is one interpretation per locale.  A relation that only a
  whole event or command keeps, not each of its updates (the journal is never rewritten, a terminal run never moves), enters
  through \<open>apply_frame\<close>.  \<open>action_frame\<close> lifts it to delivery actions with
  interference, as in rely-guarantee reasoning.

  \<^bold>\<open>Parameters.\<close>  What is not in the repository is an argument: the YAML decoder (\<open>yaml_env\<close>), the cron parser, time zones,
  durations and content digests (\<open>doc_env\<close>), UUIDs and SHA-256 (\<open>rt_env\<close>), the URL parser and the source-control verifier of
  deliveries, the shell and the agent gateway of the bridge (\<open>bridge_env\<close>).  The Python script of the dependency update, a
  constant of \<^verbatim>\<open>dependency_update_command.go\<close>, is an argument too: the model takes its text before and after the
  configuration as given and says nothing of what Python does with it.

  \<^bold>\<open>Bounds and fuel.\<close>  The worker polls at most 100 effects, the outbox hands out at most 100 messages, a publication is
  tried at most five times and a manifest has at most 100 claims: these are the limits of the code.  Recursion over values is
  by their size; JSON nesting is limited to 10000 as in \<^verbatim>\<open>encoding/json\<close>.  No function of the model runs out of fuel.

  \<^bold>\<open>Assumptions.\<close>  \<^verbatim>\<open>strings.TrimSpace\<close> and \<^verbatim>\<open>ToLower\<close> are those of ASCII; JSON object keys match field names exactly
  (\<^verbatim>\<open>encoding/json\<close> also folds case); the clock is read once in a transaction; a transaction is atomic and SQL statements
  fail only by the keys of the schema; contexts are not cancelled; the database of the bridge does not fail except where a
  step says so.

  \<^bold>\<open>Not modelled\<close>, as pure input and output or glue around these parts: HTTP and socket handlers, the GitHub REST client and
  webhook decoding, migrations, artifacts, the resolution and the table of context bundles (what assembling one does to a run
  is in \<open>HubFrame\<close>), cron scheduling and history queries of the runtime, the ticker
  goroutines, the snapshot a claw gets on connecting; the version 1 pipeline, providers, notifications, the web interface and
  the command line, which the v2 runtime does not depend on.
\<close>

end
